(* ===== verification/Prelude.thy ===== *)
theory Prelude
  imports Main "HOL-Library.Word"
begin

text \<open>
  Shared ground of the development: the collections the component theories add to, the
  result type of fallible operations, association lists read as Go maps, and the generic
  facts on lists, options and sums that several components use.
\<close>

named_theorems go_simps \<open>evaluation rules of the modelled Go standard library\<close>
named_theorems step_simps \<open>unfolding rules of the components' operations\<close>
named_theorems inv_intros \<open>an operation preserves its component's invariant\<close>


section \<open>Results of fallible operations\<close>

text \<open>
  A Go function returning \<open>(T, error)\<close> or \<open>(T, *Rejection)\<close> becomes a function into
  \<open>'e + 'a\<close>: \<open>Inl\<close> is the error branch, \<open>Inr\<close> the value.  \<open>and_then\<close> is the
  \<open>if err != nil { return err }\<close> that follows most calls.
\<close>

definition and_then :: "'e + 'a \<Rightarrow> ('a \<Rightarrow> 'e + 'b) \<Rightarrow> 'e + 'b" where
  "and_then m f = (case m of Inl e \<Rightarrow> Inl e | Inr x \<Rightarrow> f x)"

lemma and_then_Inl [simp]: "and_then (Inl e) f = Inl e"
  by (simp add: and_then_def)

lemma and_then_Inr [simp]: "and_then (Inr x) f = f x"
  by (simp add: and_then_def)

lemma and_then_eq_Inr: "and_then m f = Inr y \<longleftrightarrow> (\<exists>x. m = Inr x \<and> f x = Inr y)"
  by (cases m) auto

lemma and_then_eq_Inl:
  "and_then m f = Inl e \<longleftrightarrow> m = Inl e \<or> (\<exists>x. m = Inr x \<and> f x = Inl e)"
  by (cases m) auto

definition ensure :: "bool \<Rightarrow> 'e \<Rightarrow> 'e + unit" where
  "ensure b e = (if b then Inr () else Inl e)"

lemma ensure_eq_Inr [simp]: "ensure b e = Inr u \<longleftrightarrow> b"
  by (simp add: ensure_def)

lemma ensure_eq_Inl [simp]: "ensure b e = Inl e' \<longleftrightarrow> \<not> b \<and> e' = e"
  by (auto simp: ensure_def)

definition of_option :: "'e \<Rightarrow> 'a option \<Rightarrow> 'e + 'a" where
  "of_option e x = (case x of None \<Rightarrow> Inl e | Some v \<Rightarrow> Inr v)"

lemma of_option_eq_Inr [simp]: "of_option e x = Inr v \<longleftrightarrow> x = Some v"
  by (cases x) (auto simp: of_option_def)

lemma of_option_simps [simp]: "of_option e None = Inl e" "of_option e (Some v) = Inr v"
  by (simp_all add: of_option_def)

lemmas result_eqs = and_then_eq_Inr and_then_eq_Inl


section \<open>Maps kept as association lists\<close>

text \<open>
  A Go map whose entries the code ranges over is a list of pairs with distinct keys.  The
  store replaces the entry of its key and keeps the keys distinct.
\<close>

definition alist_store :: "'k \<Rightarrow> 'v \<Rightarrow> ('k \<times> 'v) list \<Rightarrow> ('k \<times> 'v) list" where
  "alist_store k v m = (k, v) # filter (\<lambda>e. fst e \<noteq> k) m"

lemma map_of_filter_key:
  "map_of (filter (\<lambda>e. fst e \<noteq> k) m) k' = (if k' = k then None else map_of m k')"
  by (induction m) auto

lemma map_of_alist_store [simp]: "map_of (alist_store k v m) = (map_of m)(k \<mapsto> v)"
  by (rule ext) (simp add: alist_store_def map_of_filter_key)

lemma distinct_fst_filter [intro]: "distinct (map fst m) \<Longrightarrow> distinct (map fst (filter P m))"
  by (induction m) auto

lemma distinct_alist_store [intro]:
  "distinct (map fst m) \<Longrightarrow> distinct (map fst (alist_store k v m))"
  by (auto simp: alist_store_def)

lemma map_of_append_None: "map_of xs k = None \<Longrightarrow> map_of (xs @ ys) k = map_of ys k"
  by (simp add: map_add_def split: option.split)

lemma map_of_append_Some: "map_of xs k = Some v \<Longrightarrow> map_of (xs @ ys) k = Some v"
  by (simp add: map_add_def)

lemma map_of_selected:
  "map_of (List.map_filter (\<lambda>k. map_option (Pair k) (m k)) ks) k = (if k \<in> set ks then m k else None)"
  by (induction ks) (auto simp: map_filter_simps split: option.splits)

lemma map_of_filter_distinct:
  assumes "distinct (map fst m)"
  shows "map_of (filter P m) k =
    (case map_of m k of None \<Rightarrow> None | Some v \<Rightarrow> if P (k, v) then Some v else None)"
  using assms
proof (induction m)
  case Nil
  then show ?case by simp
next
  case (Cons e m)
  have "map_of m k = None" if "fst e = k"
    using Cons.prems that by (auto simp: map_of_eq_None_iff)
  then show ?case using Cons by (cases e) (auto split: option.splits)
qed

lemma length_alist_store_fresh:
  "map_of m k = None \<Longrightarrow> length (alist_store k v m) = Suc (length m)"
proof -
  assume "map_of m k = None"
  then have "filter (\<lambda>e. fst e \<noteq> k) m = m"
    by (auto simp: map_of_eq_None_iff intro!: filter_True)
  then show ?thesis by (simp add: alist_store_def)
qed

lemma length_alist_store_le: "length (alist_store k v m) \<le> Suc (length m)"
  by (simp add: alist_store_def)

lemma length_alist_store_present:
  assumes "map_of m k = Some w"
  shows "length (alist_store k v m) \<le> length m"
proof -
  from assms have "(k, w) \<in> set m" by (rule map_of_SomeD)
  then have "filter (\<lambda>e. fst e = k) m \<noteq> []" by (force simp: filter_empty_conv)
  then have "1 \<le> length (filter (\<lambda>e. fst e = k) m)" by (simp add: Suc_le_eq)
  then show ?thesis
    using sum_length_filter_compl [of "\<lambda>e. fst e = k" m] by (simp add: alist_store_def del: length_filter_le)
qed


section \<open>Lists\<close>

lemma list_all_upt: "list_all P [0..<n] \<longleftrightarrow> (\<forall>i<n. P i)"
  by (auto simp: list_all_iff)

lemma takeWhile_append_stop: "\<lbrakk>\<forall>x\<in>set xs. P x; \<not> P y\<rbrakk> \<Longrightarrow> takeWhile P (xs @ y # ys) = xs"
  by (induction xs) auto

lemma dropWhile_append_stop: "\<lbrakk>\<forall>x\<in>set xs. P x; \<not> P y\<rbrakk> \<Longrightarrow> dropWhile P (xs @ y # ys) = y # ys"
  by (induction xs) auto

lemma dropWhile_id: "xs = [] \<or> \<not> P (hd xs) \<Longrightarrow> dropWhile P xs = xs"
  by (cases xs) auto

lemma find_Some_mem: "find P xs = Some x \<Longrightarrow> x \<in> set xs \<and> P x"
  by (induction xs) (auto split: if_splits)

end
