(* ===== verification/Go_Strings.thy ===== *)
theory Go_Strings
  imports Prelude
begin

text \<open>
  The part of Go's \<open>strings\<close>, \<open>strconv\<close> and \<open>encoding/binary\<close> the code uses.  A Go
  string is a byte sequence, here a \<open>string\<close> (a \<open>char list\<close>, one \<open>char\<close> per byte);
  a byte slice is a list of \<open>8 word\<close>.  Case mapping and white space are those of ASCII:
  bytes from 128 on are left alone.
\<close>

type_synonym bytes = "8 word list"

definition bytes_of :: "string \<Rightarrow> bytes" where
  "bytes_of s = map (\<lambda>c. of_nat (of_char c)) s"

definition string_of :: "bytes \<Rightarrow> string" where
  "string_of b = map (\<lambda>w. char_of (unat w)) b"

lemma string_of_bytes_of [simp]: "string_of (bytes_of s) = s"
proof -
  have "char_of (unat (of_nat (of_char c) :: 8 word)) = c" for c :: char
  proof -
    have "(of_char c :: nat) < 256" by (rule nat_of_char_less_256)
    then have "unat (of_nat (of_char c) :: 8 word) = of_char c" by (simp add: unat_of_nat)
    then show ?thesis by simp
  qed
  then show ?thesis by (simp add: string_of_def bytes_of_def comp_def map_idI)
qed

lemma bytes_of_inj: "bytes_of s = bytes_of t \<longleftrightarrow> s = t"
  by (metis string_of_bytes_of)


section \<open>Splitting and trimming\<close>

definition is_space :: "char \<Rightarrow> bool" where
  "is_space c \<longleftrightarrow> c \<in> {CHR '' '', CHR 0x09, CHR 0x0A, CHR 0x0B, CHR 0x0C, CHR 0x0D}"

definition trim_space :: "string \<Rightarrow> string" where
  "trim_space s = rev (dropWhile is_space (rev (dropWhile is_space s)))"

definition trim_right :: "char \<Rightarrow> string \<Rightarrow> string" where
  "trim_right c s = rev (dropWhile (\<lambda>x. x = c) (rev s))"

definition has_prefix :: "string \<Rightarrow> string \<Rightarrow> bool" where
  "has_prefix s p \<longleftrightarrow> take (length p) s = p"

definition has_suffix :: "string \<Rightarrow> string \<Rightarrow> bool" where
  "has_suffix s p \<longleftrightarrow> length p \<le> length s \<and> drop (length s - length p) s = p"

text \<open>\<open>strings.Split\<close> with a one-byte separator; \<open>strings.Cut\<close> at its first occurrence.\<close>

fun split_on :: "char \<Rightarrow> string \<Rightarrow> string list" where
  "split_on c [] = [[]]"
| "split_on c (x # xs) =
     (if x = c then [] # split_on c xs
      else (case split_on c xs of [] \<Rightarrow> [[x]] | w # ws \<Rightarrow> (x # w) # ws))"

definition cut :: "char \<Rightarrow> string \<Rightarrow> (string \<times> string) option" where
  "cut c s = (if c \<in> set s then Some (takeWhile (\<lambda>x. x \<noteq> c) s, tl (dropWhile (\<lambda>x. x \<noteq> c) s))
              else None)"

text \<open>\<open>strings.Fields\<close>: the maximal runs of non-space bytes.\<close>

fun str_fields_acc :: "string \<Rightarrow> string \<Rightarrow> string list" where
  "str_fields_acc w [] = (if w = [] then [] else [rev w])"
| "str_fields_acc w (c # cs) =
     (if is_space c then (if w = [] then str_fields_acc [] cs else rev w # str_fields_acc [] cs)
      else str_fields_acc (c # w) cs)"

definition str_fields :: "string \<Rightarrow> string list" where
  "str_fields s = str_fields_acc [] s"

definition join :: "string \<Rightarrow> string list \<Rightarrow> string" where
  "join sep ws = (case ws of [] \<Rightarrow> [] | w # rest \<Rightarrow> w @ concat (map (\<lambda>x. sep @ x) rest))"

lemma split_on_not_Nil [simp]: "split_on c s \<noteq> []"
  by (induction s) (auto split: list.splits)

lemma split_on_no_sep: "c \<notin> set s \<Longrightarrow> split_on c s = [s]"
  by (induction s) auto

lemma split_on_append: "c \<notin> set s \<Longrightarrow> split_on c (s @ c # t) = s # split_on c t"
  by (induction s) auto

lemma split_on_glue: "split_on c (s @ c # t) = split_on c s @ split_on c t"
  by (induction s) (auto split: list.splits)

lemma split_on_pieces: "w \<in> set (split_on c s) \<Longrightarrow> c \<notin> set w"
  by (induction s arbitrary: w) (auto split: if_splits list.splits)

lemma join_split_on: "join [c] (split_on c s) = s"
proof (induction s)
  case Nil
  then show ?case by (simp add: join_def)
next
  case (Cons x xs)
  then show ?case by (cases "split_on c xs") (auto simp: join_def)
qed

text \<open>Splitting undoes joining, for pieces without the separator.\<close>

lemma split_on_join:
  assumes "ws \<noteq> []" and "\<forall>w\<in>set ws. c \<notin> set w"
  shows "split_on c (join [c] ws) = ws"
  using assms
proof (induction ws)
  case Nil
  then show ?case by simp
next
  case (Cons w ws)
  show ?case
  proof (cases ws)
    case Nil
    with Cons.prems show ?thesis by (simp add: join_def split_on_no_sep)
  next
    case (Cons v vs)
    then have "join [c] (w # ws) = w @ c # join [c] ws" by (simp add: join_def)
    with Cons.prems Cons.IH Cons show ?thesis by (simp add: split_on_append)
  qed
qed

lemma cut_append: "c \<notin> set a \<Longrightarrow> cut c (a @ c # b) = Some (a, b)"
proof -
  assume "c \<notin> set a"
  then have "\<forall>x\<in>set a. x \<noteq> c" by auto
  then show ?thesis by (simp add: cut_def takeWhile_append_stop dropWhile_append_stop)
qed

lemma cut_Some_iff: "cut c s = Some (a, b) \<longleftrightarrow> s = a @ c # b \<and> c \<notin> set a"
proof
  assume h: "cut c s = Some (a, b)"
  then have "c \<in> set s" by (auto simp: cut_def split: if_splits)
  then obtain u v where "s = u @ c # v" "c \<notin> set u" by (metis split_list_first)
  with h cut_append [of c u v] show "s = a @ c # b \<and> c \<notin> set a" by simp
qed (auto simp: cut_append)

lemma cut_None_iff: "cut c s = None \<longleftrightarrow> c \<notin> set s"
  by (simp add: cut_def)

lemma trim_space_id:
  assumes "s = [] \<or> (\<not> is_space (hd s) \<and> \<not> is_space (last s))"
  shows "trim_space s = s"
proof -
  have "dropWhile is_space s = s" using assms by (auto intro: dropWhile_id)
  moreover have "dropWhile is_space (rev s) = rev s"
    using assms by (auto intro: dropWhile_id simp: hd_rev)
  ultimately show ?thesis by (simp add: trim_space_def)
qed

lemma trim_space_ends:
  assumes "trim_space s \<noteq> []"
  shows "\<not> is_space (last (trim_space s))"
proof -
  let ?t = "dropWhile is_space (rev (dropWhile is_space s))"
  from assms have "?t \<noteq> []" by (simp add: trim_space_def)
  then have "\<not> is_space (hd ?t)" by (rule hd_dropWhile)
  with \<open>?t \<noteq> []\<close> show ?thesis by (simp add: trim_space_def last_rev)
qed


section \<open>Case and prefixes\<close>

definition to_lower_char :: "char \<Rightarrow> char" where
  "to_lower_char c =
     (if 65 \<le> (of_char c :: nat) \<and> (of_char c :: nat) \<le> 90 then char_of (of_char c + 32 :: nat) else c)"

definition to_upper_char :: "char \<Rightarrow> char" where
  "to_upper_char c =
     (if 97 \<le> (of_char c :: nat) \<and> (of_char c :: nat) \<le> 122 then char_of (of_char c - 32 :: nat) else c)"

definition to_lower :: "string \<Rightarrow> string" where
  "to_lower s = map to_lower_char s"

definition to_upper :: "string \<Rightarrow> string" where
  "to_upper s = map to_upper_char s"

definition equal_fold :: "string \<Rightarrow> string \<Rightarrow> bool" where
  "equal_fold s t \<longleftrightarrow> to_lower s = to_lower t"

lemma to_lower_char_idem [simp]: "to_lower_char (to_lower_char c) = to_lower_char c"
  by (auto simp: to_lower_char_def)

lemma to_lower_idem [simp]: "to_lower (to_lower s) = to_lower s"
  by (simp add: to_lower_def)

lemma to_lower_append [simp]: "to_lower (s @ t) = to_lower s @ to_lower t"
  by (simp add: to_lower_def)

lemma to_lower_char_other:
  assumes "of_char d < (65::nat) \<or> 90 < (of_char d :: nat)" "of_char d < (97::nat) \<or> 122 < (of_char d :: nat)"
  shows "to_lower_char c = d \<longleftrightarrow> c = d"
  using assms by (auto simp: to_lower_char_def)

lemma has_prefix_append [simp]: "has_prefix (p @ s) p"
  by (simp add: has_prefix_def)

lemma has_suffix_iff: "has_suffix s p \<longleftrightarrow> (\<exists>r. s = r @ p)"
proof
  assume "has_suffix s p"
  then have "s = take (length s - length p) s @ p" unfolding has_suffix_def by (metis append_take_drop_id)
  then show "\<exists>r. s = r @ p" by blast
qed (auto simp: has_suffix_def)

lemma has_prefix_iff: "has_prefix s p \<longleftrightarrow> (\<exists>r. s = p @ r)"
  by (metis append_take_drop_id has_prefix_append has_prefix_def)


section \<open>Numbers\<close>

definition is_digit :: "char \<Rightarrow> bool" where
  "is_digit c \<longleftrightarrow> 48 \<le> (of_char c :: nat) \<and> (of_char c :: nat) \<le> 57"

definition digits_val :: "string \<Rightarrow> nat" where
  "digits_val s = foldl (\<lambda>n c. 10 * n + (of_char c - 48)) 0 s"

definition parse_digits :: "string \<Rightarrow> nat option" where
  "parse_digits s = (if s \<noteq> [] \<and> list_all is_digit s then Some (digits_val s) else None)"

abbreviation max_int64 :: int where "max_int64 \<equiv> 9223372036854775807"
abbreviation min_int64 :: int where "min_int64 \<equiv> - 9223372036854775808"

text \<open>\<open>strconv.ParseInt(s, 10, 64)\<close>, and \<open>Atoi\<close> on a 64-bit platform.\<close>

definition parse_int64 :: "string \<Rightarrow> int option" where
  "parse_int64 s =
     (case s of
        [] \<Rightarrow> None
      | c # cs \<Rightarrow>
          let neg = (c = CHR ''-'');
              ds = (if c = CHR ''-'' \<or> c = CHR ''+'' then cs else s)
          in (case parse_digits ds of
                None \<Rightarrow> None
              | Some n \<Rightarrow>
                  let v = (if neg then - int n else int n)
                  in if min_int64 \<le> v \<and> v \<le> max_int64 then Some v else None))"

lemma parse_int64_range: "parse_int64 s = Some v \<Longrightarrow> min_int64 \<le> v \<and> v \<le> max_int64"
  by (auto simp: parse_int64_def Let_def split: list.splits option.splits if_splits)

text \<open>The decimal digits of a number, as \<open>%d\<close> prints them.\<close>

fun show_nat :: "nat \<Rightarrow> string" where
  "show_nat n = (if n < 10 then [char_of (48 + n)] else show_nat (n div 10) @ [char_of (48 + n mod 10)])"

declare show_nat.simps [simp del]

definition show_int :: "int \<Rightarrow> string" where
  "show_int i = (if i < 0 then ''-'' @ show_nat (nat (- i)) else show_nat (nat i))"

lemma char_of_digit [simp]:
  "d < 10 \<Longrightarrow> (of_char (char_of (48 + d) :: char) :: nat) = 48 + d"
  by simp

lemma digits_val_snoc: "digits_val (s @ [c]) = 10 * digits_val s + (of_char c - 48)"
  by (simp add: digits_val_def)

lemma parse_digits_show_nat: "parse_digits (show_nat n) = Some n"
proof -
  have "show_nat n \<noteq> [] \<and> list_all is_digit (show_nat n) \<and> digits_val (show_nat n) = n"
  proof (induction n rule: show_nat.induct)
    case (1 n)
    show ?case
    proof (cases "n < 10")
      case True
      then show ?thesis by (subst (1 2 3) show_nat.simps) (simp add: is_digit_def digits_val_def)
    next
      case False
      have "is_digit (char_of (48 + n mod 10))" by (simp add: is_digit_def)
      moreover have "digits_val (show_nat (n div 10) @ [char_of (48 + n mod 10)]) = n"
        using 1 False by (simp add: digits_val_snoc)
      ultimately show ?thesis
        using 1 False by (subst (1 2 3) show_nat.simps) simp
    qed
  qed
  then show ?thesis by (simp add: parse_digits_def)
qed

lemma show_nat_digits: "list_all is_digit (show_nat n)"
  using parse_digits_show_nat [of n] by (simp add: parse_digits_def split: if_splits)


lemma show_nat_not_Nil [simp]: "show_nat n \<noteq> []"
  using parse_digits_show_nat [of n] by (auto simp: parse_digits_def split: if_splits)

lemma show_nat_head: "show_nat n = c # cs \<Longrightarrow> c \<noteq> CHR ''-'' \<and> c \<noteq> CHR ''+''"
  using show_nat_digits [of n] by (auto simp: is_digit_def)

text \<open>A printed \<open>int64\<close> parses back.\<close>

lemma parse_show_int:
  assumes "min_int64 \<le> i" and "i \<le> max_int64"
  shows "parse_int64 (show_int i) = Some i"
proof (cases "i < 0")
  case True
  then show ?thesis
    using assms by (simp add: parse_int64_def show_int_def Let_def parse_digits_show_nat)
next
  case False
  obtain c cs where c: "show_nat (nat i) = c # cs" by (cases "show_nat (nat i)") auto
  show ?thesis
    using False assms show_nat_head [OF c] parse_digits_show_nat [of "nat i"]
    by (simp add: parse_int64_def show_int_def Let_def c)
qed


section \<open>Big-endian integers\<close>

text \<open>
  \<open>be_bytes k n\<close> is the \<open>k\<close>-byte big-endian form of \<open>n\<close>; \<open>PutUint32\<close> and
  \<open>PutUint64\<close> write four and eight bytes of it, \<open>Uint32\<close> reads the first four bytes.
\<close>

fun be_bytes :: "nat \<Rightarrow> nat \<Rightarrow> bytes" where
  "be_bytes 0 n = []"
| "be_bytes (Suc k) n = be_bytes k (n div 256) @ [of_nat n]"

definition be_val :: "bytes \<Rightarrow> nat" where
  "be_val b = foldl (\<lambda>a w. a * 256 + unat w) 0 b"

definition put_be32 :: "nat \<Rightarrow> bytes" where
  "put_be32 n = be_bytes 4 n"

definition put_be64 :: "64 word \<Rightarrow> bytes" where
  "put_be64 w = be_bytes 8 (unat w)"

definition get_be32 :: "bytes \<Rightarrow> nat" where
  "get_be32 b = be_val (take 4 b)"

lemma length_be_bytes [simp]: "length (be_bytes k n) = k"
  by (induction k arbitrary: n) auto

lemma length_put_be32 [simp]: "length (put_be32 n) = 4"
  by (simp add: put_be32_def)

lemma length_put_be64 [simp]: "length (put_be64 w) = 8"
  by (simp add: put_be64_def)

lemma unat_of_nat8: "unat (of_nat n :: 8 word) = n mod 256"
  by (simp add: unat_of_nat)

lemma unat8_less: "unat (w :: 8 word) < 256"
  using unsigned_less [of w] by simp

lemma be_val_snoc: "be_val (b @ [w]) = be_val b * 256 + unat w"
  by (simp add: be_val_def)

lemma be_val_be_bytes: "be_val (be_bytes k n) = n mod 256 ^ k"
proof (induction k arbitrary: n)
  case 0
  then show ?case by (simp add: be_val_def)
next
  case (Suc k)
  have "be_val (be_bytes (Suc k) n) = (n div 256 mod 256 ^ k) * 256 + n mod 256"
    by (simp add: be_val_snoc Suc.IH unat_of_nat8)
  also have "\<dots> = n mod 256 ^ Suc k"
    by (simp add: mod_mult2_eq mult.commute)
  finally show ?case .
qed

lemma be_bytes_be_val: "be_bytes (length b) (be_val b) = b"
proof (induction b rule: rev_induct)
  case Nil
  then show ?case by simp
next
  case (snoc w b)
  have "(be_val b * 256 + unat w) div 256 = be_val b"
    using unat8_less [of w] by simp
  moreover have "(of_nat (be_val b * 256 + unat w) :: 8 word) = w"
  proof -
    have "unat (of_nat (be_val b * 256 + unat w) :: 8 word) = unat w"
      using unat8_less [of w] by (simp only: unat_of_nat8) simp
    then show ?thesis by (rule unsigned_word_eqI)
  qed
  ultimately show ?case using snoc by (simp add: be_val_snoc)
qed

lemma be_val_bound: "be_val b < 256 ^ length b"
  by (metis be_val_be_bytes be_bytes_be_val mod_less_divisor zero_less_numeral zero_less_power)

lemma get_put_be32 [simp]: "n < 2 ^ 32 \<Longrightarrow> get_be32 (put_be32 n @ b) = n"
  by (simp add: get_be32_def put_be32_def be_val_be_bytes)

lemma get_put_be32_self [simp]: "n < 2 ^ 32 \<Longrightarrow> get_be32 (put_be32 n) = n"
  using get_put_be32 [of n "[]"] by simp

lemma get_be32_bound: "get_be32 b < 2 ^ 32"
proof -
  have "be_val (take 4 b) < 256 ^ length (take 4 b)" by (rule be_val_bound)
  also have "\<dots> \<le> 256 ^ 4" by (rule power_increasing) auto
  finally show ?thesis by (simp add: get_be32_def)
qed

lemma put_get_be32: "length b = 4 \<Longrightarrow> put_be32 (get_be32 b) = b"
  using be_bytes_be_val [of b] by (simp add: put_be32_def get_be32_def)

lemma put_be64_inj: "put_be64 v = put_be64 w \<longleftrightarrow> v = w"
proof
  assume "put_be64 v = put_be64 w"
  then have "be_val (be_bytes 8 (unat v)) = be_val (be_bytes 8 (unat w))"
    by (simp add: put_be64_def)
  moreover have "unat v < 256 ^ 8" "unat w < 256 ^ 8"
    using unsigned_less [of v] unsigned_less [of w] by simp_all
  ultimately have "unat v = unat w" by (simp add: be_val_be_bytes)
  then show "v = w" by (rule unsigned_word_eqI)
qed simp

end
