(* ===== verification/Go_Time.thy ===== *)
theory Go_Time
  imports Go_Strings
begin

text \<open>
  Go's \<open>time\<close> package as the code uses it.  A \<open>time.Time\<close> is the number of nanoseconds
  since the start of year 1, the package's own epoch, so its zero value is \<open>0\<close>; the seconds
  are a 64-bit counter, whose wrap in \<open>time.Unix\<close> and saturation in \<open>Time.Add\<close> are
  written out.  A \<open>time.Duration\<close> is a 64-bit count of nanoseconds.  Monotonic clock
  readings are not modelled: a comparison is one of wall-clock readings.
\<close>

type_synonym time = int
type_synonym duration = int

abbreviation second :: int where "second \<equiv> 1000000000"

definition wrap64 :: "int \<Rightarrow> int" where
  "wrap64 i = (i + 9223372036854775808) mod 18446744073709551616 - 9223372036854775808"

lemma wrap64_range: "min_int64 \<le> wrap64 i \<and> wrap64 i \<le> max_int64"
proof -
  have "0 \<le> (i + 9223372036854775808) mod 18446744073709551616"
    "(i + 9223372036854775808) mod 18446744073709551616 < 18446744073709551616"
    by simp_all
  then show ?thesis unfolding wrap64_def by linarith
qed

lemma wrap64_id: "\<lbrakk>min_int64 \<le> i; i \<le> max_int64\<rbrakk> \<Longrightarrow> wrap64 i = i"
  by (simp add: wrap64_def)

text \<open>\<open>time.Unix(s, 0)\<close>: the internal counter is \<open>s\<close> plus the seconds from year 1 to 1970.\<close>

definition unix_offset :: int where "unix_offset = 62135596800"

definition unix_time :: "int \<Rightarrow> time" where
  "unix_time s = wrap64 (s + unix_offset) * second"

definition time_unix :: "time \<Rightarrow> int" where
  "time_unix t = wrap64 (t div second - unix_offset)"

text \<open>\<open>Time.Add\<close>: on overflow of the seconds counter they saturate and the nanoseconds stay.\<close>

definition time_add :: "time \<Rightarrow> duration \<Rightarrow> time" where
  "time_add t d =
     (let s = (t + d) div second; n = (t + d) mod second
      in if max_int64 < s then max_int64 * second + n
         else if s < min_int64 then - max_int64 * second + n
         else t + d)"

text \<open>\<open>Time.Sub\<close> and \<open>time.Since\<close>: the difference, clamped to a duration.\<close>

definition time_sub :: "time \<Rightarrow> time \<Rightarrow> duration" where
  "time_sub t u = max min_int64 (min max_int64 (t - u))"

text \<open>
  The readings of a clock that has not left the first 146 billion years: there no addition of
  a duration saturates.
\<close>

definition sane_time :: "time \<Rightarrow> bool" where
  "sane_time t \<longleftrightarrow> \<bar>t\<bar> \<le> 4611686018427387904 * second"

definition is_duration :: "duration \<Rightarrow> bool" where
  "is_duration d \<longleftrightarrow> min_int64 \<le> d \<and> d \<le> max_int64"

lemma is_duration_wrap64 [simp]: "is_duration (wrap64 i)"
  using wrap64_range by (simp add: is_duration_def)

lemma time_add_exact:
  assumes "min_int64 \<le> (t + d) div second" "(t + d) div second \<le> max_int64"
  shows "time_add t d = t + d"
  using assms by (simp add: time_add_def Let_def)

lemma time_add_sane:
  assumes "sane_time t" and "is_duration d"
  shows "time_add t d = t + d"
proof (rule time_add_exact)
  from assms have "- 9223372036854775807 * second \<le> t + d" "t + d \<le> 9223372036854775807 * second"
    by (auto simp: sane_time_def is_duration_def)
  then show "min_int64 \<le> (t + d) div second" "(t + d) div second \<le> max_int64"
    by linarith+
qed

lemma time_sub_nonneg_iff: "0 < time_sub t u \<longleftrightarrow> u < t"
  by (auto simp: time_sub_def)

lemma time_sub_gt: "\<lbrakk>min_int64 \<le> d; d < max_int64\<rbrakk> \<Longrightarrow> d < time_sub t u \<longleftrightarrow> u + d < t"
  by (auto simp: time_sub_def)

lemma unix_time_small:
  assumes "\<bar>s\<bar> \<le> 4611686018427387904"
  shows "unix_time s = (s + unix_offset) * second"
  using assms by (simp add: unix_time_def unix_offset_def wrap64_id)

lemma time_unix_range: "min_int64 \<le> time_unix t \<and> time_unix t \<le> max_int64"
  unfolding time_unix_def by (rule wrap64_range)

end
