(* ===== verification/Ext.thy ===== *)
theory Ext
  imports Go_Time
begin

text \<open>
  The data the components exchange and the operations of code outside the repository that
  they call.  Those operations are the fields of a record \<open>ext\<close> which every definition using
  them takes as its argument: the SHA-256, X.509, JSON, URL and duration parsing of the Go
  library, and the \<open>jwx\<close> library's JOSE operations over its own key type \<open>'k\<close>.  Nothing is
  assumed of a field unless a theorem states it.
\<close>


section \<open>Decoded JSON\<close>

text \<open>
  A Go \<open>any\<close> holding decoded JSON.  Numbers keep their text (\<open>json.Number\<close>, the decoder
  runs with \<open>UseNumber\<close>); \<open>VInt\<close> is an \<open>int64\<close> the program put there itself and \<open>VFloat\<close>
  a \<open>float64\<close>, represented by the \<open>int64\<close> it converts to, the only use made of one.  An object is the
  list of its members, in which the first entry of a name is its value.
\<close>

datatype gval =
    VNull
  | VBool bool
  | VNum string
  | VFloat int
  | VInt int
  | VStr string
  | VArr "gval list"
  | VObj "(string \<times> gval) list"

type_synonym jobj = "(string \<times> gval) list"

text \<open>\<open>s, _ := m[name].(string)\<close>: the empty string unless the member is a string.\<close>

definition get_str :: "jobj \<Rightarrow> string \<Rightarrow> string" where
  "get_str m name = (case map_of m name of Some (VStr s) \<Rightarrow> s | _ \<Rightarrow> [])"

lemma get_str_nonempty: "get_str m name = s \<Longrightarrow> s \<noteq> [] \<Longrightarrow> map_of m name = Some (VStr s)"
  by (auto simp: get_str_def split: option.splits gval.splits)


section \<open>Certificates, keys and URLs\<close>

datatype mldsa_params = MLDSA44 | MLDSA65 | MLDSA87 | MLDSA_other

text \<open>A \<open>crypto.PublicKey\<close>: its Go type, the parameters the code looks at, its bytes.\<close>

datatype pubkey =
    EC_key string bytes
  | RSA_key nat bytes
  | Ed25519_key bytes
  | MLDSA_key mldsa_params bytes
  | Other_key string

record cert =
  c_raw :: bytes
  c_cn :: string
  c_dns :: "string list"
  c_not_before :: time
  c_not_after :: time
  c_serial :: nat
  c_issuer :: bytes
  c_pub :: pubkey

text \<open>A parsed certificate request; \<open>csr_signed\<close> is whether \<open>CheckSignature\<close> succeeds.\<close>

record csr =
  csr_dns :: "string list"
  csr_pub :: pubkey
  csr_signed :: bool

datatype eku = ClientAuth | ServerAuth

datatype invalid_reason = Inv_Expired | Inv_IncompatibleUsage | Inv_other

text \<open>The errors of \<open>Certificate.Verify\<close>, by the Go type the code distinguishes.\<close>

datatype verify_error =
    Certificate_invalid invalid_reason
  | Unknown_authority
  | Other_verify_error

record url =
  u_scheme :: string
  u_host :: string
  u_path :: string \<comment> \<open>what \<open>URL.EscapedPath\<close> returns\<close>


section \<open>Network calls\<close>

text \<open>
  The outcome of \<open>http.Client.Do\<close> and of reading the body: the call failed, the body could
  not be read, or a status with a body.
\<close>

datatype http_result =
    Http_error
  | Http_unreadable nat
  | Http_response nat bytes

text \<open>\<open>io.ReadAll(io.LimitReader(r, n))\<close>: what lies beyond the limit is dropped.\<close>

definition limit_read :: "nat \<Rightarrow> bytes \<Rightarrow> bytes" where
  "limit_read n b = take n b"


section \<open>The external operations\<close>

record 'k ext =
  sha256 :: "bytes \<Rightarrow> bytes"
  json_decode :: "bytes \<Rightarrow> gval option"
  num_float64 :: "string \<Rightarrow> int option"
  parse_duration :: "string \<Rightarrow> duration option"
  url_parse :: "string \<Rightarrow> url option"
  x509_parse :: "bytes \<Rightarrow> cert option"
  x509_verify :: "cert \<Rightarrow> cert list \<Rightarrow> cert list \<Rightarrow> time \<Rightarrow> eku \<Rightarrow> verify_error option"
  jwa_known :: "string \<Rightarrow> bool"
  jwk_parse :: "jobj \<Rightarrow> 'k option"
  jwk_public :: "'k \<Rightarrow> 'k option"
  jwk_thumb :: "'k \<Rightarrow> bytes option"
  jwk_import :: "pubkey \<Rightarrow> 'k option"
  jwk_use :: "'k \<Rightarrow> string option"
  jwk_alg :: "'k \<Rightarrow> string option"
  jws_verify :: "string \<Rightarrow> string \<Rightarrow> 'k \<Rightarrow> bool"
  jwks_parse :: "bytes \<Rightarrow> (string \<Rightarrow> 'k option) option"
  json_encode :: "gval \<Rightarrow> bytes option"
  jwk_object :: "'k \<Rightarrow> jobj option"
  jws_sign :: "string \<Rightarrow> 'k \<Rightarrow> jobj \<Rightarrow> bytes \<Rightarrow> string option"
  rfc3339 :: "time \<Rightarrow> string"
  pem_decode :: "bytes \<Rightarrow> (string \<times> bytes) option"
  csr_parse :: "bytes \<Rightarrow> csr option"
  json_whole :: "bytes \<Rightarrow> gval option" \<comment> \<open>\<open>json.Unmarshal\<close>: the input is one value\<close>

text \<open>
  What decoding gives back for an encoded value: an \<open>int64\<close> comes back as the number with its
  decimal text, everything else as it was.
\<close>

fun json_view :: "gval \<Rightarrow> gval" where
  "json_view (VInt i) = VNum (show_int i)"
| "json_view (VArr vs) = VArr (map json_view vs)"
| "json_view (VObj m) = VObj (map (\<lambda>(n, v). (n, json_view v)) m)"
| "json_view v = v"

lemma map_of_json_view: "map_of (map (\<lambda>(n, v). (n, json_view v)) m) k = map_option json_view (map_of m k)"
  by (induction m) auto

text \<open>\<open>crypto/subtle.ConstantTimeCompare(a, b) == 1\<close>: equal contents.\<close>

definition ct_equal :: "string \<Rightarrow> string \<Rightarrow> bool" where
  "ct_equal a b \<longleftrightarrow> a = b"

end
