(* ===== verification/Go_Base64.thy ===== *)
theory Go_Base64
  imports Go_Strings
begin

text \<open>
  \<open>base64.RawURLEncoding\<close>: the unpadded base64url of every JOSE segment, thumbprint and
  token hash.  The decoder is Go's: it skips carriage returns and line feeds, and it does
  not insist that the unused low bits of the last character are zero.
\<close>

definition b64_alphabet :: string where
  "b64_alphabet = ''ABCDEFGHIJKLMNOPQRSTUVWXYZabcdefghijklmnopqrstuvwxyz0123456789-_''"

definition b64_char :: "nat \<Rightarrow> char" where
  "b64_char i = b64_alphabet ! i"

definition b64_val :: "char \<Rightarrow> nat option" where
  "b64_val c = map_of (zip b64_alphabet [0..<64]) c"

fun b64_encode :: "bytes \<Rightarrow> string" where
  "b64_encode [] = []"
| "b64_encode [a] = [b64_char (unat a div 4), b64_char (unat a mod 4 * 16)]"
| "b64_encode [a, b] =
     [b64_char (unat a div 4), b64_char (unat a mod 4 * 16 + unat b div 16),
      b64_char (unat b mod 16 * 4)]"
| "b64_encode (a # b # c # r) =
     b64_char (unat a div 4) # b64_char (unat a mod 4 * 16 + unat b div 16) #
     b64_char (unat b mod 16 * 4 + unat c div 64) # b64_char (unat c mod 64) # b64_encode r"

fun b64_join :: "nat list \<Rightarrow> bytes option" where
  "b64_join [] = Some []"
| "b64_join [x] = None"
| "b64_join [x, y] = Some [of_nat (x * 4 + y div 16)]"
| "b64_join [x, y, z] = Some [of_nat (x * 4 + y div 16), of_nat (y mod 16 * 16 + z div 4)]"
| "b64_join (x # y # z # w # r) =
     map_option (\<lambda>t. of_nat (x * 4 + y div 16) # of_nat (y mod 16 * 16 + z div 4) #
                     of_nat (z mod 4 * 64 + w) # t) (b64_join r)"

fun b64_vals :: "string \<Rightarrow> nat list option" where
  "b64_vals [] = Some []"
| "b64_vals (c # cs) =
     (case b64_val c of None \<Rightarrow> None | Some v \<Rightarrow> map_option ((#) v) (b64_vals cs))"

definition b64_decode :: "string \<Rightarrow> bytes option" where
  "b64_decode s = Option.bind (b64_vals (filter (\<lambda>c. c \<noteq> CHR 0x0D \<and> c \<noteq> CHR 0x0A) s)) b64_join"

text \<open>
  \<open>base64.StdEncoding.DecodeString\<close>, the padded alphabet of the \<open>x5c\<close> header: whole groups of
  four, at most two padding characters, and these only at the end.
\<close>

definition std_to_url :: "char \<Rightarrow> char" where
  "std_to_url c = (if c = CHR ''+'' then CHR ''-'' else if c = CHR ''/'' then CHR ''_'' else c)"

definition strip_padding :: "string \<Rightarrow> string" where
  "strip_padding s =
     (if has_suffix s ''=='' then take (length s - 2) s
      else if has_suffix s ''='' then take (length s - 1) s else s)"

definition b64_std_decode :: "string \<Rightarrow> bytes option" where
  "b64_std_decode s0 =
     (let s = filter (\<lambda>c. c \<noteq> CHR 0x0D \<and> c \<noteq> CHR 0x0A) s0
      in if length s mod 4 \<noteq> 0 \<or> CHR ''-'' \<in> set s \<or> CHR ''_'' \<in> set s then None
         else b64_decode (map std_to_url (strip_padding s)))"

text \<open>\<open>base64.StdEncoding.EncodeToString\<close>.\<close>

definition url_to_std :: "char \<Rightarrow> char" where
  "url_to_std c = (if c = CHR ''-'' then CHR ''+'' else if c = CHR ''_'' then CHR ''/'' else c)"

definition b64_std_encode :: "bytes \<Rightarrow> string" where
  "b64_std_encode b =
     (let s = map url_to_std (b64_encode b) in s @ replicate ((4 - length s mod 4) mod 4) CHR ''='')"

lemma length_b64_alphabet [simp]: "length b64_alphabet = 64"
  by (simp add: b64_alphabet_def)

lemma distinct_b64_alphabet: "distinct b64_alphabet"
  by (simp add: b64_alphabet_def)

lemma b64_val_char [simp]: "i < 64 \<Longrightarrow> b64_val (b64_char i) = Some i"
  unfolding b64_val_def b64_char_def
  by (subst map_of_zip_nth) (simp_all add: distinct_b64_alphabet)

lemma b64_char_mem: "i < 64 \<Longrightarrow> b64_char i \<in> set b64_alphabet"
  by (simp add: b64_char_def)

lemma byte_parts [simp]:
  "unat (a :: 8 word) div 4 < 64" "unat a div 16 < 16" "unat a div 64 < 4"
  using unat8_less [of a] by auto

lemma sextets [simp]:
  "unat (a :: 8 word) mod 4 * 16 + unat (b :: 8 word) div 16 < 64"
  "unat b mod 16 * 4 + unat (c :: 8 word) div 64 < 64"
  "unat a mod 4 * 16 < 64" "unat b mod 16 * 4 < 64"
proof -
  have "unat a mod 4 < 4" "unat b mod 16 < 16" by simp_all
  then show "unat a mod 4 * 16 + unat b div 16 < 64" "unat b mod 16 * 4 + unat c div 64 < 64"
    "unat a mod 4 * 16 < 64" "unat b mod 16 * 4 < 64"
    using byte_parts [of b] byte_parts [of c] by linarith+
qed

lemma set_b64_encode: "set (b64_encode bs) \<subseteq> set b64_alphabet"
  by (induction bs rule: b64_encode.induct) (simp_all add: b64_char_mem)

text \<open>The separators of the token formats are not in the alphabet.\<close>

lemma not_in_b64_alphabet:
  "CHR ''.'' \<notin> set b64_alphabet" "CHR '':'' \<notin> set b64_alphabet" "CHR '' '' \<notin> set b64_alphabet"
  "CHR 0x0D \<notin> set b64_alphabet" "CHR 0x0A \<notin> set b64_alphabet"
  by (simp_all add: b64_alphabet_def)

lemma b64_encode_no_sep:
  "CHR ''.'' \<notin> set (b64_encode bs)" "CHR '':'' \<notin> set (b64_encode bs)" "CHR '' '' \<notin> set (b64_encode bs)"
  "CHR 0x0D \<notin> set (b64_encode bs)" "CHR 0x0A \<notin> set (b64_encode bs)"
  using set_b64_encode [of bs] not_in_b64_alphabet by blast+

lemma b64_join_vals_encode: "Option.bind (b64_vals (b64_encode bs)) b64_join = Some bs"
proof -
  have lo: "of_nat (unat a div 4 * 4 + (unat a mod 4 * 16 + y) div 16) = a"
    if "y < 16" for a :: "8 word" and y
  proof -
    from that have "(unat a mod 4 * 16 + y) div 16 = unat a mod 4" by simp
    then show ?thesis by (simp add: div_mult_mod_eq)
  qed
  have mid: "of_nat ((unat a mod 4 * 16 + unat b div 16) mod 16 * 16 + (unat b mod 16 * 4 + z) div 4) = b"
    if "z < 4" for a b :: "8 word" and z
  proof -
    from that have "(unat b mod 16 * 4 + z) div 4 = unat b mod 16" by simp
    moreover have "(unat a mod 4 * 16 + unat b div 16) mod 16 = unat b div 16" by simp
    ultimately show ?thesis by (simp add: div_mult_mod_eq)
  qed
  have hi: "of_nat ((unat b mod 16 * 4 + unat c div 64) mod 4 * 64 + unat c mod 64) = c" for b c :: "8 word"
    by (simp add: div_mult_mod_eq)
  have "\<exists>v. b64_vals (b64_encode bs) = Some v \<and> b64_join v = Some bs"
  proof (induction bs rule: b64_encode.induct)
    case (2 a)
    show ?case using lo [of 0 a] by simp
  next
    case (3 a b)
    show ?case using lo [of "unat b div 16" a] mid [of 0 a b] by simp
  next
    case (4 a b c r)
    then show ?case using lo [of "unat b div 16" a] mid [of "unat c div 64" a b] hi [of b c] by auto
  qed simp
  then show ?thesis by auto
qed

lemma b64_decode_encode [simp]: "b64_decode (b64_encode bs) = Some bs"
proof -
  have "filter (\<lambda>c. c \<noteq> CHR 0x0D \<and> c \<noteq> CHR 0x0A) (b64_encode bs) = b64_encode bs"
    using b64_encode_no_sep(4,5) [of bs] by (auto intro!: filter_True)
  then show ?thesis by (simp add: b64_decode_def b64_join_vals_encode)
qed

lemma b64_encode_inj: "b64_encode a = b64_encode b \<longleftrightarrow> a = b"
  by (metis b64_decode_encode option.inject)

lemma b64_encode_length: "length (b64_encode bs) mod 4 \<in> {0, 2, 3}"
  by (induction bs rule: b64_encode.induct) auto

lemma std_to_url_map: "set s \<subseteq> set b64_alphabet \<Longrightarrow> map std_to_url (map url_to_std s) = s"
proof (induction s)
  case (Cons c s)
  have "CHR ''+'' \<notin> set b64_alphabet" "CHR ''/'' \<notin> set b64_alphabet" by (simp_all add: b64_alphabet_def)
  then have "std_to_url (url_to_std c) = c" using Cons.prems by (auto simp: std_to_url_def url_to_std_def)
  then show ?case using Cons by simp
qed simp

lemma b64_std_roundtrip [simp]: "b64_std_decode (b64_std_encode b) = Some b"
proof -
  let ?s = "map url_to_std (b64_encode b)" and ?n = "(4 - length (b64_encode b) mod 4) mod 4"
  have al: "set (b64_encode b) \<subseteq> set b64_alphabet" by (rule set_b64_encode)
  have out: "CHR ''='' \<notin> set b64_alphabet" by (simp add: b64_alphabet_def)
  have s: "CHR 0x0D \<notin> set ?s" "CHR 0x0A \<notin> set ?s" "CHR ''-'' \<notin> set ?s" "CHR ''_'' \<notin> set ?s" "CHR ''='' \<notin> set ?s"
    using al not_in_b64_alphabet(4,5) out by (auto simp: url_to_std_def split: if_splits)
  have enc: "b64_std_encode b = ?s @ replicate ?n CHR ''=''" by (simp add: b64_std_encode_def Let_def)
  have f: "filter (\<lambda>c. c \<noteq> CHR 0x0D \<and> c \<noteq> CHR 0x0A) (b64_std_encode b) = b64_std_encode b"
    unfolding enc using s by (auto intro!: filter_True)
  have m: "length (b64_std_encode b) mod 4 = 0" and n: "?n \<in> {0, 1, 2}"
    using b64_encode_length [of b] by (auto simp: enc) presburger+
  have nosuf: "\<not> has_suffix ?s (p @ ''='')" for p
  proof
    assume "has_suffix ?s (p @ ''='')"
    then obtain r where "?s = r @ p @ ''=''" unfolding has_suffix_iff by blast
    then have "CHR ''='' \<in> set ?s" by (metis UnCI list.set_intros(1) set_append)
    then show False using s(5) by blast
  qed
  have nosuf2: "\<not> has_suffix (?s @ ''='') ''==''"
  proof
    assume "has_suffix (?s @ ''='') ''==''"
    then obtain r where "?s @ ''='' = (r @ ''='') @ ''=''" unfolding has_suffix_iff by auto
    then have "?s = r @ [] @ ''=''" by simp
    then show False using nosuf [of "[]"] unfolding has_suffix_iff by blast
  qed
  have strip: "strip_padding (b64_std_encode b) = ?s"
  proof -
    consider "?n = 0" | "?n = 1" | "?n = 2" using n by auto
    then show ?thesis
    proof cases
      case 1
      then have "b64_std_encode b = ?s" by (simp add: enc)
      then show ?thesis using nosuf [of "[]"] nosuf [of "''=''"] by (simp add: strip_padding_def)
    next
      case 2
      then have e: "b64_std_encode b = ?s @ ''=''" by (simp add: enc)
      have "has_suffix (?s @ ''='') ''=''" unfolding has_suffix_iff by blast
      then show ?thesis unfolding e strip_padding_def using nosuf2 by simp
    next
      case 3
      then have e: "b64_std_encode b = ?s @ ''==''" by (simp add: enc numeral_2_eq_2)
      then show ?thesis by (simp add: strip_padding_def has_suffix_def)
    qed
  qed
  have "CHR ''-'' \<notin> set (b64_std_encode b)" "CHR ''_'' \<notin> set (b64_std_encode b)"
    unfolding enc using s by auto
  then show ?thesis
    using f m strip std_to_url_map [OF al] by (simp add: b64_std_decode_def Let_def)
qed

lemma b64_encode_Nil_iff [simp]: "b64_encode b = [] \<longleftrightarrow> b = []"
  by (cases b rule: b64_encode.cases) simp_all

end
