(* ===== verification/Jose.thy ===== *)
theory Jose
  imports Ext Go_Base64
begin

text \<open>
  \<open>internal/jose/jose.go\<close> and \<open>jws.go\<close>: the algorithm policy, JSON Web Keys as objects,
  compact JWS parsing and signature verification.  The cryptography is \<open>jwx\<close>'s, reached
  through \<open>ext\<close>; what is modelled is the policy around it.
\<close>

definition B64 :: "bytes \<Rightarrow> string" where
  "B64 b = b64_encode b"

datatype alg_error = Alg_missing | Alg_not_allowed | Alg_unsupported

definition LookupAlg :: "'k ext \<Rightarrow> string \<Rightarrow> alg_error + string" where
  "LookupAlg E alg =
     (if alg = [] then Inl Alg_missing
      else if equal_fold alg ''none'' \<or> has_prefix (to_upper alg) ''HS'' then Inl Alg_not_allowed
      else if \<not> jwa_known E alg then Inl Alg_unsupported
      else Inr alg)"

text \<open>\<open>asKey\<close> takes a \<open>jwk.Key\<close> as it is and imports any raw public key.\<close>

datatype 'k anykey = Jwk_key 'k | Raw_key pubkey

fun asKey :: "'k ext \<Rightarrow> 'k anykey \<Rightarrow> 'k option" where
  "asKey E (Jwk_key k) = Some k"
| "asKey E (Raw_key p) = jwk_import E p"


section \<open>JSON Web Keys\<close>

definition jwk_str :: "jobj \<Rightarrow> string \<Rightarrow> string" where
  "jwk_str k name = get_str k name"

definition privateMembers :: "string list" where
  "privateMembers = [''d'', ''p'', ''q'', ''dp'', ''dq'', ''qi'', ''k'', ''priv'']"

definition jwk_PublicKey :: "'k ext \<Rightarrow> jobj \<Rightarrow> 'k option" where
  "jwk_PublicKey E k =
     (if list_ex (\<lambda>m. map_of k m \<noteq> None) privateMembers then None
      else case jwk_parse E k of
             None \<Rightarrow> None
           | Some key \<Rightarrow> jwk_public E key)"

definition jwk_Thumbprint :: "'k ext \<Rightarrow> jobj \<Rightarrow> string option" where
  "jwk_Thumbprint E k =
     (case jwk_parse E k of
        None \<Rightarrow> None
      | Some key \<Rightarrow> (case jwk_thumb E key of None \<Rightarrow> None | Some tp \<Rightarrow> Some (B64 tp)))"


section \<open>Compact JWS\<close>

record jws =
  j_compact :: string
  j_header :: jobj
  j_payload :: bytes

datatype jws_error =
    Jws_parts nat
  | Jws_header_b64
  | Jws_header_object
  | Jws_payload_b64
  | Jws_signature_b64

text \<open>
  \<open>decodeObject\<close>: the first JSON value of the input, which must be an object; \<open>null\<close> decodes
  to a nil map and is refused.
\<close>

definition decodeObject :: "'k ext \<Rightarrow> bytes \<Rightarrow> jobj option" where
  "decodeObject E b = (case json_decode E b of Some (VObj m) \<Rightarrow> Some m | _ \<Rightarrow> None)"

definition ParseCompact :: "'k ext \<Rightarrow> string \<Rightarrow> jws_error + jws" where
  "ParseCompact E token =
     (case split_on CHR ''.'' token of
        [h, p, s] \<Rightarrow>
          (case b64_decode h of
             None \<Rightarrow> Inl Jws_header_b64
           | Some hb \<Rightarrow>
               (case decodeObject E hb of
                  None \<Rightarrow> Inl Jws_header_object
                | Some header \<Rightarrow>
                    (case b64_decode p of
                       None \<Rightarrow> Inl Jws_payload_b64
                     | Some payload \<Rightarrow>
                         (case b64_decode s of
                            None \<Rightarrow> Inl Jws_signature_b64
                          | Some sig \<Rightarrow>
                              Inr \<lparr>j_compact = token, j_header = header, j_payload = payload\<rparr>))))
      | parts \<Rightarrow> Inl (Jws_parts (length parts)))"

definition jws_alg :: "jws \<Rightarrow> string" where "jws_alg j = get_str (j_header j) ''alg''"
definition jws_kid :: "jws \<Rightarrow> string" where "jws_kid j = get_str (j_header j) ''kid''"
definition jws_typ :: "jws \<Rightarrow> string" where "jws_typ j = get_str (j_header j) ''typ''"

definition jws_claims :: "'k ext \<Rightarrow> jws \<Rightarrow> jobj option" where
  "jws_claims E j = decodeObject E (j_payload j)"

datatype verify_failure = Bad_alg alg_error | Key_unusable | Signature_invalid

definition VerifySignature :: "'k ext \<Rightarrow> jws \<Rightarrow> 'k anykey \<Rightarrow> verify_failure + unit" where
  "VerifySignature E j key =
     (case LookupAlg E (jws_alg j) of
        Inl e \<Rightarrow> Inl (Bad_alg e)
      | Inr alg \<Rightarrow>
          (case asKey E key of
             None \<Rightarrow> Inl Key_unusable
           | Some k \<Rightarrow>
               if jws_verify E (j_compact j) alg k then Inr () else Inl Signature_invalid))"


section \<open>Signers\<close>

text \<open>
  \<open>internal/jose/signer.go\<close>.  The generated private key, when the generator succeeded, is an
  argument of \<open>GenerateSigner\<close>; \<open>jws.Sign\<close> with the header members it is given is \<open>jws_sign\<close>.
\<close>

record 'k signer =
  sg_alg :: string
  sg_key :: 'k
  sg_pubkey :: 'k
  sg_jwk :: jobj

definition JWKFromKey :: "'k ext \<Rightarrow> 'k anykey \<Rightarrow> jobj option" where
  "JWKFromKey E key =
     (case asKey E key of
        None \<Rightarrow> None
      | Some k \<Rightarrow> (case jwk_public E k of None \<Rightarrow> None | Some pub \<Rightarrow> jwk_object E pub))"

definition SignerFromKey :: "'k ext \<Rightarrow> string \<Rightarrow> 'k anykey \<Rightarrow> 'k signer option" where
  "SignerFromKey E alg raw =
     (case LookupAlg E alg of
        Inl _ \<Rightarrow> None
      | Inr sa \<Rightarrow>
          (case asKey E raw of
             None \<Rightarrow> None
           | Some key \<Rightarrow>
               (case jwk_public E key of
                  None \<Rightarrow> None
                | Some pubKey \<Rightarrow>
                    (case JWKFromKey E (Jwk_key key) of
                       None \<Rightarrow> None
                     | Some pub \<Rightarrow>
                         Some \<lparr>sg_alg = sa, sg_key = key, sg_pubkey = pubKey, sg_jwk = pub\<rparr>))))"

definition GenerateSigner :: "'k ext \<Rightarrow> string \<Rightarrow> 'k anykey option \<Rightarrow> 'k signer option" where
  "GenerateSigner E alg generated =
     (if alg \<notin> {''ES256'', ''ES384'', ''ES512'', ''ML-DSA-44'', ''ML-DSA-65'', ''ML-DSA-87''} then None
      else case generated of None \<Rightarrow> None | Some raw \<Rightarrow> SignerFromKey E alg raw)"

definition SignCompact :: "'k ext \<Rightarrow> 'k signer \<Rightarrow> jobj \<Rightarrow> jobj \<Rightarrow> string option" where
  "SignCompact E s header claims =
     (case json_encode E (VObj claims) of
        None \<Rightarrow> None
      | Some payload \<Rightarrow> jws_sign E (sg_alg s) (sg_key s) header payload)"

text \<open>
  The documented behaviour of signing, as a hypothesis for the theorems that need it: the
  result parses to the payload and to the given header members with the algorithm added, it
  verifies with the public key, and JSON decodes to what was encoded.
\<close>

definition signs_with :: "'k ext \<Rightarrow> 'k signer \<Rightarrow> bool" where
  "signs_with E s \<longleftrightarrow>
     (\<forall>header payload token. jws_sign E (sg_alg s) (sg_key s) header payload = Some token \<longrightarrow>
        (\<exists>hd. ParseCompact E token = Inr \<lparr>j_compact = token, j_header = hd, j_payload = payload\<rparr>
           \<and> map_of hd ''alg'' = Some (VStr (sg_alg s))
           \<and> (\<forall>n. n \<noteq> ''alg'' \<longrightarrow> map_of hd n = map_option json_view (map_of header n)))
        \<and> jws_verify E token (sg_alg s) (sg_pubkey s))"

definition json_inverse :: "'k ext \<Rightarrow> bool" where
  "json_inverse E \<longleftrightarrow> (\<forall>v b. json_encode E v = Some b \<longrightarrow> json_decode E b = Some (json_view v))"

text \<open>What was signed is what a reader sees.\<close>

lemma SignCompact_parse:
  assumes "SignCompact E s header claims = Some token" and "signs_with E s" and "json_inverse E"
  obtains j where "ParseCompact E token = Inr j" "j_compact j = token" "jws_alg j = sg_alg s"
    "\<forall>n. n \<noteq> ''alg'' \<longrightarrow> map_of (j_header j) n = map_option json_view (map_of header n)"
    "jws_claims E j = Some (map (\<lambda>(n, v). (n, json_view v)) claims)"
    "jws_verify E token (sg_alg s) (sg_pubkey s)"
proof -
  from assms(1) obtain payload where p: "json_encode E (VObj claims) = Some payload"
    "jws_sign E (sg_alg s) (sg_key s) header payload = Some token"
    by (auto simp: SignCompact_def split: option.splits)
  then obtain hd where h: "ParseCompact E token = Inr \<lparr>j_compact = token, j_header = hd, j_payload = payload\<rparr>"
    "map_of hd ''alg'' = Some (VStr (sg_alg s))"
    "\<forall>n. n \<noteq> ''alg'' \<longrightarrow> map_of hd n = map_option json_view (map_of header n)"
    "jws_verify E token (sg_alg s) (sg_pubkey s)"
    using assms(2) unfolding signs_with_def by blast
  let ?j = "\<lparr>j_compact = token, j_header = hd, j_payload = payload\<rparr>"
  have "json_decode E payload = Some (VObj (map (\<lambda>(n, v). (n, json_view v)) claims))"
    using assms(3) p(1) by (auto simp: json_inverse_def)
  then have "jws_claims E ?j = Some (map (\<lambda>(n, v). (n, json_view v)) claims)"
    by (simp add: jws_claims_def decodeObject_def)
  moreover have "jws_alg ?j = sg_alg s" using h(2) by (simp add: jws_alg_def get_str_def)
  ultimately show thesis
    using that [OF h(1)] h(3,4) by (simp only: jws.simps)
qed


section \<open>Facts\<close>

lemma LookupAlg_Inr:
  "LookupAlg E alg = Inr a \<Longrightarrow> a = alg \<and> alg \<noteq> [] \<and> jwa_known E alg
     \<and> \<not> equal_fold alg ''none'' \<and> \<not> has_prefix (to_upper alg) ''HS''"
  by (auto simp: LookupAlg_def split: if_splits)

lemma ParseCompact_Inr:
  assumes "ParseCompact E token = Inr j"
  obtains h p s hb where "token = h @ CHR ''.'' # p @ CHR ''.'' # s"
    "CHR ''.'' \<notin> set h" "CHR ''.'' \<notin> set p" "CHR ''.'' \<notin> set s"
    "b64_decode h = Some hb" "decodeObject E hb = Some (j_header j)"
    "b64_decode p = Some (j_payload j)" "b64_decode s \<noteq> None" "j_compact j = token"
proof -
  from assms obtain h p s where sp: "split_on CHR ''.'' token = [h, p, s]"
    by (auto simp: ParseCompact_def split: list.splits)
  with assms obtain hb hd pl sg where
    d: "b64_decode h = Some hb" "decodeObject E hb = Some hd"
       "b64_decode p = Some pl" "b64_decode s = Some sg"
    and j: "j = \<lparr>j_compact = token, j_header = hd, j_payload = pl\<rparr>"
    by (auto simp: ParseCompact_def split: option.splits)
  have "token = join ''.'' [h, p, s]" using join_split_on [of "CHR ''.''" token] sp by simp
  moreover have "CHR ''.'' \<notin> set h \<and> CHR ''.'' \<notin> set p \<and> CHR ''.'' \<notin> set s"
    using split_on_pieces [of _ "CHR ''.''" token] sp by auto
  ultimately show thesis using that d j by (simp add: join_def)
qed

text \<open>What a signer assembles parses back to the header and payload it was given.\<close>

definition assemble :: "bytes \<Rightarrow> bytes \<Rightarrow> bytes \<Rightarrow> string" where
  "assemble h p s = join ''.'' [B64 h, B64 p, B64 s]"

lemma ParseCompact_assemble:
  assumes "decodeObject E h = Some m"
  shows "ParseCompact E (assemble h p s) =
    Inr \<lparr>j_compact = assemble h p s, j_header = m, j_payload = p\<rparr>"
proof -
  have "split_on CHR ''.'' (assemble h p s) = [B64 h, B64 p, B64 s]"
    unfolding assemble_def
    by (rule split_on_join) (use b64_encode_no_sep(1) in \<open>auto simp: B64_def\<close>)
  then show ?thesis using assms by (simp add: ParseCompact_def B64_def)
qed

lemma VerifySignature_Inr:
  "VerifySignature E j key = Inr u \<longleftrightarrow>
     (\<exists>k. LookupAlg E (jws_alg j) = Inr (jws_alg j) \<and> asKey E key = Some k
          \<and> jws_verify E (j_compact j) (jws_alg j) k)"
  by (auto simp: VerifySignature_def dest: LookupAlg_Inr split: sum.splits option.splits if_splits)

lemma jwk_PublicKey_Some:
  "jwk_PublicKey E k = Some p \<Longrightarrow>
     (\<forall>m\<in>set privateMembers. map_of k m = None) \<and> (\<exists>key. jwk_parse E k = Some key \<and> jwk_public E key = Some p)"
  by (auto simp: jwk_PublicKey_def list_ex_iff split: if_splits option.splits)

lemma jwk_Thumbprint_no_colon: "jwk_Thumbprint E k = Some t \<Longrightarrow> CHR '':'' \<notin> set t"
  using b64_encode_no_sep(2) by (auto simp: jwk_Thumbprint_def B64_def split: option.splits)

end
