(* ===== verification/Jwks.thy ===== *)
theory Jwks
  imports Jose
begin

text \<open>
  \<open>internal/jose/jwks.go\<close>: the cache of the keys published at a JWKS URL.  The parsed set is
  its \<open>LookupKeyID\<close> function.  One call of \<open>Key\<close> reads the clock up to three times and makes
  at most one GET; the readings and the outcome of the GET, should it be made, come in the
  record \<open>jwks_io\<close>.  The mutexes make \<open>lookup\<close>, \<open>stale\<close> and \<open>refresh\<close> atomic.
\<close>

record 'k keyset =
  ks_url :: string
  ks_ttl :: duration
  ks_min_refresh :: duration
  ks_set :: "(string \<Rightarrow> 'k option) option"
  ks_fetched :: time
  ks_last_attempt :: time

record jwks_io =
  io_stale :: time \<comment> \<open>the clock in \<open>stale\<close>\<close>
  io_refresh :: time \<comment> \<open>the clock on entry to \<open>refresh\<close>\<close>
  io_done :: time \<comment> \<open>the clock when the new set is stored\<close>
  io_fetch :: http_result

datatype key_error = No_kid | Refresh_failed | Kid_not_found | Wrong_use | Wrong_alg

definition NewKeySet :: "string \<Rightarrow> duration \<Rightarrow> duration \<Rightarrow> 'k keyset" where
  "NewKeySet url ttl minRefresh =
     \<lparr>ks_url = url, ks_ttl = ttl, ks_min_refresh = minRefresh, ks_set = None, ks_fetched = 0,
      ks_last_attempt = 0\<rparr>"

definition ks_lookup :: "'k keyset \<Rightarrow> string \<Rightarrow> 'k option" where
  "ks_lookup s kid = (case ks_set s of None \<Rightarrow> None | Some f \<Rightarrow> f kid)"

definition ks_stale :: "'k keyset \<Rightarrow> time \<Rightarrow> bool" where
  "ks_stale s t \<longleftrightarrow> ks_ttl s < time_sub t (ks_fetched s)"

text \<open>The early return of \<open>refresh\<close>: attempted recently and not stale.\<close>

definition refresh_skips :: "'k keyset \<Rightarrow> time \<Rightarrow> bool" where
  "refresh_skips s t \<longleftrightarrow>
     ks_last_attempt s \<noteq> 0 \<and> time_sub t (ks_last_attempt s) < ks_min_refresh s
       \<and> time_sub t (ks_fetched s) \<le> ks_ttl s"

text \<open>The flag is true when \<open>refresh\<close> returns nil.\<close>

definition ks_refresh :: "'k ext \<Rightarrow> 'k keyset \<Rightarrow> jwks_io \<Rightarrow> bool \<times> 'k keyset" where
  "ks_refresh E s io =
     (if refresh_skips s (io_refresh io) then (True, s)
      else
        let s' = s\<lparr>ks_last_attempt := io_refresh io\<rparr>
        in if url_parse E (ks_url s) = None then (False, s')
           else case io_fetch io of
                  Http_error \<Rightarrow> (False, s')
                | Http_unreadable st \<Rightarrow> (False, s')
                | Http_response st body \<Rightarrow>
                    if st \<noteq> 200 then (False, s')
                    else case jwks_parse E (limit_read 4194304 body) of
                           None \<Rightarrow> (False, s')
                         | Some f \<Rightarrow> (True, s'\<lparr>ks_set := Some f, ks_fetched := io_done io\<rparr>))"

definition check_key :: "'k ext \<Rightarrow> string \<Rightarrow> 'k \<Rightarrow> key_error + 'k" where
  "check_key E alg key =
     (if (case jwk_use E key of Some u \<Rightarrow> u \<noteq> [] \<and> u \<noteq> ''sig'' | None \<Rightarrow> False) then Inl Wrong_use
      else if (case jwk_alg E key of Some a \<Rightarrow> a \<noteq> [] \<and> a \<noteq> alg | None \<Rightarrow> False) then Inl Wrong_alg
      else Inr key)"

definition ks_key ::
  "'k ext \<Rightarrow> 'k keyset \<Rightarrow> jwks_io \<Rightarrow> string \<Rightarrow> string \<Rightarrow> (key_error + 'k) \<times> 'k keyset" where
  "ks_key E s io kid alg =
     (if kid = [] then (Inl No_kid, s)
      else
        case ks_lookup s kid of
          None \<Rightarrow>
            (case ks_refresh E s io of
               (okay, s') \<Rightarrow>
                 if \<not> okay then (Inl Refresh_failed, s')
                 else (case ks_lookup s' kid of
                         None \<Rightarrow> (Inl Kid_not_found, s')
                       | Some key \<Rightarrow> (check_key E alg key, s')))
        | Some key0 \<Rightarrow>
            if ks_stale s (io_stale io) then
              (case snd (ks_refresh E s io) of
                 s' \<Rightarrow> (case ks_lookup s' kid of
                          None \<Rightarrow> (Inl Kid_not_found, s')
                        | Some key \<Rightarrow> (check_key E alg key, s')))
            else (check_key E alg key0, s))"


section \<open>Facts\<close>

lemma check_key_Inr:
  "check_key E alg key = Inr k \<Longrightarrow>
     k = key \<and> (\<forall>u. jwk_use E key = Some u \<longrightarrow> u = [] \<or> u = ''sig'')
     \<and> (\<forall>a. jwk_alg E key = Some a \<longrightarrow> a = [] \<or> a = alg)"
  by (auto simp: check_key_def split: if_splits option.splits)

text \<open>A key is only ever one of the set the cache holds after the call, usable for the algorithm.\<close>

lemma ks_key_Inr:
  assumes "ks_key E s io kid alg = (Inr k, s')"
  shows "kid \<noteq> [] \<and> ks_lookup s' kid = Some k \<and> check_key E alg k = Inr k"
proof -
  have "\<exists>key. ks_lookup s' kid = Some key \<and> check_key E alg key = Inr k" and "kid \<noteq> []"
    using assms by (auto simp: ks_key_def split: if_splits option.splits prod.splits)
  then show ?thesis by (metis check_key_Inr)
qed

text \<open>The set changes only by a successful fetch of a well-formed JWKS.\<close>

lemma ks_refresh_set:
  assumes "ks_refresh E s io = (b, s')"
  shows "ks_set s' = ks_set s \<or>
    (\<exists>body f. io_fetch io = Http_response 200 body \<and> jwks_parse E (limit_read 4194304 body) = Some f
       \<and> ks_set s' = Some f \<and> ks_fetched s' = io_done io)"
  using assms
  by (auto simp: ks_refresh_def Let_def split: if_splits http_result.splits option.splits)

lemma ks_refresh_config [simp]:
  "ks_ttl (snd (ks_refresh E s io)) = ks_ttl s"
  "ks_min_refresh (snd (ks_refresh E s io)) = ks_min_refresh s"
  "ks_url (snd (ks_refresh E s io)) = ks_url s"
  by (simp_all add: ks_refresh_def Let_def split: http_result.splits option.splits)

text \<open>After an attempt, no further GET within \<open>min_refresh\<close>, as long as the set is not stale.\<close>

lemma refresh_attempt_recorded:
  assumes "\<not> refresh_skips s (io_refresh io)"
  shows "ks_last_attempt (snd (ks_refresh E s io)) = io_refresh io"
  using assms by (auto simp: ks_refresh_def Let_def split: http_result.splits option.splits)

lemma refresh_rate_limited:
  assumes "\<not> refresh_skips s (io_refresh io)" "io_refresh io \<noteq> 0"
    and "time_sub t (io_refresh io) < ks_min_refresh s"
    and "\<not> ks_stale (snd (ks_refresh E s io)) t"
  shows "refresh_skips (snd (ks_refresh E s io)) t"
  using assms by (simp add: refresh_skips_def refresh_attempt_recorded ks_stale_def)

text \<open>A stale or never fetched set lifts the limit: every call attempts the GET.\<close>

lemma refresh_unlimited_when_stale: "ks_stale s t \<Longrightarrow> \<not> refresh_skips s t"
  by (simp add: refresh_skips_def ks_stale_def)

end
