(* ===== verification/Single_Use.thy ===== *)
theory Single_Use
  imports Prelude
begin

text \<open>
  The contract behind every one-time credential of the system: a store that accepts an item
  at most once while it still remembers it.  The DPoP replay cache of the validator and of
  the shim, and the ledger of consumed bootstrap certificates of the enrollment service,
  implement it.  \<open>ok\<close> is what a store needs before it can promise to remember, \<open>keeps c h\<close>
  which calls leave a remembered item remembered.  The argument that no interleaving of other calls lets an item in
  twice is made here once.
\<close>

locale single_use =
  fixes ok :: "'s \<Rightarrow> bool"
    and accepts :: "'s \<Rightarrow> 'c \<Rightarrow> bool"
    and advance :: "'s \<Rightarrow> 'c \<Rightarrow> 's"
    and key :: "'c \<Rightarrow> 'k"
    and tag :: "'c \<Rightarrow> 'h"
    and held :: "'s \<Rightarrow> 'k \<Rightarrow> 'h \<Rightarrow> bool"
    and keeps :: "'c \<Rightarrow> 'h \<Rightarrow> bool"
  assumes accept_held: "\<lbrakk>ok s; accepts s c; keeps c (tag c)\<rbrakk> \<Longrightarrow> held (advance s c) (key c) (tag c)"
    and held_kept: "\<lbrakk>held s k h; keeps c h\<rbrakk> \<Longrightarrow> held (advance s c) k h"
    and held_refused: "\<lbrakk>held s (key c) h; keeps c h\<rbrakk> \<Longrightarrow> \<not> accepts s c"
begin

lemma held_run: "\<lbrakk>held s k h; \<forall>c\<in>set cs. keeps c h\<rbrakk> \<Longrightarrow> held (foldl advance s cs) k h"
  by (induction cs arbitrary: s) (auto intro: held_kept)

lemma refused_while_held:
  assumes "held s (key c) h" and "\<forall>d\<in>set cs. keeps d h" and "keeps c h"
  shows "\<not> accepts (foldl advance s cs) c"
  using held_run [OF assms(1,2)] assms(3) by (rule held_refused)

lemma at_most_once:
  assumes "ok s" and "accepts s c" and "keeps c (tag c)"
    and "\<forall>d\<in>set cs. keeps d (tag c)" and "keeps c' (tag c)"
    and "key c' = key c"
  shows "\<not> accepts (foldl advance (advance s c) cs) c'"
  by (rule refused_while_held [where h = "tag c"])
    (use accept_held [OF assms(1-3)] assms(4-6) in auto)

end

text \<open>
  A client of such a store: a step of the client does one call of the store or none, from the
  calls \<open>may\<close> allows it.  What holds of a run of calls then holds of a run of the client.
\<close>

locale single_use_client = single_use ok accepts advance key tag held keeps
  for ok :: "'s \<Rightarrow> bool" and accepts :: "'s \<Rightarrow> 'c \<Rightarrow> bool" and advance :: "'s \<Rightarrow> 'c \<Rightarrow> 's"
    and key :: "'c \<Rightarrow> 'k" and tag :: "'c \<Rightarrow> 'h" and held :: "'s \<Rightarrow> 'k \<Rightarrow> 'h \<Rightarrow> bool"
    and keeps :: "'c \<Rightarrow> 'h \<Rightarrow> bool" +
  fixes step :: "'x \<Rightarrow> 'd \<Rightarrow> 'x"
    and store :: "'x \<Rightarrow> 's"
    and may :: "'d \<Rightarrow> 'c \<Rightarrow> bool"
  assumes step_store: "store (step x d) = store x \<or> (\<exists>c. may d c \<and> store (step x d) = advance (store x) c)"
begin

lemma run_store:
  "\<exists>cs. store (foldl step x ds) = foldl advance (store x) cs \<and> (\<forall>c\<in>set cs. \<exists>d\<in>set ds. may d c)"
proof (induction ds arbitrary: x)
  case Nil
  show ?case by (intro exI [of _ "[]"]) simp
next
  case (Cons d ds)
  obtain cs where cs: "store (foldl step (step x d) ds) = foldl advance (store (step x d)) cs"
    "\<forall>c\<in>set cs. \<exists>d\<in>set ds. may d c"
    using Cons.IH by blast
  from step_store [of x d] show ?case
  proof (elim disjE exE conjE)
    assume "store (step x d) = store x"
    with cs show ?thesis by (intro exI [of _ cs]) auto
  next
    fix c
    assume "may d c" "store (step x d) = advance (store x) c"
    with cs show ?thesis by (intro exI [of _ "c # cs"]) auto
  qed
qed

lemma client_held_run:
  assumes "held (store x) k h" and "\<forall>d\<in>set ds. \<forall>c. may d c \<longrightarrow> keeps c h"
  shows "held (store (foldl step x ds)) k h"
proof -
  obtain cs where cs: "store (foldl step x ds) = foldl advance (store x) cs" "\<forall>c\<in>set cs. \<exists>d\<in>set ds. may d c"
    using run_store by blast
  then have "\<forall>c\<in>set cs. keeps c h" using assms(2) by blast
  with assms(1) show ?thesis unfolding cs(1) by (rule held_run)
qed

lemma client_at_most_once:
  assumes "ok s" and "accepts s c" and "keeps c (tag c)" and "store x = advance s c"
    and "\<forall>d\<in>set ds. \<forall>c'. may d c' \<longrightarrow> keeps c' (tag c)"
    and "keeps c'' (tag c)" and "key c'' = key c"
  shows "\<not> accepts (store (foldl step x ds)) c''"
proof -
  obtain cs where cs: "store (foldl step x ds) = foldl advance (store x) cs"
    "\<forall>c\<in>set cs. \<exists>d\<in>set ds. may d c"
    using run_store by blast
  then have "\<forall>d\<in>set cs. keeps d (tag c)" using assms(5) by blast
  with assms(1-3) show ?thesis
    unfolding cs(1) assms(4) using assms(6,7) by (rule at_most_once)
qed

end

end
