(* ===== verification/Replay.thy ===== *)
theory Replay
  imports Single_Use Go_Time
begin

text \<open>
  \<open>xapp-resource/replay.go\<close>: the cache of DPoP proof identifiers.  The mutex makes
  \<open>CheckAndStore\<close> one atomic step of the cache; the instants are arguments because the
  callers read the clock before they take the lock, so the instants of consecutive steps
  need not increase.
\<close>

record replay_cache =
  rc_entries :: "(string \<times> time) list"
  rc_max :: int
  rc_last_sweep :: time

definition NewReplayCache :: "int \<Rightarrow> replay_cache" where
  "NewReplayCache n = \<lparr>rc_entries = [], rc_max = n, rc_last_sweep = 0\<rparr>"

datatype replay_result = ReplayFresh | ReplaySeen | ReplayFull

text \<open>The entries the sweep keeps: those not yet expired at \<open>now\<close>.\<close>

definition sweep :: "time \<Rightarrow> (string \<times> time) list \<Rightarrow> (string \<times> time) list" where
  "sweep now es = filter (\<lambda>e. now < snd e) es"

definition CheckAndStore ::
  "replay_cache \<Rightarrow> string \<Rightarrow> time \<Rightarrow> time \<Rightarrow> replay_result \<times> replay_cache" where
  "CheckAndStore c key expiry now =
     (if (case map_of (rc_entries c) key of Some exp \<Rightarrow> now < exp | None \<Rightarrow> False)
      then (ReplaySeen, c)
      else
        let full = rc_max c \<le> int (length (rc_entries c));
            due = full \<or> 10 * second < time_sub now (rc_last_sweep c);
            c' = (if due then c\<lparr>rc_entries := sweep now (rc_entries c), rc_last_sweep := now\<rparr> else c)
        in if due \<and> rc_max c \<le> int (length (rc_entries c')) then (ReplayFull, c')
           else (ReplayFresh, c'\<lparr>rc_entries := alist_store key expiry (rc_entries c')\<rparr>))"

definition replay_len :: "replay_cache \<Rightarrow> nat" where
  "replay_len c = length (rc_entries c)"


section \<open>What the cache holds\<close>

text \<open>The abstract content at an instant: the identifiers whose window has not passed.\<close>

definition live :: "replay_cache \<Rightarrow> time \<Rightarrow> string \<Rightarrow> time option" where
  "live c t k = (case map_of (rc_entries c) k of
                   Some e \<Rightarrow> (if t < e then Some e else None) | None \<Rightarrow> None)"

text \<open>The invariant: one entry per identifier, never more entries than the bound.\<close>

definition replay_ok :: "replay_cache \<Rightarrow> bool" where
  "replay_ok c \<longleftrightarrow> distinct (map fst (rc_entries c)) \<and> int (length (rc_entries c)) \<le> max 0 (rc_max c)"

lemma replay_ok_new: "replay_ok (NewReplayCache n)"
  by (simp add: replay_ok_def NewReplayCache_def)

lemma map_of_sweep:
  "distinct (map fst es) \<Longrightarrow> map_of (sweep now es) k =
     (case map_of es k of Some e \<Rightarrow> if now < e then Some e else None | None \<Rightarrow> None)"
  by (auto simp: sweep_def map_of_filter_distinct split: option.splits)

lemma live_alt: "distinct (map fst (rc_entries c)) \<Longrightarrow> live c t = map_of (sweep t (rc_entries c))"
  by (rule ext) (simp add: live_def map_of_sweep)

lemma card_live:
  assumes "distinct (map fst (rc_entries c))"
  shows "card (dom (live c t)) = length (sweep t (rc_entries c))"
proof -
  have "distinct (map fst (sweep t (rc_entries c)))"
    using assms by (auto simp: sweep_def)
  then have "card (fst ` set (sweep t (rc_entries c))) = length (sweep t (rc_entries c))"
    by (metis distinct_card length_map set_map)
  then show ?thesis using assms by (simp add: live_alt dom_map_of_conv_image_fst)
qed

lemma length_sweep_le: "length (sweep t es) \<le> length es"
  by (simp add: sweep_def)

lemma CheckAndStore_max [simp]: "rc_max (snd (CheckAndStore c k e n)) = rc_max c"
  by (simp add: CheckAndStore_def Let_def)

lemma CheckAndStore_ok:
  assumes "replay_ok c"
  shows "replay_ok (snd (CheckAndStore c key expiry now))"
proof -
  let ?es = "rc_entries c"
  have d: "distinct (map fst (sweep now ?es))" using assms by (auto simp: replay_ok_def sweep_def)
  show ?thesis
    using assms d length_sweep_le [of now ?es]
      length_alist_store_le [of key expiry ?es] length_alist_store_le [of key expiry "sweep now ?es"]
    by (auto simp: replay_ok_def CheckAndStore_def Let_def split: option.splits)
qed

text \<open>The result, from the abstract content alone.\<close>

lemma CheckAndStore_result:
  assumes "replay_ok c"
  shows "fst (CheckAndStore c key expiry now) =
    (if live c now key \<noteq> None then ReplaySeen
     else if rc_max c \<le> int (card (dom (live c now))) then ReplayFull else ReplayFresh)"
proof -
  have d: "distinct (map fst (rc_entries c))" using assms by (simp add: replay_ok_def)
  show ?thesis
    using length_sweep_le [of now "rc_entries c"]
    by (auto simp: CheckAndStore_def Let_def live_def card_live [OF d] split: option.splits)
qed

text \<open>The content afterwards, at any instant no earlier than the call.\<close>

lemma CheckAndStore_live:
  assumes "replay_ok c" and "now \<le> t"
  shows "live (snd (CheckAndStore c key expiry now)) t =
    (if fst (CheckAndStore c key expiry now) = ReplayFresh
     then (live c t)(key := if t < expiry then Some expiry else None) else live c t)"
proof -
  have d: "distinct (map fst (rc_entries c))" using assms by (simp add: replay_ok_def)
  show ?thesis
    using assms(2)
    by (auto simp: CheckAndStore_def Let_def live_def map_of_sweep [OF d] fun_eq_iff
        split: option.splits)
qed


section \<open>Single use\<close>

text \<open>
  A call is its key, its expiry and its instant.  An entry survives a call whose instant is
  before its expiry, whatever the instants of other calls.
\<close>

type_synonym replay_call = "string \<times> time \<times> time"

definition replay_accepts :: "replay_cache \<Rightarrow> replay_call \<Rightarrow> bool" where
  "replay_accepts c a = (case a of (k, e, n) \<Rightarrow> fst (CheckAndStore c k e n) = ReplayFresh)"

definition replay_advance :: "replay_cache \<Rightarrow> replay_call \<Rightarrow> replay_cache" where
  "replay_advance c a = (case a of (k, e, n) \<Rightarrow> snd (CheckAndStore c k e n))"

definition replay_held :: "replay_cache \<Rightarrow> string \<Rightarrow> time \<Rightarrow> bool" where
  "replay_held c k e \<longleftrightarrow> (k, e) \<in> set (rc_entries c) \<and> map_of (rc_entries c) k = Some e"

definition replay_keeps :: "replay_call \<Rightarrow> time \<Rightarrow> bool" where
  "replay_keeps a e = (case a of (_, _, n) \<Rightarrow> n < e)"

lemma map_of_sweep_kept:
  assumes "map_of es k = Some e" and "now < e"
  shows "map_of (sweep now es) k = Some e"
  using assms by (induction es) (auto simp: sweep_def split: if_splits)

lemma CheckAndStore_kept:
  assumes "map_of (rc_entries c) k = Some e" and "n < e"
  shows "map_of (rc_entries (snd (CheckAndStore c k' e' n))) k = Some e"
  using assms map_of_sweep_kept [OF assms]
  by (auto simp: CheckAndStore_def Let_def split: option.splits if_splits)

interpretation replay_use: single_use "\<lambda>_. True" replay_accepts replay_advance fst "\<lambda>(_, e, _). e"
  replay_held replay_keeps
proof
  fix c :: replay_cache and a
  assume "replay_accepts c a"
  then show "replay_held (replay_advance c a) (fst a) (case a of (_, e, _) \<Rightarrow> e)"
    by (auto simp: replay_accepts_def replay_advance_def replay_held_def CheckAndStore_def Let_def
        alist_store_def split: prod.splits option.splits if_splits)
next
  fix c k h a
  assume "replay_held c k h" "replay_keeps a h"
  then have "map_of (rc_entries (replay_advance c a)) k = Some h"
    by (auto simp: replay_held_def replay_keeps_def replay_advance_def
        intro!: CheckAndStore_kept split: prod.splits)
  then show "replay_held (replay_advance c a) k h"
    by (auto simp: replay_held_def dest: map_of_SomeD)
next
  fix c a h
  assume "replay_held c (fst a) h" "replay_keeps a h"
  then show "\<not> replay_accepts c a"
    by (auto simp: replay_held_def replay_keeps_def replay_accepts_def CheckAndStore_def Let_def
        split: prod.splits)
qed

lemma replay_run_ok: "replay_ok c \<Longrightarrow> replay_ok (foldl replay_advance c cs)"
  by (induction cs arbitrary: c) (auto simp: replay_advance_def intro!: CheckAndStore_ok split: prod.splits)

lemma replay_run_max [simp]: "rc_max (foldl replay_advance c cs) = rc_max c"
  by (induction cs arbitrary: c) (auto simp: replay_advance_def split: prod.splits)

end
