(* ===== verification/Pki.thy ===== *)
theory Pki
  imports Ext Go_Base64
begin

text \<open>
  \<open>internal/pki/pki.go\<close>: the certificate thumbprint of RFC 8705, the choice of key
  algorithms and their names, and chain verification with classified failures.  X.509 path
  validation itself is \<open>x509_verify\<close>; a certificate pool is the list of its certificates.
\<close>

definition ThumbprintS256 :: "'k ext \<Rightarrow> cert \<Rightarrow> string" where
  "ThumbprintS256 E c = b64_encode (sha256 E (c_raw c))"


section \<open>Key algorithms\<close>

datatype key_kind = Gen_EC string | Gen_Ed25519 | Gen_RSA nat | Gen_MLDSA mldsa_params

text \<open>The kind of key \<open>GenerateKey\<close> creates for an algorithm name; \<open>None\<close> is its error.\<close>

definition GenerateKey :: "string \<Rightarrow> key_kind option" where
  "GenerateKey alg =
     (if alg = [] \<or> alg = ''EC-P256'' then Some (Gen_EC ''P-256'')
      else if alg = ''EC-P384'' then Some (Gen_EC ''P-384'')
      else if alg = ''Ed25519'' then Some Gen_Ed25519
      else if alg = ''RSA-2048'' then Some (Gen_RSA 2048)
      else if alg = ''ML-DSA-44'' then Some (Gen_MLDSA MLDSA44)
      else if alg = ''ML-DSA-65'' then Some (Gen_MLDSA MLDSA65)
      else if alg = ''ML-DSA-87'' then Some (Gen_MLDSA MLDSA87)
      else None)"

fun kind_of :: "pubkey \<Rightarrow> key_kind option" where
  "kind_of (EC_key crv b) = Some (Gen_EC crv)"
| "kind_of (RSA_key n b) = Some (Gen_RSA n)"
| "kind_of (Ed25519_key b) = Some Gen_Ed25519"
| "kind_of (MLDSA_key p b) = Some (Gen_MLDSA p)"
| "kind_of (Other_key t) = None"

fun IsPostQuantum :: "pubkey \<Rightarrow> bool" where
  "IsPostQuantum (MLDSA_key p b) = True"
| "IsPostQuantum _ = False"

fun KeyAlgName :: "pubkey \<Rightarrow> string" where
  "KeyAlgName (MLDSA_key MLDSA44 b) = ''ML-DSA-44''"
| "KeyAlgName (MLDSA_key MLDSA65 b) = ''ML-DSA-65''"
| "KeyAlgName (MLDSA_key MLDSA87 b) = ''ML-DSA-87''"
| "KeyAlgName (MLDSA_key MLDSA_other b) = ''ML-DSA''"
| "KeyAlgName (EC_key crv b) = ''EC-'' @ crv"
| "KeyAlgName (RSA_key n b) = ''RSA-'' @ show_nat n"
| "KeyAlgName (Ed25519_key b) = ''Ed25519''"
| "KeyAlgName (Other_key t) = t"

lemma KeyAlgName_mldsa: "KeyAlgName (MLDSA_key p b) \<in> {''ML-DSA-44'', ''ML-DSA-65'', ''ML-DSA-87'', ''ML-DSA''}"
  by (cases p) auto

text \<open>An ML-DSA key is named by the name it was generated under.\<close>

lemma KeyAlgName_GenerateKey_mldsa:
  "\<lbrakk>GenerateKey alg = Some (Gen_MLDSA p); kind_of k = Some (Gen_MLDSA p)\<rbrakk> \<Longrightarrow> KeyAlgName k = alg"
  by (cases k) (auto simp: GenerateKey_def split: if_splits)


section \<open>Chain verification\<close>

datatype chain_kind = ChainExpired | ChainNotYetValid | ChainUntrusted | ChainBadUsage | ChainInvalid

fun chain_kind_name :: "chain_kind \<Rightarrow> string" where
  "chain_kind_name ChainExpired = ''expired''"
| "chain_kind_name ChainNotYetValid = ''not_yet_valid''"
| "chain_kind_name ChainUntrusted = ''untrusted''"
| "chain_kind_name ChainBadUsage = ''bad_usage''"
| "chain_kind_name ChainInvalid = ''invalid''"

text \<open>The class given to an error of \<open>Certificate.Verify\<close>.\<close>

fun classify :: "verify_error \<Rightarrow> chain_kind" where
  "classify (Certificate_invalid Inv_Expired) = ChainExpired"
| "classify (Certificate_invalid Inv_IncompatibleUsage) = ChainBadUsage"
| "classify (Certificate_invalid Inv_other) = ChainInvalid"
| "classify Unknown_authority = ChainUntrusted"
| "classify Other_verify_error = ChainInvalid"

definition VerifyChain ::
  "'k ext \<Rightarrow> cert list \<Rightarrow> cert list \<Rightarrow> time \<Rightarrow> eku \<Rightarrow> chain_kind + unit" where
  "VerifyChain E chain roots now usage =
     (case chain of
        [] \<Rightarrow> Inl ChainInvalid
      | leaf # inters \<Rightarrow>
          if c_not_after leaf < now then Inl ChainExpired
          else if now < c_not_before leaf then Inl ChainNotYetValid
          else (case x509_verify E leaf roots inters now usage of
                  None \<Rightarrow> Inr ()
                | Some err \<Rightarrow> Inl (classify err)))"

lemma VerifyChain_Inr:
  "VerifyChain E chain roots now usage = Inr u \<longleftrightarrow>
     (\<exists>leaf inters. chain = leaf # inters \<and> c_not_before leaf \<le> now \<and> now \<le> c_not_after leaf
        \<and> x509_verify E leaf roots inters now usage = None)"
  by (auto simp: VerifyChain_def not_less split: list.splits if_splits option.splits)

lemma VerifyChain_expired:
  "\<lbrakk>chain = leaf # inters; c_not_after leaf < now\<rbrakk> \<Longrightarrow> VerifyChain E chain roots now usage = Inl ChainExpired"
  by (simp add: VerifyChain_def)

end
