(* ===== verification/Netx.thy ===== *)
theory Netx
  imports Ext
begin

text \<open>
  \<open>internal/netx/netx.go\<close>: dial overrides, the \<open>htu\<close> normalisation shared by the DPoP client
  and the resource server, and the choice of TLS key-exchange groups.  \<open>url.Parse\<close> is the
  external \<open>url_parse\<close>; \<open>URL.Hostname\<close>, \<open>URL.Port\<close> and \<open>net.JoinHostPort\<close> are modelled.
\<close>

fun parse_override_items :: "string list \<Rightarrow> (string \<times> string) list \<Rightarrow> (string \<times> string) list option" where
  "parse_override_items [] out = Some out"
| "parse_override_items (item # rest) out =
     (let it = trim_space item in
      if it = [] then parse_override_items rest out
      else (case cut CHR ''='' it of
              None \<Rightarrow> None
            | Some (from, to) \<Rightarrow>
                parse_override_items rest (alist_store (trim_space from) (trim_space to) out)))"

definition ParseDialOverrides :: "string \<Rightarrow> (string \<times> string) list option" where
  "ParseDialOverrides spec = parse_override_items (split_on CHR '','' spec) []"

text \<open>The address the transport of \<open>NewTransport\<close> dials.\<close>

definition dial_target :: "(string \<times> string) list \<Rightarrow> string \<Rightarrow> string" where
  "dial_target overrides addr = (case map_of overrides addr of Some t \<Rightarrow> t | None \<Rightarrow> addr)"


section \<open>Host and port\<close>

definition last_colon :: "string \<Rightarrow> (string \<times> string) option" where
  "last_colon s = map_option (\<lambda>(a, b). (rev b, rev a)) (cut CHR '':'' (rev s))"

text \<open>
  \<open>splitHostPort\<close> of \<open>net/url\<close>: a suffix of digits after the last colon is the port, and the
  brackets around an IPv6 literal are dropped from the host.
\<close>

definition strip_brackets :: "string \<Rightarrow> string" where
  "strip_brackets h =
     (if has_prefix h ''['' \<and> has_suffix h '']'' then butlast (tl h) else h)"

definition split_host_port :: "string \<Rightarrow> string \<times> string" where
  "split_host_port hp =
     (case last_colon hp of
        Some (h, p) \<Rightarrow> if list_all is_digit p then (strip_brackets h, p) else (strip_brackets hp, [])
      | None \<Rightarrow> (strip_brackets hp, []))"

definition url_hostname :: "url \<Rightarrow> string" where
  "url_hostname u = fst (split_host_port (u_host u))"

definition url_port :: "url \<Rightarrow> string" where
  "url_port u = snd (split_host_port (u_host u))"

definition join_host_port :: "string \<Rightarrow> string \<Rightarrow> string" where
  "join_host_port h p = (if CHR '':'' \<in> set h then ''['' @ h @ '']:'' @ p else h @ '':'' @ p)"


section \<open>htu normalisation\<close>

definition norm_authority :: "string \<Rightarrow> url \<Rightarrow> string" where
  "norm_authority scheme u =
     (let host = to_lower (url_hostname u);
          p = url_port u;
          port = (if scheme = ''https'' \<and> p = ''443'' \<or> scheme = ''http'' \<and> p = ''80'' then [] else p)
      in if port \<noteq> [] then join_host_port host port
         else if CHR '':'' \<in> set host then ''['' @ host @ '']'' else host)"

definition NormalizeHTU :: "'k ext \<Rightarrow> string \<Rightarrow> string option" where
  "NormalizeHTU E raw =
     (case url_parse E raw of
        None \<Rightarrow> None
      | Some u \<Rightarrow>
          if u_scheme u = [] \<or> u_host u = [] then None
          else let scheme = to_lower (u_scheme u);
                   path = (if u_path u = [] then ''/'' else u_path u)
               in Some (scheme @ ''://'' @ norm_authority scheme u @ path))"

datatype curve = X25519MLKEM768 | Other_curve nat

text \<open>\<open>None\<close> is the nil slice: Go's default groups.\<close>

definition CurvePreferences :: "bool \<Rightarrow> curve list option" where
  "CurvePreferences pqOnly = (if pqOnly then Some [X25519MLKEM768] else None)"

definition IsPQKex :: "curve \<Rightarrow> bool" where
  "IsPQKex c \<longleftrightarrow> c = X25519MLKEM768"


section \<open>Facts\<close>

text \<open>The authority is recovered from a host and port joined by \<open>join_host_port\<close>.\<close>

lemma last_colon_append: "CHR '':'' \<notin> set p \<Longrightarrow> last_colon (h @ CHR '':'' # p) = Some (h, p)"
  by (simp add: last_colon_def cut_append)

lemma digits_no_colon: "list_all is_digit p \<Longrightarrow> CHR '':'' \<notin> set p"
  by (induction p) (auto simp: is_digit_def)

lemma strip_brackets_wrap [simp]: "strip_brackets (''['' @ h @ '']'') = h"
  by (simp add: strip_brackets_def has_prefix_def has_suffix_def)

lemma split_host_port_join:
  assumes "list_all is_digit p" and "\<not> has_prefix h ''[''"
  shows "split_host_port (join_host_port h p) = (h, p)"
proof (cases "CHR '':'' \<in> set h")
  case True
  then have "join_host_port h p = (''['' @ h @ '']'') @ CHR '':'' # p"
    by (simp add: join_host_port_def)
  then have "last_colon (join_host_port h p) = Some (''['' @ h @ '']'', p)"
    using last_colon_append [OF digits_no_colon [OF assms(1)], of "''['' @ h @ '']''"] by simp
  then show ?thesis using assms(1) strip_brackets_wrap [of h] by (simp add: split_host_port_def)
next
  case False
  then have "join_host_port h p = h @ CHR '':'' # p" by (simp add: join_host_port_def)
  then show ?thesis using assms digits_no_colon [OF assms(1)]
    by (simp add: split_host_port_def last_colon_append strip_brackets_def)
qed

lemma NormalizeHTU_Some:
  assumes "NormalizeHTU E raw = Some n"
  obtains u where "url_parse E raw = Some u" "u_scheme u \<noteq> []" "u_host u \<noteq> []"
    "n = to_lower (u_scheme u) @ ''://'' @ norm_authority (to_lower (u_scheme u)) u
         @ (if u_path u = [] then ''/'' else u_path u)"
  using assms by (auto simp: NormalizeHTU_def Let_def split: option.splits if_splits)

text \<open>Only the scheme and host up to case, the effective port and the path matter.\<close>

lemma NormalizeHTU_cong:
  assumes "url_parse E a = Some u" "url_parse E b = Some v"
    and "to_lower (u_scheme u) = to_lower (u_scheme v)"
    and "u_host u = [] \<longleftrightarrow> u_host v = []"
    and "norm_authority (to_lower (u_scheme u)) u = norm_authority (to_lower (u_scheme u)) v"
    and "u_path u = u_path v"
  shows "NormalizeHTU E a = NormalizeHTU E b"
proof -
  have "u_scheme u = [] \<longleftrightarrow> u_scheme v = []"
    using assms(3) by (metis to_lower_def map_is_Nil_conv)
  then show ?thesis using assms by (simp add: NormalizeHTU_def Let_def)
qed

lemma parse_override_items_distinct:
  "\<lbrakk>parse_override_items items out = Some m; distinct (map fst out)\<rbrakk> \<Longrightarrow> distinct (map fst m)"
proof (induction items arbitrary: out)
  case Nil
  then show ?case by simp
next
  case (Cons item rest)
  show ?case
  proof (cases "trim_space item = []")
    case True
    with Cons show ?thesis by simp
  next
    case False
    with Cons.prems obtain a b where "cut CHR ''='' (trim_space item) = Some (a, b)"
      and "parse_override_items rest (alist_store (trim_space a) (trim_space b) out) = Some m"
      by (auto simp: Let_def split: option.splits)
    with Cons.IH Cons.prems(2) show ?thesis by blast
  qed
qed


section \<open>The normal form\<close>

lemma split_host_port_port: "list_all is_digit (snd (split_host_port hp))"
  by (auto simp: split_host_port_def split: option.splits)

lemma has_prefix_bracket: "has_prefix (to_lower h) ''['' \<longleftrightarrow> has_prefix h ''[''"
proof (cases h)
  case (Cons c cs)
  have "to_lower_char c = CHR ''['' \<longleftrightarrow> c = CHR ''[''"
    by (rule to_lower_char_other) simp_all
  then show ?thesis by (simp add: Cons to_lower_def has_prefix_def)
qed (simp add: to_lower_def)

lemma split_host_port_Nil: "split_host_port [] = ([], [])"
  by (simp add: split_host_port_def last_colon_def cut_def strip_brackets_def has_prefix_def)

lemma to_lower_Nil [simp]: "to_lower s = [] \<longleftrightarrow> s = []"
  by (simp add: to_lower_def)

text \<open>Without a port the host is recovered, bracketed when it is an IPv6 literal.\<close>

lemma split_host_port_bare:
  assumes "\<not> has_prefix h ''[''"
  shows "split_host_port (if CHR '':'' \<in> set h then ''['' @ h @ '']'' else h) = (h, [])"
proof (cases "CHR '':'' \<in> set h")
  case True
  obtain a b where ab: "cut CHR '':'' (rev h) = Some (a, b)"
    using True by (cases "cut CHR '':'' (rev h)") (auto simp: cut_None_iff)
  then have "rev h = a @ CHR '':'' # b \<and> CHR '':'' \<notin> set a" by (simp add: cut_Some_iff)
  then have "last_colon (''['' @ h @ '']'') = Some (''['' @ rev b, rev a @ '']'')"
    using cut_append [of "CHR '':''" "CHR '']'' # a" "b @ ''[''"] by (simp add: last_colon_def)
  then show ?thesis using True strip_brackets_wrap [of h]
    by (simp add: split_host_port_def is_digit_def)
next
  case False
  then have "cut CHR '':'' (rev h) = None" by (simp add: cut_None_iff)
  then show ?thesis using assms False by (simp add: split_host_port_def last_colon_def strip_brackets_def)
qed

lemma norm_authority_parts:
  assumes "\<not> has_prefix (url_hostname u) ''[''" "u_host v = norm_authority s u"
  shows "url_hostname v = to_lower (url_hostname u)"
    and "url_port v = (if s = ''https'' \<and> url_port u = ''443'' \<or> s = ''http'' \<and> url_port u = ''80'' then [] else url_port u)"
proof -
  let ?p = "if s = ''https'' \<and> url_port u = ''443'' \<or> s = ''http'' \<and> url_port u = ''80'' then [] else url_port u"
  let ?h = "to_lower (url_hostname u)"
  have h: "\<not> has_prefix ?h ''[''" using assms(1) by (simp add: has_prefix_bracket)
  have d: "list_all is_digit ?p" using split_host_port_port [of "u_host u"] by (auto simp: url_port_def)
  have "split_host_port (u_host v) = (?h, ?p)"
  proof (cases "?p = []")
    case True
    then have "u_host v = (if CHR '':'' \<in> set ?h then ''['' @ ?h @ '']'' else ?h)"
      using assms(2) by (simp only: norm_authority_def Let_def) simp
    then show ?thesis using split_host_port_bare [OF h] True by simp
  next
    case False
    then have "u_host v = join_host_port ?h ?p"
      using assms(2) by (simp only: norm_authority_def Let_def if_True not_False_eq_True)
    then show ?thesis using split_host_port_join [OF d h] by simp
  qed
  then show "url_hostname v = ?h" "url_port v = ?p" by (simp_all only: url_hostname_def url_port_def fst_conv snd_conv)
qed

end
