(* ===== verification/Reasons.thy ===== *)
theory Reasons
  imports Go_Strings
begin

text \<open>
  \<open>xapp-resource/reasons.go\<close>: the reason codes of a rejection, the HTTP status and
  challenge each is answered with, and the OAuth error it maps to.  The human-readable
  detail is not modelled.
\<close>

datatype reason =
    ReasonAuthorizationMissing
  | ReasonAuthorizationMalformed
  | ReasonSchemeUnsupported
  | ReasonTokenMalformed
  | ReasonTokenKeyUnavailable
  | ReasonTokenSignatureInvalid
  | ReasonTokenExpired
  | ReasonTokenNotYetValid
  | ReasonTokenIssuerMismatch
  | ReasonTokenAudienceMismatch
  | ReasonTokenInactive
  | ReasonIntrospectionFailed
  | ReasonInsufficientScope
  | ReasonCnfMissing
  | ReasonCnfMalformed
  | ReasonCnfUnrecognized
  | ReasonClientCertMissing
  | ReasonClientCertExpired
  | ReasonClientCertInvalid
  | ReasonX5tMismatch
  | ReasonCertBoundWrongScheme
  | ReasonDPoPAsBearer
  | ReasonDPoPProofMissing
  | ReasonDPoPProofMultiple
  | ReasonDPoPProofMalformed
  | ReasonDPoPProofType
  | ReasonDPoPProofAlg
  | ReasonDPoPProofJWK
  | ReasonDPoPProofSignature
  | ReasonDPoPJktMismatch
  | ReasonDPoPAthMissing
  | ReasonDPoPAthMismatch
  | ReasonDPoPHtmMismatch
  | ReasonDPoPHtuMismatch
  | ReasonDPoPIatOutOfWindow
  | ReasonDPoPJtiMissing
  | ReasonDPoPReplayed
  | ReasonDPoPReplayCacheFull

fun reason_code :: "reason \<Rightarrow> string" where
  "reason_code ReasonAuthorizationMissing = ''authorization_missing''"
| "reason_code ReasonAuthorizationMalformed = ''authorization_malformed''"
| "reason_code ReasonSchemeUnsupported = ''authorization_scheme_unsupported''"
| "reason_code ReasonTokenMalformed = ''token_malformed''"
| "reason_code ReasonTokenKeyUnavailable = ''token_key_unavailable''"
| "reason_code ReasonTokenSignatureInvalid = ''token_signature_invalid''"
| "reason_code ReasonTokenExpired = ''token_expired''"
| "reason_code ReasonTokenNotYetValid = ''token_not_yet_valid''"
| "reason_code ReasonTokenIssuerMismatch = ''token_issuer_mismatch''"
| "reason_code ReasonTokenAudienceMismatch = ''token_audience_mismatch''"
| "reason_code ReasonTokenInactive = ''token_inactive''"
| "reason_code ReasonIntrospectionFailed = ''introspection_failed''"
| "reason_code ReasonInsufficientScope = ''insufficient_scope''"
| "reason_code ReasonCnfMissing = ''cnf_missing''"
| "reason_code ReasonCnfMalformed = ''cnf_malformed''"
| "reason_code ReasonCnfUnrecognized = ''cnf_unrecognized''"
| "reason_code ReasonClientCertMissing = ''client_certificate_missing''"
| "reason_code ReasonClientCertExpired = ''client_certificate_expired''"
| "reason_code ReasonClientCertInvalid = ''client_certificate_invalid''"
| "reason_code ReasonX5tMismatch = ''cnf_x5t_mismatch''"
| "reason_code ReasonCertBoundWrongScheme = ''cert_bound_token_wrong_scheme''"
| "reason_code ReasonDPoPAsBearer = ''dpop_token_used_as_bearer''"
| "reason_code ReasonDPoPProofMissing = ''dpop_proof_missing''"
| "reason_code ReasonDPoPProofMultiple = ''dpop_proof_multiple''"
| "reason_code ReasonDPoPProofMalformed = ''dpop_proof_malformed''"
| "reason_code ReasonDPoPProofType = ''dpop_proof_wrong_typ''"
| "reason_code ReasonDPoPProofAlg = ''dpop_proof_alg_not_allowed''"
| "reason_code ReasonDPoPProofJWK = ''dpop_proof_jwk_invalid''"
| "reason_code ReasonDPoPProofSignature = ''dpop_proof_signature_invalid''"
| "reason_code ReasonDPoPJktMismatch = ''dpop_jkt_mismatch''"
| "reason_code ReasonDPoPAthMissing = ''dpop_ath_missing''"
| "reason_code ReasonDPoPAthMismatch = ''dpop_ath_mismatch''"
| "reason_code ReasonDPoPHtmMismatch = ''dpop_htm_mismatch''"
| "reason_code ReasonDPoPHtuMismatch = ''dpop_htu_mismatch''"
| "reason_code ReasonDPoPIatOutOfWindow = ''dpop_iat_out_of_window''"
| "reason_code ReasonDPoPJtiMissing = ''dpop_jti_missing''"
| "reason_code ReasonDPoPReplayed = ''dpop_proof_replayed''"
| "reason_code ReasonDPoPReplayCacheFull = ''dpop_replay_cache_full''"

record rejection =
  rj_status :: nat
  rj_code :: string
  rj_dpop :: bool

definition reject :: "reason \<Rightarrow> rejection" where
  "reject r =
     \<lparr>rj_status = (if r = ReasonInsufficientScope then 403 else 401),
      rj_code = reason_code r,
      rj_dpop = has_prefix (reason_code r) ''dpop_''\<rparr>"

text \<open>The OAuth error of the response, computed from the code as \<open>writeRejection\<close> does.\<close>

definition oauth_error :: "string \<Rightarrow> string" where
  "oauth_error code =
     (if code = ''insufficient_scope'' then ''insufficient_scope''
      else if has_prefix code ''dpop_proof'' \<or> code = reason_code ReasonDPoPJktMismatch
              \<or> has_prefix code ''dpop_ath'' \<or> code = reason_code ReasonDPoPHtmMismatch
              \<or> code = reason_code ReasonDPoPHtuMismatch \<or> code = reason_code ReasonDPoPIatOutOfWindow
              \<or> code = reason_code ReasonDPoPJtiMissing
      then ''invalid_dpop_proof''
      else ''invalid_token'')"

record response =
  rs_status :: nat
  rs_challenge :: "string \<times> string \<times> string" \<comment> \<open>scheme, error, description\<close>
  rs_body :: "string \<times> string" \<comment> \<open>error, reason code\<close>

definition writeRejection :: "rejection \<Rightarrow> response" where
  "writeRejection r =
     (let e = oauth_error (rj_code r)
      in \<lparr>rs_status = rj_status r,
          rs_challenge = ((if rj_dpop r then ''DPoP'' else ''Bearer''), e, rj_code r),
          rs_body = (e, rj_code r)\<rparr>)"

definition all_reasons :: "reason list" where
  "all_reasons =
     [ReasonAuthorizationMissing, ReasonAuthorizationMalformed, ReasonSchemeUnsupported,
      ReasonTokenMalformed, ReasonTokenKeyUnavailable, ReasonTokenSignatureInvalid,
      ReasonTokenExpired, ReasonTokenNotYetValid, ReasonTokenIssuerMismatch,
      ReasonTokenAudienceMismatch, ReasonTokenInactive, ReasonIntrospectionFailed,
      ReasonInsufficientScope, ReasonCnfMissing, ReasonCnfMalformed, ReasonCnfUnrecognized,
      ReasonClientCertMissing, ReasonClientCertExpired, ReasonClientCertInvalid,
      ReasonX5tMismatch, ReasonCertBoundWrongScheme, ReasonDPoPAsBearer, ReasonDPoPProofMissing,
      ReasonDPoPProofMultiple, ReasonDPoPProofMalformed, ReasonDPoPProofType, ReasonDPoPProofAlg,
      ReasonDPoPProofJWK, ReasonDPoPProofSignature, ReasonDPoPJktMismatch, ReasonDPoPAthMissing,
      ReasonDPoPAthMismatch, ReasonDPoPHtmMismatch, ReasonDPoPHtuMismatch,
      ReasonDPoPIatOutOfWindow, ReasonDPoPJtiMissing, ReasonDPoPReplayed,
      ReasonDPoPReplayCacheFull]"

lemma all_reasons: "r \<in> set all_reasons"
  by (cases r) (simp_all add: all_reasons_def)

lemma distinct_reason_codes: "distinct (map reason_code all_reasons)"
  by (simp add: all_reasons_def)

text \<open>A code identifies its reason.\<close>

lemma reason_code_inj: "reason_code r = reason_code r' \<longleftrightarrow> r = r'"
proof
  assume "reason_code r = reason_code r'"
  moreover have "inj_on reason_code (set all_reasons)"
    using distinct_reason_codes by (simp add: distinct_map)
  ultimately show "r = r'" using all_reasons by (auto dest: inj_onD)
qed simp

lemma reject_inj [simp]: "reject r = reject r' \<longleftrightarrow> r = r'"
  using reason_code_inj by (auto simp: reject_def)

lemma reject_status: "rj_status (reject r) = 403 \<longleftrightarrow> r = ReasonInsufficientScope"
  by (simp add: reject_def)

end
