(* ===== verification/Env.thy ===== *)
theory Env
  imports Ext "HOL-Library.State_Monad"
begin

text \<open>
  \<open>internal/config/env.go\<close>: configuration from environment variables, collecting every
  problem.  A reader is a state transformer of the errors collected so far; the environment is
  a function \<open>g\<close> from variable names to values.  Each component's \<open>ConfigFromEnv\<close> is a sequence
  of readers.
\<close>

datatype env_error = Env_required string | Env_bad_value string | Env_failed string

type_synonym 'a env_reader = "(env_error list, 'a) state"

definition env_lookup :: "(string \<Rightarrow> string option) \<Rightarrow> string \<Rightarrow> string option" where
  "env_lookup g key =
     (case g key of None \<Rightarrow> None | Some v0 \<Rightarrow> (let v = trim_space v0 in if v = [] then None else Some v))"

definition env_err :: "env_error \<Rightarrow> 'a \<Rightarrow> 'a env_reader" where
  "env_err e a = State (\<lambda>errs. (a, errs @ [e]))"

definition env_str :: "(string \<Rightarrow> string option) \<Rightarrow> string \<Rightarrow> string \<Rightarrow> string env_reader" where
  "env_str g key d = State_Monad.return (case env_lookup g key of Some v \<Rightarrow> v | None \<Rightarrow> d)"

definition env_req :: "(string \<Rightarrow> string option) \<Rightarrow> string \<Rightarrow> string env_reader" where
  "env_req g key =
     (case env_lookup g key of Some v \<Rightarrow> State_Monad.return v | None \<Rightarrow> env_err (Env_required key) [])"

text \<open>The common shape of \<open>Dur\<close>, \<open>Int\<close> and \<open>Bool\<close>: unset gives the default, a value that does not
  parse is an error and gives the default.\<close>

definition env_parsed ::
  "(string \<Rightarrow> 'a option) \<Rightarrow> (string \<Rightarrow> string option) \<Rightarrow> string \<Rightarrow> 'a \<Rightarrow> 'a env_reader" where
  "env_parsed parse g key d =
     (case env_lookup g key of
        None \<Rightarrow> State_Monad.return d
      | Some v \<Rightarrow>
          (case parse v of
             None \<Rightarrow> env_err (Env_bad_value key) d
           | Some x \<Rightarrow> State_Monad.return x))"

definition env_dur :: "'k ext \<Rightarrow> (string \<Rightarrow> string option) \<Rightarrow> string \<Rightarrow> duration \<Rightarrow> duration env_reader" where
  "env_dur E = env_parsed (parse_duration E)"

definition env_int :: "(string \<Rightarrow> string option) \<Rightarrow> string \<Rightarrow> int \<Rightarrow> int env_reader" where
  "env_int = env_parsed parse_int64"

definition parse_bool :: "string \<Rightarrow> bool option" where
  "parse_bool s =
     (if s \<in> {''1'', ''t'', ''T'', ''true'', ''TRUE'', ''True''} then Some True
      else if s \<in> {''0'', ''f'', ''F'', ''false'', ''FALSE'', ''False''} then Some False
      else None)"

definition env_bool :: "(string \<Rightarrow> string option) \<Rightarrow> string \<Rightarrow> bool \<Rightarrow> bool env_reader" where
  "env_bool = env_parsed parse_bool"

definition list_items :: "string \<Rightarrow> string list" where
  "list_items v = filter (\<lambda>item. item \<noteq> []) (map trim_space (split_on CHR '','' v))"

definition env_list :: "(string \<Rightarrow> string option) \<Rightarrow> string \<Rightarrow> string list \<Rightarrow> string list env_reader" where
  "env_list g key d =
     State_Monad.return (case env_lookup g key of None \<Rightarrow> d | Some v \<Rightarrow> list_items v)"

definition env_fail_if :: "bool \<Rightarrow> string \<Rightarrow> unit env_reader" where
  "env_fail_if c msg = (if c then env_err (Env_failed msg) () else State_Monad.return ())"

text \<open>\<open>return c, e.Err()\<close>: a caller goes on only without errors.\<close>

definition env_result :: "'a env_reader \<Rightarrow> env_error list + 'a" where
  "env_result r = (case run_state r [] of (c, errs) \<Rightarrow> if errs = [] then Inr c else Inl errs)"


section \<open>Facts\<close>

text \<open>A reader that succeeds from no errors had none to report.\<close>

definition env_quiet :: "'a env_reader \<Rightarrow> 'a \<Rightarrow> bool" where
  "env_quiet r a \<longleftrightarrow> run_state r [] = (a, [])"

definition env_grows :: "'a env_reader \<Rightarrow> bool" where
  "env_grows r \<longleftrightarrow> (\<forall>s. \<exists>new. snd (run_state r s) = s @ new)"

lemma env_result_Inr: "env_result r = Inr c \<longleftrightarrow> env_quiet r c"
  by (auto simp: env_result_def env_quiet_def split: prod.splits)

lemma env_quiet_return [simp]: "env_quiet (State_Monad.return a) b \<longleftrightarrow> a = b"
  by (simp add: env_quiet_def State_Monad.return_def)

lemma env_quiet_err [simp]: "\<not> env_quiet (env_err e a) b"
  by (simp add: env_quiet_def env_err_def)

lemma env_grows_return [simp, intro]: "env_grows (State_Monad.return a)"
  by (simp add: env_grows_def State_Monad.return_def)

lemma env_grows_err [simp, intro]: "env_grows (env_err e a)"
  by (simp add: env_grows_def env_err_def)

lemma env_grows_bind [intro]: "\<lbrakk>env_grows r; \<And>a. env_grows (f a)\<rbrakk> \<Longrightarrow> env_grows (State_Monad.bind r f)"
  by (auto simp: env_grows_def State_Monad.bind_def split: prod.splits)
    (metis append.assoc prod.collapse snd_conv)

lemma env_quiet_bind:
  assumes "\<And>a. env_grows (f a)"
  shows "env_quiet (State_Monad.bind r f) c \<longleftrightarrow> (\<exists>a. env_quiet r a \<and> env_quiet (f a) c)"
proof -
  obtain a s where r: "run_state r [] = (a, s)" by (cases "run_state r []")
  have "run_state (f a) s = (c, []) \<Longrightarrow> s = []"
    using assms [of a] by (auto simp: env_grows_def dest!: spec [of _ s])
  then show ?thesis by (auto simp: env_quiet_def State_Monad.bind_def r)
qed

lemma env_grows_readers [simp, intro]:
  "env_grows (env_str g k d)" "env_grows (env_req g k)" "env_grows (env_parsed p g k x)"
  "env_grows (env_list g k l)" "env_grows (env_fail_if b m)"
  by (auto simp: env_str_def env_req_def env_parsed_def env_list_def env_fail_if_def split: option.split)

lemma env_grows_typed [simp, intro]:
  "env_grows (env_dur E g k d)" "env_grows (env_int g k i)" "env_grows (env_bool g k b)"
  by (auto simp: env_dur_def env_int_def env_bool_def)

lemma env_lookup_nonempty: "env_lookup g k = Some v \<Longrightarrow> v \<noteq> []"
  by (auto simp: env_lookup_def Let_def split: option.splits if_splits)

lemma env_quiet_str [simp]:
  "env_quiet (env_str g k d) v \<longleftrightarrow> v = (case env_lookup g k of Some w \<Rightarrow> w | None \<Rightarrow> d)"
  by (auto simp: env_str_def)

lemma env_quiet_req [simp]: "env_quiet (env_req g k) v \<longleftrightarrow> env_lookup g k = Some v"
  by (auto simp: env_req_def split: option.split)

lemma env_quiet_parsed:
  "env_quiet (env_parsed p g k d) x \<longleftrightarrow>
     (case env_lookup g k of None \<Rightarrow> x = d | Some v \<Rightarrow> p v = Some x)"
  by (auto simp: env_parsed_def split: option.split)

lemma env_quiet_typed [simp]:
  "env_quiet (env_dur E g k t) x \<longleftrightarrow> (case env_lookup g k of None \<Rightarrow> x = t | Some v \<Rightarrow> parse_duration E v = Some x)"
  "env_quiet (env_int g k i) n \<longleftrightarrow> (case env_lookup g k of None \<Rightarrow> n = i | Some v \<Rightarrow> parse_int64 v = Some n)"
  "env_quiet (env_bool g k b) c \<longleftrightarrow> (case env_lookup g k of None \<Rightarrow> c = b | Some v \<Rightarrow> parse_bool v = Some c)"
  by (simp_all add: env_dur_def env_int_def env_bool_def env_quiet_parsed)

lemma env_quiet_list [simp]:
  "env_quiet (env_list g k d) l \<longleftrightarrow> l = (case env_lookup g k of None \<Rightarrow> d | Some v \<Rightarrow> list_items v)"
  by (auto simp: env_list_def)

lemma env_quiet_fail_if [simp]: "env_quiet (env_fail_if b m) u \<longleftrightarrow> \<not> b"
  by (simp add: env_fail_if_def)

lemma env_fail_bind:
  "(do { _ \<leftarrow> env_fail_if b m; r }) = State_Monad.bind (env_fail_if b m) (\<lambda>_. r)"
  by simp

end
