(* ===== verification/Validator.thy ===== *)
theory Validator
  imports Jwks Replay Pki Netx Reasons Env
begin

text \<open>
  \<open>xapp-resource/validator.go\<close>, with \<open>config.go\<close> and \<open>introspect.go\<close>: the resource-side
  enforcement point.  A call of \<open>Authorize\<close> reads the clock, may fetch the JWKS and may call
  the introspection endpoint; those readings and answers are its \<open>auth_io\<close>.  It returns the
  principal or the first rejection, and the validator with its key cache and replay cache
  updated.
\<close>

datatype mode = ModeLocal | ModeIntrospection | Mode_other string

record vconfig =
  vc_issuer :: string
  vc_audience :: string
  vc_jwks_url :: string
  vc_required_scope :: string
  vc_required_role :: string
  vc_trust_bundle :: "string list"
  vc_skew :: duration
  vc_window :: duration
  vc_replay_size :: int
  vc_algs :: "string list"
  vc_public_base_url :: string
  vc_channel_mode :: mode
  vc_introspection_url :: string
  vc_introspection_client_id :: string
  vc_jwks_ttl :: duration
  vc_jwks_min_refresh :: duration

definition Mode :: "string \<Rightarrow> mode" where
  "Mode s = (if s = ''local'' then ModeLocal else if s = ''introspection'' then ModeIntrospection
             else Mode_other s)"

definition ConfigFromEnv :: "'k ext \<Rightarrow> (string \<Rightarrow> string option) \<Rightarrow> env_error list + vconfig" where
  "ConfigFromEnv E g = env_result (do {
     issuer \<leftarrow> env_req g ''TOKEN_ISSUER'';
     audience \<leftarrow> env_req g ''TOKEN_AUDIENCE'';
     jwks \<leftarrow> env_req g ''JWKS_URL'';
     scope \<leftarrow> env_str g ''REQUIRED_SCOPE'' [];
     role \<leftarrow> env_str g ''REQUIRED_ROLE'' [];
     bundle \<leftarrow> env_list g ''RIC_TRUST_BUNDLE'' [];
     skew \<leftarrow> env_dur E g ''CLOCK_SKEW'' (30 * second);
     window \<leftarrow> env_dur E g ''DPOP_PROOF_WINDOW'' (60 * second);
     size \<leftarrow> env_int g ''DPOP_REPLAY_CACHE_SIZE'' 1000000;
     algs \<leftarrow> env_list g ''DPOP_ALLOWED_ALGS'' [];
     base \<leftarrow> env_str g ''PUBLIC_BASE_URL'' [];
     mode \<leftarrow> env_str g ''CHANNEL_VALIDATION_MODE'' ''local'';
     iurl \<leftarrow> env_str g ''INTROSPECTION_URL'' [];
     iclient \<leftarrow> env_str g ''XAPP_CLIENT_ID'' [];
     ttl \<leftarrow> env_dur E g ''JWKS_CACHE_TTL'' (300 * second);
     refresh \<leftarrow> env_dur E g ''JWKS_MIN_REFRESH'' (10 * second);
     env_fail_if (bundle = []) ''RIC_TRUST_BUNDLE is required'';
     State_Monad.return
       \<lparr>vc_issuer = issuer, vc_audience = audience, vc_jwks_url = jwks, vc_required_scope = scope,
        vc_required_role = role, vc_trust_bundle = bundle, vc_skew = skew, vc_window = window,
        vc_replay_size = size, vc_algs = algs, vc_public_base_url = base, vc_channel_mode = Mode mode,
        vc_introspection_url = iurl, vc_introspection_client_id = iclient, vc_jwks_ttl = ttl,
        vc_jwks_min_refresh = refresh\<rparr>
   })"

record 'k validator =
  v_cfg :: vconfig
  v_keys :: "'k keyset"
  v_roots :: "cert list"
  v_replay :: replay_cache
  v_introspect :: bool

text \<open>\<open>pool\<close> is the outcome of loading the trust bundle files.\<close>

definition NewValidator :: "vconfig \<Rightarrow> cert list option \<Rightarrow> 'k validator option" where
  "NewValidator cfg pool =
     (case pool of
        None \<Rightarrow> None
      | Some roots \<Rightarrow>
          Some \<lparr>v_cfg = cfg,
                v_keys = NewKeySet (vc_jwks_url cfg) (vc_jwks_ttl cfg) (vc_jwks_min_refresh cfg),
                v_roots = roots,
                v_replay = NewReplayCache (vc_replay_size cfg),
                v_introspect = (vc_introspection_url cfg \<noteq> [])\<rparr>)"

text \<open>
  An incoming request.  Header names are in canonical form; \<open>rq_tls\<close> is \<open>None\<close> off TLS and
  otherwise the peer certificates, leaf first.
\<close>

record request =
  rq_method :: string
  rq_host :: string
  rq_path :: string
  rq_tls :: "cert list option"
  rq_headers :: "(string \<times> string) list"

definition header_values :: "request \<Rightarrow> string \<Rightarrow> string list" where
  "header_values r name = map snd (filter (\<lambda>h. fst h = name) (rq_headers r))"

record auth_io =
  ai_jwks :: jwks_io
  ai_introspect :: http_result
  ai_now_token :: time \<comment> \<open>the clock in \<open>validateLocally\<close>\<close>
  ai_now_cert :: time \<comment> \<open>the clock in \<open>checkCertificateBinding\<close>\<close>
  ai_now_dpop :: time \<comment> \<open>the clock in \<open>checkDPoPBinding\<close>\<close>

record principal =
  p_client_id :: string
  p_subject :: string
  p_scopes :: "string list"
  p_binding :: string
  p_thumbprint :: string
  p_mode :: mode
  p_claims :: jobj


section \<open>Reading the request and the claims\<close>

definition parseAuthorization :: "request \<Rightarrow> reason + string \<times> string" where
  "parseAuthorization r =
     (case header_values r ''Authorization'' of
        [] \<Rightarrow> Inl ReasonAuthorizationMissing
      | [v] \<Rightarrow>
          (case cut CHR '' '' (trim_space v) of
             None \<Rightarrow> Inl ReasonAuthorizationMalformed
           | Some (s, t0) \<Rightarrow>
               let t = trim_space t0
               in if t = [] then Inl ReasonAuthorizationMalformed
                  else if to_lower s = ''bearer'' then Inr (''bearer'', t)
                  else if to_lower s = ''dpop'' then Inr (''dpop'', t)
                  else Inl ReasonSchemeUnsupported)
      | _ \<Rightarrow> Inl ReasonAuthorizationMalformed)"

text \<open>\<open>numericClaim\<close>: absent, numeric, or an error.\<close>

datatype claim_num = Claim_absent | Claim_bad | Claim_num int

definition numericClaim :: "'k ext \<Rightarrow> jobj \<Rightarrow> string \<Rightarrow> claim_num" where
  "numericClaim E claims name =
     (case map_of claims name of
        None \<Rightarrow> Claim_absent
      | Some (VNum s) \<Rightarrow>
          (case parse_int64 s of
             Some i \<Rightarrow> Claim_num i
           | None \<Rightarrow> (case num_float64 E s of Some f \<Rightarrow> Claim_num f | None \<Rightarrow> Claim_bad))
      | Some (VFloat f) \<Rightarrow> Claim_num f
      | Some _ \<Rightarrow> Claim_bad)"

fun firstString :: "jobj \<Rightarrow> string list \<Rightarrow> string" where
  "firstString claims [] = []"
| "firstString claims (n # ns) =
     (let s = get_str claims n in if s \<noteq> [] then s else firstString claims ns)"

text \<open>\<open>cnfString\<close>: absent, a non-empty string, or a malformed member.\<close>

definition cnfString :: "jobj \<Rightarrow> string \<Rightarrow> reason + string option" where
  "cnfString cnf name =
     (case map_of cnf name of
        None \<Rightarrow> Inr None
      | Some (VStr s) \<Rightarrow> if s = [] then Inl ReasonCnfMalformed else Inr (Some s)
      | Some _ \<Rightarrow> Inl ReasonCnfMalformed)"


section \<open>Token validity\<close>

definition checkIssuerAudience :: "vconfig \<Rightarrow> jobj \<Rightarrow> reason option" where
  "checkIssuerAudience cfg claims =
     (if get_str claims ''iss'' \<noteq> vc_issuer cfg then Some ReasonTokenIssuerMismatch
      else
        case map_of claims ''aud'' of
          Some (VStr aud) \<Rightarrow>
            if aud = vc_audience cfg then None else Some ReasonTokenAudienceMismatch
        | Some (VArr auds) \<Rightarrow>
            if list_ex (\<lambda>a. (case a of VStr s \<Rightarrow> s | _ \<Rightarrow> []) = vc_audience cfg) auds then None
            else Some ReasonTokenAudienceMismatch
        | _ \<Rightarrow> Some ReasonTokenAudienceMismatch)"

definition check_times :: "'k ext \<Rightarrow> vconfig \<Rightarrow> time \<Rightarrow> jobj \<Rightarrow> reason option" where
  "check_times E cfg now claims =
     (case numericClaim E claims ''exp'' of
        Claim_num exp \<Rightarrow>
          if time_add (unix_time exp) (vc_skew cfg) < now then Some ReasonTokenExpired
          else (case numericClaim E claims ''nbf'' of
                  Claim_bad \<Rightarrow> Some ReasonTokenMalformed
                | Claim_absent \<Rightarrow> None
                | Claim_num nbf \<Rightarrow>
                    if time_add now (vc_skew cfg) < unix_time nbf then Some ReasonTokenNotYetValid
                    else None)
      | _ \<Rightarrow> Some ReasonTokenMalformed)"

definition validateLocally ::
  "'k ext \<Rightarrow> 'k validator \<Rightarrow> auth_io \<Rightarrow> string \<Rightarrow> (reason + jobj) \<times> 'k keyset" where
  "validateLocally E v io token =
     (case ParseCompact E token of
        Inl _ \<Rightarrow> (Inl ReasonTokenMalformed, v_keys v)
      | Inr j \<Rightarrow>
          (case ks_key E (v_keys v) (ai_jwks io) (jws_kid j) (jws_alg j) of
             (Inl _, ks) \<Rightarrow> (Inl ReasonTokenKeyUnavailable, ks)
           | (Inr key, ks) \<Rightarrow>
               (case VerifySignature E j (Jwk_key key) of
                  Inl _ \<Rightarrow> (Inl ReasonTokenSignatureInvalid, ks)
                | Inr _ \<Rightarrow>
                    (case jws_claims E j of
                       None \<Rightarrow> (Inl ReasonTokenMalformed, ks)
                     | Some claims \<Rightarrow>
                         (case check_times E (v_cfg v) (ai_now_token io) claims of
                            Some rej \<Rightarrow> (Inl rej, ks)
                          | None \<Rightarrow>
                              (case checkIssuerAudience (v_cfg v) claims of
                                 Some rej \<Rightarrow> (Inl rej, ks)
                               | None \<Rightarrow> (Inr claims, ks)))))))"

text \<open>\<open>Introspector.Introspect\<close>: the claims of a token the authorization server reports active.\<close>

definition Introspect :: "'k ext \<Rightarrow> string \<Rightarrow> http_result \<Rightarrow> reason + jobj" where
  "Introspect E url answer =
     (if url_parse E url = None then Inl ReasonIntrospectionFailed
      else case answer of
             Http_error \<Rightarrow> Inl ReasonIntrospectionFailed
           | Http_unreadable _ \<Rightarrow> Inl ReasonIntrospectionFailed
           | Http_response st body \<Rightarrow>
               if st \<noteq> 200 then Inl ReasonIntrospectionFailed
               else (case decodeObject E (limit_read 1048576 body) of
                       None \<Rightarrow> Inl ReasonIntrospectionFailed
                     | Some claims \<Rightarrow>
                         if map_of claims ''active'' \<noteq> Some (VBool True) then Inl ReasonTokenInactive
                         else Inr claims))"

definition checkAuthorization :: "vconfig \<Rightarrow> jobj \<Rightarrow> reason option" where
  "checkAuthorization cfg claims =
     (if vc_required_scope cfg \<noteq> []
         \<and> vc_required_scope cfg \<notin> set (str_fields (get_str claims ''scope'')) then Some ReasonInsufficientScope
      else if vc_required_role cfg \<noteq> []
         \<and> \<not> list_ex (\<lambda>r. (case r of VStr s \<Rightarrow> s | _ \<Rightarrow> []) = vc_required_role cfg)
               (case map_of claims ''realm_access'' of
                  Some (VObj ra) \<Rightarrow> (case map_of ra ''roles'' of Some (VArr rs) \<Rightarrow> rs | _ \<Rightarrow> [])
                | _ \<Rightarrow> [])
      then Some ReasonInsufficientScope
      else None)"


section \<open>The certificate binding\<close>

definition checkCertificateBinding ::
  "'k ext \<Rightarrow> cert list \<Rightarrow> time \<Rightarrow> request \<Rightarrow> string \<Rightarrow> string \<Rightarrow> bool \<Rightarrow> reason option" where
  "checkCertificateBinding E roots now r scheme x5t alsoDPoP =
     (if scheme \<noteq> ''bearer'' \<and> \<not> alsoDPoP then Some ReasonCertBoundWrongScheme
      else case rq_tls r of
             None \<Rightarrow> Some ReasonClientCertMissing
           | Some [] \<Rightarrow> Some ReasonClientCertMissing
           | Some (leaf # rest) \<Rightarrow>
               (case VerifyChain E (leaf # rest) roots now ClientAuth of
                  Inl ChainExpired \<Rightarrow> Some ReasonClientCertExpired
                | Inl _ \<Rightarrow> Some ReasonClientCertInvalid
                | Inr _ \<Rightarrow>
                    if \<not> ct_equal (ThumbprintS256 E leaf) x5t then Some ReasonX5tMismatch
                    else None))"


section \<open>The DPoP binding\<close>

text \<open>
  The acceptance window of a proof and the instant until which its identifier is remembered.
  The pq-shim uses the same expressions over its own configuration.
\<close>

definition iat_out_of_window :: "duration \<Rightarrow> duration \<Rightarrow> time \<Rightarrow> time \<Rightarrow> bool" where
  "iat_out_of_window window skew iat now \<longleftrightarrow>
     iat < time_add now (wrap64 (- window - skew)) \<or> time_add now skew < iat"

definition proof_expiry :: "duration \<Rightarrow> duration \<Rightarrow> time \<Rightarrow> time" where
  "proof_expiry window skew iat = time_add iat (wrap64 (window + 2 * skew))"

definition requestHTU :: "'k ext \<Rightarrow> vconfig \<Rightarrow> request \<Rightarrow> string option" where
  "requestHTU E cfg r =
     (if vc_public_base_url cfg \<noteq> []
      then NormalizeHTU E (trim_right CHR ''/'' (vc_public_base_url cfg) @ rq_path r)
      else NormalizeHTU E ((if rq_tls r = None then ''http'' else ''https'') @ ''://'' @ rq_host r @ rq_path r))"

text \<open>The hash of the access token a proof must carry in \<open>ath\<close>.\<close>

definition token_hash :: "'k ext \<Rightarrow> string \<Rightarrow> string" where
  "token_hash E token = B64 (sha256 E (bytes_of token))"

text \<open>Steps (a) and (b): the proof, verified with its own key, whose thumbprint is \<open>cnf.jkt\<close>.\<close>

definition check_proof_key ::
  "'k ext \<Rightarrow> vconfig \<Rightarrow> request \<Rightarrow> string \<Rightarrow> reason + jws" where
  "check_proof_key E cfg r jkt =
     (case header_values r ''DPoP'' of
        [] \<Rightarrow> Inl ReasonDPoPProofMissing
      | [h] \<Rightarrow>
          (case ParseCompact E h of
             Inl _ \<Rightarrow> Inl ReasonDPoPProofMalformed
           | Inr j \<Rightarrow>
               if jws_typ j \<noteq> ''dpop+jwt'' then Inl ReasonDPoPProofType
               else if vc_algs cfg \<noteq> [] \<and> jws_alg j \<notin> set (vc_algs cfg) then Inl ReasonDPoPProofAlg
               else case map_of (j_header j) ''jwk'' of
                      Some (VObj jwk) \<Rightarrow>
                        (case jwk_PublicKey E jwk of
                           None \<Rightarrow> Inl ReasonDPoPProofJWK
                         | Some pub \<Rightarrow>
                             (case VerifySignature E j (Jwk_key pub) of
                                Inl _ \<Rightarrow> Inl ReasonDPoPProofSignature
                              | Inr _ \<Rightarrow>
                                  (case jwk_Thumbprint E jwk of
                                     None \<Rightarrow> Inl ReasonDPoPProofJWK
                                   | Some thumb \<Rightarrow>
                                       if \<not> ct_equal thumb jkt then Inl ReasonDPoPJktMismatch
                                       else Inr j)))
                    | _ \<Rightarrow> Inl ReasonDPoPProofJWK)
      | _ \<Rightarrow> Inl ReasonDPoPProofMultiple)"

text \<open>Steps (c) to (e) before the replay check; the value is the \<open>iat\<close> and the \<open>jti\<close>.\<close>

definition check_proof_claims ::
  "'k ext \<Rightarrow> vconfig \<Rightarrow> time \<Rightarrow> request \<Rightarrow> string \<Rightarrow> jws \<Rightarrow> reason + int \<times> string" where
  "check_proof_claims E cfg now r token j =
     (case jws_claims E j of
        None \<Rightarrow> Inl ReasonDPoPProofMalformed
      | Some claims \<Rightarrow>
          let ath = get_str claims ''ath'';
              got = NormalizeHTU E (get_str claims ''htu'');
              want = requestHTU E cfg r;
              jti = get_str claims ''jti''
          in if ath = [] then Inl ReasonDPoPAthMissing
             else if \<not> ct_equal ath (token_hash E token) then Inl ReasonDPoPAthMismatch
             else if get_str claims ''htm'' \<noteq> rq_method r then Inl ReasonDPoPHtmMismatch
             else if got = None \<or> want = None \<or> got \<noteq> want then Inl ReasonDPoPHtuMismatch
             else if jti = [] then Inl ReasonDPoPJtiMissing
             else case numericClaim E claims ''iat'' of
                    Claim_num iat \<Rightarrow>
                      if iat_out_of_window (vc_window cfg) (vc_skew cfg) (unix_time iat) now
                      then Inl ReasonDPoPIatOutOfWindow
                      else Inr (iat, jti)
                  | _ \<Rightarrow> Inl ReasonDPoPProofMalformed)"

text \<open>The identifier under which a proof is remembered.\<close>

definition replay_key :: "string \<Rightarrow> string \<Rightarrow> string" where
  "replay_key jkt jti = jkt @ '':'' @ jti"

definition checkDPoPBinding ::
  "'k ext \<Rightarrow> vconfig \<Rightarrow> replay_cache \<Rightarrow> time \<Rightarrow> request \<Rightarrow> string \<Rightarrow> string \<Rightarrow> string \<Rightarrow>
     reason option \<times> replay_cache" where
  "checkDPoPBinding E cfg rc now r scheme token jkt =
     (if scheme \<noteq> ''dpop'' then (Some ReasonDPoPAsBearer, rc)
      else case check_proof_key E cfg r jkt of
             Inl rej \<Rightarrow> (Some rej, rc)
           | Inr j \<Rightarrow>
               (case check_proof_claims E cfg now r token j of
                  Inl rej \<Rightarrow> (Some rej, rc)
                | Inr (iat, jti) \<Rightarrow>
                    (case CheckAndStore rc (replay_key jkt jti)
                            (proof_expiry (vc_window cfg) (vc_skew cfg) (unix_time iat)) now of
                       (ReplaySeen, rc') \<Rightarrow> (Some ReasonDPoPReplayed, rc')
                     | (ReplayFull, rc') \<Rightarrow> (Some ReasonDPoPReplayCacheFull, rc')
                     | (ReplayFresh, rc') \<Rightarrow> (None, rc'))))"

end
