(* ===== verification/Authorize.thy ===== *)
theory Authorize
  imports Validator
begin

text \<open>
  \<open>Validator.Authorize\<close> and \<open>Middleware\<close> of \<open>xapp-resource/validator.go\<close>: the order of the
  checks, the principal, the effect on the caches, and what an accepted request has proved.
\<close>

definition token_claims ::
  "'k ext \<Rightarrow> 'k validator \<Rightarrow> auth_io \<Rightarrow> mode \<Rightarrow> string \<Rightarrow> (reason + jobj) \<times> 'k keyset" where
  "token_claims E v io mode token =
     (case mode of
        ModeLocal \<Rightarrow> validateLocally E v io token
      | ModeIntrospection \<Rightarrow>
          if \<not> v_introspect v then (Inl ReasonIntrospectionFailed, v_keys v)
          else (case Introspect E (vc_introspection_url (v_cfg v)) (ai_introspect io) of
                  Inl rej \<Rightarrow> (Inl rej, v_keys v)
                | Inr claims \<Rightarrow>
                    (case checkIssuerAudience (v_cfg v) claims of
                       Some rej \<Rightarrow> (Inl rej, v_keys v)
                     | None \<Rightarrow> (Inr claims, v_keys v)))
      | Mode_other _ \<Rightarrow> (Inl ReasonIntrospectionFailed, v_keys v))"

text \<open>The confirmation methods of a token: the \<open>x5t#S256\<close> and \<open>jkt\<close> members of \<open>cnf\<close>.\<close>

definition confirmation :: "jobj \<Rightarrow> reason + string option \<times> string option" where
  "confirmation claims =
     (case map_of claims ''cnf'' of
        None \<Rightarrow> Inl ReasonCnfMissing
      | Some (VObj cnf) \<Rightarrow>
          (case cnfString cnf ''x5t#S256'' of
             Inl rej \<Rightarrow> Inl rej
           | Inr x5t \<Rightarrow>
               (case cnfString cnf ''jkt'' of
                  Inl rej \<Rightarrow> Inl rej
                | Inr jkt \<Rightarrow>
                    if x5t = None \<and> jkt = None then Inl ReasonCnfUnrecognized else Inr (x5t, jkt)))
      | Some _ \<Rightarrow> Inl ReasonCnfMalformed)"

definition base_principal :: "mode \<Rightarrow> jobj \<Rightarrow> principal" where
  "base_principal mode claims =
     \<lparr>p_client_id = firstString claims [''client_id'', ''azp''],
      p_subject = get_str claims ''sub'',
      p_scopes = str_fields (get_str claims ''scope''),
      p_binding = [], p_thumbprint = [], p_mode = mode, p_claims = claims\<rparr>"

text \<open>Step 3 of \<open>Authorize\<close>: each confirmation method the token names is enforced.\<close>

definition check_binding ::
  "'k ext \<Rightarrow> 'k validator \<Rightarrow> auth_io \<Rightarrow> request \<Rightarrow> string \<Rightarrow> string \<Rightarrow> string option \<times> string option
     \<Rightarrow> principal \<Rightarrow> (reason + principal) \<times> replay_cache" where
  "check_binding E v io r scheme token methods p =
     (case methods of (x5t, jkt) \<Rightarrow>
        (case (case x5t of
                 None \<Rightarrow> Inr p
               | Some x \<Rightarrow>
                   (case checkCertificateBinding E (v_roots v) (ai_now_cert io) r scheme x (jkt \<noteq> None) of
                      Some rej \<Rightarrow> Inl rej
                    | None \<Rightarrow> Inr (p\<lparr>p_binding := ''x5t#S256'', p_thumbprint := x\<rparr>))) of
           Inl rej \<Rightarrow> (Inl rej, v_replay v)
         | Inr p' \<Rightarrow>
             (case jkt of
                None \<Rightarrow> (Inr p', v_replay v)
              | Some k \<Rightarrow>
                  (case checkDPoPBinding E (v_cfg v) (v_replay v) (ai_now_dpop io) r scheme token k of
                     (Some rej, rc) \<Rightarrow> (Inl rej, rc)
                   | (None, rc) \<Rightarrow> (Inr (p'\<lparr>p_binding := ''jkt'', p_thumbprint := k\<rparr>), rc)))))"

definition Authorize ::
  "'k ext \<Rightarrow> 'k validator \<Rightarrow> auth_io \<Rightarrow> mode \<Rightarrow> request \<Rightarrow> (reason + principal) \<times> 'k validator" where
  "Authorize E v io mode r =
     (case parseAuthorization r of
        Inl rej \<Rightarrow> (Inl rej, v)
      | Inr (scheme, token) \<Rightarrow>
          (case token_claims E v io mode token of
             (Inl rej, ks) \<Rightarrow> (Inl rej, v\<lparr>v_keys := ks\<rparr>)
           | (Inr claims, ks) \<Rightarrow>
               (case checkAuthorization (v_cfg v) claims of
                  Some rej \<Rightarrow> (Inl rej, v\<lparr>v_keys := ks\<rparr>)
                | None \<Rightarrow>
                    (case confirmation claims of
                       Inl rej \<Rightarrow> (Inl rej, v\<lparr>v_keys := ks\<rparr>)
                     | Inr methods \<Rightarrow>
                         (case check_binding E v io r scheme token methods (base_principal mode claims) of
                            (res, rc) \<Rightarrow> (res, v\<lparr>v_keys := ks, v_replay := rc\<rparr>))))))"

text \<open>The middleware answers a rejection and calls the handler with the principal otherwise.\<close>

datatype served = Answered response | Served principal

definition Middleware ::
  "'k ext \<Rightarrow> 'k validator \<Rightarrow> auth_io \<Rightarrow> mode \<Rightarrow> request \<Rightarrow> served \<times> 'k validator" where
  "Middleware E v io mode r =
     (case Authorize E v io mode r of
        (Inl rej, v') \<Rightarrow> (Answered (writeRejection (reject rej)), v')
      | (Inr p, v') \<Rightarrow> (Served p, v'))"


section \<open>What an accepted request has shown\<close>

text \<open>RFC 8705: a currently valid chain to the trust anchors whose leaf has the thumbprint.\<close>

definition presents_certificate ::
  "'k ext \<Rightarrow> cert list \<Rightarrow> time \<Rightarrow> request \<Rightarrow> string \<Rightarrow> bool" where
  "presents_certificate E roots now r x5t \<longleftrightarrow>
     (\<exists>leaf rest. rq_tls r = Some (leaf # rest) \<and> c_not_before leaf \<le> now \<and> now \<le> c_not_after leaf
        \<and> x509_verify E leaf roots rest now ClientAuth = None \<and> ThumbprintS256 E leaf = x5t)"

text \<open>
  RFC 9449: exactly one proof, signed under a permitted algorithm by the public key in its
  own header, whose thumbprint is \<open>jkt\<close>; its claims name this token, method and URI and an
  instant inside the window.
\<close>

definition proves_key ::
  "'k ext \<Rightarrow> vconfig \<Rightarrow> time \<Rightarrow> request \<Rightarrow> string \<Rightarrow> string \<Rightarrow> jws \<Rightarrow> int \<Rightarrow> string \<Rightarrow> bool" where
  "proves_key E cfg now r token jkt j iat jti \<longleftrightarrow>
     (\<exists>h jwk key pub claims n.
        header_values r ''DPoP'' = [h] \<and> ParseCompact E h = Inr j
        \<and> jws_typ j = ''dpop+jwt'' \<and> (vc_algs cfg = [] \<or> jws_alg j \<in> set (vc_algs cfg))
        \<and> map_of (j_header j) ''jwk'' = Some (VObj jwk)
        \<and> (\<forall>m\<in>set privateMembers. map_of jwk m = None)
        \<and> jwk_parse E jwk = Some key \<and> jwk_public E key = Some pub
        \<and> LookupAlg E (jws_alg j) = Inr (jws_alg j) \<and> jws_verify E h (jws_alg j) pub
        \<and> jwk_Thumbprint E jwk = Some jkt
        \<and> jws_claims E j = Some claims
        \<and> get_str claims ''ath'' = token_hash E token \<and> get_str claims ''htm'' = rq_method r
        \<and> NormalizeHTU E (get_str claims ''htu'') = Some n \<and> requestHTU E cfg r = Some n
        \<and> get_str claims ''jti'' = jti \<and> jti \<noteq> []
        \<and> numericClaim E claims ''iat'' = Claim_num iat
        \<and> \<not> iat_out_of_window (vc_window cfg) (vc_skew cfg) (unix_time iat) now)"

lemma checkCertificateBinding_None:
  "checkCertificateBinding E roots now r scheme x5t also = None \<longleftrightarrow>
     (scheme = ''bearer'' \<or> also) \<and> presents_certificate E roots now r x5t"
proof (cases "\<exists>leaf rest. rq_tls r = Some (leaf # rest)")
  case True
  then obtain leaf rest where tls: "rq_tls r = Some (leaf # rest)" by blast
  have ok: "VerifyChain E (leaf # rest) roots now ClientAuth = Inr () \<longleftrightarrow>
      c_not_before leaf \<le> now \<and> now \<le> c_not_after leaf \<and> x509_verify E leaf roots rest now ClientAuth = None"
    by (simp add: VerifyChain_Inr)
  show ?thesis
  proof (cases "VerifyChain E (leaf # rest) roots now ClientAuth")
    case (Inl e)
    with ok have "\<not> presents_certificate E roots now r x5t"
      by (auto simp: presents_certificate_def tls)
    moreover have "checkCertificateBinding E roots now r scheme x5t also \<noteq> None"
      by (cases e) (simp_all add: checkCertificateBinding_def tls Inl)
    ultimately show ?thesis by blast
  next
    case (Inr u)
    with ok show ?thesis
      by (auto simp: checkCertificateBinding_def presents_certificate_def ct_equal_def tls)
  qed
next
  case False
  then show ?thesis
    by (auto simp: checkCertificateBinding_def presents_certificate_def split: option.splits list.splits)
qed

lemma check_proof_key_Inr:
  assumes "check_proof_key E cfg r jkt = Inr j"
  obtains h jwk key pub where
    "header_values r ''DPoP'' = [h]" "ParseCompact E h = Inr j" "j_compact j = h"
    "jws_typ j = ''dpop+jwt''" "vc_algs cfg = [] \<or> jws_alg j \<in> set (vc_algs cfg)"
    "map_of (j_header j) ''jwk'' = Some (VObj jwk)" "\<forall>m\<in>set privateMembers. map_of jwk m = None"
    "jwk_parse E jwk = Some key" "jwk_public E key = Some pub"
    "LookupAlg E (jws_alg j) = Inr (jws_alg j)" "jws_verify E h (jws_alg j) pub"
    "jwk_Thumbprint E jwk = Some jkt"
proof -
  from assms obtain h jwk pub u where
    h: "header_values r ''DPoP'' = [h]" "ParseCompact E h = Inr j" "jws_typ j = ''dpop+jwt''"
      "vc_algs cfg = [] \<or> jws_alg j \<in> set (vc_algs cfg)"
      "map_of (j_header j) ''jwk'' = Some (VObj jwk)" "jwk_PublicKey E jwk = Some pub"
      "VerifySignature E j (Jwk_key pub) = Inr u" "jwk_Thumbprint E jwk = Some jkt"
    by (auto simp: check_proof_key_def ct_equal_def
        split: list.splits sum.splits if_splits option.splits gval.splits)
  moreover have "j_compact j = h" using h(2) by (auto elim: ParseCompact_Inr)
  moreover obtain key where "jwk_parse E jwk = Some key" "jwk_public E key = Some pub"
    using jwk_PublicKey_Some [OF h(6)] by blast
  moreover have "\<forall>m\<in>set privateMembers. map_of jwk m = None"
    using jwk_PublicKey_Some [OF h(6)] by blast
  ultimately show thesis using that by (auto simp: VerifySignature_Inr)
qed

lemma check_proof_claims_Inr:
  "check_proof_claims E cfg now r token j = Inr (iat, jti) \<longleftrightarrow>
     (\<exists>claims n. jws_claims E j = Some claims \<and> token_hash E token \<noteq> []
        \<and> get_str claims ''ath'' = token_hash E token \<and> get_str claims ''htm'' = rq_method r
        \<and> NormalizeHTU E (get_str claims ''htu'') = Some n \<and> requestHTU E cfg r = Some n
        \<and> get_str claims ''jti'' = jti \<and> jti \<noteq> []
        \<and> numericClaim E claims ''iat'' = Claim_num iat
        \<and> \<not> iat_out_of_window (vc_window cfg) (vc_skew cfg) (unix_time iat) now)"
  by (auto simp: check_proof_claims_def ct_equal_def Let_def
      split: option.splits if_splits claim_num.splits)

text \<open>An accepted proof: what it shows, and the cache step it took.\<close>

lemma checkDPoPBinding_None:
  assumes "checkDPoPBinding E cfg rc now r scheme token jkt = (None, rc')"
  obtains j iat jti where
    "scheme = ''dpop''" "proves_key E cfg now r token jkt j iat jti"
    "check_proof_key E cfg r jkt = Inr j" "check_proof_claims E cfg now r token j = Inr (iat, jti)"
    "CheckAndStore rc (replay_key jkt jti)
       (proof_expiry (vc_window cfg) (vc_skew cfg) (unix_time iat)) now = (ReplayFresh, rc')"
proof -
  from assms obtain j iat jti where
    s: "scheme = ''dpop''" and k: "check_proof_key E cfg r jkt = Inr j"
    and c: "check_proof_claims E cfg now r token j = Inr (iat, jti)"
    and st: "CheckAndStore rc (replay_key jkt jti)
       (proof_expiry (vc_window cfg) (vc_skew cfg) (unix_time iat)) now = (ReplayFresh, rc')"
    by (auto simp: checkDPoPBinding_def split: if_splits sum.splits prod.splits replay_result.splits)
  from k obtain h jwk key pub where a:
    "header_values r ''DPoP'' = [h]" "ParseCompact E h = Inr j"
    "jws_typ j = ''dpop+jwt''" "vc_algs cfg = [] \<or> jws_alg j \<in> set (vc_algs cfg)"
    "map_of (j_header j) ''jwk'' = Some (VObj jwk)" "\<forall>m\<in>set privateMembers. map_of jwk m = None"
    "jwk_parse E jwk = Some key" "jwk_public E key = Some pub"
    "LookupAlg E (jws_alg j) = Inr (jws_alg j)" "jws_verify E h (jws_alg j) pub"
    "jwk_Thumbprint E jwk = Some jkt"
    by (rule check_proof_key_Inr)
  from c obtain claims n where b:
    "jws_claims E j = Some claims"
    "get_str claims ''ath'' = token_hash E token" "get_str claims ''htm'' = rq_method r"
    "NormalizeHTU E (get_str claims ''htu'') = Some n" "requestHTU E cfg r = Some n"
    "get_str claims ''jti'' = jti" "jti \<noteq> []" "numericClaim E claims ''iat'' = Claim_num iat"
    "\<not> iat_out_of_window (vc_window cfg) (vc_skew cfg) (unix_time iat) now"
    unfolding check_proof_claims_Inr by blast
  have "proves_key E cfg now r token jkt j iat jti"
    unfolding proves_key_def using a b by blast
  from that [OF s this k c st] show thesis .
qed

text \<open>A cache step of a rejected or accepted proof is at most one \<open>CheckAndStore\<close> at \<open>now\<close>.\<close>

lemma checkDPoPBinding_cache:
  "snd (checkDPoPBinding E cfg rc now r scheme token jkt) = rc \<or>
   (\<exists>k e. snd (checkDPoPBinding E cfg rc now r scheme token jkt) = snd (CheckAndStore rc k e now))"
  by (auto simp: checkDPoPBinding_def split: sum.splits prod.splits replay_result.splits;
      metis snd_conv)


section \<open>The steps of Authorize\<close>

lemma confirmation_Inr:
  assumes "confirmation claims = Inr (x5t, jkt)"
  obtains cnf where "map_of claims ''cnf'' = Some (VObj cnf)"
    "map_of cnf ''x5t#S256'' = map_option VStr x5t" "map_of cnf ''jkt'' = map_option VStr jkt"
    "x5t \<noteq> None \<or> jkt \<noteq> None" "x5t \<noteq> Some []" "jkt \<noteq> Some []"
  using assms
  by (auto simp: confirmation_def cnfString_def split: option.splits gval.splits if_splits sum.splits)

lemma Authorize_Inr:
  assumes "Authorize E v io mode r = (Inr p, v')"
  obtains scheme token claims ks x5t jkt rc where
    "parseAuthorization r = Inr (scheme, token)"
    "token_claims E v io mode token = (Inr claims, ks)"
    "checkAuthorization (v_cfg v) claims = None"
    "confirmation claims = Inr (x5t, jkt)"
    "check_binding E v io r scheme token (x5t, jkt) (base_principal mode claims) = (Inr p, rc)"
    "v' = v\<lparr>v_keys := ks, v_replay := rc\<rparr>"
  using assms by (auto simp: Authorize_def split: sum.splits prod.splits option.splits)

lemma check_binding_Inr:
  assumes "check_binding E v io r scheme token (x5t, jkt) p0 = (Inr p, rc)"
  shows "\<forall>x. x5t = Some x \<longrightarrow> presents_certificate E (v_roots v) (ai_now_cert io) r x"
    and "x5t \<noteq> None \<and> jkt = None \<longrightarrow> scheme = ''bearer''"
    and "\<forall>k. jkt = Some k \<longrightarrow>
      checkDPoPBinding E (v_cfg v) (v_replay v) (ai_now_dpop io) r scheme token k = (None, rc)"
    and "jkt = None \<longrightarrow> rc = v_replay v"
    and "p = (case jkt of Some k \<Rightarrow> p0\<lparr>p_binding := ''jkt'', p_thumbprint := k\<rparr>
              | None \<Rightarrow> (case x5t of Some x \<Rightarrow> p0\<lparr>p_binding := ''x5t#S256'', p_thumbprint := x\<rparr> | None \<Rightarrow> p0))"
  using assms
  by (auto simp: check_binding_def checkCertificateBinding_None
      split: option.splits sum.splits prod.splits)

lemma check_binding_cache:
  "snd (check_binding E v io r scheme token m p) = v_replay v \<or>
   (\<exists>k e. snd (check_binding E v io r scheme token m p) = snd (CheckAndStore (v_replay v) k e (ai_now_dpop io)))"
proof -
  obtain x5t jkt where m: "m = (x5t, jkt)" by (cases m)
  have "snd (check_binding E v io r scheme token m p) = v_replay v \<or>
    (\<exists>k. snd (check_binding E v io r scheme token m p) =
       snd (checkDPoPBinding E (v_cfg v) (v_replay v) (ai_now_dpop io) r scheme token k))"
    by (auto simp: check_binding_def m split: option.splits sum.splits prod.splits; metis snd_conv)
  then show ?thesis using checkDPoPBinding_cache by metis
qed

lemma Authorize_cache:
  "v_replay (snd (Authorize E v io mode r)) = v_replay v \<or>
   (\<exists>k e. v_replay (snd (Authorize E v io mode r)) = snd (CheckAndStore (v_replay v) k e (ai_now_dpop io)))"
proof -
  have "v_replay (snd (Authorize E v io mode r)) = v_replay v \<or>
    (\<exists>s t m p. v_replay (snd (Authorize E v io mode r)) = snd (check_binding E v io r s t m p))"
    by (auto simp: Authorize_def split: option.splits sum.splits prod.splits; metis snd_conv)
  then show ?thesis using check_binding_cache by metis
qed

lemma Authorize_static [simp]:
  "v_cfg (snd (Authorize E v io mode r)) = v_cfg v"
  "v_roots (snd (Authorize E v io mode r)) = v_roots v"
  "v_introspect (snd (Authorize E v io mode r)) = v_introspect v"
  by (auto simp: Authorize_def split: option.splits sum.splits prod.splits)

end
