(* ===== verification/Replay_Client.thy ===== *)
theory Replay_Client
  imports Validator
begin

text \<open>
  The contract between the replay cache and the endpoints that put it behind a proof check:
  whatever else a step of the endpoint does, its effect on the cache is at most one
  \<open>CheckAndStore\<close> at the instant the step read.  For every such endpoint a proof that was
  accepted inside its window is refused for the rest of that window; the validator with its
  HTTP and tunnel requests and the pq-shim are its instances.
\<close>

lemma window_bounds:
  assumes "\<not> iat_out_of_window w s iat n" "sane_time n" "0 \<le> w" "0 \<le> s" "w + 2 * s \<le> max_int64"
  shows "n - w - s \<le> iat" "iat \<le> n + s" "proof_expiry w s iat = iat + w + 2 * s"
proof -
  have w: "wrap64 (- w - s) = - w - s" "wrap64 (w + 2 * s) = w + 2 * s"
    using assms(3-5) by (simp_all add: wrap64_id)
  have d: "is_duration (- w - s)" "is_duration s" using assms(3-5) by (simp_all add: is_duration_def)
  show "n - w - s \<le> iat" "iat \<le> n + s"
    using assms(1,2) d by (auto simp: iat_out_of_window_def w time_add_sane)
  then have "- 9223372036854775807 * second \<le> iat + (w + 2 * s)" "iat + (w + 2 * s) \<le> 9223372036854775807 * second"
    using assms(2-5) by (auto simp: sane_time_def)
  then have "min_int64 \<le> (iat + (w + 2 * s)) div second" "(iat + (w + 2 * s)) div second \<le> max_int64"
    by linarith+
  then have "time_add iat (w + 2 * s) = iat + (w + 2 * s)" by (rule time_add_exact)
  then show "proof_expiry w s iat = iat + w + 2 * s" by (simp add: proof_expiry_def w)
qed

locale replay_client =
  fixes step :: "'s \<Rightarrow> 'c \<Rightarrow> 's"
    and cache :: "'s \<Rightarrow> replay_cache"
    and clock :: "'c \<Rightarrow> time"
  assumes step_cache: "cache (step s c) = cache s \<or>
    (\<exists>k e. cache (step s c) = snd (CheckAndStore (cache s) k e (clock c)))"

sublocale replay_client \<subseteq> single_use_client "\<lambda>_. True" replay_accepts replay_advance fst "\<lambda>(_, e, _). e"
  replay_held replay_keeps step cache "\<lambda>d (_, _, n). n = clock d"
proof
  fix x d
  show "cache (step x d) = cache x \<or>
    (\<exists>c. (case c of (_, _, n) \<Rightarrow> n = clock d) \<and> cache (step x d) = replay_advance (cache x) c)"
    using step_cache [of x d] by (auto simp: replay_advance_def)
qed

context replay_client
begin

text \<open>The cache of an endpoint that starts with a new one stays bounded and well formed.\<close>

lemma run_ok: "replay_ok (cache s) \<Longrightarrow> replay_ok (cache (foldl step s cs))"
  using run_store [of s cs] replay_run_ok by metis

lemma accepted_proof_refused:
  assumes st: "CheckAndStore rc k (proof_expiry w sk iat) now = (ReplayFresh, cache s)"
    and win: "\<not> iat_out_of_window w sk iat now" "\<not> iat_out_of_window w sk iat now'"
    and cfg: "0 < sk" "0 \<le> w" "w + 2 * sk \<le> max_int64"
    and clocks: "sane_time now" "sane_time now'" "\<forall>c\<in>set cs. clock c < now' + sk"
  shows "fst (CheckAndStore (cache (foldl step s cs)) k (proof_expiry w sk iat) now') \<noteq> ReplayFresh"
proof -
  have k0: "0 \<le> sk" using cfg(1) by simp
  have e: "proof_expiry w sk iat = iat + w + 2 * sk"
    using win(1) clocks(1) cfg(2) k0 cfg(3) by (rule window_bounds(3))
  have n: "now - w - sk \<le> iat" "now' - w - sk \<le> iat"
    using window_bounds(1) [OF win(1) clocks(1) cfg(2) k0 cfg(3)]
      window_bounds(1) [OF win(2) clocks(2) cfg(2) k0 cfg(3)] by auto
  let ?c = "\<lambda>n. (k, iat + w + 2 * sk, n)"
  have "\<not> replay_accepts (cache (foldl step s cs)) (?c now')"
    by (rule client_at_most_once [where s = rc and c = "?c now"])
      (use st e n cfg(1) clocks(3) in \<open>auto simp: replay_accepts_def replay_advance_def replay_keeps_def\<close>)
  then show ?thesis by (simp add: e replay_accepts_def)
qed

end

end
