(* ===== verification/Channel.thy ===== *)
theory Channel
  imports Authorize Replay_Client
begin

text \<open>
  \<open>xapp-resource/channel.go\<close>: the same checks for a peer of the sidecar tunnel.  The
  certificate chain of the handshake takes the place of the TLS peer chain and the
  authorization frame that of the \<open>Authorization\<close> and \<open>DPoP\<close> headers.
\<close>

record channel_request =
  cr_token :: string
  cr_proof :: string
  cr_peer_chain :: "cert list"
  cr_target :: string
  cr_operation :: string

definition ChannelOperation :: string where
  "ChannelOperation = ''TUNNEL''"

definition channelMode :: "'k validator \<Rightarrow> mode" where
  "channelMode v =
     (if v_introspect v \<and> vc_channel_mode (v_cfg v) = ModeIntrospection then ModeIntrospection
      else ModeLocal)"

definition channel_http_request :: "channel_request \<Rightarrow> url \<Rightarrow> request" where
  "channel_http_request cr u =
     \<lparr>rq_method = (if cr_operation cr = [] then ChannelOperation else cr_operation cr),
      rq_host = u_host u,
      rq_path = u_path u,
      rq_tls = Some (cr_peer_chain cr),
      rq_headers =
        (''Authorization'', (if cr_proof cr \<noteq> [] then ''DPoP'' else ''Bearer'') @ '' '' @ cr_token cr)
        # (if cr_proof cr \<noteq> [] then [(''DPoP'', cr_proof cr)] else [])\<rparr>"

definition AuthorizeChannel ::
  "'k ext \<Rightarrow> 'k validator \<Rightarrow> auth_io \<Rightarrow> channel_request \<Rightarrow> (reason + principal) \<times> 'k validator" where
  "AuthorizeChannel E v io cr =
     (if cr_token cr = [] then (Inl ReasonAuthorizationMissing, v)
      else case url_parse E (cr_target cr) of
             None \<Rightarrow> (Inl ReasonDPoPHtuMismatch, v)
           | Some u \<Rightarrow>
               if u_host u = [] then (Inl ReasonDPoPHtuMismatch, v)
               else Authorize E v io (channelMode v) (channel_http_request cr u))"

definition ChannelTarget :: "string \<Rightarrow> int \<Rightarrow> string \<Rightarrow> string" where
  "ChannelTarget host port route = ''https://'' @ host @ '':'' @ show_int port @ ''/'' @ route"

definition ChannelProofWindow :: "'k validator \<Rightarrow> duration" where
  "ChannelProofWindow v = vc_window (v_cfg v)"

lemma channel_headers [simp]:
  "header_values (channel_http_request cr u) ''DPoP'' = (if cr_proof cr \<noteq> [] then [cr_proof cr] else [])"
  "header_values (channel_http_request cr u) ''Authorization'' =
     [(if cr_proof cr \<noteq> [] then ''DPoP'' else ''Bearer'') @ '' '' @ cr_token cr]"
  by (simp_all add: header_values_def channel_http_request_def)

lemma channel_tls [simp]: "rq_tls (channel_http_request cr u) = Some (cr_peer_chain cr)"
  by (simp add: channel_http_request_def)

lemma AuthorizeChannel_Inr:
  assumes "AuthorizeChannel E v io cr = (Inr p, v')"
  obtains u where "cr_token cr \<noteq> []" "url_parse E (cr_target cr) = Some u" "u_host u \<noteq> []"
    "Authorize E v io (channelMode v) (channel_http_request cr u) = (Inr p, v')"
  using assms by (auto simp: AuthorizeChannel_def split: if_splits option.splits)

lemma AuthorizeChannel_cache:
  "v_replay (snd (AuthorizeChannel E v io cr)) = v_replay v \<or>
   (\<exists>k e. v_replay (snd (AuthorizeChannel E v io cr)) = snd (CheckAndStore (v_replay v) k e (ai_now_dpop io)))"
proof (cases "cr_token cr = [] \<or> url_parse E (cr_target cr) = None
    \<or> (\<exists>u. url_parse E (cr_target cr) = Some u \<and> u_host u = [])")
  case True
  then show ?thesis by (auto simp: AuthorizeChannel_def)
next
  case False
  then obtain u where "AuthorizeChannel E v io cr = Authorize E v io (channelMode v) (channel_http_request cr u)"
    by (auto simp: AuthorizeChannel_def)
  then show ?thesis using Authorize_cache by simp
qed


section \<open>Runs of the validator\<close>

text \<open>
  Requests reach one validator over HTTP and over the tunnel, in any order.  A call is one of
  them with its readings; its effect on the replay cache is at most one \<open>CheckAndStore\<close> at
  the instant the call read.
\<close>

datatype vcall =
    Via_http auth_io mode request
  | Via_channel auth_io channel_request

fun validator_step :: "'k ext \<Rightarrow> 'k validator \<Rightarrow> vcall \<Rightarrow> 'k validator" where
  "validator_step E v (Via_http io mode r) = snd (Authorize E v io mode r)"
| "validator_step E v (Via_channel io cr) = snd (AuthorizeChannel E v io cr)"

fun call_clock :: "vcall \<Rightarrow> time" where
  "call_clock (Via_http io mode r) = ai_now_dpop io"
| "call_clock (Via_channel io cr) = ai_now_dpop io"

lemma AuthorizeChannel_static [simp]:
  "v_cfg (snd (AuthorizeChannel E v io cr)) = v_cfg v"
  "v_roots (snd (AuthorizeChannel E v io cr)) = v_roots v"
  "v_introspect (snd (AuthorizeChannel E v io cr)) = v_introspect v"
  by (auto simp: AuthorizeChannel_def split: option.splits)

lemma validator_step_static [simp]:
  "v_cfg (validator_step E v c) = v_cfg v" "v_roots (validator_step E v c) = v_roots v"
  by (cases c; simp)+

lemma validator_run_static [simp]:
  "v_cfg (foldl (validator_step E) v cs) = v_cfg v"
  "v_roots (foldl (validator_step E) v cs) = v_roots v"
  by (induction cs arbitrary: v) auto

interpretation validator_replay: replay_client "validator_step E" v_replay call_clock for E
proof
  show "v_replay (validator_step E v c) = v_replay v \<or>
    (\<exists>k e. v_replay (validator_step E v c) = snd (CheckAndStore (v_replay v) k e (call_clock c)))" for v c
    by (cases c) (simp_all add: Authorize_cache AuthorizeChannel_cache)
qed

lemma Authorize_jkt:
  assumes "Authorize E v io mode r = (Inr p, v')" and "p_binding p = ''jkt''"
  obtains token iat jti j jkt where
    "p_thumbprint p = jkt" "proves_key E (v_cfg v) (ai_now_dpop io) r token jkt j iat jti"
    "CheckAndStore (v_replay v) (replay_key jkt jti)
       (proof_expiry (vc_window (v_cfg v)) (vc_skew (v_cfg v)) (unix_time iat)) (ai_now_dpop io)
       = (ReplayFresh, v_replay v')"
  using assms(1)
proof (rule Authorize_Inr)
  fix scheme token claims ks x5t jkt rc
  assume b: "check_binding E v io r scheme token (x5t, jkt) (base_principal mode claims) = (Inr p, rc)"
    and v': "v' = v\<lparr>v_keys := ks, v_replay := rc\<rparr>"
  have "jkt \<noteq> None"
    using check_binding_Inr(5) [OF b] assms(2) by (auto simp: base_principal_def split: option.splits)
  then obtain k where k: "jkt = Some k" by blast
  moreover have "p_thumbprint p = k" using check_binding_Inr(5) [OF b] k by simp
  ultimately have "checkDPoPBinding E (v_cfg v) (v_replay v) (ai_now_dpop io) r scheme token k = (None, rc)"
    "p_thumbprint p = k"
    using check_binding_Inr(3) [OF b] by auto
  then show thesis
    using that v' by (auto elim!: checkDPoPBinding_None)
qed

lemma Authorize_not_jkt:
  assumes "Authorize E v io mode r = (Inr p, v')" and "p_binding p \<noteq> ''jkt''"
  shows "p_binding p = ''x5t#S256'' \<and> v_replay v' = v_replay v"
  using assms(1)
proof (rule Authorize_Inr)
  fix scheme token claims ks x5t jkt rc
  assume c: "confirmation claims = Inr (x5t, jkt)"
    and b: "check_binding E v io r scheme token (x5t, jkt) (base_principal mode claims) = (Inr p, rc)"
    and v': "v' = v\<lparr>v_keys := ks, v_replay := rc\<rparr>"
  have "x5t \<noteq> None \<or> jkt \<noteq> None" using c by (rule confirmation_Inr)
  then show ?thesis
    using check_binding_Inr(4,5) [OF b] v' assms(2) by (cases jkt; cases x5t) auto
qed

lemma checkDPoPBinding_rejected_cache:
  assumes "checkDPoPBinding E cfg rc now r scheme token jkt = (Some rej, rc')"
  shows "rc' = rc \<or> (\<exists>k e res. CheckAndStore rc k e now = (res, rc') \<and> res \<noteq> ReplayFresh)"
  using assms by (auto simp: checkDPoPBinding_def split: if_splits sum.splits prod.splits replay_result.splits)

text \<open>A rejection adds nothing to the cache; it may sweep it.\<close>

lemma Authorize_rejected_cache:
  assumes "Authorize E v io mode r = (Inl rej, v')"
  shows "v_replay v' = v_replay v \<or>
    (\<exists>k e res. CheckAndStore (v_replay v) k e (ai_now_dpop io) = (res, v_replay v') \<and> res \<noteq> ReplayFresh)"
  using assms
  by (auto simp: Authorize_def check_binding_def split: sum.splits prod.splits option.splits
      dest!: checkDPoPBinding_rejected_cache)

text \<open>A proof determines its key, identifier and instant.\<close>

lemma proves_key_same_proof:
  assumes "proves_key E cfg n r t k j iat jti" "proves_key E cfg' n' r' t' k' j' iat' jti'"
    and "header_values r' ''DPoP'' = header_values r ''DPoP''"
  shows "j' = j" "iat' = iat" "jti' = jti" "k' = k"
  using assms by (auto simp: proves_key_def)

text \<open>A proof accepted on the tunnel names the operation.\<close>

lemma proves_key_channel:
  assumes "proves_key E cfg n (channel_http_request cr u) t k j iat jti"
  obtains claims where "ParseCompact E (cr_proof cr) = Inr j" "jws_claims E j = Some claims"
    "get_str claims ''htm'' = (if cr_operation cr = [] then ''TUNNEL'' else cr_operation cr)"
  using assms
  by (auto simp: proves_key_def channel_http_request_def header_values_def ChannelOperation_def
      split: if_splits)

lemma proves_key_window: "proves_key E cfg n r t k j iat jti \<Longrightarrow>
  \<not> iat_out_of_window (vc_window cfg) (vc_skew cfg) (unix_time iat) n"
  by (auto simp: proves_key_def)

end
