(* ===== verification/Samples.thy ===== *)
theory Samples
  imports Channel
begin

text \<open>
  Concrete instances of the parameters, for the witnesses: an \<open>ext\<close> whose operations are
  small total functions over one-byte payloads, a certificate, requests and a validator.
  Segment \<open>AQ\<close> decodes to the byte 1, \<open>Ag\<close> to 2, \<open>Aw\<close> to 3, \<open>BA\<close> to 4 and \<open>BQ\<close> to 5.
\<close>

definition t0 :: time where "t0 = (unix_offset + 1000) * second"

text \<open>The claims the shim signs for the sample upgrade.\<close>

definition sample_issued :: jobj where
  "sample_issued =
     [(''iss'', VStr ''https://s''), (''iat'', VInt 1000), (''nbf'', VInt 1000), (''exp'', VInt 1300),
      (''jti'', VStr ''AQ''), (''cnf'', VObj [(''jkt'', VStr ''CQ'')]),
      (''aud'', VStr ''ric''), (''azp'', VStr ''xapp-a''), (''scope'', VStr ''sdl''),
      (''upgraded_from'', VObj [(''iss'', VStr ''kc''), (''binding'', VStr ''x5t#S256''), (''cnf'', VStr ''yA''),
         (''upgraded_at'', VStr ''1970''), (''shim_signing_alg'', VStr ''ML-DSA-65'')])]"

text \<open>The same for an upgrade to a certificate, with the claims of its proof and the answer.\<close>

definition sample_upgrade_claims :: jobj where
  "sample_upgrade_claims =
     [(''jti'', VStr ''AQ''), (''htm'', VStr ''POST''), (''htu'', VStr ''https://s/v1/upgrade''), (''iat'', VInt 1000), (''ath'', VStr ''QVE'')]"

definition sample_cert_issued :: jobj where
  "sample_cert_issued =
     [(''iss'', VStr ''https://s''), (''iat'', VInt 1000), (''nbf'', VInt 1000), (''exp'', VInt 1300),
      (''jti'', VStr ''AQ''), (''cnf'', VObj [(''x5t#S256'', VStr ''Mg'')]),
      (''aud'', VStr ''ric''), (''azp'', VStr ''xapp-a''), (''scope'', VStr ''sdl''),
      (''upgraded_from'', VObj [(''iss'', VStr ''kc''), (''binding'', VStr ''x5t#S256''), (''cnf'', VStr ''yA''),
         (''upgraded_at'', VStr ''1970''), (''shim_signing_alg'', VStr ''ML-DSA-65'')])]"

definition sample_answer :: jobj where
  "sample_answer =
     [(''access_token'', VStr ''Cw.Fg.AA''), (''token_type'', VStr ''Bearer''), (''expires_in'', VInt 300),
      (''alg'', VStr ''ML-DSA-65''), (''cnf'', VObj [(''x5t#S256'', VStr ''Mg'')])]"

definition sample_json :: "(bytes \<times> gval) list" where
  "sample_json =
     [([1], VObj [(''alg'', VStr ''ES256''), (''kid'', VStr ''k1'')]),
      ([2], VObj [(''iss'', VStr ''kc''), (''aud'', VStr ''ric''), (''scope'', VStr ''sdl''),
                  (''azp'', VStr ''xapp-a''), (''exp'', VNum ''1300''),
                  (''cnf'', VObj [(''x5t#S256'', VStr ''yA'')])]),
      ([3], VObj [(''typ'', VStr ''dpop+jwt''), (''alg'', VStr ''ES256''), (''jwk'', VObj [(''kty'', VStr ''EC'')])]),
      ([4], VObj [(''jti'', VStr ''n1''), (''htm'', VStr ''GET''), (''htu'', VStr ''https://r/p''),
                  (''iat'', VNum ''1000''), (''ath'', VStr ''QVE'')]),
      ([5], VObj [(''iss'', VStr ''kc''), (''aud'', VStr ''ric''), (''scope'', VStr ''sdl''),
                  (''azp'', VStr ''xapp-a''), (''exp'', VNum ''1300''),
                  (''cnf'', VObj [(''jkt'', VStr ''CQ'')])]),
      ([6], VObj [(''iss'', VStr ''kc''), (''aud'', VStr ''ric''), (''scope'', VStr ''sdl''),
                  (''azp'', VStr ''xapp-a''), (''exp'', VNum ''1300'')]),
      ([7], VObj [(''jti'', VStr ''n2''), (''htm'', VStr ''TUNNEL''), (''htu'', VStr ''https://r/p''),
                  (''iat'', VNum ''1000''), (''ath'', VStr ''QVE'')]),
      ([8], VObj [(''typ'', VStr ''pq-binding+jwt''), (''alg'', VStr ''ML-DSA-65''),
                  (''jwk'', VObj [(''kty'', VStr ''AKP'')])]),
      ([9], VObj [(''jti'', VStr ''n3''), (''htm'', VStr ''POST''), (''htu'', VStr ''https://s/v1/upgrade''),
                  (''iat'', VNum ''1000''), (''ath'', VStr ''QVE'')]),
      ([10], json_view (VObj sample_issued)),
      ([11], VObj [(''alg'', VStr ''ML-DSA-65''), (''typ'', VStr ''at+jwt''), (''kid'', VStr ''CQ'')]),
      ([20], VObj [(''typ'', VStr ''pq-binding+jwt''), (''alg'', VStr ''ML-DSA-65''), (''x5c'', VArr [VStr (b64_std_encode [50])])]),
      ([21], json_view (VObj sample_upgrade_claims)), ([22], json_view (VObj sample_cert_issued)),
      ([30], json_view (VObj sample_answer)), ([30, 10], json_view (VObj sample_answer))]"

definition sample_url :: "string \<Rightarrow> url option" where
  "sample_url s =
     (if s = ''https://r/p'' then Some \<lparr>u_scheme = ''https'', u_host = ''r'', u_path = ''/p''\<rparr>
      else if s = ''https://s/v1/upgrade'' then Some \<lparr>u_scheme = ''https'', u_host = ''s'', u_path = ''/v1/upgrade''\<rparr>
      else if s = ''https://kc/jwks'' then Some \<lparr>u_scheme = ''https'', u_host = ''kc'', u_path = ''/jwks''\<rparr>
      else None)"

definition sample_ext :: "nat ext" where
  "sample_ext =
     \<lparr>sha256 = take 2,
      json_decode = map_of sample_json,
      num_float64 = (\<lambda>_. None),
      parse_duration = (\<lambda>s. if s = ''15m'' then Some 900000000000 else None),
      url_parse = sample_url,
      x509_parse = (\<lambda>_. None),
      x509_verify = (\<lambda>leaf roots inters now usage.
         if c_issuer leaf \<in> set (map c_raw roots) then None else Some Unknown_authority),
      jwa_known = (\<lambda>a. a = ''ES256'' \<or> a = ''ML-DSA-65''),
      jwk_parse = (\<lambda>_. Some 7),
      jwk_public = Some,
      jwk_thumb = (\<lambda>_. Some [9]),
      jwk_import = (\<lambda>_. Some 7),
      jwk_use = (\<lambda>_. Some ''sig''),
      jwk_alg = (\<lambda>_. None),
      jws_verify = (\<lambda>_ _ k. k = 5 \<or> k = 7),
      jwks_parse = (\<lambda>_. Some (\<lambda>kid. if kid = ''k1'' then Some 5 else None)),
      json_encode = (\<lambda>v. if v = VObj sample_issued then Some [10] else None),
      jwk_object = (\<lambda>_. Some [(''kty'', VStr ''AKP'')]),
      jws_sign = (\<lambda>alg key header payload.
         if alg = ''ML-DSA-65'' \<and> header = [(''typ'', VStr ''at+jwt''), (''kid'', VStr ''CQ'')] \<and> payload = [10]
         then Some ''Cw.Cg.AA'' else None),
      rfc3339 = (\<lambda>_. ''1970''),
      pem_decode = (\<lambda>b. Some (''CERTIFICATE REQUEST'', b)),
      csr_parse = (\<lambda>_. Some \<lparr>csr_dns = [''xapp-a.ric''], csr_pub = EC_key ''P-256'' [2], csr_signed = True\<rparr>),
      json_whole = map_of sample_json\<rparr>"

definition sample_root :: cert where
  "sample_root = \<lparr>c_raw = [100], c_cn = ''RIC CA'', c_dns = [], c_not_before = 0,
     c_not_after = t0 + 10000 * second, c_serial = 1, c_issuer = [100], c_pub = EC_key ''P-256'' [1]\<rparr>"

definition sample_leaf :: cert where
  "sample_leaf = \<lparr>c_raw = [200], c_cn = ''xapp-a'', c_dns = [''xapp-a.ric''], c_not_before = t0 - 60 * second,
     c_not_after = t0 + 900 * second, c_serial = 42, c_issuer = [100], c_pub = EC_key ''P-256'' [2]\<rparr>"

definition sample_cfg :: vconfig where
  "sample_cfg =
     \<lparr>vc_issuer = ''kc'', vc_audience = ''ric'', vc_jwks_url = ''https://kc/jwks'',
      vc_required_scope = ''sdl'', vc_required_role = [], vc_trust_bundle = [''ca.pem''], vc_skew = 30 * second,
      vc_window = 60 * second, vc_replay_size = 2, vc_algs = [], vc_public_base_url = [],
      vc_channel_mode = ModeLocal, vc_introspection_url = [], vc_introspection_client_id = [],
      vc_jwks_ttl = 300 * second, vc_jwks_min_refresh = 10 * second\<rparr>"

definition sample_validator :: "nat validator" where
  "sample_validator = the (NewValidator sample_cfg (Some [sample_root]))"

definition sample_jwks_io :: jwks_io where
  "sample_jwks_io = \<lparr>io_stale = t0, io_refresh = t0, io_done = t0, io_fetch = Http_response 200 []\<rparr>"

definition sample_io :: "time \<Rightarrow> auth_io" where
  "sample_io t = \<lparr>ai_jwks = sample_jwks_io, ai_introspect = Http_error,
     ai_now_token = t, ai_now_cert = t, ai_now_dpop = t\<rparr>"

definition bearer_request :: "string \<Rightarrow> cert list option \<Rightarrow> request" where
  "bearer_request token peers =
     \<lparr>rq_method = ''GET'', rq_host = ''r'', rq_path = ''/p'', rq_tls = peers,
      rq_headers = [(''Authorization'', ''Bearer '' @ token)]\<rparr>"

definition dpop_request :: "string \<Rightarrow> string \<Rightarrow> request" where
  "dpop_request token proof =
     \<lparr>rq_method = ''GET'', rq_host = ''r'', rq_path = ''/p'', rq_tls = Some [],
      rq_headers = [(''Authorization'', ''DPoP '' @ token), (''DPoP'', proof)]\<rparr>"

abbreviation "cert_request \<equiv> bearer_request ''AQ.Ag.AA'' (Some [sample_leaf])"
abbreviation "tunnel_request \<equiv>
  \<lparr>cr_token = ''AQ.BQ.AA'', cr_proof = ''Aw.Bw.AA'', cr_peer_chain = [], cr_target = ''https://r/p'',
   cr_operation = []\<rparr>"
abbreviation "key_request \<equiv> dpop_request ''AQ.BQ.AA'' ''Aw.BA.AA''"



section \<open>Evaluation of the samples\<close>

lemma sample_b64_val:
  "b64_val CHR ''A'' = Some 0" "b64_val CHR ''B'' = Some 1" "b64_val CHR ''C'' = Some 2" "b64_val CHR ''Q'' = Some 16"
  "b64_val CHR ''g'' = Some 32" "b64_val CHR ''w'' = Some 48"
  using b64_val_char [of 0] b64_val_char [of 1] b64_val_char [of 2] b64_val_char [of 16] b64_val_char [of 32]
    b64_val_char [of 48]
  by (simp_all add: b64_char_def b64_alphabet_def)

lemma sample_b64_decode [simp]:
  "b64_decode ''AA'' = Some [0]" "b64_decode ''AQ'' = Some [1]" "b64_decode ''Ag'' = Some [2]"
  "b64_decode ''Aw'' = Some [3]" "b64_decode ''BA'' = Some [4]" "b64_decode ''BQ'' = Some [5]"
  "b64_decode ''Bg'' = Some [6]" "b64_decode ''Bw'' = Some [7]"
  "b64_decode ''CA'' = Some [8]" "b64_decode ''CQ'' = Some [9]" "b64_decode ''Cg'' = Some [10]"
  "b64_decode ''Cw'' = Some [11]"
  by (simp_all add: b64_decode_def sample_b64_val)

lemma sample_parse [simp]:
  "ParseCompact sample_ext ''AQ.Ag.AA'' = Inr \<lparr>j_compact = ''AQ.Ag.AA'',
     j_header = [(''alg'', VStr ''ES256''), (''kid'', VStr ''k1'')], j_payload = [2]\<rparr>"
  "ParseCompact sample_ext ''AQ.BQ.AA'' = Inr \<lparr>j_compact = ''AQ.BQ.AA'',
     j_header = [(''alg'', VStr ''ES256''), (''kid'', VStr ''k1'')], j_payload = [5]\<rparr>"
  "ParseCompact sample_ext ''AQ.Bg.AA'' = Inr \<lparr>j_compact = ''AQ.Bg.AA'',
     j_header = [(''alg'', VStr ''ES256''), (''kid'', VStr ''k1'')], j_payload = [6]\<rparr>"
  "ParseCompact sample_ext ''Aw.BA.AA'' = Inr \<lparr>j_compact = ''Aw.BA.AA'',
     j_header = [(''typ'', VStr ''dpop+jwt''), (''alg'', VStr ''ES256''),
       (''jwk'', VObj [(''kty'', VStr ''EC'')])], j_payload = [4]\<rparr>"
  "ParseCompact sample_ext ''Aw.Bw.AA'' = Inr \<lparr>j_compact = ''Aw.Bw.AA'',
     j_header = [(''typ'', VStr ''dpop+jwt''), (''alg'', VStr ''ES256''),
       (''jwk'', VObj [(''kty'', VStr ''EC'')])], j_payload = [7]\<rparr>"
  "ParseCompact sample_ext ''CA.CQ.AA'' = Inr \<lparr>j_compact = ''CA.CQ.AA'',
     j_header = [(''typ'', VStr ''pq-binding+jwt''), (''alg'', VStr ''ML-DSA-65''),
       (''jwk'', VObj [(''kty'', VStr ''AKP'')])], j_payload = [9]\<rparr>"
  "ParseCompact sample_ext ''Cw.Cg.AA'' = Inr \<lparr>j_compact = ''Cw.Cg.AA'',
     j_header = [(''alg'', VStr ''ML-DSA-65''), (''typ'', VStr ''at+jwt''), (''kid'', VStr ''CQ'')],
     j_payload = [10]\<rparr>"
  by (simp_all add: ParseCompact_def decodeObject_def sample_ext_def sample_json_def)

lemma sample_alg [simp]: "LookupAlg sample_ext ''ES256'' = Inr ''ES256''"
  by (simp add: LookupAlg_def equal_fold_def to_lower_def to_upper_def to_lower_char_def
      to_upper_char_def has_prefix_def sample_ext_def)

lemma sample_lower [simp]:
  "to_lower ''Bearer'' = ''bearer''" "to_lower ''DPoP'' = ''dpop''" "to_lower ''https'' = ''https''"
  "to_lower ''r'' = ''r''"
  by code_simp+

lemma sample_ints [simp]: "parse_int64 ''1300'' = Some 1300" "parse_int64 ''1000'' = Some 1000"
  by (simp_all add: parse_int64_def parse_digits_def digits_val_def is_digit_def)

lemma sample_times [simp]: "unix_time 1300 = t0 + 300 * second" "unix_time 1000 = t0"
  by (simp_all add: unix_time_small t0_def algebra_simps)

lemma sane_t0 [simp]: "sane_time t0" "sane_time (t0 + 300 * second)"
  by (simp_all add: sane_time_def t0_def unix_offset_def)

lemmas sample_defs = sample_ext_def sample_cfg_def sample_validator_def NewValidator_def
  NewKeySet_def NewReplayCache_def sample_io_def sample_jwks_io_def bearer_request_def dpop_request_def

lemma sample_authorization:
  "parseAuthorization (bearer_request ''AQ.Ag.AA'' peers) = Inr (''bearer'', ''AQ.Ag.AA'')"
  "parseAuthorization (bearer_request ''AQ.BQ.AA'' peers) = Inr (''bearer'', ''AQ.BQ.AA'')"
  "parseAuthorization (bearer_request ''AQ.Bg.AA'' peers) = Inr (''bearer'', ''AQ.Bg.AA'')"
  "parseAuthorization (dpop_request ''AQ.BQ.AA'' proof) = Inr (''dpop'', ''AQ.BQ.AA'')"
  by (simp_all add: parseAuthorization_def header_values_def bearer_request_def dpop_request_def
      trim_space_def cut_def is_space_def Let_def)

lemma sample_key:
  "ks_key sample_ext (v_keys sample_validator) sample_jwks_io ''k1'' ''ES256'' =
     (Inr 5, \<lparr>ks_url = ''https://kc/jwks'', ks_ttl = 300 * second, ks_min_refresh = 10 * second,
        ks_set = Some (\<lambda>kid. if kid = ''k1'' then Some 5 else None), ks_fetched = t0, ks_last_attempt = t0\<rparr>)"
  by (simp add: ks_key_def ks_lookup_def ks_refresh_def refresh_skips_def check_key_def sample_defs
      sample_url_def)

abbreviation "sample_claims rest \<equiv>
  [(''iss'', VStr ''kc''), (''aud'', VStr ''ric''), (''scope'', VStr ''sdl''),
   (''azp'', VStr ''xapp-a''), (''exp'', VNum ''1300'')] @ rest"

abbreviation "sample_cnf m s \<equiv> [(''cnf'', VObj [(m, VStr s)])]"

definition sample_keys :: "nat keyset" where
  "sample_keys = snd (ks_key sample_ext (v_keys sample_validator) sample_jwks_io ''k1'' ''ES256'')"

lemma sample_sel [simp]:
  "v_cfg sample_validator = sample_cfg" "v_roots sample_validator = [sample_root]"
  "v_replay sample_validator = NewReplayCache 2" "v_introspect sample_validator = False"
  "ai_jwks (sample_io t) = sample_jwks_io" "ai_now_token (sample_io t) = t"
  "ai_now_cert (sample_io t) = t" "ai_now_dpop (sample_io t) = t"
  by (simp_all add: sample_defs)

lemma sample_time_bounds [simp]:
  "\<not> time_add (t0 + 300 * second) (30 * second) < t0"
  "time_add t0 (- 90 * second) = t0 - 90 * second" "time_add t0 (30 * second) = t0 + 30 * second"
  "time_add t0 (120 * second) = t0 + 120 * second"
  using time_add_sane [OF sane_t0(2), of "30 * second"]
  by (simp_all add: time_add_sane is_duration_def)

lemma sample_decode [simp]:
  "json_decode sample_ext [2] = Some (VObj (sample_claims (sample_cnf ''x5t#S256'' ''yA'')))"
  "json_decode sample_ext [5] = Some (VObj (sample_claims (sample_cnf ''jkt'' ''CQ'')))"
  "json_decode sample_ext [6] = Some (VObj (sample_claims []))"
  by (simp_all add: sample_ext_def sample_json_def)

lemma sample_local:
  assumes "ParseCompact sample_ext tok = Inr \<lparr>j_compact = tok,
     j_header = [(''alg'', VStr ''ES256''), (''kid'', VStr ''k1'')], j_payload = p\<rparr>"
    and "json_decode sample_ext p = Some (VObj (sample_claims xs))" "map_of xs ''nbf'' = None"
  shows "validateLocally sample_ext sample_validator (sample_io t0) tok = (Inr (sample_claims xs), sample_keys)"
proof -
  have s: "jws_verify sample_ext tok a 5" for a by (simp add: sample_ext_def)
  have n: "\<not> time_add (t0 + 300000000000) 30000000000 < t0"
    using sample_time_bounds(1) by simp
  show ?thesis
    using assms(2,3)
    by (simp add: validateLocally_def assms(1) jws_kid_def jws_alg_def get_str_def sample_key
        sample_keys_def VerifySignature_def jws_claims_def decodeObject_def check_times_def
        numericClaim_def checkIssuerAudience_def s)
      (simp add: sample_cfg_def get_str_def n)
qed

lemma sample_thumb: "ThumbprintS256 sample_ext sample_leaf = ''yA''"
  by (simp add: ThumbprintS256_def sample_ext_def sample_leaf_def b64_char_def b64_alphabet_def)

lemma sample_chain:
  "VerifyChain sample_ext [sample_leaf] [sample_root] t0 ClientAuth = Inr ()"
  by (simp add: VerifyChain_def sample_leaf_def sample_root_def sample_ext_def)

lemma sample_scope:
  "checkAuthorization sample_cfg (sample_claims xs) = None"
  by (simp add: checkAuthorization_def sample_cfg_def get_str_def str_fields_def is_space_def)

section \<open>The sample requests are accepted\<close>

lemma sample_cert_accepted:
  "Authorize sample_ext sample_validator (sample_io t0) ModeLocal cert_request =
     (Inr ((base_principal ModeLocal (sample_claims (sample_cnf ''x5t#S256'' ''yA'')))
        \<lparr>p_binding := ''x5t#S256'', p_thumbprint := ''yA''\<rparr>),
      sample_validator\<lparr>v_keys := sample_keys\<rparr>)"
proof -
  have l: "validateLocally sample_ext sample_validator (sample_io t0) ''AQ.Ag.AA'' =
     (Inr (sample_claims (sample_cnf ''x5t#S256'' ''yA'')), sample_keys)"
    by (rule sample_local [OF sample_parse(1)]) simp_all
  have t: "rq_tls cert_request = Some [sample_leaf]" by (simp add: bearer_request_def)
  show ?thesis
    using sample_scope [of "sample_cnf ''x5t#S256'' ''yA''"]
    by (simp add: Authorize_def sample_authorization token_claims_def l confirmation_def cnfString_def 
    check_binding_def checkCertificateBinding_def sample_chain sample_thumb ct_equal_def t)
qed

lemma sample_NormalizeHTU: "NormalizeHTU sample_ext ''https://r/p'' = Some ''https://r/p''"
  by (simp add: NormalizeHTU_def sample_ext_def sample_url_def norm_authority_def url_hostname_def url_port_def
   split_host_port_def last_colon_def cut_def strip_brackets_def has_prefix_def)

lemma sample_thumb_key: "jwk_Thumbprint sample_ext m = Some ''CQ''"
  by (simp add: jwk_Thumbprint_def sample_ext_def B64_def b64_char_def b64_alphabet_def)

lemma sample_token_hash: "token_hash sample_ext ''AQ.BQ.AA'' = ''QVE''"
  by (simp add: token_hash_def sample_ext_def B64_def b64_char_def b64_alphabet_def bytes_of_def)

abbreviation "sample_proof h p \<equiv>
  \<lparr>j_compact = h, j_header = [(''typ'', VStr ''dpop+jwt''), (''alg'', VStr ''ES256''),
     (''jwk'', VObj [(''kty'', VStr ''EC'')])], j_payload = p\<rparr>"

lemma sample_proof_key:
  assumes "header_values r ''DPoP'' = [h]" "ParseCompact sample_ext h = Inr (sample_proof h p)"
  shows "check_proof_key sample_ext sample_cfg r ''CQ'' = Inr (sample_proof h p)"
proof -
  have k: "jwk_PublicKey sample_ext [(''kty'', VStr ''EC'')] = Some 7"
    by (simp add: jwk_PublicKey_def privateMembers_def sample_ext_def)
  have v: "jws_verify sample_ext x a 7" for x a by (simp add: sample_ext_def)
  show ?thesis
    by (simp add: check_proof_key_def assms jws_typ_def jws_alg_def get_str_def k sample_thumb_key
        ct_equal_def VerifySignature_def v)
      (simp add: sample_cfg_def)
qed

abbreviation "sample_proof_claims jti htm \<equiv>
  [(''jti'', VStr jti), (''htm'', VStr htm), (''htu'', VStr ''https://r/p''),
   (''iat'', VNum ''1000''), (''ath'', VStr ''QVE'')]"

lemma sample_proof_decode:
  "json_decode sample_ext [4] = Some (VObj (sample_proof_claims ''n1'' ''GET''))"
  "json_decode sample_ext [7] = Some (VObj (sample_proof_claims ''n2'' ''TUNNEL''))"
  by (simp_all add: sample_ext_def sample_json_def)

lemma sample_check_proof_claims:
  assumes "json_decode sample_ext p = Some (VObj (sample_proof_claims jti (rq_method r)))" "jti \<noteq> []"
    and "requestHTU sample_ext sample_cfg r = Some ''https://r/p''"
  shows "check_proof_claims sample_ext sample_cfg t0 r ''AQ.BQ.AA'' (sample_proof h p) = Inr (1000, jti)"
proof -
  have w: "\<not> iat_out_of_window (vc_window sample_cfg) (vc_skew sample_cfg) t0 t0"
    using sample_time_bounds by (simp add: iat_out_of_window_def sample_cfg_def wrap64_id)
  show ?thesis
    by (simp add: check_proof_claims_def jws_claims_def decodeObject_def assms w get_str_def Let_def
        sample_token_hash ct_equal_def sample_NormalizeHTU numericClaim_def)
qed

lemma sample_proof_expiry: "proof_expiry (vc_window sample_cfg) (vc_skew sample_cfg) t0 = t0 + 120 * second"
  using sample_time_bounds by (simp add: proof_expiry_def sample_cfg_def wrap64_id)

lemma sample_cache: "CheckAndStore (NewReplayCache 2) k e t0 = (ReplayFresh, \<lparr>rc_entries = [(k, e)], rc_max = 2, rc_last_sweep = t0\<rparr>)"
  by (simp add: CheckAndStore_def NewReplayCache_def Let_def sweep_def alist_store_def t0_def time_sub_def unix_offset_def)

lemma sample_key_accepted:
  "Authorize sample_ext sample_validator (sample_io t0) ModeLocal key_request =
     (Inr ((base_principal ModeLocal (sample_claims (sample_cnf ''jkt'' ''CQ'')))
        \<lparr>p_binding := ''jkt'', p_thumbprint := ''CQ''\<rparr>),
      sample_validator\<lparr>v_keys := sample_keys,
        v_replay := \<lparr>rc_entries = [(''CQ:n1'', t0 + 120 * second)], rc_max = 2, rc_last_sweep = t0\<rparr>\<rparr>)"
proof -
  have l: "validateLocally sample_ext sample_validator (sample_io t0) ''AQ.BQ.AA'' =
     (Inr (sample_claims (sample_cnf ''jkt'' ''CQ'')), sample_keys)"
    by (rule sample_local [OF sample_parse(2)]) simp_all
  have k: "check_proof_key sample_ext sample_cfg key_request ''CQ'' = Inr (sample_proof ''Aw.BA.AA'' [4])"
    by (rule sample_proof_key) (simp_all add: header_values_def dpop_request_def)
  have c: "check_proof_claims sample_ext sample_cfg t0 key_request ''AQ.BQ.AA'' (sample_proof ''Aw.BA.AA'' [4])
      = Inr (1000, ''n1'')"
    by (rule sample_check_proof_claims)
      (simp_all add: sample_proof_decode requestHTU_def dpop_request_def sample_NormalizeHTU sample_cfg_def)
  show ?thesis
    using sample_scope [of "sample_cnf ''jkt'' ''CQ''"] sample_proof_expiry
    by (simp add: Authorize_def sample_authorization token_claims_def l confirmation_def cnfString_def
       check_binding_def checkDPoPBinding_def k c sample_cache replay_key_def)
qed

lemma sample_tunnel_accepted_from:
  assumes "op = [] \<or> op = ChannelOperation"
  shows "AuthorizeChannel sample_ext sample_validator (sample_io t0)
     \<lparr>cr_token = ''AQ.BQ.AA'', cr_proof = ''Aw.Bw.AA'', cr_peer_chain = peers, cr_target = ''https://r/p'', cr_operation = op\<rparr> =
     (Inr ((base_principal ModeLocal (sample_claims (sample_cnf ''jkt'' ''CQ'')))
        \<lparr>p_binding := ''jkt'', p_thumbprint := ''CQ''\<rparr>),
      sample_validator\<lparr>v_keys := sample_keys,
        v_replay := \<lparr>rc_entries = [(''CQ:n2'', t0 + 120 * second)], rc_max = 2, rc_last_sweep = t0\<rparr>\<rparr>)"
proof -
  let ?u = "\<lparr>u_scheme = ''https'', u_host = ''r'', u_path = ''/p''\<rparr>"
  let ?c = "\<lparr>cr_token = ''AQ.BQ.AA'', cr_proof = ''Aw.Bw.AA'', cr_peer_chain = peers, cr_target = ''https://r/p'', cr_operation = op\<rparr>"
  let ?r = "channel_http_request ?c ?u"
  have u: "url_parse sample_ext ''https://r/p'' = Some ?u" by (simp add: sample_ext_def sample_url_def)
  have l: "validateLocally sample_ext sample_validator (sample_io t0) ''AQ.BQ.AA'' =
     (Inr (sample_claims (sample_cnf ''jkt'' ''CQ'')), sample_keys)"
    by (rule sample_local [OF sample_parse(2)]) simp_all
  have a: "parseAuthorization ?r = Inr (''dpop'', ''AQ.BQ.AA'')"
    by (simp add: parseAuthorization_def trim_space_def cut_def is_space_def Let_def)
  have k: "check_proof_key sample_ext sample_cfg ?r ''CQ'' = Inr (sample_proof ''Aw.Bw.AA'' [7])"
    by (rule sample_proof_key) simp_all
  have c: "check_proof_claims sample_ext sample_cfg t0 ?r ''AQ.BQ.AA'' (sample_proof ''Aw.Bw.AA'' [7])
      = Inr (1000, ''n2'')"
    by (rule sample_check_proof_claims)
      (use assms in \<open>auto simp: sample_proof_decode requestHTU_def channel_http_request_def ChannelOperation_def
        sample_NormalizeHTU sample_cfg_def\<close>)
  show ?thesis
    using sample_scope [of "sample_cnf ''jkt'' ''CQ''"] sample_proof_expiry
    by (simp add: AuthorizeChannel_def u channelMode_def Authorize_def a token_claims_def l confirmation_def
       cnfString_def check_binding_def checkDPoPBinding_def k c sample_cache replay_key_def)
qed


lemma sample_tunnel_accepted:
  "AuthorizeChannel sample_ext sample_validator (sample_io t0) tunnel_request =
     (Inr ((base_principal ModeLocal (sample_claims (sample_cnf ''jkt'' ''CQ'')))
        \<lparr>p_binding := ''jkt'', p_thumbprint := ''CQ''\<rparr>),
      sample_validator\<lparr>v_keys := sample_keys,
        v_replay := \<lparr>rc_entries = [(''CQ:n2'', t0 + 120 * second)], rc_max = 2, rc_last_sweep = t0\<rparr>\<rparr>)"
  by (rule sample_tunnel_accepted_from) simp

end
