(* ===== verification/Resource_Props.thy ===== *)
theory Resource_Props
  imports Samples
begin

text \<open>
  The properties of the resource-side enforcement: the validator, its replay cache, the key
  cache and JWS handling under it, and the answers it gives.
\<close>


section \<open>Sender-constrained access\<close>

text \<open>C1: An accepted request is sender-constrained: the token names at least one confirmation method,
  every method it names is enforced -- for \<open>x5t#S256\<close> a currently valid client chain whose
  leaf has that thumbprint, for \<open>jkt\<close> the DPoP scheme and a proof by that key over this token,
  method, URI and time -- and the principal reports one of the methods it names.\<close>
theorem authorize_sender_constrained:
  assumes "Authorize E v io mode r = (Inr p, v')"
  shows "\<exists>scheme token claims cnf.
    parseAuthorization r = Inr (scheme, token) \<and>
    fst (token_claims E v io mode token) = Inr claims \<and>
    map_of claims ''cnf'' = Some (VObj cnf) \<and>
    (\<forall>g. map_of cnf ''x5t#S256'' = Some g \<longrightarrow>
       (\<exists>x5t. g = VStr x5t \<and> presents_certificate E (v_roots v) (ai_now_cert io) r x5t)) \<and>
    (\<forall>g. map_of cnf ''jkt'' = Some g \<longrightarrow>
       (\<exists>jkt j iat jti. g = VStr jkt \<and> scheme = ''dpop'' \<and>
          proves_key E (v_cfg v) (ai_now_dpop io) r token jkt j iat jti)) \<and>
    (map_of cnf ''x5t#S256'' \<noteq> None \<or> map_of cnf ''jkt'' \<noteq> None) \<and>
    map_of cnf (p_binding p) = Some (VStr (p_thumbprint p)) \<and>
    p_binding p \<in> {''x5t#S256'', ''jkt''}"
  using assms
proof (rule Authorize_Inr)
  fix scheme token claims ks x5t jkt rc
  assume h: "parseAuthorization r = Inr (scheme, token)"
    "token_claims E v io mode token = (Inr claims, ks)"
    and c: "confirmation claims = Inr (x5t, jkt)"
    and b: "check_binding E v io r scheme token (x5t, jkt) (base_principal mode claims) = (Inr p, rc)"
  from c obtain cnf where cnf: "map_of claims ''cnf'' = Some (VObj cnf)"
    "map_of cnf ''x5t#S256'' = map_option VStr x5t" "map_of cnf ''jkt'' = map_option VStr jkt"
    "x5t \<noteq> None \<or> jkt \<noteq> None"
    by (rule confirmation_Inr)
  note b' = check_binding_Inr [OF b]
  have "\<exists>j iat jti. scheme = ''dpop'' \<and> proves_key E (v_cfg v) (ai_now_dpop io) r token k j iat jti"
    if "jkt = Some k" for k
    using b'(3) that by (blast elim: checkDPoPBinding_None)
  then show ?thesis
    using h cnf b'(1,5) by (cases jkt; cases x5t) auto
qed

theorem authorize_sender_constrained_witness:
  "\<exists>j iat jti. proves_key sample_ext sample_cfg t0 key_request ''AQ.BQ.AA'' ''CQ'' j iat jti"
proof -
  have l: "validateLocally sample_ext sample_validator (sample_io t0) ''AQ.BQ.AA'' =
     (Inr (sample_claims (sample_cnf ''jkt'' ''CQ'')), sample_keys)"
    by (rule sample_local [OF sample_parse(2)]) simp_all
  show ?thesis
    using authorize_sender_constrained [OF sample_key_accepted]
    by (auto simp: sample_authorization token_claims_def l)
qed

text \<open>C2: A stolen token alone is never enough: without a client certificate and without a DPoP proof
  every request is rejected, in every mode, whatever the token and the caches.\<close>
theorem token_alone_insufficient:
  assumes "rq_tls r = None \<or> rq_tls r = Some []" and "header_values r ''DPoP'' = []"
  shows "\<exists>reason. fst (Authorize E v io mode r) = Inl reason"
proof (cases "Authorize E v io mode r")
  case (Pair res v')
  show ?thesis
  proof (cases res)
    case (Inl rej)
    then show ?thesis using Pair by simp
  next
    case (Inr p)
    with Pair have "Authorize E v io mode r = (Inr p, v')" by simp
    then show ?thesis
    proof (rule Authorize_Inr)
      fix scheme token claims ks x5t jkt rc
      assume c: "confirmation claims = Inr (x5t, jkt)"
        and b: "check_binding E v io r scheme token (x5t, jkt) (base_principal mode claims) = (Inr p, rc)"
      from c have "x5t \<noteq> None \<or> jkt \<noteq> None" by (rule confirmation_Inr)
      moreover have "x5t = None" 
        using check_binding_Inr(1) [OF b] assms(1) by (cases x5t) (auto simp: presents_certificate_def)
      moreover have "jkt = None"
        using check_binding_Inr(3) [OF b] assms(2) 
        by (cases jkt) (auto elim!: checkDPoPBinding_None simp: proves_key_def)
      ultimately show ?thesis by blast
    qed
  qed
qed
theorem token_alone_insufficient_witness:
  "\<exists>reason. fst (Authorize sample_ext sample_validator (sample_io t0) ModeLocal
     (bearer_request ''AQ.Ag.AA'' (Some []))) = Inl reason"
  by (rule token_alone_insufficient) (simp_all add: bearer_request_def header_values_def)

text \<open>C3: A DPoP proof is accepted once: after a request was accepted under its key, no request carrying
  the same proof header is accepted under a key again, whatever HTTP and tunnel requests were
  served in between, as long as those read a clock less than the skew ahead of the replay's.
  The skew is positive; the window and the skew fit a duration.\<close>
theorem dpop_proof_single_use:
  assumes first: "Authorize E v io mode r = (Inr p, v1)" "p_binding p = ''jkt''"
    and cfg: "0 < vc_skew (v_cfg v)" "0 \<le> vc_window (v_cfg v)"
      "vc_window (v_cfg v) + 2 * vc_skew (v_cfg v) \<le> max_int64"
    and clocks: "sane_time (ai_now_dpop io)" "sane_time (ai_now_dpop io')"
      "\<forall>c\<in>set cs. call_clock c < ai_now_dpop io' + vc_skew (v_cfg v)"
    and same: "header_values r' ''DPoP'' = header_values r ''DPoP''"
  shows "\<nexists>p'. fst (Authorize E (foldl (validator_step E) v1 cs) io' mode' r') = Inr p' \<and> p_binding p' = ''jkt''"
proof (rule notI, elim exE conjE)
  fix p'
  assume "fst (Authorize E (foldl (validator_step E) v1 cs) io' mode' r') = Inr p'"
    and jkt: "p_binding p' = ''jkt''"
  then obtain v2 where again: "Authorize E (foldl (validator_step E) v1 cs) io' mode' r' = (Inr p', v2)"
    by (metis prod.collapse)
  let ?w = "vc_window (v_cfg v)" and ?s = "vc_skew (v_cfg v)"
  have v1: "v_cfg v1 = v_cfg v" using Authorize_static(1) first(1) by (metis snd_conv)
  then have cfg1: "v_cfg (foldl (validator_step E) v1 cs) = v_cfg v" by simp
  obtain token iat jti j k where
    k: "proves_key E (v_cfg v) (ai_now_dpop io) r token k j iat jti"
    and st: "CheckAndStore (v_replay v) (replay_key k jti) (proof_expiry ?w ?s (unix_time iat))
        (ai_now_dpop io) = (ReplayFresh, v_replay v1)"
    using first by (rule Authorize_jkt)
  obtain token' iat' jti' j' k' where
    k': "proves_key E (v_cfg v) (ai_now_dpop io') r' token' k' j' iat' jti'"
    and st': "CheckAndStore (v_replay (foldl (validator_step E) v1 cs)) (replay_key k' jti')
       (proof_expiry ?w ?s (unix_time iat')) (ai_now_dpop io') = (ReplayFresh, v_replay v2)"
    by (rule Authorize_jkt [OF again jkt, unfolded cfg1])
  note eq = proves_key_same_proof [OF k k' same]
  note win = proves_key_window [OF k] proves_key_window [OF k', unfolded eq]
  show False
    using validator_replay.accepted_proof_refused [where E = E, OF st win cfg clocks] st' eq by simp
qed

theorem dpop_proof_single_use_witness:
  "\<nexists>p'. fst (Authorize sample_ext (snd (Authorize sample_ext sample_validator (sample_io t0) ModeLocal key_request))
      (sample_io t0) ModeLocal key_request) = Inr p' \<and> p_binding p' = ''jkt''"
proof -
  have s: "sane_time (ai_now_dpop (sample_io t0))" by simp
  show ?thesis
    using dpop_proof_single_use [OF sample_key_accepted _ _ _ _ s s, of "[]" key_request ModeLocal]
    by (simp add: sample_key_accepted sample_cfg_def)
qed


section \<open>The replay cache\<close>

text \<open>C4: The cache is a bounded set of identifiers with expiries: what a call answers and what the
  cache holds at any later instant depend only on the identifiers whose window has not passed,
  never on which expired entries a sweep has already dropped; the cache stays well formed.\<close>
theorem replay_cache_refines:
  assumes "replay_ok c" and "now \<le> t"
  shows "CheckAndStore c key expiry now =
      (if live c now key \<noteq> None then ReplaySeen
       else if rc_max c \<le> int (card (dom (live c now))) then ReplayFull else ReplayFresh,
       snd (CheckAndStore c key expiry now)) \<and>
    live (snd (CheckAndStore c key expiry now)) t =
      (if live c now key = None \<and> int (card (dom (live c now))) < rc_max c
       then (live c t)(key := if t < expiry then Some expiry else None) else live c t) \<and>
    replay_ok (snd (CheckAndStore c key expiry now))"
  using CheckAndStore_result [OF assms(1), of key expiry now] CheckAndStore_live [OF assms]
    CheckAndStore_ok [OF assms(1)]
  by (auto simp: prod_eq_iff)

theorem replay_cache_refines_witness:
  "fst (CheckAndStore (NewReplayCache 1) ''a:b'' 50 40) = ReplayFresh \<and>
   live (snd (CheckAndStore (NewReplayCache 1) ''a:b'' 50 40)) 45 ''a:b'' = Some 50 \<and>
   fst (CheckAndStore (snd (CheckAndStore (NewReplayCache 1) ''a:b'' 50 40)) ''a:c'' 60 41) = ReplayFull"
proof -
  have l: "live (NewReplayCache 1) u = Map.empty" for u
    by (rule ext) (simp add: live_def NewReplayCache_def)
  have m: "rc_max (NewReplayCache 1) = 1" by (simp add: NewReplayCache_def)
  have first: "fst (CheckAndStore (NewReplayCache 1) ''a:b'' 50 40) = ReplayFresh"
    "live (snd (CheckAndStore (NewReplayCache 1) ''a:b'' 50 40)) 45 ''a:b'' = Some 50"
    "live (snd (CheckAndStore (NewReplayCache 1) ''a:b'' 50 40)) 41 = [''a:b'' \<mapsto> 50]"
    "replay_ok (snd (CheckAndStore (NewReplayCache 1) ''a:b'' 50 40))"
    using replay_cache_refines [OF replay_ok_new [of 1], of 40 45 "''a:b''" 50]
      replay_cache_refines [OF replay_ok_new [of 1], of 40 41 "''a:b''" 50]
    by (auto simp: l m prod_eq_iff)
  let ?c = "snd (CheckAndStore (NewReplayCache 1) ''a:b'' 50 40)"
  have "fst (CheckAndStore ?c ''a:c'' 60 41) = ReplayFull"
    using replay_cache_refines [OF first(4), of 41 41 "''a:c''" 60] by (auto simp: first(3) m prod_eq_iff)
  then show ?thesis using first by simp
qed

text \<open>C5: In every run of calls from a new cache there is one entry per identifier and never more
  entries than the configured bound.\<close>
theorem replay_cache_bounded:
  "replay_ok (foldl replay_advance (NewReplayCache n) calls) \<and>
   int (replay_len (foldl replay_advance (NewReplayCache n) calls)) \<le> max 0 n"
  using replay_run_ok [OF replay_ok_new [of n], of calls]
  by (auto simp: replay_ok_def replay_len_def NewReplayCache_def)


text \<open>Nobody can burn another party's proof: an identifier enters the cache only in an accepted
  request whose proof by the key of its thumbprint was verified, and it stays for the window.\<close>
lemma replay_entry_was_proved:
  assumes "replay_ok (v_replay v)" and "ai_now_dpop io \<le> t"
    and "live (v_replay (snd (Authorize E v io mode r))) t k = Some e"
    and "live (v_replay v) t k \<noteq> Some e"
  shows "\<exists>p token j iat jti. fst (Authorize E v io mode r) = Inr p \<and>
    proves_key E (v_cfg v) (ai_now_dpop io) r token (p_thumbprint p) j iat jti \<and>
    k = replay_key (p_thumbprint p) jti \<and>
    e = proof_expiry (vc_window (v_cfg v)) (vc_skew (v_cfg v)) (unix_time iat)"
proof (cases "Authorize E v io mode r")
  case (Pair res v')
  show ?thesis
  proof (cases res)
    case (Inl rej)
    then have "live (v_replay v') t k = live (v_replay v) t k"
      using Authorize_rejected_cache [of E v io mode r rej v'] CheckAndStore_live [OF assms(1,2)] Pair
      by (auto; metis fst_conv snd_conv)
    with assms(3,4) Pair show ?thesis by simp
  next
    case (Inr p)
    with Pair have a: "Authorize E v io mode r = (Inr p, v')" by simp
    moreover have "p_binding p = ''jkt''"
    proof (rule ccontr)
      assume "p_binding p \<noteq> ''jkt''"
      with Authorize_not_jkt [OF a] have "v_replay v' = v_replay v" by blast
      with assms(3,4) Pair show False by simp
    qed
    ultimately show ?thesis
    proof (rule Authorize_jkt)
      fix token iat jti j jkt
      let ?e = "proof_expiry (vc_window (v_cfg v)) (vc_skew (v_cfg v)) (unix_time iat)"
      assume p: "p_thumbprint p = jkt" "proves_key E (v_cfg v) (ai_now_dpop io) r token jkt j iat jti"
        and st: "CheckAndStore (v_replay v) (replay_key jkt jti) ?e (ai_now_dpop io) = (ReplayFresh, v_replay v')"
      have "live (v_replay v') t =
          (live (v_replay v) t)(replay_key jkt jti := if t < ?e then Some ?e else None)"
        using CheckAndStore_live [OF assms(1,2), of "replay_key jkt jti" ?e] by (simp add: st)
      then have "k = replay_key jkt jti \<and> e = ?e"
        using assms(3,4) a by (auto split: if_splits)
      then show ?thesis using p a by auto
    qed
  qed
qed

text \<open>The identifiers of different keys or different \<open>jti\<close> values never collide in the cache.\<close>

lemma replay_key_injective:
  assumes "jwk_Thumbprint E k = Some s" and "jwk_Thumbprint E' k' = Some s'"
  shows "replay_key s x = replay_key s' x' \<longleftrightarrow> s = s' \<and> x = x'"
proof
  assume "replay_key s x = replay_key s' x'"
  then have "cut CHR '':'' (replay_key s x) = cut CHR '':'' (replay_key s' x')" by simp
  then show "s = s' \<and> x = x'"
    using assms by (simp add: replay_key_def cut_append jwk_Thumbprint_no_colon)
qed simp

lemma replay_key_injective_witness:
  "replay_key ''CQ'' ''a:b'' \<noteq> replay_key ''CQ'' ''a''"
  using replay_key_injective [OF sample_thumb_key sample_thumb_key, of "''a:b''" "''a''"] by simp


section \<open>Token validation\<close>

text \<open>C8: A locally validated token was signed under a permitted asymmetric algorithm -- never \<open>none\<close> or an
  \<open>HS\<close> one -- by a key that the cached JWKS lists under its \<open>kid\<close> for signatures with that
  algorithm; its issuer is the configured one, it is for this audience and within its times.\<close>
theorem validateLocally_sound:
  assumes "validateLocally E v io token = (Inr claims, ks)"
  shows "\<exists>j key. ParseCompact E token = Inr j \<and> jws_claims E j = Some claims \<and>
    jws_alg j \<noteq> [] \<and> jwa_known E (jws_alg j) \<and>
    \<not> equal_fold (jws_alg j) ''none'' \<and> \<not> has_prefix (to_upper (jws_alg j)) ''HS'' \<and>
    jws_kid j \<noteq> [] \<and> ks_lookup ks (jws_kid j) = Some key \<and>
    (\<forall>u. jwk_use E key = Some u \<longrightarrow> u = [] \<or> u = ''sig'') \<and>
    (\<forall>a. jwk_alg E key = Some a \<longrightarrow> a = [] \<or> a = jws_alg j) \<and>
    jws_verify E token (jws_alg j) key \<and>
    get_str claims ''iss'' = vc_issuer (v_cfg v) \<and>
    checkIssuerAudience (v_cfg v) claims = None \<and> check_times E (v_cfg v) (ai_now_token io) claims = None"
proof -
  from assms obtain j key u where
    j: "ParseCompact E token = Inr j" "jws_claims E j = Some claims"
    and k: "ks_key E (v_keys v) (ai_jwks io) (jws_kid j) (jws_alg j) = (Inr key, ks)"
    and sg: "VerifySignature E j (Jwk_key key) = Inr u"
    and c: "check_times E (v_cfg v) (ai_now_token io) claims = None" "checkIssuerAudience (v_cfg v) claims = None"
    by (auto simp: validateLocally_def split: sum.splits prod.splits option.splits)
  have "j_compact j = token" using j(1) by (rule ParseCompact_Inr)
  then have v: "jws_verify E token (jws_alg j) key" "LookupAlg E (jws_alg j) = Inr (jws_alg j)"
    using sg by (auto simp: VerifySignature_Inr)
  have i: "get_str claims ''iss'' = vc_issuer (v_cfg v)"
    using c(2) by (auto simp: checkIssuerAudience_def split: if_splits)
  show ?thesis
    using j c v(1) i LookupAlg_Inr [OF v(2)] ks_key_Inr [OF k] check_key_Inr [of E "jws_alg j" key key] by auto
qed

theorem validateLocally_sound_witness:
  "\<exists>key. ks_lookup sample_keys ''k1'' = Some key \<and> jws_verify sample_ext ''AQ.Ag.AA'' ''ES256'' key"
proof -
  have l: "validateLocally sample_ext sample_validator (sample_io t0) ''AQ.Ag.AA'' =
     (Inr (sample_claims (sample_cnf ''x5t#S256'' ''yA'')), sample_keys)"
    by (rule sample_local [OF sample_parse(1)]) simp_all
  show ?thesis
    using validateLocally_sound [OF l] by (auto simp: jws_kid_def jws_alg_def get_str_def)
qed



text \<open>A token without \<open>cnf\<close> is never accepted, and the replay cache is left as it was.\<close>

lemma unbound_token_rejected:
  assumes "parseAuthorization r = Inr (scheme, token)"
    and "fst (token_claims E v io mode token) = Inr claims" and "map_of claims ''cnf'' = None"
  shows "fst (Authorize E v io mode r) =
      Inl (case checkAuthorization (v_cfg v) claims of Some rej \<Rightarrow> rej | None \<Rightarrow> ReasonCnfMissing)
    \<and> v_replay (snd (Authorize E v io mode r)) = v_replay v"
proof -
  obtain ks where "token_claims E v io mode token = (Inr claims, ks)"
    using assms(2) by (metis prod.collapse)
  with assms(1,3) show ?thesis
    by (simp add: Authorize_def confirmation_def split: option.split)
qed


section \<open>Answers\<close>

lemma writeRejection_inj: "writeRejection (reject x) = writeRejection (reject y) \<Longrightarrow> x = y"
proof -
  assume "writeRejection (reject x) = writeRejection (reject y)"
  then have "snd (rs_body (writeRejection (reject x))) = snd (rs_body (writeRejection (reject y)))" by simp
  then have "reason_code x = reason_code y" by (simp add: writeRejection_def Let_def reject_def)
  then show "x = y" by (simp add: reason_code_inj)
qed

lemma writeRejection_status:
  "rs_status (writeRejection (reject x)) = (if x = ReasonInsufficientScope then 403 else 401)"
  by (simp add: writeRejection_def Let_def reject_def)

lemma writeRejection_error:
  "fst (rs_body (writeRejection r)) \<in> {''insufficient_scope'', ''invalid_dpop_proof'', ''invalid_token''}"
  by (simp add: writeRejection_def Let_def oauth_error_def)


text \<open>C11: Every rejection is answered with 401, or 403 exactly for a missing scope or role, with one of the
  three OAuth errors; the protected handler runs only for an accepted request, and the answer
  identifies the reason.\<close>
theorem middleware_answers:
  "case fst (Middleware E v io mode r) of
     Served p \<Rightarrow> fst (Authorize E v io mode r) = Inr p
   | Answered resp \<Rightarrow>
       (\<exists>reason. fst (Authorize E v io mode r) = Inl reason \<and> resp = writeRejection (reject reason) \<and>
          rs_status resp = (if reason = ReasonInsufficientScope then 403 else 401) \<and>
          fst (rs_body resp) \<in> {''insufficient_scope'', ''invalid_dpop_proof'', ''invalid_token''} \<and>
          (\<forall>reason'. (writeRejection (reject reason') = resp) = (reason' = reason)))"
proof (cases "Authorize E v io mode r")
  case (Pair res v')
  show ?thesis
  proof (cases res)
    case (Inl rej)
    have "Middleware E v io mode r = (Answered (writeRejection (reject rej)), v')"
      by (simp add: Middleware_def Pair Inl)
    moreover have "\<forall>reason'. (writeRejection (reject reason') = writeRejection (reject rej)) = (reason' = rej)"
      using writeRejection_inj by blast
    ultimately show ?thesis
      using writeRejection_status [of rej] writeRejection_error [of "reject rej"] Inl Pair by simp
  next
    case (Inr p)
    then show ?thesis by (simp add: Middleware_def Pair)
  qed
qed

section \<open>The key cache\<close>

lemma sample_v_keys: "v_keys sample_validator = NewKeySet ''https://kc/jwks'' (300 * second) (10 * second)"
  by (simp add: sample_defs)

lemma sample_keys_eq:
  "sample_keys = \<lparr>ks_url = ''https://kc/jwks'', ks_ttl = 300 * second, ks_min_refresh = 10 * second,
     ks_set = Some (\<lambda>kid. if kid = ''k1'' then Some 5 else None), ks_fetched = t0, ks_last_attempt = t0\<rparr>"
  by (simp add: sample_keys_def sample_key)

lemma sample_first_refresh:
  "\<not> refresh_skips (v_keys sample_validator) (io_refresh sample_jwks_io)"
  "ks_refresh sample_ext (v_keys sample_validator) sample_jwks_io = (True, sample_keys)"
  "ks_min_refresh (v_keys sample_validator) = 10 * second"
  by (simp_all add: sample_v_keys refresh_skips_def NewKeySet_def sample_keys_eq ks_refresh_def
      sample_jwks_io_def sample_ext_def sample_url_def)

text \<open>JWKS fetches are rate limited: after an attempt, successful or not, no call within the
  minimum refresh interval fetches again, as long as the cached set is not stale.\<close>
lemma jwks_rate_limited:
  assumes "\<not> refresh_skips s (io_refresh io)" and "io_refresh io \<noteq> 0"
    and "ks_refresh E s io = (ok, s')"
    and "io_refresh io \<le> io_refresh io'" "io_refresh io' < io_refresh io + ks_min_refresh s"
    and "is_duration (ks_min_refresh s)"
    and "\<not> ks_stale s' (io_refresh io')"
  shows "ks_refresh E' s' io' = (True, s')"
proof -
  have "time_sub (io_refresh io') (io_refresh io) < ks_min_refresh s"
    using assms(4-6) by (auto simp: time_sub_def is_duration_def)
  then have "refresh_skips s' (io_refresh io')"
    using refresh_rate_limited [OF assms(1,2), of "io_refresh io'" E] assms(3,7) by simp
  then show ?thesis by (simp add: ks_refresh_def)
qed

text \<open>What a signer assembles parses back, and the three segments of a compact JWS determine it.\<close>

lemma compact_jws_roundtrip:
  assumes "decodeObject E h = Some m"
  shows "ParseCompact E (assemble h p s) = Inr \<lparr>j_compact = assemble h p s, j_header = m, j_payload = p\<rparr>
    \<and> (\<forall>h' p' s'. assemble h' p' s' = assemble h p s \<longrightarrow> h' = h \<and> p' = p \<and> s' = s)"
proof -
  have sp: "split_on CHR ''.'' (assemble a b c) = [B64 a, B64 b, B64 c]" for a b c
    unfolding assemble_def
    by (rule split_on_join) (use b64_encode_no_sep(1) in \<open>auto simp: B64_def\<close>)
  have "h' = h \<and> p' = p \<and> s' = s" if "assemble h' p' s' = assemble h p s" for h' p' s'
  proof -
    have "[B64 h', B64 p', B64 s'] = [B64 h, B64 p, B64 s]" using that sp by metis
    then show ?thesis by (simp add: B64_def b64_encode_inj)
  qed
  then show ?thesis using ParseCompact_assemble [OF assms] by blast
qed


section \<open>The tunnel\<close>






text \<open>Normalising a normalised URI changes nothing.\<close>

lemma htu_normal_form:
  assumes "NormalizeHTU E raw = Some n" and "url_parse E raw = Some u"
    and "url_hostname u \<noteq> []" and "\<not> has_prefix (url_hostname u) ''[''"
    and "url_parse E n = Some v" "u_scheme v = to_lower (u_scheme u)"
      "u_host v = norm_authority (to_lower (u_scheme u)) u"
      "u_path v = (if u_path u = [] then ''/'' else u_path u)"
  shows "NormalizeHTU E n = Some n"
proof -
  let ?s = "to_lower (u_scheme u)"
  have n: "n = ?s @ ''://'' @ norm_authority ?s u @ u_path v" and s: "u_scheme u \<noteq> []"
    using assms(1,2,8) by (auto elim: NormalizeHTU_Some)
  note p = norm_authority_parts [OF assms(4,7)]
  have a: "norm_authority ?s v = norm_authority ?s u"
    unfolding norm_authority_def p by (simp add: Let_def)
  have "u_host v \<noteq> []"
    using p(1) assms(3) by (metis url_hostname_def split_host_port_Nil fst_conv to_lower_Nil)
  then have "NormalizeHTU E n = Some (?s @ ''://'' @ norm_authority ?s v @ u_path v)"
    using s assms(6,8) by (simp add: NormalizeHTU_def assms(5) Let_def)
  then show ?thesis by (simp only: a n [symmetric])
qed

end
