(* ===== verification/Go_Float.thy ===== *)
theory Go_Float
  imports Go_Time "HOL-Library.Log_Nat" "HOL-Library.Signed_Division"
begin

text \<open>
  Go's \<open>float64\<close> as the measurements use it: IEEE 754 binary64 over the rationals, where every operation is the
  exact one rounded to the nearest double, ties to even.  The two zeros are one value; the code divides by no
  negative zero.
\<close>

section \<open>Rounding\<close>

definition round_even :: "rat \<Rightarrow> int" where
  "round_even q = (let f = \<lfloor>q\<rfloor>; d = q - of_int f in if d < 1 / 2 \<or> d = 1 / 2 \<and> even f then f else f + 1)"

text \<open>The exponent of the leading bit of a number that is not zero.\<close>

definition binary_exponent :: "rat \<Rightarrow> int" where
  "binary_exponent q =
     (case quotient_of \<bar>q\<bar> of (n, d) \<Rightarrow>
        let k = bitlen n - bitlen d in if 2 powi k \<le> \<bar>q\<bar> then k else k - 1)"

definition unit_in_last_place :: "rat \<Rightarrow> rat" where
  "unit_in_last_place q = 2 powi (max (binary_exponent q - 52) (- 1074))"

definition round_rat :: "rat \<Rightarrow> rat" where
  "round_rat q = (if q = 0 then 0 else of_int (round_even (q / unit_in_last_place q)) * unit_in_last_place q)"

datatype double = Not_a_number | Infinite bool | Finite rat

text \<open>\<open>Infinite True\<close> is the negative one.\<close>

definition to_double :: "rat \<Rightarrow> double" where
  "to_double q = (let r = round_rat q in if 2 ^ 1024 \<le> \<bar>r\<bar> then Infinite (r < 0) else Finite r)"

section \<open>Arithmetic\<close>

definition d_of_int :: "int \<Rightarrow> double" where "d_of_int i = to_double (of_int i)"

fun d_add :: "double \<Rightarrow> double \<Rightarrow> double" where
  "d_add (Finite a) (Finite b) = to_double (a + b)"
| "d_add (Finite a) (Infinite s) = Infinite s"
| "d_add (Infinite s) (Finite b) = Infinite s"
| "d_add (Infinite s) (Infinite t) = (if s = t then Infinite s else Not_a_number)"
| "d_add _ _ = Not_a_number"

fun d_mul :: "double \<Rightarrow> double \<Rightarrow> double" where
  "d_mul (Finite a) (Finite b) = to_double (a * b)"
| "d_mul (Finite a) (Infinite s) = (if a = 0 then Not_a_number else Infinite (s \<noteq> (a < 0)))"
| "d_mul (Infinite s) (Finite b) = (if b = 0 then Not_a_number else Infinite (s \<noteq> (b < 0)))"
| "d_mul (Infinite s) (Infinite t) = Infinite (s \<noteq> t)"
| "d_mul _ _ = Not_a_number"

fun d_div :: "double \<Rightarrow> double \<Rightarrow> double" where
  "d_div (Finite a) (Finite b) =
     (if b = 0 then if a = 0 then Not_a_number else Infinite (a < 0) else to_double (a / b))"
| "d_div (Finite a) (Infinite s) = Finite 0"
| "d_div (Infinite s) (Finite b) = Infinite (s \<noteq> (b < 0))"
| "d_div _ _ = Not_a_number"

text \<open>\<open>int(math.Ceil(v))\<close> of a value in the range of an \<open>int\<close>.\<close>

fun d_ceil_int :: "double \<Rightarrow> int" where
  "d_ceil_int (Finite a) = \<lceil>a\<rceil>"
| "d_ceil_int _ = min_int64"

text \<open>The conversion \<open>int(v)\<close>, towards zero, of a value in that range.\<close>

fun d_trunc_int :: "double \<Rightarrow> int" where
  "d_trunc_int (Finite a) = (if a < 0 then \<lceil>a\<rceil> else \<lfloor>a\<rfloor>)"
| "d_trunc_int _ = min_int64"

text \<open>\<open>Duration.Seconds\<close>.\<close>

definition seconds :: "duration \<Rightarrow> double" where
  "seconds d = d_add (d_of_int (d sdiv second)) (d_div (d_of_int (d smod second)) (d_of_int second))"

text \<open>\<open>cmp.Less\<close>, the order of \<open>slices.Sort\<close>: a value that is not a number comes first.\<close>

fun d_le :: "double \<Rightarrow> double \<Rightarrow> bool" where
  "d_le Not_a_number _ \<longleftrightarrow> True"
| "d_le (Infinite True) b \<longleftrightarrow> b \<noteq> Not_a_number"
| "d_le (Infinite False) b \<longleftrightarrow> b = Infinite False"
| "d_le (Finite a) (Finite b) \<longleftrightarrow> a \<le> b"
| "d_le (Finite a) (Infinite s) \<longleftrightarrow> \<not> s"
| "d_le (Finite a) Not_a_number \<longleftrightarrow> False"

instantiation double :: linorder
begin

definition less_eq_double :: "double \<Rightarrow> double \<Rightarrow> bool" where "less_eq_double = d_le"

definition less_double :: "double \<Rightarrow> double \<Rightarrow> bool" where "less_double a b \<longleftrightarrow> a \<le> b \<and> \<not> b \<le> a"

instance
proof
  fix a b c :: double
  show "a < b \<longleftrightarrow> a \<le> b \<and> \<not> b \<le> a" by (rule less_double_def)
  show "a \<le> a" by (cases a) (auto simp: less_eq_double_def, metis d_le.simps(2,3) double.distinct(1))
  show "a \<le> b \<Longrightarrow> b \<le> c \<Longrightarrow> a \<le> c"
    by (cases "(a, b)" rule: d_le.cases; cases "(b, c)" rule: d_le.cases) (auto simp: less_eq_double_def)
  show "a \<le> b \<Longrightarrow> b \<le> a \<Longrightarrow> a = b"
    by (cases "(a, b)" rule: d_le.cases; cases "(b, a)" rule: d_le.cases) (auto simp: less_eq_double_def)
  show "a \<le> b \<or> b \<le> a"
    by (cases "(a, b)" rule: d_le.cases; cases "(b, a)" rule: d_le.cases) (auto simp: less_eq_double_def)
qed

end

text \<open>\<open>strconv.FormatFloat(v, 'f', 3, 64)\<close>.\<close>

fun format_f3 :: "double \<Rightarrow> string" where
  "format_f3 Not_a_number = ''NaN''"
| "format_f3 (Infinite s) = (if s then ''-Inf'' else ''+Inf'')"
| "format_f3 (Finite a) =
     (let m = nat (round_even (\<bar>a\<bar> * 1000)); frac = show_nat (m mod 1000)
      in (if a < 0 then ''-'' else []) @ show_nat (m div 1000) @ ''.'' @ replicate (3 - length frac) (CHR ''0'') @ frac)"

section \<open>Facts\<close>

lemma round_even_near: "\<bar>of_int (round_even q) - q\<bar> \<le> 1 / 2"
proof -
  have "of_int \<lfloor>q\<rfloor> \<le> q" "q < of_int \<lfloor>q\<rfloor> + 1" by linarith+
  then show ?thesis by (auto simp: round_even_def Let_def)
qed

lemma round_even_le: "q \<le> of_int k \<Longrightarrow> round_even q \<le> k"
proof -
  assume a: "q \<le> of_int k"
  have "of_int (round_even q) \<le> q + 1 / 2" using round_even_near [of q] by linarith
  show ?thesis
  proof (cases "\<lfloor>q\<rfloor> = k")
    case True
    then have "q = of_int k" using a by linarith
    then show ?thesis by (simp add: round_even_def)
  next
    case False
    then have "\<lfloor>q\<rfloor> + 1 \<le> k" using a by linarith
    then show ?thesis by (auto simp: round_even_def Let_def)
  qed
qed

lemma round_even_int [simp]: "round_even (of_int k) = k"
  by (simp add: round_even_def)

lemma binary_exponent:
  assumes "q \<noteq> 0"
  shows "2 powi binary_exponent q \<le> \<bar>q\<bar> \<and> \<bar>q\<bar> < 2 powi (binary_exponent q + 1)"
proof -
  obtain n d where nd: "quotient_of \<bar>q\<bar> = (n, d)" by fastforce
  then have d: "0 < d" and q: "\<bar>q\<bar> = of_int n / of_int d" by (auto dest: quotient_of_denom_pos quotient_of_div)
  have "0 < rat_of_int n / of_int d" using q assms by (metis zero_less_abs_iff)
  then have n: "0 < n" using d by (simp add: zero_less_divide_iff)
  have p: "(2::rat) powi (bitlen m - 1) \<le> of_int m \<and> of_int m < (2::rat) powi bitlen m" if "0 < m" for m
  proof -
    have b: "2 ^ nat (bitlen m - 1) \<le> m" "m < 2 ^ nat (bitlen m)" using bitlen_bounds [OF that] by auto
    have l: "1 \<le> bitlen m" using that by (simp add: bitlen_def floorlog_def)
    have "(2::rat) powi (bitlen m - 1) = of_int (2 ^ nat (bitlen m - 1))" "(2::rat) powi bitlen m = of_int (2 ^ nat (bitlen m))"
      using l by (simp_all add: power_int_def)
    then show ?thesis using b of_int_le_iff of_int_less_iff by metis
  qed
  let ?k = "bitlen n - bitlen d"
  have up: "\<bar>q\<bar> < 2 powi (?k + 1)"
  proof -
    have "\<bar>q\<bar> < 2 powi bitlen n / 2 powi (bitlen d - 1)"
      unfolding q using p [OF n] p [OF d] d n by (intro frac_less) auto
    also have "\<dots> = 2 powi (?k + 1)" by (simp add: power_int_diff power_int_add)
    finally show ?thesis .
  qed
  have low: "2 powi (?k - 1) \<le> \<bar>q\<bar>"
  proof -
    have "2 powi (bitlen n - 1) / 2 powi bitlen d \<le> \<bar>q\<bar>"
      unfolding q using p [OF n] p [OF d] d n by (intro frac_le) auto
    moreover have "(2::rat) powi (bitlen n - 1) / 2 powi bitlen d = 2 powi (?k - 1)" by (simp add: power_int_diff)
    ultimately show ?thesis by simp
  qed
  show ?thesis using up low nd by (auto simp: binary_exponent_def Let_def)
qed


lemma powi_less [simp]: "(2::rat) powi a < 2 powi b \<longleftrightarrow> a < b"
proof -
  have "(2::rat) powi a < 2 powi b" if "a < b" for a b :: int
    using that by (intro power_int_strict_increasing) auto
  then show ?thesis by (metis linorder_neqE_linordered_idom order_less_asym order_less_irrefl)
qed

lemma binary_exponent_unique:
  assumes "2 powi e \<le> \<bar>q\<bar>" "\<bar>q\<bar> < 2 powi (e + 1)"
  shows "binary_exponent q = e"
proof -
  have nz: "q \<noteq> 0"
  proof
    assume "q = 0"
    then have "(2::rat) powi e \<le> 0" using assms(1) by simp
    moreover have "(0::rat) < 2 powi e" by simp
    ultimately show False by linarith
  qed
  note b = binary_exponent [OF nz]
  have "(2::rat) powi e < 2 powi (binary_exponent q + 1)" "(2::rat) powi binary_exponent q < 2 powi (e + 1)"
    using assms b by linarith+
  then have "e < binary_exponent q + 1" "binary_exponent q < e + 1" by (simp_all only: powi_less)
  then show ?thesis by simp
qed

lemma unit_pos: "0 < unit_in_last_place q" by (simp add: unit_in_last_place_def)

lemma round_rat_0 [simp]: "round_rat 0 = 0" by (simp add: round_rat_def)

lemma round_rat_near: "q \<noteq> 0 \<Longrightarrow> \<bar>round_rat q - q\<bar> \<le> unit_in_last_place q / 2"
proof -
  assume q: "q \<noteq> 0"
  let ?u = "unit_in_last_place q"
  have u: "0 < ?u" by (rule unit_pos)
  have "round_rat q - q = (of_int (round_even (q / ?u)) - q / ?u) * ?u"
    using q u by (simp add: round_rat_def left_diff_distrib)
  then have "\<bar>round_rat q - q\<bar> = \<bar>of_int (round_even (q / ?u)) - q / ?u\<bar> * ?u" using u by (simp add: abs_mult)
  also have "\<dots> \<le> 1 / 2 * ?u" using round_even_near u by (intro mult_right_mono) auto
  finally show ?thesis by simp
qed

text \<open>A whole number below \<open>2 ^ 53\<close> is a double, and a number below it is rounded to at most it.\<close>

lemma whole_units:
  assumes "q \<noteq> 0" "\<bar>q\<bar> < 2 ^ 53"
  obtains j where "unit_in_last_place q = 1 / 2 ^ j"
proof -
  have "(2::rat) powi 53 = 2 ^ 53" by (simp add: power_int_def)
  then have "(2::rat) powi binary_exponent q < 2 powi 53"
    using binary_exponent [OF assms(1)] assms(2) by linarith
  then have "binary_exponent q < 53" by (simp only: powi_less)
  then have m: "max (binary_exponent q - 52) (- 1074) = - int (nat (- max (binary_exponent q - 52) (- 1074)))" by simp
  have "unit_in_last_place q = 1 / 2 ^ nat (- max (binary_exponent q - 52) (- 1074))"
    unfolding unit_in_last_place_def by (subst m) (simp only: power_int_minus power_int_of_nat inverse_eq_divide)
  then show ?thesis by (rule that)
qed

lemma round_rat_le_int:
  assumes "0 \<le> q" "q \<le> of_int k" "k < 2 ^ 53"
  shows "round_rat q \<le> of_int k"
proof (cases "q = 0")
  case False
  have "of_int k < (2::rat) ^ 53" using assms(3) by (metis of_int_less_iff of_int_numeral of_int_power)
  then have "\<bar>q\<bar> < 2 ^ 53" using assms(1,2) by linarith
  then obtain j where u: "unit_in_last_place q = 1 / 2 ^ j" using whole_units [OF False] by blast
  have "q / unit_in_last_place q \<le> of_int (k * 2 ^ j)" using assms(2) u by (simp add: mult_right_mono)
  then have "round_even (q / unit_in_last_place q) \<le> k * 2 ^ j" by (rule round_even_le)
  then have "rat_of_int (round_even (q / unit_in_last_place q)) \<le> of_int (k * 2 ^ j)" by (simp only: of_int_le_iff)
  then show ?thesis using False u by (simp add: round_rat_def divide_le_eq)
qed (use assms in simp)

lemma round_rat_int:
  assumes "\<bar>k\<bar> < 2 ^ 53"
  shows "round_rat (of_int k) = of_int k"
proof (cases "k = 0")
  case False
  have "rat_of_int \<bar>k\<bar> < of_int (2 ^ 53)" using assms by (simp only: of_int_less_iff)
  then have "\<bar>rat_of_int k\<bar> < 2 ^ 53" by simp
  then obtain j where u: "unit_in_last_place (of_int k) = 1 / 2 ^ j" using whole_units [of "of_int k"] False by auto
  then have "rat_of_int k / unit_in_last_place (of_int k) = of_int (k * 2 ^ j)" by simp
  then have "round_even (of_int k / unit_in_last_place (of_int k)) = k * 2 ^ j" by (simp only: round_even_int)
  then show ?thesis using False u by (simp add: round_rat_def)
qed simp

lemma round_rat_relative:
  assumes "2 powi (- 1022) \<le> \<bar>q\<bar>"
  shows "\<bar>round_rat q - q\<bar> \<le> \<bar>q\<bar> / 2 ^ 53"
proof -
  have nz: "q \<noteq> 0"
  proof
    assume "q = 0"
    then have "(2::rat) powi (- 1022) \<le> 0" using assms by simp
    moreover have "(0::rat) < 2 powi (- 1022)" by simp
    ultimately show False by linarith
  qed
  have "(2::rat) powi (- 1022) < 2 powi (binary_exponent q + 1)" using binary_exponent [OF nz] assms by linarith
  then have "- 1022 \<le> binary_exponent q" by (simp only: powi_less)
  then have "unit_in_last_place q = 2 powi (binary_exponent q - 52)" by (simp add: unit_in_last_place_def)
  also have "\<dots> = 2 powi binary_exponent q / 2 powi 52" by (simp only: power_int_diff [of 2] simp_thms numeral_neq_zero)
  finally have "unit_in_last_place q = 2 powi binary_exponent q / 2 ^ 52" by (simp add: power_int_def)
  also have "\<dots> \<le> \<bar>q\<bar> / 2 ^ 52" using binary_exponent [OF nz] by (intro divide_right_mono) auto
  finally have "unit_in_last_place q / 2 \<le> \<bar>q\<bar> / 2 ^ 53" by simp
  then show ?thesis using round_rat_near [OF nz] by linarith
qed

lemma to_double_finite: "\<bar>round_rat q\<bar> < 2 ^ 1024 \<Longrightarrow> to_double q = Finite (round_rat q)"
  by (simp add: to_double_def Let_def)

lemma d_of_int_exact: "\<bar>k\<bar> < 2 ^ 53 \<Longrightarrow> d_of_int k = Finite (of_int k)"
proof -
  assume k: "\<bar>k\<bar> < 2 ^ 53"
  have "rat_of_int \<bar>k\<bar> < of_int (2 ^ 53)" using k by (simp only: of_int_less_iff)
  then have "\<bar>rat_of_int k\<bar> < 2 ^ 1024" by simp
  then show ?thesis using to_double_finite [of "of_int k"] round_rat_int [OF k] by (simp add: d_of_int_def)
qed

text \<open>The rank of a percentile: what rounding does to \<open>p / 100 * n\<close> never moves it to another rank.\<close>

lemma rank_exact:
  assumes c: "0 < c" "c \<le> of_nat p / 100" "of_nat p / 100 - c \<le> 1 / 2 ^ 53" and p: "0 < p" "p \<le> 100" and n: "1 \<le> n" "n \<le> 2 ^ 40"
    and c_low: "1 / 100 \<le> c"
  shows "\<lceil>round_rat (c * of_nat n)\<rceil> = \<lceil>rat_of_nat (p * n) / 100\<rceil>" and "\<bar>round_rat (c * of_nat n)\<bar> < 2 ^ 1024"
proof -
  let ?t = "rat_of_nat (p * n) / 100"
  let ?k = "\<lceil>?t\<rceil>"
  have N: "1 \<le> rat_of_nat n" "rat_of_nat n \<le> 2 ^ 40"
    using n by (simp, metis of_nat_le_iff of_nat_numeral of_nat_power)
  have t: "?t = of_nat p / 100 * of_nat n" by simp
  have pn: "rat_of_nat (p * n) \<le> 100 * 2 ^ 40"
  proof -
    have "p * n \<le> 100 * 2 ^ 40" using p(2) n(2) by (rule mult_le_mono)
    then have "rat_of_nat (p * n) \<le> of_nat (100 * 2 ^ 40)" by (simp only: of_nat_le_iff)
    then show ?thesis by simp
  qed
  then have k: "?k \<le> 2 ^ 40" by (simp add: ceiling_le_iff)
  have cn: "0 < c * of_nat n" "c * of_nat n \<le> ?t" using c N unfolding t by (auto intro!: mult_pos_pos mult_right_mono)
  have up: "round_rat (c * of_nat n) \<le> of_int ?k"
    using cn k by (intro round_rat_le_int) (auto intro: order_trans [OF _ le_of_int_ceiling])
  have one: "1 / 100 \<le> c * of_nat n" using c_low N mult_mono [of "1/100" c 1 "of_nat n"] by simp
  have "(2::rat) powi (- 1022) < 2 powi (- 7)" by (simp only: powi_less)
  moreover have "(2::rat) powi (- 7) \<le> 1 / 100" by (simp add: power_int_def power_one_over)
  ultimately have "(2::rat) powi (- 1022) \<le> 1 / 100" by linarith
  then have "\<bar>round_rat (c * of_nat n) - c * of_nat n\<bar> \<le> \<bar>c * of_nat n\<bar> / 2 ^ 53"
    using one by (intro round_rat_relative) linarith
  also have "\<dots> \<le> 2 ^ 40 / 2 ^ 53" using cn pn by (intro divide_right_mono) auto
  finally have near: "\<bar>round_rat (c * of_nat n) - c * of_nat n\<bar> \<le> 1 / 2 ^ 13" by simp
  have "?t - c * of_nat n = (of_nat p / 100 - c) * of_nat n" by (simp add: left_diff_distrib)
  also have "\<dots> \<le> 1 / 2 ^ 53 * 2 ^ 40" using c N by (intro mult_mono) auto
  finally have "?t - c * of_nat n \<le> 1 / 2 ^ 13" by (simp del: of_nat_mult)
  then have low: "?t - 1 / 2 ^ 13 \<le> c * of_nat n" by linarith
  have "of_int ?k - 1 < ?t" by linarith
  then have "of_int (100 * (?k - 1)) < rat_of_int (int (p * n))" by (simp add: field_simps)
  then have "100 * (?k - 1) + 1 \<le> int (p * n)" by (simp only: of_int_less_iff)
  then have "rat_of_int (100 * (?k - 1) + 1) \<le> of_int (int (p * n))" by (simp only: of_int_le_iff)
  then have "of_int ?k - 1 + 1 / 100 \<le> ?t" by (simp add: field_simps)
  moreover have "k - 1 < r" if "k - 1 + 1 / 100 \<le> t" "t - 1 / 2 ^ 13 \<le> x" "\<bar>r - x\<bar> \<le> 1 / 2 ^ 13" for k r t x :: rat
  proof -
    have "x - r \<le> 1 / 2 ^ 13" using that(3) by (simp only: abs_le_iff) simp
    then show ?thesis using that(1,2) by simp
  qed
  ultimately have "of_int ?k - 1 < round_rat (c * of_nat n)" using low near by blast
  then show "\<lceil>round_rat (c * of_nat n)\<rceil> = ?k" using up by (simp add: ceiling_eq_iff)
  have "rat_of_int ?k \<le> of_int (2 ^ 40)" using k by (simp only: of_int_le_iff)
  also have "rat_of_int (2 ^ 40) = 2 ^ 40" by simp
  finally have hi: "round_rat (c * of_nat n) \<le> 2 ^ 40" using up by (rule order_trans [rotated])
  have "c * of_nat n - round_rat (c * of_nat n) \<le> 1 / 2 ^ 13" using near by (simp only: abs_le_iff) simp
  then have "0 \<le> round_rat (c * of_nat n)" using one by simp
  with hi have "\<bar>round_rat (c * of_nat n)\<bar> \<le> 2 ^ 40" by simp
  moreover have "(2::rat) ^ 40 < 2 ^ 1024" by simp
  ultimately show "\<bar>round_rat (c * of_nat n)\<bar> < 2 ^ 1024" by (rule order.strict_trans1)
qed


text \<open>The percentages in use are rounded down, so little that no rank moves.\<close>

lemma percent_rounded:
  assumes "p \<in> {50, 95, 99}"
  shows "\<exists>c. d_div (d_of_int (int p)) (d_of_int 100) = Finite c \<and> 1 / 100 \<le> c \<and> c \<le> of_nat p / 100 \<and> of_nat p / 100 - c \<le> 1 / 2 ^ 53"
proof -
  let ?q = "rat_of_nat p / 100"
  have q: "?q \<in> {1 / 2, 19 / 20, 99 / 100}" using assms by auto
  have "(2::rat) powi (- 1) = 1 / 2" "(2::rat) powi (- 1 + 1) = 1" by (simp_all add: power_int_def)
  then have "binary_exponent ?q = - 1" using q by (intro binary_exponent_unique) auto
  then have u: "unit_in_last_place ?q = 1 / 2 ^ 53" by (simp add: unit_in_last_place_def power_int_def power_one_over)
  have r: "round_rat ?q = of_int (round_even (?q * 2 ^ 53)) / 2 ^ 53"
    unfolding round_rat_def u using q by auto
  have f: "\<lfloor>42784196460019712 / 5 :: rat\<rfloor> = 8556839292003942" "\<lfloor>222928181554839552 / 25 :: rat\<rfloor> = 8917127262193582"
    by (simp_all add: floor_eq_iff)
  have e: "round_even (1 / 2 * 2 ^ 53) = 4503599627370496" "round_even (19 / 20 * 2 ^ 53) = 8556839292003942"
    "round_even (99 / 100 * 2 ^ 53) = 8917127262193582"
    using f by (simp_all add: round_even_def Let_def)
  have c: "1 / 100 \<le> round_rat ?q" "round_rat ?q \<le> ?q" "?q - round_rat ?q \<le> 1 / 2 ^ 53"
    using assms r e by auto
  have "d_of_int (int p) = Finite (of_nat p)" "d_of_int 100 = Finite 100" using assms d_of_int_exact [of "int p"] d_of_int_exact [of 100] by auto
  moreover have "\<bar>round_rat ?q\<bar> < 2 ^ 1024" using c(1,2) q by auto
  ultimately have "d_div (d_of_int (int p)) (d_of_int 100) = Finite (round_rat ?q)" by (simp add: to_double_finite)
  then show ?thesis using c by blast
qed

text \<open>A duration of whole seconds is exact.\<close>

lemma seconds_whole:
  assumes "\<bar>k\<bar> < 2 ^ 53"
  shows "seconds (k * second) = Finite (of_int k)"
proof -
  have z: "d_of_int 0 = Finite 0" "d_of_int second = Finite (of_int second)"
    using d_of_int_exact [of 0] d_of_int_exact [of second] by simp_all
  have q: "(k * second) sdiv second = k" "(k * second) smod second = 0"
    by (simp_all add: signed_divide_int_def signed_modulo_int_def sgn_mult abs_mult sgn_mult_abs)
  have "to_double (of_int k + 0) = d_of_int k" by (simp add: d_of_int_def)
  then show ?thesis using d_of_int_exact [OF assms] by (simp add: seconds_def q z to_double_def round_rat_def)
qed

text \<open>The seconds of any duration are a number of moderate size.\<close>

lemma round_rat_crude: "\<bar>round_rat q\<bar> \<le> 2 * \<bar>q\<bar> + 1"
proof (cases "q = 0")
  case False
  let ?b = "binary_exponent q" and ?u = "unit_in_last_place q"
  have b: "2 powi ?b \<le> \<bar>q\<bar>" using binary_exponent [OF False] by blast
  have "?u \<le> \<bar>q\<bar> + 1"
  proof (cases "- 1074 \<le> ?b - 52")
    case True
    then have "?u = 2 powi (?b - 52)" by (simp add: unit_in_last_place_def)
    also have "\<dots> \<le> 2 powi ?b" by (rule power_int_increasing) auto
    finally show ?thesis using b by linarith
  next
    case False
    then have "?u = 2 powi (- 1074)" by (simp add: unit_in_last_place_def)
    also have "\<dots> \<le> (2::rat) powi 0" by (rule power_int_increasing) auto
    finally show ?thesis by simp
  qed
  then show ?thesis using round_rat_near [OF False] by linarith
qed simp

lemma to_double_bounded:
  assumes "\<bar>q\<bar> \<le> 2 ^ 64"
  shows "\<exists>r. to_double q = Finite r \<and> \<bar>r\<bar> \<le> 2 * \<bar>q\<bar> + 1"
proof -
  have "\<bar>round_rat q\<bar> \<le> 2 * 2 ^ 64 + 1" using round_rat_crude [of q] assms by linarith
  also have "(2 * 2 ^ 64 + 1 :: rat) < 2 ^ 1024" by simp
  finally have "to_double q = Finite (round_rat q)" by (rule to_double_finite)
  then show ?thesis using round_rat_crude [of q] by blast
qed

lemma seconds_bounded:
  assumes "is_duration d"
  shows "\<exists>a. seconds d = Finite a \<and> \<bar>a\<bar> \<le> 2 ^ 40"
proof -
  have q: "\<bar>d sdiv second\<bar> \<le> 9223372037" "\<bar>d smod second\<bar> \<le> second"
    using assms by (auto simp: is_duration_def signed_divide_int_def signed_modulo_int_def sgn_if)
  have i: "d_of_int (d sdiv second) = Finite (of_int (d sdiv second))" "d_of_int (d smod second) = Finite (of_int (d smod second))"
    "d_of_int second = Finite (of_int second)"
    using q by (intro d_of_int_exact, simp)+
  let ?f = "rat_of_int (d smod second) / of_int second"
  have "\<bar>rat_of_int (d smod second)\<bar> \<le> of_int second" using q(2) by linarith
  then have f: "\<bar>?f\<bar> \<le> 1" by (simp add: divide_le_eq abs_le_iff minus_divide_left)
  then obtain r where r: "to_double ?f = Finite r" "\<bar>r\<bar> \<le> 3" using to_double_bounded [of ?f] by auto
  have "\<bar>rat_of_int (d sdiv second)\<bar> \<le> 9223372037" using q(1) by linarith
  then have s: "\<bar>rat_of_int (d sdiv second) + r\<bar> \<le> 9223372040" using r(2) by linarith
  then obtain a where "to_double (of_int (d sdiv second) + r) = Finite a" "\<bar>a\<bar> \<le> 2 * 9223372040 + 1"
    using to_double_bounded [of "of_int (d sdiv second) + r"] by fastforce
  moreover have "seconds d = to_double (of_int (d sdiv second) + r)" using r(1) by (simp add: seconds_def i)
  ultimately show ?thesis by fastforce
qed

end
