(* ===== verification/Shim.thy ===== *)
theory Shim
  imports Channel Go_Float
begin

text \<open>
  \<open>pqshim/shim.go\<close>: the exchange of a classical sender-constrained token for one signed with
  ML-DSA and bound to a post-quantum credential.  A request is checked by the embedded
  validator, then the \<open>X-PQ-Proof\<close> JWS proves the new credential, then the token is signed.
  The readings of the clock, the random bytes and the validator's own inputs of one request
  are its \<open>shim_io\<close>.  The text of error messages is not modelled, their status and code are.
\<close>

record shim_config =
  sc_listen_addr :: string
  sc_server_cert :: string
  sc_server_key :: string
  sc_issuer :: string
  sc_signing_alg :: string
  sc_pq_bundle :: "string list"
  sc_lifetime :: duration
  sc_window :: duration
  sc_skew :: duration
  sc_replay_size :: int
  sc_pq_kex_only :: bool
  sc_health_addr :: string

definition shim_ConfigFromEnv ::
  "'k ext \<Rightarrow> (string \<Rightarrow> string option) \<Rightarrow> env_error list + shim_config" where
  "shim_ConfigFromEnv E g = env_result (do {
     listen \<leftarrow> env_str g ''LISTEN_ADDR'' '':8443'';
     cert \<leftarrow> env_req g ''SERVER_CERT'';
     key \<leftarrow> env_req g ''SERVER_KEY'';
     issuer \<leftarrow> env_req g ''PQ_ISSUER'';
     alg \<leftarrow> env_str g ''PQ_SIGNING_ALG'' ''ML-DSA-65'';
     bundle \<leftarrow> env_list g ''PQ_TRUST_BUNDLE'' [];
     lifetime \<leftarrow> env_dur E g ''PQ_TOKEN_LIFETIME'' (300 * second);
     window \<leftarrow> env_dur E g ''DPOP_PROOF_WINDOW'' (60 * second);
     skew \<leftarrow> env_dur E g ''CLOCK_SKEW'' (30 * second);
     size \<leftarrow> env_int g ''DPOP_REPLAY_CACHE_SIZE'' 100000;
     pqonly \<leftarrow> env_bool g ''PQ_KEX_ONLY'' False;
     health \<leftarrow> env_str g ''HEALTH_ADDR'' '':8081'';
     env_fail_if (bundle = []) ''PQ_TRUST_BUNDLE is required'';
     State_Monad.return
       \<lparr>sc_listen_addr = listen, sc_server_cert = cert, sc_server_key = key, sc_issuer = issuer,
        sc_signing_alg = alg, sc_pq_bundle = bundle, sc_lifetime = lifetime, sc_window = window,
        sc_skew = skew, sc_replay_size = size, sc_pq_kex_only = pqonly, sc_health_addr = health\<rparr>
   })"

record 'k shim =
  sh_cfg :: shim_config
  sh_validator :: "'k validator"
  sh_signer :: "'k signer"
  sh_kid :: string
  sh_pq_roots :: "cert list"
  sh_replay :: replay_cache

text \<open>\<open>pool\<close> and \<open>pq_pool\<close> are the outcomes of loading the two trust bundles.\<close>

definition NewServer ::
  "'k ext \<Rightarrow> shim_config \<Rightarrow> vconfig \<Rightarrow> cert list option \<Rightarrow> 'k anykey option \<Rightarrow> cert list option
     \<Rightarrow> 'k shim option" where
  "NewServer E cfg rcfg pool generated pq_pool =
     (case NewValidator rcfg pool of
        None \<Rightarrow> None
      | Some validator \<Rightarrow>
          (case GenerateSigner E (sc_signing_alg cfg) generated of
             None \<Rightarrow> None
           | Some signer \<Rightarrow>
               (case jwk_Thumbprint E (sg_jwk signer) of
                  None \<Rightarrow> None
                | Some kid \<Rightarrow>
                    (case pq_pool of
                       None \<Rightarrow> None
                     | Some pqRoots \<Rightarrow>
                         Some \<lparr>sh_cfg = cfg, sh_validator = validator, sh_signer = signer, sh_kid = kid,
                               sh_pq_roots = pqRoots, sh_replay = NewReplayCache (sc_replay_size cfg)\<rparr>))))"

definition handleJWKS :: "'k shim \<Rightarrow> jobj" where
  "handleJWKS s =
     [(''keys'', VArr [VObj (alist_store ''use'' (VStr ''sig'')
        (alist_store ''kid'' (VStr (sh_kid s)) (sg_jwk (sh_signer s))))])]"

record shim_io =
  si_auth :: auth_io
  si_now_chain :: time \<comment> \<open>the clock for \<open>VerifyChain\<close>\<close>
  si_now_proof :: time \<comment> \<open>the clock in \<open>checkProofClaims\<close>\<close>
  si_now_issue :: time \<comment> \<open>the clock in \<open>issue\<close>\<close>
  si_now_reply :: time \<comment> \<open>the clock of \<open>time.Until\<close>\<close>
  si_random :: "bytes option" \<comment> \<open>what \<open>rand.Read\<close> delivers\<close>

text \<open>A rejection of the shim: the HTTP status and the error code of the body.\<close>

type_synonym shim_rejection = "nat \<times> string"

definition ProofType :: string where "ProofType = ''pq-binding+jwt''"
definition ProofHeader :: string where "ProofHeader = ''X-PQ-Proof''"

definition bearerToken :: "request \<Rightarrow> string option" where
  "bearerToken r =
     (case header_values r ''Authorization'' of
        [v] \<Rightarrow>
          (case cut CHR '' '' (trim_space v) of
             None \<Rightarrow> None
           | Some (_, tok) \<Rightarrow> if trim_space tok = [] then None else Some (trim_space tok))
      | _ \<Rightarrow> None)"

text \<open>The shim's own \<open>numericClaim\<close>: unlike the validator's it has no \<open>Float64\<close> fallback.\<close>

definition shim_numericClaim :: "jobj \<Rightarrow> string \<Rightarrow> int option" where
  "shim_numericClaim claims name =
     (case map_of claims name of
        Some (VNum s) \<Rightarrow> parse_int64 s
      | Some (VFloat f) \<Rightarrow> Some f
      | Some (VInt i) \<Rightarrow> Some i
      | _ \<Rightarrow> None)"


section \<open>The post-quantum proof\<close>

fun x5c_items :: "'k ext \<Rightarrow> gval list \<Rightarrow> cert list option" where
  "x5c_items E [] = Some []"
| "x5c_items E (v # vs) =
     (case v of
        VStr s64 \<Rightarrow>
          (case b64_std_decode s64 of
             None \<Rightarrow> None
           | Some der \<Rightarrow>
               (case x509_parse E der of
                  None \<Rightarrow> None
                | Some c \<Rightarrow> map_option ((#) c) (x5c_items E vs)))
      | _ \<Rightarrow> None)"

definition chainFromProof :: "'k ext \<Rightarrow> jws \<Rightarrow> shim_rejection + cert list" where
  "chainFromProof E j =
     (case map_of (j_header j) ''x5c'' of
        Some (VArr (v # vs)) \<Rightarrow> of_option (400, ''pq_proof_x5c_invalid'') (x5c_items E (v # vs))
      | _ \<Rightarrow> Inl (400, ''pq_proof_x5c_invalid''))"

text \<open>Methods A and B: the thumbprint of the certificate the proof carries and is signed by.\<close>

definition check_pq_certificate ::
  "'k ext \<Rightarrow> 'k shim \<Rightarrow> time \<Rightarrow> jws \<Rightarrow> string \<Rightarrow> shim_rejection + string" where
  "check_pq_certificate E s now j clientID =
     (case chainFromProof E j of
        Inl rej \<Rightarrow> Inl rej
      | Inr chain \<Rightarrow>
          (case VerifyChain E chain (sh_pq_roots s) now ClientAuth of
             Inl kind \<Rightarrow> Inl (401, ''pq_certificate_'' @ chain_kind_name kind)
           | Inr _ \<Rightarrow>
               let leaf = hd chain
               in if \<not> IsPostQuantum (c_pub leaf) then Inl (400, ''pq_certificate_not_post_quantum'')
                  else if clientID \<noteq> [] \<and> c_cn leaf \<noteq> clientID then Inl (403, ''pq_identity_mismatch'')
                  else case VerifySignature E j (Raw_key (c_pub leaf)) of
                         Inl _ \<Rightarrow> Inl (401, ''pq_proof_signature_invalid'')
                       | Inr _ \<Rightarrow> Inr (ThumbprintS256 E leaf)))"

text \<open>Method C: the thumbprint of the AKP key the proof carries and is signed by.\<close>

definition check_pq_key :: "'k ext \<Rightarrow> jws \<Rightarrow> gval \<Rightarrow> shim_rejection + string" where
  "check_pq_key E j raw =
     (case raw of
        VObj key \<Rightarrow>
          if jwk_str key ''kty'' \<noteq> ''AKP'' then Inl (400, ''pq_proof_jwk_not_post_quantum'')
          else case jwk_PublicKey E key of
                 None \<Rightarrow> Inl (400, ''pq_proof_jwk_invalid'')
               | Some pub \<Rightarrow>
                   (case VerifySignature E j (Jwk_key pub) of
                      Inl _ \<Rightarrow> Inl (401, ''pq_proof_signature_invalid'')
                    | Inr _ \<Rightarrow> of_option (400, ''pq_proof_jwk_invalid'') (jwk_Thumbprint E key))
      | _ \<Rightarrow> Inl (400, ''pq_proof_jwk_invalid''))"

text \<open>A header member that is present and not \<open>null\<close>: \<open>proof.Header[name] != nil\<close>.\<close>

definition header_member :: "jws \<Rightarrow> string \<Rightarrow> gval option" where
  "header_member j name =
     (case map_of (j_header j) name of Some VNull \<Rightarrow> None | v \<Rightarrow> v)"

definition check_pq_credential ::
  "'k ext \<Rightarrow> 'k shim \<Rightarrow> time \<Rightarrow> jws \<Rightarrow> string \<Rightarrow> shim_rejection + string \<times> string" where
  "check_pq_credential E s now j clientID =
     (case header_member j ''x5c'' of
        Some _ \<Rightarrow>
          (case check_pq_certificate E s now j clientID of
             Inl rej \<Rightarrow> Inl rej | Inr thumb \<Rightarrow> Inr (''x5t#S256'', thumb))
      | None \<Rightarrow>
          (case header_member j ''jwk'' of
             Some raw \<Rightarrow>
               (case check_pq_key E j raw of Inl rej \<Rightarrow> Inl rej | Inr thumb \<Rightarrow> Inr (''jkt'', thumb))
           | None \<Rightarrow> Inl (400, ''pq_proof_no_credential'')))"

definition checkProofClaims ::
  "'k ext \<Rightarrow> 'k shim \<Rightarrow> time \<Rightarrow> request \<Rightarrow> jws \<Rightarrow> string \<Rightarrow> string \<Rightarrow> shim_rejection option \<times> replay_cache" where
  "checkProofClaims E s now r j classicalToken thumbprint =
     (case jws_claims E j of
        None \<Rightarrow> (Some (400, ''pq_proof_malformed''), sh_replay s)
      | Some claims \<Rightarrow>
          let ath = get_str claims ''ath'';
              got = NormalizeHTU E (get_str claims ''htu'');
              want2 = NormalizeHTU E (sc_issuer (sh_cfg s) @ rq_path r);
              window = sc_window (sh_cfg s);
              skew = sc_skew (sh_cfg s);
              jti = get_str claims ''jti''
          in if ath = [] then (Some (400, ''pq_proof_ath_missing''), sh_replay s)
             else if \<not> ct_equal ath (token_hash E classicalToken) then
               (Some (401, ''pq_proof_ath_mismatch''), sh_replay s)
             else if get_str claims ''htm'' \<noteq> rq_method r then (Some (400, ''pq_proof_htm_mismatch''), sh_replay s)
             else if got = None \<or> want2 = None \<or> got \<noteq> want2 then
               (Some (400, ''pq_proof_htu_mismatch''), sh_replay s)
             else case shim_numericClaim claims ''iat'' of
                    None \<Rightarrow> (Some (400, ''pq_proof_malformed''), sh_replay s)
                  | Some iat \<Rightarrow>
                      if iat_out_of_window window skew (unix_time iat) now then
                        (Some (400, ''pq_proof_iat_out_of_window''), sh_replay s)
                      else if jti = [] then (Some (400, ''pq_proof_jti_missing''), sh_replay s)
                      else case CheckAndStore (sh_replay s) (replay_key thumbprint jti)
                                  (proof_expiry window skew (unix_time iat)) now of
                             (ReplaySeen, rc) \<Rightarrow> (Some (401, ''pq_proof_replayed''), rc)
                           | (ReplayFull, rc) \<Rightarrow> (Some (503, ''pq_replay_cache_full''), rc)
                           | (ReplayFresh, rc) \<Rightarrow> (None, rc))"

text \<open>The value is the binding: the name of the confirmation method and the thumbprint.\<close>

definition verifyPQProof ::
  "'k ext \<Rightarrow> 'k shim \<Rightarrow> shim_io \<Rightarrow> request \<Rightarrow> string \<Rightarrow> string \<Rightarrow>
     (shim_rejection + string \<times> string) \<times> replay_cache" where
  "verifyPQProof E s io r classicalToken clientID =
     (case header_values r ProofHeader of
        [] \<Rightarrow> (Inl (400, ''pq_proof_missing''), sh_replay s)
      | [h] \<Rightarrow>
          (case ParseCompact E h of
             Inl _ \<Rightarrow> (Inl (400, ''pq_proof_malformed''), sh_replay s)
           | Inr j \<Rightarrow>
               if jws_typ j \<noteq> ProofType then (Inl (400, ''pq_proof_wrong_typ''), sh_replay s)
               else if \<not> has_prefix (jws_alg j) ''ML-DSA-'' then
                 (Inl (400, ''pq_proof_not_post_quantum''), sh_replay s)
               else case check_pq_credential E s (si_now_chain io) j clientID of
                      Inl rej \<Rightarrow> (Inl rej, sh_replay s)
                    | Inr (name, thumb) \<Rightarrow>
                        (case checkProofClaims E s (si_now_proof io) r j classicalToken thumb of
                           (Some rej, rc) \<Rightarrow> (Inl rej, rc)
                         | (None, rc) \<Rightarrow> (Inr (name, thumb), rc)))
      | _ \<Rightarrow> (Inl (400, ''pq_proof_multiple''), sh_replay s))"


section \<open>Issuing\<close>

definition carried_claims :: "string list" where
  "carried_claims = [''sub'', ''aud'', ''azp'', ''client_id'', ''scope'', ''realm_access'', ''resource_access'']"

definition issue_expiry :: "shim_config \<Rightarrow> time \<Rightarrow> jobj \<Rightarrow> time" where
  "issue_expiry cfg now claims =
     (let expires = time_add now (sc_lifetime cfg)
      in case shim_numericClaim claims ''exp'' of
           Some kcExp \<Rightarrow> if unix_time kcExp < expires then unix_time kcExp else expires
         | None \<Rightarrow> expires)"

definition issue_claims ::
  "'k ext \<Rightarrow> 'k shim \<Rightarrow> time \<Rightarrow> bytes \<Rightarrow> principal \<Rightarrow> string \<times> string \<Rightarrow> jobj" where
  "issue_claims E s now jti p binding =
     [(''iss'', VStr (sc_issuer (sh_cfg s))),
      (''iat'', VInt (time_unix now)),
      (''nbf'', VInt (time_unix now)),
      (''exp'', VInt (time_unix (issue_expiry (sh_cfg s) now (p_claims p)))),
      (''jti'', VStr (B64 jti)),
      (''cnf'', VObj [(fst binding, VStr (snd binding))])]
     @ List.map_filter (\<lambda>name. map_option (Pair name) (map_of (p_claims p) name)) carried_claims
     @ [(''upgraded_from'', VObj
          [(''iss'', (case map_of (p_claims p) ''iss'' of Some v \<Rightarrow> v | None \<Rightarrow> VNull)),
           (''binding'', VStr (p_binding p)),
           (''cnf'', VStr (p_thumbprint p)),
           (''upgraded_at'', VStr (rfc3339 E now)),
           (''shim_signing_alg'', VStr (sg_alg (sh_signer s)))])]"

definition issue ::
  "'k ext \<Rightarrow> 'k shim \<Rightarrow> shim_io \<Rightarrow> principal \<Rightarrow> string \<times> string \<Rightarrow> (string \<times> time) option" where
  "issue E s io p binding =
     (case si_random io of
        None \<Rightarrow> None
      | Some jti \<Rightarrow>
          (case SignCompact E (sh_signer s) [(''typ'', VStr ''at+jwt''), (''kid'', VStr (sh_kid s))]
                  (issue_claims E s (si_now_issue io) jti p binding) of
             None \<Rightarrow> None
           | Some token \<Rightarrow> Some (token, issue_expiry (sh_cfg s) (si_now_issue io) (p_claims p))))"

record upgrade_response =
  ur_access_token :: string
  ur_token_type :: string
  ur_expires_in :: int
  ur_alg :: string
  ur_cnf :: jobj

text \<open>\<open>int(d.Seconds())\<close>: the seconds as a double, rounded towards zero.\<close>

definition whole_seconds :: "duration \<Rightarrow> int" where
  "whole_seconds d = d_trunc_int (seconds d)"

datatype shim_reply = Shim_fail nat string | Shim_upgraded upgrade_response

definition handleUpgrade ::
  "'k ext \<Rightarrow> 'k shim \<Rightarrow> shim_io \<Rightarrow> request \<Rightarrow> shim_reply \<times> 'k shim" where
  "handleUpgrade E s io r =
     (case Authorize E (sh_validator s) (si_auth io) ModeLocal r of
        (Inl rej, v) \<Rightarrow> (Shim_fail (rj_status (reject rej)) (rj_code (reject rej)), s\<lparr>sh_validator := v\<rparr>)
      | (Inr p, v) \<Rightarrow>
          (let s1 = s\<lparr>sh_validator := v\<rparr>
           in case bearerToken r of
                None \<Rightarrow> (Shim_fail 401 ''authorization_malformed'', s1)
              | Some tok \<Rightarrow>
                  (case verifyPQProof E s1 io r tok (p_client_id p) of
                     (Inl (status, code), rc) \<Rightarrow> (Shim_fail status code, s1\<lparr>sh_replay := rc\<rparr>)
                   | (Inr binding, rc) \<Rightarrow>
                       (case issue E s1 io p binding of
                          None \<Rightarrow> (Shim_fail 500 ''issue_failed'', s1\<lparr>sh_replay := rc\<rparr>)
                        | Some (token, expiry) \<Rightarrow>
                            (Shim_upgraded
                               \<lparr>ur_access_token = token,
                                ur_token_type = (if fst binding = ''jkt'' then ''DPoP'' else ''Bearer''),
                                ur_expires_in = whole_seconds (time_sub expiry (si_now_reply io)),
                                ur_alg = sg_alg (sh_signer s1),
                                ur_cnf = [(fst binding, VStr (snd binding))]\<rparr>,
                             s1\<lparr>sh_replay := rc\<rparr>)))))"

text \<open>The introspection endpoint; \<open>None\<close> is a form that does not parse.\<close>

datatype introspection_reply = Introspect_fail nat string | Introspect_inactive | Introspect_active jobj

definition handleIntrospect :: "'k ext \<Rightarrow> 'k shim \<Rightarrow> time \<Rightarrow> string option \<Rightarrow> introspection_reply" where
  "handleIntrospect E s now form =
     (case form of
        None \<Rightarrow> Introspect_fail 400 ''introspection_malformed''
      | Some token \<Rightarrow>
          if token = [] then Introspect_fail 400 ''introspection_malformed''
          else case ParseCompact E token of
                 Inl _ \<Rightarrow> Introspect_inactive
               | Inr j \<Rightarrow>
                   if jws_kid j \<noteq> sh_kid s then Introspect_inactive
                   else case VerifySignature E j (Jwk_key (sg_pubkey (sh_signer s))) of
                          Inl _ \<Rightarrow> Introspect_inactive
                        | Inr _ \<Rightarrow>
                            (case jws_claims E j of
                               None \<Rightarrow> Introspect_inactive
                             | Some claims \<Rightarrow>
                                 if (case shim_numericClaim claims ''exp'' of
                                       Some expires \<Rightarrow> unix_time expires < now | None \<Rightarrow> False)
                                 then Introspect_inactive
                                 else Introspect_active (claims @ [(''active'', VBool True)])))"


section \<open>Facts of the shim\<close>

lemma bearerToken_parseAuthorization:
  "parseAuthorization r = Inr (scheme, token) \<Longrightarrow> bearerToken r = Some token"
  by (auto simp: parseAuthorization_def bearerToken_def Let_def split: list.splits option.splits if_splits)

text \<open>The thumbprint of a verified post-quantum credential.\<close>

definition pq_credential ::
  "'k ext \<Rightarrow> cert list \<Rightarrow> time \<Rightarrow> jws \<Rightarrow> string \<Rightarrow> string \<Rightarrow> string \<Rightarrow> bool" where
  "pq_credential E roots now j clientID name thumb \<longleftrightarrow>
     (name = ''x5t#S256'' \<and>
        (\<exists>leaf rest k. chainFromProof E j = Inr (leaf # rest) \<and> VerifyChain E (leaf # rest) roots now ClientAuth = Inr ()
           \<and> IsPostQuantum (c_pub leaf) \<and> (clientID \<noteq> [] \<longrightarrow> c_cn leaf = clientID)
           \<and> jwk_import E (c_pub leaf) = Some k \<and> jws_verify E (j_compact j) (jws_alg j) k
           \<and> thumb = ThumbprintS256 E leaf)) \<or>
     (name = ''jkt'' \<and>
        (\<exists>jwk pub. map_of (j_header j) ''jwk'' = Some (VObj jwk) \<and> get_str jwk ''kty'' = ''AKP''
           \<and> jwk_PublicKey E jwk = Some pub \<and> jws_verify E (j_compact j) (jws_alg j) pub
           \<and> jwk_Thumbprint E jwk = Some thumb))"

lemma header_member_Some: "header_member j n = Some v \<longleftrightarrow> map_of (j_header j) n = Some v \<and> v \<noteq> VNull"
  by (auto simp: header_member_def split: option.splits gval.splits)

lemma check_pq_credential_Inr:
  assumes "check_pq_credential E s now j clientID = Inr (name, thumb)"
  shows "pq_credential E (sh_pq_roots s) now j clientID name thumb"
proof (cases "header_member j ''x5c''")
  case (Some v)
  with assms have n: "name = ''x5t#S256''" and c: "check_pq_certificate E s now j clientID = Inr thumb"
    by (auto simp: check_pq_credential_def split: sum.splits)
  from c obtain chain u k where ch: "chainFromProof E j = Inr chain"
    "VerifyChain E chain (sh_pq_roots s) now ClientAuth = Inr ()"
    "IsPostQuantum (c_pub (hd chain))" "clientID \<noteq> [] \<longrightarrow> c_cn (hd chain) = clientID"
    "VerifySignature E j (Raw_key (c_pub (hd chain))) = Inr u" "thumb = ThumbprintS256 E (hd chain)"
    by (auto simp: check_pq_certificate_def Let_def split: sum.splits if_splits)
  then obtain leaf rest where "chain = leaf # rest" by (auto simp: VerifyChain_Inr)
  with ch n show ?thesis by (auto simp: pq_credential_def VerifySignature_Inr)
next
  case None
  with assms obtain raw where n: "name = ''jkt''" and r: "header_member j ''jwk'' = Some raw"
    and c: "check_pq_key E j raw = Inr thumb"
    by (auto simp: check_pq_credential_def split: sum.splits option.splits)
  then show ?thesis
    by (auto simp: pq_credential_def check_pq_key_def header_member_Some VerifySignature_Inr jwk_str_def
        split: gval.splits if_splits option.splits sum.splits)
qed

text \<open>What a proof shows about the token, the request and the time.\<close>

definition pq_proof_fits ::
  "'k ext \<Rightarrow> shim_config \<Rightarrow> time \<Rightarrow> request \<Rightarrow> jws \<Rightarrow> string \<Rightarrow> int \<Rightarrow> string \<Rightarrow> bool" where
  "pq_proof_fits E cfg now r j token iat jti \<longleftrightarrow>
     (\<exists>claims n. jws_claims E j = Some claims \<and> get_str claims ''ath'' = token_hash E token
        \<and> get_str claims ''htm'' = rq_method r \<and> NormalizeHTU E (get_str claims ''htu'') = Some n
        \<and> NormalizeHTU E (sc_issuer cfg @ rq_path r) = Some n
        \<and> shim_numericClaim claims ''iat'' = Some iat \<and> get_str claims ''jti'' = jti \<and> jti \<noteq> []
        \<and> \<not> iat_out_of_window (sc_window cfg) (sc_skew cfg) (unix_time iat) now)"

lemma checkProofClaims_None:
  assumes "checkProofClaims E s now r j token thumb = (None, rc)"
  obtains iat jti where "pq_proof_fits E (sh_cfg s) now r j token iat jti"
    "CheckAndStore (sh_replay s) (replay_key thumb jti)
       (proof_expiry (sc_window (sh_cfg s)) (sc_skew (sh_cfg s)) (unix_time iat)) now = (ReplayFresh, rc)"
  using assms
  by (auto simp: checkProofClaims_def pq_proof_fits_def Let_def ct_equal_def
      split: option.splits if_splits prod.splits replay_result.splits)

lemma verifyPQProof_Inr:
  assumes "verifyPQProof E s io r token clientID = (Inr (name, thumb), rc)"
  obtains h j iat jti where "header_values r ''X-PQ-Proof'' = [h]" "ParseCompact E h = Inr j"
    "jws_typ j = ''pq-binding+jwt''" "has_prefix (jws_alg j) ''ML-DSA-''"
    "pq_credential E (sh_pq_roots s) (si_now_chain io) j clientID name thumb"
    "pq_proof_fits E (sh_cfg s) (si_now_proof io) r j token iat jti"
    "CheckAndStore (sh_replay s) (replay_key thumb jti)
       (proof_expiry (sc_window (sh_cfg s)) (sc_skew (sh_cfg s)) (unix_time iat)) (si_now_proof io) = (ReplayFresh, rc)"
proof -
  from assms obtain h j where h: "header_values r ''X-PQ-Proof'' = [h]" "ParseCompact E h = Inr j"
    "jws_typ j = ''pq-binding+jwt''" "has_prefix (jws_alg j) ''ML-DSA-''"
    and c: "check_pq_credential E s (si_now_chain io) j clientID = Inr (name, thumb)"
    and p: "checkProofClaims E s (si_now_proof io) r j token thumb = (None, rc)"
    by (auto simp: verifyPQProof_def ProofHeader_def ProofType_def
        split: list.splits sum.splits if_splits prod.splits option.splits)
  from p show thesis
    using that h check_pq_credential_Inr [OF c] by (auto elim!: checkProofClaims_None)
qed

lemma handleUpgrade_upgraded:
  assumes "handleUpgrade E s io r = (Shim_upgraded u, s')"
  obtains p v token name thumb rc expires where
    "Authorize E (sh_validator s) (si_auth io) ModeLocal r = (Inr p, v)" "bearerToken r = Some token"
    "verifyPQProof E (s\<lparr>sh_validator := v\<rparr>) io r token (p_client_id p) = (Inr (name, thumb), rc)"
    "issue E (s\<lparr>sh_validator := v\<rparr>) io p (name, thumb) = Some (ur_access_token u, expires)"
    "ur_cnf u = [(name, VStr thumb)]" "s' = s\<lparr>sh_validator := v, sh_replay := rc\<rparr>"
    "ur_token_type u = (if name = ''jkt'' then ''DPoP'' else ''Bearer'')"
  using assms
  by (auto simp: handleUpgrade_def Let_def split: sum.splits prod.splits option.splits)

lemma check_pq_credential_thumb:
  assumes "check_pq_credential E s n j c = Inr (name, thumb)" "check_pq_credential E s' n' j c' = Inr (name', thumb')"
  shows "thumb' = thumb"
  using assms
  by (auto simp: check_pq_credential_def check_pq_certificate_def Let_def
      split: option.splits sum.splits if_splits)

lemma verifyPQProof_credential:
  assumes "verifyPQProof E s io r token clientID = (Inr (name, thumb), rc)"
  obtains h j iat jti where "header_values r ''X-PQ-Proof'' = [h]" "ParseCompact E h = Inr j"
    "check_pq_credential E s (si_now_chain io) j clientID = Inr (name, thumb)"
    "pq_proof_fits E (sh_cfg s) (si_now_proof io) r j token iat jti"
    "CheckAndStore (sh_replay s) (replay_key thumb jti)
       (proof_expiry (sc_window (sh_cfg s)) (sc_skew (sh_cfg s)) (unix_time iat)) (si_now_proof io) = (ReplayFresh, rc)"
  using assms
  by (auto simp: verifyPQProof_def ProofHeader_def
      split: list.splits sum.splits if_splits prod.splits option.splits elim!: checkProofClaims_None)

text \<open>A run of the shim: upgrade requests, one after the other.\<close>

definition shim_step :: "'k ext \<Rightarrow> 'k shim \<Rightarrow> shim_io \<times> request \<Rightarrow> 'k shim" where
  "shim_step E s c = snd (handleUpgrade E s (fst c) (snd c))"

lemma shim_step_static [simp]: "sh_cfg (shim_step E s c) = sh_cfg s" "sh_pq_roots (shim_step E s c) = sh_pq_roots s"
  by (auto simp: shim_step_def handleUpgrade_def Let_def split: sum.splits prod.splits option.splits)

lemma shim_run_static [simp]: "sh_cfg (foldl (shim_step E) s cs) = sh_cfg s"
  by (induction cs arbitrary: s) auto

lemma verifyPQProof_cache:
  "snd (verifyPQProof E s io r token c) = sh_replay s \<or>
   (\<exists>k e. snd (verifyPQProof E s io r token c) = snd (CheckAndStore (sh_replay s) k e (si_now_proof io)))"
proof -
  have "snd (checkProofClaims E s n r j t th) = sh_replay s \<or>
    (\<exists>k e. snd (checkProofClaims E s n r j t th) = snd (CheckAndStore (sh_replay s) k e n))" for n j t th
    by (auto simp: checkProofClaims_def Let_def split: option.splits prod.splits replay_result.splits)
      (metis snd_conv)+
  then show ?thesis
    by (auto simp: verifyPQProof_def split: list.splits sum.splits prod.splits option.splits) (metis snd_conv)+
qed

lemma shim_step_cache:
  "sh_replay (shim_step E s c) = sh_replay s \<or>
   (\<exists>k e. sh_replay (shim_step E s c) = snd (CheckAndStore (sh_replay s) k e (si_now_proof (fst c))))"
proof -
  have "sh_replay (shim_step E s c) = sh_replay s \<or>
    (\<exists>s1 token cl. sh_replay s1 = sh_replay s \<and> sh_replay (shim_step E s c) = snd (verifyPQProof E s1 (fst c) (snd c) token cl))"
    by (auto simp: shim_step_def handleUpgrade_def Let_def split: sum.splits prod.splits option.splits)
      (metis shim.select_convs(6) shim.surjective shim.update_convs(2) snd_conv)+
  then show ?thesis using verifyPQProof_cache by metis
qed

interpretation shim_replay: replay_client "shim_step E" sh_replay "\<lambda>c. si_now_proof (fst c)" for E
  by unfold_locales (rule shim_step_cache)

end
