(* ===== verification/Shim_Props.thy ===== *)
theory Shim_Props
  imports Shim Samples
begin

text \<open>
  A sample shim with an upgrade it accepts, and the properties of the exchange: what an
  upgrade has proved, what the issued token says, and that a proof is used once.
\<close>

section \<open>The sample shim\<close>

definition sample_shim :: "nat shim" where
  "sample_shim =
     \<lparr>sh_cfg = \<lparr>sc_listen_addr = '':8443'', sc_server_cert = ''c'', sc_server_key = ''k'',
        sc_issuer = ''https://s'', sc_signing_alg = ''ML-DSA-65'', sc_pq_bundle = [''pq.pem''],
        sc_lifetime = 600 * second, sc_window = 60 * second, sc_skew = 30 * second, sc_replay_size = 2,
        sc_pq_kex_only = False, sc_health_addr = '':8081''\<rparr>,
      sh_validator = sample_validator,
      sh_signer = \<lparr>sg_alg = ''ML-DSA-65'', sg_key = 7, sg_pubkey = 7, sg_jwk = [(''kty'', VStr ''AKP'')]\<rparr>,
      sh_kid = ''CQ'', sh_pq_roots = [sample_root], sh_replay = NewReplayCache 2\<rparr>"

definition sample_shim_io :: shim_io where
  "sample_shim_io = \<lparr>si_auth = sample_io t0, si_now_chain = t0, si_now_proof = t0, si_now_issue = t0,
     si_now_reply = t0, si_random = Some [1]\<rparr>"

definition upgrade_request :: request where
  "upgrade_request =
     \<lparr>rq_method = ''POST'', rq_host = ''s'', rq_path = ''/v1/upgrade'', rq_tls = Some [sample_leaf],
      rq_headers = [(''Authorization'', ''Bearer AQ.Ag.AA''), (''X-PQ-Proof'', ''CA.CQ.AA'')]\<rparr>"

lemma sample_shim_sel [simp]:
  "sc_issuer (sh_cfg sample_shim) = ''https://s''" "sc_lifetime (sh_cfg sample_shim) = 600 * second"
  "sc_window (sh_cfg sample_shim) = 60 * second" "sc_skew (sh_cfg sample_shim) = 30 * second"
  "sh_validator sample_shim = sample_validator" "sh_kid sample_shim = ''CQ''"
  "sg_alg (sh_signer sample_shim) = ''ML-DSA-65''" "sg_key (sh_signer sample_shim) = 7"
  "sg_pubkey (sh_signer sample_shim) = 7" "sh_replay sample_shim = NewReplayCache 2"
  "si_auth sample_shim_io = sample_io t0" "si_now_chain sample_shim_io = t0" "si_now_proof sample_shim_io = t0"
  "si_now_issue sample_shim_io = t0" "si_random sample_shim_io = Some [1]"
  by (simp_all add: sample_shim_def sample_shim_io_def)

definition sample_principal :: principal where
  "sample_principal = (base_principal ModeLocal (sample_claims (sample_cnf ''x5t#S256'' ''yA'')))
        \<lparr>p_binding := ''x5t#S256'', p_thumbprint := ''yA''\<rparr>"

lemma sample_principal_sel [simp]:
  "p_claims sample_principal = sample_claims (sample_cnf ''x5t#S256'' ''yA'')"
  "p_binding sample_principal = ''x5t#S256''" "p_thumbprint sample_principal = ''yA''"
  by (simp_all add: sample_principal_def base_principal_def)

lemma sample_authorized:
  assumes "parseAuthorization r = Inr (''bearer'', ''AQ.Ag.AA'')" "rq_tls r = Some [sample_leaf]"
  shows "Authorize sample_ext sample_validator (sample_io t0) ModeLocal r =
     (Inr sample_principal, sample_validator\<lparr>v_keys := sample_keys\<rparr>)"
proof -
  have l: "validateLocally sample_ext sample_validator (sample_io t0) ''AQ.Ag.AA'' =
     (Inr (sample_claims (sample_cnf ''x5t#S256'' ''yA'')), sample_keys)"
    by (rule sample_local [OF sample_parse(1)]) simp_all
  show ?thesis
    using sample_scope [of "sample_cnf ''x5t#S256'' ''yA''"]
    by (simp add: Authorize_def assms token_claims_def l confirmation_def cnfString_def
        check_binding_def checkCertificateBinding_def sample_chain sample_thumb ct_equal_def
        sample_principal_def)
qed

lemma upgrade_authorized:
  "Authorize sample_ext sample_validator (sample_io t0) ModeLocal upgrade_request =
     (Inr sample_principal, sample_validator\<lparr>v_keys := sample_keys\<rparr>)"
  by (rule sample_authorized) (simp_all add: parseAuthorization_def header_values_def upgrade_request_def trim_space_def cut_def
        is_space_def Let_def)

abbreviation "sample_pq_proof \<equiv> \<lparr>j_compact = ''CA.CQ.AA'',
     j_header = [(''typ'', VStr ''pq-binding+jwt''), (''alg'', VStr ''ML-DSA-65''),
       (''jwk'', VObj [(''kty'', VStr ''AKP'')])], j_payload = [9]\<rparr>"

lemma sample_mldsa [simp]: "LookupAlg sample_ext ''ML-DSA-65'' = Inr ''ML-DSA-65''"
  by (simp add: LookupAlg_def equal_fold_def to_lower_def to_upper_def to_lower_char_def
      to_upper_char_def has_prefix_def sample_ext_def)

lemma sample_pq_key: "check_pq_credential sample_ext s now sample_pq_proof c = Inr (''jkt'', ''CQ'')"
proof -
  have k: "jwk_PublicKey sample_ext [(''kty'', VStr ''AKP'')] = Some 7"
    by (simp add: jwk_PublicKey_def privateMembers_def sample_ext_def)
  have v: "jws_verify sample_ext x a 7" for x a by (simp add: sample_ext_def)
  show ?thesis
    by (simp add: check_pq_credential_def header_member_def check_pq_key_def jwk_str_def get_str_def k v
        VerifySignature_def jws_alg_def sample_thumb_key)
qed

lemma sample_pq_claims:
  assumes "sh_cfg s = sh_cfg sample_shim" "sh_replay s = NewReplayCache 2"
  shows "checkProofClaims sample_ext s t0 upgrade_request sample_pq_proof ''AQ.Ag.AA'' ''CQ'' =
     (None, \<lparr>rc_entries = [(''CQ:n3'', t0 + 120 * second)], rc_max = 2, rc_last_sweep = t0\<rparr>)"
proof -
  have d: "json_decode sample_ext [9] = Some (VObj [(''jti'', VStr ''n3''), (''htm'', VStr ''POST''),
      (''htu'', VStr ''https://s/v1/upgrade''), (''iat'', VNum ''1000''), (''ath'', VStr ''QVE'')])"
    by (simp add: sample_ext_def sample_json_def)
  have h: "token_hash sample_ext ''AQ.Ag.AA'' = ''QVE''"
    by (simp add: token_hash_def sample_ext_def B64_def b64_char_def b64_alphabet_def bytes_of_def)
  have u: "NormalizeHTU sample_ext ''https://s/v1/upgrade'' = Some ''https://s/v1/upgrade''"
    by (simp add: NormalizeHTU_def sample_ext_def sample_url_def norm_authority_def url_hostname_def
        url_port_def split_host_port_def last_colon_def cut_def strip_brackets_def has_prefix_def
        to_lower_def to_lower_char_def)
  have r: "rq_method upgrade_request = ''POST''" "rq_path upgrade_request = ''/v1/upgrade''"
    by (simp_all add: upgrade_request_def)
  have w: "\<not> iat_out_of_window (60 * second) (30 * second) t0 t0"
    using sample_time_bounds by (simp add: iat_out_of_window_def wrap64_id)
  have e: "proof_expiry (60 * second) (30 * second) t0 = t0 + 120 * second"
    using sample_time_bounds by (simp add: proof_expiry_def wrap64_id)
  show ?thesis
    using w e by (simp add: checkProofClaims_def jws_claims_def decodeObject_def d h u r get_str_def Let_def
        ct_equal_def assms shim_numericClaim_def sample_cache replay_key_def)
qed

lemma sample_verify_pq:
  assumes "sh_cfg s = sh_cfg sample_shim" "sh_replay s = NewReplayCache 2"
  shows "verifyPQProof sample_ext s sample_shim_io upgrade_request ''AQ.Ag.AA'' c =
    (Inr (''jkt'', ''CQ''), \<lparr>rc_entries = [(''CQ:n3'', t0 + 120 * second)], rc_max = 2, rc_last_sweep = t0\<rparr>)"
proof -
  have h: "header_values upgrade_request ProofHeader = [''CA.CQ.AA'']"
    by (simp add: header_values_def upgrade_request_def ProofHeader_def)
  show ?thesis
    by (simp add: verifyPQProof_def h jws_typ_def jws_alg_def get_str_def ProofType_def has_prefix_def
        sample_pq_key sample_pq_claims [OF assms])
qed

lemma sample_expiry: "issue_expiry (sh_cfg sample_shim) t0 (sample_claims xs) = t0 + 300 * second"
proof -
  have "time_add t0 (600 * second) = t0 + 600 * second" by (rule time_add_sane) (simp_all add: is_duration_def)
  then show ?thesis by (simp add: issue_expiry_def Let_def shim_numericClaim_def)
qed

lemma sample_unix: "time_unix t0 = 1000" "time_unix (t0 + 300 * second) = 1300"
  by (simp_all add: time_unix_def t0_def unix_offset_def wrap64_id)

lemma sample_issue:
  assumes "sh_cfg s = sh_cfg sample_shim" "sh_signer s = sh_signer sample_shim" "sh_kid s = ''CQ''"
  shows "issue sample_ext s sample_shim_io sample_principal (''jkt'', ''CQ'') = Some (''Cw.Cg.AA'', t0 + 300 * second)"
proof -
  have b: "B64 [1] = ''AQ''" by (simp add: B64_def b64_char_def b64_alphabet_def)
  have r: "rfc3339 sample_ext t0 = ''1970''" by (simp add: sample_ext_def)
  have "issue_claims sample_ext s t0 [1] sample_principal (''jkt'', ''CQ'') = sample_issued"
    using sample_expiry [of "sample_cnf ''x5t#S256'' ''yA''"] sample_unix
    by (simp add: issue_claims_def assms carried_claims_def map_filter_simps b r sample_issued_def)
  moreover have "json_encode sample_ext (VObj sample_issued) = Some [10]" by (simp add: sample_ext_def)
  moreover have "jws_sign sample_ext ''ML-DSA-65'' 7 [(''typ'', VStr ''at+jwt''), (''kid'', VStr ''CQ'')] [10] = Some ''Cw.Cg.AA''"
    by (simp add: sample_ext_def)
  ultimately show ?thesis
    using sample_expiry [of "sample_cnf ''x5t#S256'' ''yA''"]
    by (simp add: issue_def SignCompact_def assms)
qed

definition sample_upgraded :: "nat shim" where
  "sample_upgraded = snd (handleUpgrade sample_ext sample_shim sample_shim_io upgrade_request)"

lemma sample_upgrade:
  "handleUpgrade sample_ext sample_shim sample_shim_io upgrade_request =
     (Shim_upgraded \<lparr>ur_access_token = ''Cw.Cg.AA'', ur_token_type = ''DPoP'', ur_expires_in = 300,
        ur_alg = ''ML-DSA-65'', ur_cnf = [(''jkt'', VStr ''CQ'')]\<rparr>, sample_upgraded)"
proof -
  have b: "bearerToken upgrade_request = Some ''AQ.Ag.AA''"
    by (simp add: bearerToken_def header_values_def upgrade_request_def trim_space_def cut_def is_space_def)
  let ?s = "sample_shim\<lparr>sh_validator := sample_validator\<lparr>v_keys := sample_keys\<rparr>\<rparr>"
  have v: "verifyPQProof sample_ext ?s sample_shim_io upgrade_request ''AQ.Ag.AA'' c =
    (Inr (''jkt'', ''CQ''), \<lparr>rc_entries = [(''CQ:n3'', t0 + 120 * second)], rc_max = 2, rc_last_sweep = t0\<rparr>)" for c
    by (rule sample_verify_pq) simp_all
  have i: "issue sample_ext ?s sample_shim_io sample_principal (''jkt'', ''CQ'') = Some (''Cw.Cg.AA'', t0 + 300 * second)"
    by (rule sample_issue) simp_all
  have n: "si_now_reply sample_shim_io = t0" by (simp add: sample_shim_io_def)
  have w: "whole_seconds 300000000000 = 300" using seconds_whole [of 300] by (simp add: whole_seconds_def)
  show ?thesis
    unfolding sample_upgraded_def
    by (simp add: handleUpgrade_def upgrade_authorized b v i n time_sub_def w Let_def)
qed


section \<open>Properties of the upgrade\<close>

text \<open>C17: An upgrade is a binding transfer with both credentials proved in one request: the classical token
  and its binding were accepted by the validator, and one ML-DSA proof, signed by the key of
  a trusted certificate of the same client or by the AKP key it carries, names this token,
  method, URI and time; the new token is bound to exactly that credential.\<close>
theorem upgrade_transfers_binding:
  assumes "handleUpgrade E s io r = (Shim_upgraded u, s')"
  shows "\<exists>p scheme token h j name thumb iat jti.
    fst (Authorize E (sh_validator s) (si_auth io) ModeLocal r) = Inr p \<and>
    parseAuthorization r = Inr (scheme, token) \<and>
    header_values r ''X-PQ-Proof'' = [h] \<and> ParseCompact E h = Inr j \<and>
    jws_typ j = ''pq-binding+jwt'' \<and> has_prefix (jws_alg j) ''ML-DSA-'' \<and>
    pq_credential E (sh_pq_roots s) (si_now_chain io) j (p_client_id p) name thumb \<and>
    pq_proof_fits E (sh_cfg s) (si_now_proof io) r j token iat jti \<and>
    ur_cnf u = [(name, VStr thumb)] \<and> ur_token_type u = (if name = ''jkt'' then ''DPoP'' else ''Bearer'')"
  using assms
proof (rule handleUpgrade_upgraded)
  fix p v token name thumb rc expires
  assume a: "Authorize E (sh_validator s) (si_auth io) ModeLocal r = (Inr p, v)" "bearerToken r = Some token"
    and pq: "verifyPQProof E (s\<lparr>sh_validator := v\<rparr>) io r token (p_client_id p) = (Inr (name, thumb), rc)"
    and u: "ur_cnf u = [(name, VStr thumb)]" "ur_token_type u = (if name = ''jkt'' then ''DPoP'' else ''Bearer'')"
  from a obtain scheme where "parseAuthorization r = Inr (scheme, token)"
    by (metis Authorize_Inr bearerToken_parseAuthorization option.inject)
  with a u show ?thesis
    using pq by (auto elim!: verifyPQProof_Inr) blast
qed

theorem upgrade_transfers_binding_witness:
  "\<exists>h j iat jti. header_values upgrade_request ''X-PQ-Proof'' = [h] \<and> ParseCompact sample_ext h = Inr j \<and>
     pq_proof_fits sample_ext (sh_cfg sample_shim) t0 upgrade_request j ''AQ.Ag.AA'' iat jti"
proof -
  have a: "parseAuthorization upgrade_request = Inr (''bearer'', ''AQ.Ag.AA'')"
    by (simp add: parseAuthorization_def header_values_def upgrade_request_def trim_space_def cut_def
        is_space_def Let_def)
  show ?thesis
    using upgrade_transfers_binding [OF sample_upgrade]
    by (auto simp: a)
qed

lemma issue_claims_carried:
  assumes "n \<in> set carried_claims"
  shows "map_of (issue_claims E s now jti p (name, thumb)) n = map_of (p_claims p) n"
proof -
  have "n \<notin> {''iss'', ''iat'', ''nbf'', ''exp'', ''jti'', ''cnf'', ''upgraded_from''}" using assms by (auto simp: carried_claims_def)
  with assms show ?thesis by (simp add: issue_claims_def map_add_def map_of_selected split: option.split)
qed




lemma sample_signs: "signs_with sample_ext (sh_signer sample_shim)"
proof -
  have v: "jws_verify sample_ext x a 7" for x a by (simp add: sample_ext_def)
  have s: "jws_sign sample_ext ''ML-DSA-65'' 7 header payload = Some token \<longleftrightarrow>
      header = [(''typ'', VStr ''at+jwt''), (''kid'', VStr ''CQ'')] \<and> payload = [10] \<and> token = ''Cw.Cg.AA''"
    for header payload token
    by (auto simp: sample_ext_def)
  show ?thesis
    unfolding signs_with_def sample_shim_sel s by (auto simp: v)
qed

lemma sample_json_inverse: "json_inverse sample_ext"
  by (auto simp: json_inverse_def sample_ext_def sample_json_def)

lemma issue_Some:
  assumes "issue E s io p binding = Some (token, expires)"
  obtains jti where "si_random io = Some jti"
    "SignCompact E (sh_signer s) [(''typ'', VStr ''at+jwt''), (''kid'', VStr (sh_kid s))]
       (issue_claims E s (si_now_issue io) jti p binding) = Some token"
    "expires = issue_expiry (sh_cfg s) (si_now_issue io) (p_claims p)"
  using assms by (auto simp: issue_def split: option.splits)




text \<open>C20: A post-quantum proof upgrades one token once: after an upgrade, no request carrying the same
  proof header is upgraded again, whatever requests the shim served in between, as long as
  their clocks are less than the skew ahead.\<close>
theorem pq_proof_single_use:
  assumes first: "handleUpgrade E s io r = (Shim_upgraded u, s1)"
    and cfg: "0 < sc_skew (sh_cfg s)" "0 \<le> sc_window (sh_cfg s)"
      "sc_window (sh_cfg s) + 2 * sc_skew (sh_cfg s) \<le> max_int64"
    and clocks: "sane_time (si_now_proof io)" "sane_time (si_now_proof io')"
      "\<forall>c\<in>set cs. si_now_proof (fst c) < si_now_proof io' + sc_skew (sh_cfg s)"
    and same: "header_values r' ''X-PQ-Proof'' = header_values r ''X-PQ-Proof''"
  shows "\<nexists>u'. fst (handleUpgrade E (foldl (shim_step E) s1 cs) io' r') = Shim_upgraded u'"
proof
  let ?w = "sc_window (sh_cfg s)" and ?k = "sc_skew (sh_cfg s)"
  let ?s2 = "foldl (shim_step E) s1 cs"
  assume "\<exists>u'. fst (handleUpgrade E ?s2 io' r') = Shim_upgraded u'"
  then obtain u' s3 where again: "handleUpgrade E ?s2 io' r' = (Shim_upgraded u', s3)"
    by (metis prod.collapse)
  have s1: "sh_cfg s1 = sh_cfg s" using shim_step_static(1) [of E s "(io, r)"] first by (simp add: shim_step_def)
  then have s2: "sh_cfg ?s2 = sh_cfg s" by simp
  from first obtain v token cl name thumb where
    p: "verifyPQProof E (s\<lparr>sh_validator := v\<rparr>) io r token cl = (Inr (name, thumb), sh_replay s1)"
    by (rule handleUpgrade_upgraded) auto
  from again obtain v' token' cl' name' thumb' where
    p': "verifyPQProof E (?s2\<lparr>sh_validator := v'\<rparr>) io' r' token' cl' = (Inr (name', thumb'), sh_replay s3)"
    by (rule handleUpgrade_upgraded) auto
  from p obtain h j iat jti where h: "header_values r ''X-PQ-Proof'' = [h]" "ParseCompact E h = Inr j"
    and cr: "check_pq_credential E (s\<lparr>sh_validator := v\<rparr>) (si_now_chain io) j cl = Inr (name, thumb)"
    and fit: "pq_proof_fits E (sh_cfg s) (si_now_proof io) r j token iat jti"
    and st: "CheckAndStore (sh_replay s) (replay_key thumb jti)
       (proof_expiry ?w ?k (unix_time iat)) (si_now_proof io) = (ReplayFresh, sh_replay s1)"
    by (rule verifyPQProof_credential) auto
  from p' obtain h' j' iat' jti' where h': "header_values r' ''X-PQ-Proof'' = [h']" "ParseCompact E h' = Inr j'"
    and cr': "check_pq_credential E (?s2\<lparr>sh_validator := v'\<rparr>) (si_now_chain io') j' cl' = Inr (name', thumb')"
    and fit': "pq_proof_fits E (sh_cfg s) (si_now_proof io') r' j' token' iat' jti'"
    and st': "CheckAndStore (sh_replay ?s2) (replay_key thumb' jti')
       (proof_expiry ?w ?k (unix_time iat')) (si_now_proof io') = (ReplayFresh, sh_replay s3)"
    by (rule verifyPQProof_credential) (auto simp: s1)
  have j: "j' = j" using h h' same by auto
  have eq: "iat' = iat" "jti' = jti" using fit fit' by (auto simp: pq_proof_fits_def j)
  have th: "thumb' = thumb" using check_pq_credential_thumb [OF cr cr' [unfolded j]] .
  have win: "\<not> iat_out_of_window ?w ?k (unix_time iat) (si_now_proof io)"
    "\<not> iat_out_of_window ?w ?k (unix_time iat) (si_now_proof io')"
    using fit fit' eq by (auto simp: pq_proof_fits_def)
  show False
    using shim_replay.accepted_proof_refused [where E = E, OF st win cfg clocks] st' eq th by simp
qed

theorem pq_proof_single_use_witness:
  "\<nexists>u'. fst (handleUpgrade sample_ext sample_upgraded sample_shim_io upgrade_request) = Shim_upgraded u'"
  using pq_proof_single_use [OF sample_upgrade, of sample_shim_io "[]" upgrade_request] by simp


text \<open>The limit of C18: for a Keycloak token whose \<open>exp\<close> is a number but not an integer literal the
  validator enforces its value, while the upgrade ignores it, so the upgraded token outlives
  the Keycloak token whenever the lifetime reaches beyond it.\<close>
lemma fractional_exp_outlived:
  assumes "map_of kc ''exp'' = Some (VNum s)" and "parse_int64 s = None" and "num_float64 E s = Some f"
    and "unix_time f < time_add now (sc_lifetime cfg)"
  shows "numericClaim E kc ''exp'' = Claim_num f \<and> unix_time f < issue_expiry cfg now kc \<and>
    (time_add (unix_time f) (vc_skew vcfg) < now \<longrightarrow> check_times E vcfg now kc = Some ReasonTokenExpired)"
  using assms by (simp add: numericClaim_def issue_expiry_def shim_numericClaim_def Let_def check_times_def)

end
