(* ===== verification/Ledger.thy ===== *)
theory Ledger
  imports Single_Use Ext
begin

text \<open>
  \<open>ca/enroll/ledger.go\<close>: the append-only file of consumed bootstrap certificates.  The state is
  the content of the file and the set of keys in memory.  What the operating system does with
  an append -- refuse to open, write only a part, fail to sync -- is an input of the call, so
  the effect of every failure on the file is part of the model, and so is a restart, which
  reads the file again.
\<close>

section \<open>Keys\<close>

definition hex_digit :: "nat \<Rightarrow> char" where
  "hex_digit d = (if d < 10 then char_of (48 + d) else char_of (87 + d))"

definition hex_encode :: "bytes \<Rightarrow> string" where
  "hex_encode b = concat (map (\<lambda>w. [hex_digit (unat w div 16), hex_digit (unat w mod 16)]) b)"

text \<open>\<open>big.Int.Text(16)\<close> of a serial number.\<close>

fun show_hex :: "nat \<Rightarrow> string" where
  "show_hex n = (if n < 16 then [hex_digit n] else show_hex (n div 16) @ [hex_digit (n mod 16)])"

declare show_hex.simps [simp del]

definition credentialKey :: "cert \<Rightarrow> string" where
  "credentialKey c = hex_encode (c_issuer c) @ '':'' @ show_hex (c_serial c)"


section \<open>The ledger\<close>

record ledger =
  lg_file :: "string option" \<comment> \<open>\<open>None\<close> while the file does not exist\<close>
  lg_used :: "string list"

text \<open>The lines \<open>bufio.Scanner\<close> delivers: a trailing carriage return is dropped.\<close>

definition drop_cr :: "string \<Rightarrow> string" where
  "drop_cr s = (if s \<noteq> [] \<and> last s = CHR 0x0D then butlast s else s)"

definition raw_lines :: "string \<Rightarrow> string list" where
  "raw_lines content =
     (let ws = split_on CHR 0x0A content in if last ws = [] then butlast ws else ws)"

definition scan_lines :: "string \<Rightarrow> string list" where
  "scan_lines content = map drop_cr (raw_lines content)"

definition line_key :: "string \<Rightarrow> string option" where
  "line_key line = map_option fst (cut CHR '' '' line)"

definition file_keys :: "string \<Rightarrow> string list" where
  "file_keys content = List.map_filter line_key (scan_lines content)"

text \<open>\<open>OpenUsedCredentials\<close>: a line of 65536 bytes or more stops the scanner with an error.\<close>

definition OpenUsedCredentials :: "string option \<Rightarrow> ledger option" where
  "OpenUsedCredentials file =
     (case file of
        None \<Rightarrow> Some \<lparr>lg_file = None, lg_used = []\<rparr>
      | Some content \<Rightarrow>
          if list_ex (\<lambda>l. 65535 < length l) (raw_lines content) then None
          else Some \<lparr>lg_file = Some content, lg_used = file_keys content\<rparr>)"

datatype append_outcome =
    Open_failed
  | Write_failed nat \<comment> \<open>after that many bytes reached the file\<close>
  | Sync_failed
  | Appended

datatype consume_error = Already_used | Ledger_io

definition ledger_line :: "cert \<Rightarrow> string \<Rightarrow> string" where
  "ledger_line c stamp = credentialKey c @ '' '' @ c_cn c @ '' '' @ stamp @ [CHR 0x0A]"

definition append_to :: "string option \<Rightarrow> string \<Rightarrow> string option" where
  "append_to file s = Some ((case file of None \<Rightarrow> [] | Some content \<Rightarrow> content) @ s)"

definition Consume ::
  "ledger \<Rightarrow> cert \<Rightarrow> string \<Rightarrow> append_outcome \<Rightarrow> (consume_error + unit) \<times> ledger" where
  "Consume u c stamp out =
     (if credentialKey c \<in> set (lg_used u) then (Inl Already_used, u)
      else
        let line = ledger_line c stamp
        in case out of
             Open_failed \<Rightarrow> (Inl Ledger_io, u)
           | Write_failed n \<Rightarrow> (Inl Ledger_io, u\<lparr>lg_file := append_to (lg_file u) (take n line)\<rparr>)
           | Sync_failed \<Rightarrow> (Inl Ledger_io, u\<lparr>lg_file := append_to (lg_file u) line\<rparr>)
           | Appended \<Rightarrow>
               (Inr (), u\<lparr>lg_file := append_to (lg_file u) line, lg_used := credentialKey c # lg_used u\<rparr>))"


section \<open>Keys identify credentials\<close>

lemma hex_digit_inj: "\<lbrakk>hex_digit a = hex_digit b; a < 16; b < 16\<rbrakk> \<Longrightarrow> a = b"
proof -
  assume h: "hex_digit a = hex_digit b" and ab: "a < 16" "b < 16"
  have v: "(of_char (hex_digit d) :: nat) = (if d < 10 then 48 + d else 87 + d)" if "d < 16" for d
    using that by (simp add: hex_digit_def)
  from h have "(of_char (hex_digit a) :: nat) = of_char (hex_digit b)" by simp
  with ab show ?thesis by (simp add: v split: if_splits)
qed

lemma hex_digit_val: "d < 16 \<Longrightarrow> (of_char (hex_digit d) :: nat) \<in> {48..57} \<union> {97..102}"
  by (auto simp: hex_digit_def)

text \<open>Keys are free of the characters that structure the file.\<close>

definition plain_char :: "char \<Rightarrow> bool" where
  "plain_char c \<longleftrightarrow> c \<noteq> CHR '':'' \<and> c \<noteq> CHR '' '' \<and> c \<noteq> CHR 0x0A \<and> c \<noteq> CHR 0x0D"

lemma hex_digit_plain: "d < 16 \<Longrightarrow> plain_char (hex_digit d)"
  using hex_digit_val [of d] by (auto simp: plain_char_def)

lemma hex_encode_plain: "list_all plain_char (hex_encode b)"
proof -
  have "unat (w :: 8 word) div 16 < 16" for w using unat8_less [of w] by auto
  then show ?thesis by (auto simp: hex_encode_def list_all_iff intro: hex_digit_plain)
qed

lemma hex_encode_inj: "hex_encode a = hex_encode b \<Longrightarrow> a = b"
proof (induction a arbitrary: b)
  case Nil
  then show ?case by (cases b) (auto simp: hex_encode_def)
next
  case (Cons x a)
  then obtain y b' where b: "b = y # b'" by (cases b) (auto simp: hex_encode_def)
  have lt: "unat (w :: 8 word) div 16 < 16" for w using unat8_less [of w] by auto
  from Cons.prems b have "hex_digit (unat x div 16) = hex_digit (unat y div 16)"
    "hex_digit (unat x mod 16) = hex_digit (unat y mod 16)" "hex_encode a = hex_encode b'"
    by (auto simp: hex_encode_def)
  then have "unat x div 16 = unat y div 16" "unat x mod 16 = unat y mod 16" "a = b'"
    using Cons.IH lt by (auto dest: hex_digit_inj)
  then have "unat x = unat y" by (metis div_mult_mod_eq)
  then have "x = y" by (rule unsigned_word_eqI)
  then show ?case using b \<open>a = b'\<close> by simp
qed

lemma show_hex_plain: "list_all plain_char (show_hex n)"
proof (induction n rule: show_hex.induct)
  case (1 n)
  then show ?case
    by (cases "n < 16") (subst show_hex.simps, simp add: hex_digit_plain)+
qed

lemma show_hex_inj: "show_hex m = show_hex n \<Longrightarrow> m = n"
proof (induction m arbitrary: n rule: show_hex.induct)
  case (1 m)
  have ne: "show_hex k \<noteq> []" for k by (subst show_hex.simps) simp
  show ?case
  proof (cases "m < 16")
    case True
    then have m: "show_hex m = [hex_digit m]" by (subst show_hex.simps) simp
    show ?thesis
    proof (cases "n < 16")
      case True
      then have "show_hex n = [hex_digit n]" by (subst show_hex.simps) simp
      with m 1(2) \<open>m < 16\<close> True show ?thesis by (auto dest: hex_digit_inj)
    next
      case False
      then have "show_hex n = show_hex (n div 16) @ [hex_digit (n mod 16)]" by (subst show_hex.simps) simp
      with m 1(2) ne [of "n div 16"] show ?thesis by auto
    qed
  next
    case False
    then have m: "show_hex m = show_hex (m div 16) @ [hex_digit (m mod 16)]" by (subst show_hex.simps) simp
    show ?thesis
    proof (cases "n < 16")
      case True
      then have "show_hex n = [hex_digit n]" by (subst show_hex.simps) simp
      with m 1(2) ne [of "m div 16"] show ?thesis by auto
    next
      case F: False
      then have "show_hex n = show_hex (n div 16) @ [hex_digit (n mod 16)]" by (subst show_hex.simps) simp
      with m 1(2) have "show_hex (m div 16) = show_hex (n div 16)" "hex_digit (m mod 16) = hex_digit (n mod 16)"
        by auto
      then have "m div 16 = n div 16" "m mod 16 = n mod 16"
        using 1(1) False by (auto dest: hex_digit_inj)
      then show ?thesis by (metis div_mult_mod_eq)
    qed
  qed
qed

lemma credentialKey_inj:
  assumes "credentialKey a = credentialKey b"
  shows "c_issuer a = c_issuer b" "c_serial a = c_serial b"
proof -
  have n: "CHR '':'' \<notin> set (hex_encode x)" for x
    using hex_encode_plain [of x] by (auto simp: list_all_iff plain_char_def)
  have "cut CHR '':'' (credentialKey a) = cut CHR '':'' (credentialKey b)" using assms by simp
  then have "hex_encode (c_issuer a) = hex_encode (c_issuer b) \<and> show_hex (c_serial a) = show_hex (c_serial b)"
    using n by (simp add: credentialKey_def cut_append)
  then show "c_issuer a = c_issuer b" "c_serial a = c_serial b"
    using hex_encode_inj show_hex_inj by auto
qed

lemma credentialKey_chars: "CHR '' '' \<notin> set (credentialKey c)" "CHR 0x0A \<notin> set (credentialKey c)"
  using hex_encode_plain [of "c_issuer c"] show_hex_plain [of "c_serial c"]
  by (auto simp: credentialKey_def list_all_iff plain_char_def)


section \<open>The file remembers what memory holds\<close>

definition terminated :: "string \<Rightarrow> bool" where
  "terminated content \<longleftrightarrow> content = [] \<or> last content = CHR 0x0A"

lemma raw_lines_append:
  assumes "terminated content" and "CHR 0x0A \<notin> set l"
  shows "raw_lines (content @ l @ [CHR 0x0A]) = raw_lines content @ [l]"
proof (cases "content = []")
  case True
  then show ?thesis using split_on_append [OF assms(2), of "[]"] by (simp add: raw_lines_def Let_def)
next
  case False
  then obtain c0 where c: "content = c0 @ [CHR 0x0A]"
    using assms(1) by (metis append_butlast_last_id terminated_def)
  have "split_on CHR 0x0A (content @ l @ [CHR 0x0A]) = split_on CHR 0x0A c0 @ [l, []]"
    using split_on_glue [of "CHR 0x0A" c0 "l @ [CHR 0x0A]"] split_on_append [OF assms(2), of "[]"] by (simp add: c)
  moreover have "split_on CHR 0x0A content = split_on CHR 0x0A c0 @ [[]]"
    using split_on_glue [of "CHR 0x0A" c0 "[]"] by (simp add: c)
  ultimately show ?thesis by (simp add: raw_lines_def Let_def butlast_append)
qed

lemma line_key_ledger:
  assumes "CHR '' '' \<notin> set k"
  shows "line_key (drop_cr (k @ CHR '' '' # r)) = Some k"
proof (cases "r = []")
  case True
  then show ?thesis using assms by (simp add: drop_cr_def line_key_def cut_append)
next
  case False
  then have "drop_cr (k @ CHR '' '' # r) = k @ CHR '' '' # drop_cr r"
    by (simp add: drop_cr_def butlast_append)
  then show ?thesis using assms by (simp add: line_key_def cut_append)
qed

lemma file_keys_append:
  assumes "terminated content" and "CHR 0x0A \<notin> set (c_cn c)" and "CHR 0x0A \<notin> set stamp"
  shows "file_keys (content @ ledger_line c stamp) = file_keys content @ [credentialKey c]"
proof -
  let ?l = "credentialKey c @ CHR '' '' # c_cn c @ '' '' @ stamp"
  have "CHR 0x0A \<notin> set ?l" using assms(2,3) credentialKey_chars(2) by auto
  from raw_lines_append [OF assms(1) this]
  have "raw_lines (content @ ledger_line c stamp) = raw_lines content @ [?l]"
    by (simp add: ledger_line_def)
  then show ?thesis
    using line_key_ledger [OF credentialKey_chars(1), of c "c_cn c @ '' '' @ stamp"]
    by (simp add: file_keys_def scan_lines_def map_filter_def)
qed

text \<open>
  The invariant: every key in memory is in the file, whose last line is complete and whose
  lines the scanner accepts.
\<close>

definition ledger_ok :: "ledger \<Rightarrow> bool" where
  "ledger_ok u \<longleftrightarrow>
     (case lg_file u of
        None \<Rightarrow> lg_used u = []
      | Some content \<Rightarrow> terminated content \<and> set (lg_used u) \<subseteq> set (file_keys content)
          \<and> (\<forall>l\<in>set (raw_lines content). length l \<le> 65535))"

text \<open>A life of the ledger: calls of \<open>Consume\<close> and restarts of the service.\<close>

datatype ledger_step = Consume_call cert string append_outcome | Restart

fun ledger_advance :: "ledger \<Rightarrow> ledger_step \<Rightarrow> ledger" where
  "ledger_advance u (Consume_call c stamp out) = snd (Consume u c stamp out)"
| "ledger_advance u Restart = (case OpenUsedCredentials (lg_file u) of Some u' \<Rightarrow> u' | None \<Rightarrow> u)"

fun ledger_accepts :: "ledger \<Rightarrow> ledger_step \<Rightarrow> bool" where
  "ledger_accepts u (Consume_call c stamp out) = (fst (Consume u c stamp out) = Inr ())"
| "ledger_accepts u Restart = False"

fun step_key :: "ledger_step \<Rightarrow> string" where
  "step_key (Consume_call c stamp out) = credentialKey c"
| "step_key Restart = []"

text \<open>A call that does not leave a partial line behind, of a printable identity.\<close>

fun whole_append :: "ledger_step \<Rightarrow> bool" where
  "whole_append (Consume_call c stamp out) \<longleftrightarrow>
     (case out of Write_failed n \<Rightarrow> n = 0 | _ \<Rightarrow> True) \<and> CHR 0x0A \<notin> set (c_cn c) \<and> CHR 0x0A \<notin> set stamp
       \<and> length (ledger_line c stamp) \<le> 65536"
| "whole_append Restart \<longleftrightarrow> True"

lemma ledger_line_terminated: "ledger_line c stamp \<noteq> [] \<and> last (ledger_line c stamp) = CHR 0x0A"
  by (simp add: ledger_line_def)

lemma append_ok:
  assumes "ledger_ok u" and "whole_append (Consume_call c stamp out)"
    and "set used \<subseteq> insert (credentialKey c) (set (lg_used u))"
  shows "ledger_ok (u\<lparr>lg_file := append_to (lg_file u) (ledger_line c stamp), lg_used := used\<rparr>)"
proof -
  define content where "content = (case lg_file u of None \<Rightarrow> [] | Some content \<Rightarrow> content)"
  have t: "terminated content" and k: "set (lg_used u) \<subseteq> set (file_keys content)"
    and l: "\<forall>l\<in>set (raw_lines content). length l \<le> 65535"
    using assms(1)
    by (auto simp: ledger_ok_def content_def terminated_def raw_lines_def split: option.splits)
  have n: "CHR 0x0A \<notin> set (c_cn c)" "CHR 0x0A \<notin> set stamp" "length (ledger_line c stamp) \<le> 65536"
    using assms(2) by auto
  let ?l = "credentialKey c @ CHR '' '' # c_cn c @ '' '' @ stamp"
  have "CHR 0x0A \<notin> set ?l" using n(1,2) credentialKey_chars(2) by auto
  from raw_lines_append [OF t this]
  have r: "raw_lines (content @ ledger_line c stamp) = raw_lines content @ [?l]"
    by (simp add: ledger_line_def)
  have "length ?l \<le> 65535" using n(3) by (simp add: ledger_line_def)
  then show ?thesis
    using file_keys_append [OF t n(1,2)] k l r assms(3) ledger_line_terminated [of c stamp]
    by (auto simp: ledger_ok_def append_to_def content_def [symmetric] terminated_def)
qed

lemma Consume_keeps_ok:
  assumes "ledger_ok u" and "whole_append (Consume_call c stamp out)"
  shows "ledger_ok (snd (Consume u c stamp out)) \<and> set (lg_used u) \<subseteq> set (lg_used (snd (Consume u c stamp out)))"
proof -
  have s: "u\<lparr>lg_file := f\<rparr> = u\<lparr>lg_file := f, lg_used := lg_used u\<rparr>" for f by simp
  have e: "ledger_ok (u\<lparr>lg_file := append_to (lg_file u) []\<rparr>)" if "lg_used u = [] \<or> lg_file u \<noteq> None"
    using assms(1) that by (auto simp: ledger_ok_def append_to_def terminated_def raw_lines_def split: option.splits)
  have e': "lg_used u = [] \<or> lg_file u \<noteq> None" using assms(1) by (auto simp: ledger_ok_def)
  have a: "ledger_ok (u\<lparr>lg_file := append_to (lg_file u) (ledger_line c stamp), lg_used := lg_used u\<rparr>)"
    "ledger_ok (u\<lparr>lg_file := append_to (lg_file u) (ledger_line c stamp), lg_used := credentialKey c # lg_used u\<rparr>)"
    by (rule append_ok [OF assms]; auto)+
  show ?thesis
    using assms a e [OF e'] by (cases out) (auto simp: Consume_def Let_def s [symmetric])
qed

lemma Restart_keeps_ok:
  assumes "ledger_ok u"
  shows "ledger_ok (ledger_advance u Restart) \<and> set (lg_used u) \<subseteq> set (lg_used (ledger_advance u Restart))"
  using assms by (auto simp: ledger_ok_def OpenUsedCredentials_def list_ex_iff split: option.splits)

lemma Consume_accepted:
  "fst (Consume u c stamp out) = Inr () \<longleftrightarrow> credentialKey c \<notin> set (lg_used u) \<and> out = Appended"
  by (cases out) (auto simp: Consume_def Let_def)

lemma advance_keeps_ok:
  assumes "ledger_ok u" and "whole_append a"
  shows "ledger_ok (ledger_advance u a) \<and> set (lg_used u) \<subseteq> set (lg_used (ledger_advance u a))"
  using assms Consume_keeps_ok Restart_keeps_ok by (cases a) auto

lemma run_keeps_ok:
  "\<lbrakk>ledger_ok u; \<forall>a\<in>set as. whole_append a\<rbrakk> \<Longrightarrow>
     ledger_ok (foldl ledger_advance u as) \<and> set (lg_used u) \<subseteq> set (lg_used (foldl ledger_advance u as))"
proof (induction as arbitrary: u)
  case (Cons a as)
  then have "ledger_ok (ledger_advance u a)" "set (lg_used u) \<subseteq> set (lg_used (ledger_advance u a))"
    using advance_keeps_ok by auto
  with Cons show ?case by fastforce
qed simp

interpretation ledger_use: single_use ledger_ok ledger_accepts ledger_advance step_key "\<lambda>_. ()"
  "\<lambda>u k _. k \<in> set (lg_used u) \<and> ledger_ok u" "\<lambda>c _. whole_append c"
proof
  fix u a
  assume ok: "ledger_ok u" and acc: "ledger_accepts u a" and w: "whole_append a"
  from acc obtain c stamp where a: "a = Consume_call c stamp Appended" and new: "credentialKey c \<notin> set (lg_used u)"
    by (cases a) (auto simp: Consume_accepted)
  have "credentialKey c \<in> set (lg_used (ledger_advance u a))" using new by (simp add: a Consume_def Let_def)
  then show "step_key a \<in> set (lg_used (ledger_advance u a)) \<and> ledger_ok (ledger_advance u a)"
    using advance_keeps_ok [OF ok w] by (simp add: a)
next
  fix u k h a
  assume "k \<in> set (lg_used u) \<and> ledger_ok u" "whole_append a"
  then show "k \<in> set (lg_used (ledger_advance u a)) \<and> ledger_ok (ledger_advance u a)"
    using advance_keeps_ok by blast
next
  fix u a h
  assume "step_key a \<in> set (lg_used u) \<and> ledger_ok u"
  then show "\<not> ledger_accepts u a" by (cases a) (auto simp: Consume_accepted)
qed

lemma OpenUsedCredentials_ok:
  "\<lbrakk>OpenUsedCredentials file = Some u; \<forall>content. file = Some content \<longrightarrow> terminated content\<rbrakk> \<Longrightarrow> ledger_ok u"
  by (force simp: OpenUsedCredentials_def ledger_ok_def list_ex_iff split: option.splits if_splits)

end
