(* ===== verification/Enroll.thy ===== *)
theory Enroll
  imports Ledger Pki Netx Env
begin

text \<open>
  \<open>ca/enroll/server.go\<close>: the RIC intermediate CA.  One handler issues leaf certificates for
  two classes of caller credential; the key type of the request selects the issuing branch.
  The clock, the request body, the serial number drawn, the fate of the ledger append and the
  result of \<open>x509.CreateCertificate\<close> are the inputs \<open>enroll_io\<close> of a call.
\<close>

record enroll_config =
  ec_listen_addr :: string
  ec_server_cert :: string
  ec_server_key :: string
  ec_issuer_cert :: string
  ec_issuer_key :: string
  ec_issuer_cert_pq :: string
  ec_issuer_key_pq :: string
  ec_bootstrap_trust :: "string list"
  ec_operational_trust :: "string list"
  ec_state_dir :: string
  ec_organization :: string
  ec_organizational_unit :: string
  ec_default_lifetime :: duration
  ec_min_lifetime :: duration
  ec_max_lifetime :: duration
  ec_dns_suffixes :: "string list"
  ec_backdate :: duration
  ec_pq_kex_only :: bool

definition enroll_ConfigFromEnv ::
  "'k ext \<Rightarrow> (string \<Rightarrow> string option) \<Rightarrow> env_error list + enroll_config" where
  "enroll_ConfigFromEnv E g = env_result (do {
     listen \<leftarrow> env_str g ''LISTEN_ADDR'' '':8443'';
     scert \<leftarrow> env_req g ''SERVER_CERT'';
     skey \<leftarrow> env_req g ''SERVER_KEY'';
     icert \<leftarrow> env_req g ''ISSUER_CERT'';
     ikey \<leftarrow> env_req g ''ISSUER_KEY'';
     icertpq \<leftarrow> env_str g ''ISSUER_CERT_PQ'' [];
     ikeypq \<leftarrow> env_str g ''ISSUER_KEY_PQ'' [];
     boot \<leftarrow> env_list g ''BOOTSTRAP_TRUST_BUNDLE'' [];
     oper \<leftarrow> env_list g ''OPERATIONAL_TRUST_BUNDLE'' [];
     dir \<leftarrow> env_req g ''STATE_DIR'';
     org \<leftarrow> env_req g ''ORG'';
     ou \<leftarrow> env_req g ''XAPP_OU'';
     deflt \<leftarrow> env_dur E g ''CA_DEFAULT_LEAF_LIFETIME'' (86400 * second);
     minlt \<leftarrow> env_dur E g ''CA_MIN_LEAF_LIFETIME'' (5 * second);
     maxlt \<leftarrow> env_dur E g ''CA_MAX_LEAF_LIFETIME'' (2592000 * second);
     sufs \<leftarrow> env_list g ''ALLOWED_DNS_SUFFIXES'' [];
     back \<leftarrow> env_dur E g ''CA_BACKDATE'' (2 * second);
     pqonly \<leftarrow> env_bool g ''PQ_KEX_ONLY'' False;
     env_fail_if (maxlt < minlt) ''CA_MIN_LEAF_LIFETIME must not exceed CA_MAX_LEAF_LIFETIME'';
     env_fail_if (boot = []) ''BOOTSTRAP_TRUST_BUNDLE is required'';
     env_fail_if (oper = []) ''OPERATIONAL_TRUST_BUNDLE is required'';
     env_fail_if ((icertpq = []) \<noteq> (ikeypq = [])) ''ISSUER_CERT_PQ and ISSUER_KEY_PQ must be set together'';
     State_Monad.return
       \<lparr>ec_listen_addr = listen, ec_server_cert = scert, ec_server_key = skey, ec_issuer_cert = icert,
        ec_issuer_key = ikey, ec_issuer_cert_pq = icertpq, ec_issuer_key_pq = ikeypq,
        ec_bootstrap_trust = boot, ec_operational_trust = oper, ec_state_dir = dir,
        ec_organization = org, ec_organizational_unit = ou, ec_default_lifetime = deflt,
        ec_min_lifetime = minlt, ec_max_lifetime = maxlt, ec_dns_suffixes = sufs,
        ec_backdate = back, ec_pq_kex_only = pqonly\<rparr>
   })"

datatype profile = profileBootstrap | profileRenew

text \<open>The regular expression \<open>^[a-z0-9]([a-z0-9-]{0,61}[a-z0-9])?$\<close>.\<close>

definition lower_alnum :: "char \<Rightarrow> bool" where
  "lower_alnum c \<longleftrightarrow> is_digit c \<or> (97 \<le> (of_char c :: nat) \<and> (of_char c :: nat) \<le> 122)"

definition identityPattern :: "string \<Rightarrow> bool" where
  "identityPattern s \<longleftrightarrow>
     s \<noteq> [] \<and> length s \<le> 63 \<and> lower_alnum (hd s) \<and> lower_alnum (last s)
       \<and> list_all (\<lambda>c. lower_alnum c \<or> c = CHR ''-'') s"

record branch =
  br_name :: string
  br_cert :: cert

record enroll_server =
  es_cfg :: enroll_config
  es_classical :: branch
  es_post_quantum :: "branch option"
  es_boot_pool :: "cert list"
  es_op_pool :: "cert list"
  es_used :: ledger

text \<open>
  \<open>NewServer\<close>, from the outcomes of loading the two issuing branches (certificate chain and
  key), the two pools and the ledger file.
\<close>

definition loadBranch :: "string \<Rightarrow> cert list option \<Rightarrow> bool \<Rightarrow> branch option" where
  "loadBranch name certs key_loaded =
     (case certs of
        None \<Rightarrow> None
      | Some cs \<Rightarrow> if key_loaded \<and> cs \<noteq> [] then Some \<lparr>br_name = name, br_cert = hd cs\<rparr> else None)"

definition enroll_NewServer ::
  "enroll_config \<Rightarrow> cert list option \<times> bool \<Rightarrow> cert list option \<times> bool \<Rightarrow> cert list option \<Rightarrow>
     cert list option \<Rightarrow> string option \<Rightarrow> enroll_server option" where
  "enroll_NewServer cfg cl pq boot oper file =
     (case loadBranch ''classical'' (fst cl) (snd cl) of
        None \<Rightarrow> None
      | Some classical \<Rightarrow>
          (case (if ec_issuer_cert_pq cfg \<noteq> []
                 then map_option Some (loadBranch ''post-quantum'' (fst pq) (snd pq)) else Some None) of
             None \<Rightarrow> None
           | Some postQuantum \<Rightarrow>
               (case boot of
                  None \<Rightarrow> None
                | Some bootPool \<Rightarrow>
                    (case oper of
                       None \<Rightarrow> None
                     | Some opPool \<Rightarrow>
                         (case OpenUsedCredentials file of
                            None \<Rightarrow> None
                          | Some used \<Rightarrow>
                              Some \<lparr>es_cfg = cfg, es_classical = classical, es_post_quantum = postQuantum,
                                    es_boot_pool = bootPool, es_op_pool = opPool, es_used = used\<rparr>)))))"

definition branchFor :: "enroll_server \<Rightarrow> pubkey \<Rightarrow> branch option" where
  "branchFor s pub = (if IsPostQuantum pub then es_post_quantum s else Some (es_classical s))"

definition dnsSuffixAllowed :: "enroll_server \<Rightarrow> string \<Rightarrow> bool" where
  "dnsSuffixAllowed s name \<longleftrightarrow>
     ec_dns_suffixes (es_cfg s) = [] \<or> list_ex (has_suffix name) (ec_dns_suffixes (es_cfg s))"

text \<open>The answer to a refused request: status and error code.\<close>

type_synonym enroll_rejection = "nat \<times> string"

text \<open>The key policy of \<open>parseCSR\<close>.\<close>

fun key_allowed :: "pubkey \<Rightarrow> bool" where
  "key_allowed (EC_key crv b) \<longleftrightarrow> crv = ''P-256'' \<or> crv = ''P-384''"
| "key_allowed (RSA_key n b) \<longleftrightarrow> 2048 \<le> n"
| "key_allowed (Ed25519_key b) \<longleftrightarrow> True"
| "key_allowed (MLDSA_key p b) \<longleftrightarrow> True"
| "key_allowed (Other_key t) \<longleftrightarrow> False"

text \<open>\<open>None\<close> is a body that cannot be read.\<close>

definition parseCSR :: "'k ext \<Rightarrow> bytes option \<Rightarrow> enroll_rejection + csr" where
  "parseCSR E body =
     (case body of
        None \<Rightarrow> Inl (400, ''csr_unreadable'')
      | Some b \<Rightarrow>
          (case pem_decode E (limit_read 65536 b) of
             None \<Rightarrow> Inl (400, ''csr_malformed'')
           | Some (typ, der) \<Rightarrow>
               if typ \<noteq> ''CERTIFICATE REQUEST'' then Inl (400, ''csr_malformed'')
               else case csr_parse E der of
                      None \<Rightarrow> Inl (400, ''csr_malformed'')
                    | Some csr \<Rightarrow>
                        if \<not> csr_signed csr then Inl (400, ''csr_signature_invalid'')
                        else if \<not> key_allowed (csr_pub csr) then Inl (400, ''key_not_allowed'')
                        else Inr csr))"

text \<open>The template given to \<open>x509.CreateCertificate\<close>.\<close>

record template =
  tp_serial :: nat
  tp_cn :: string
  tp_ou :: string
  tp_org :: string
  tp_not_before :: time
  tp_not_after :: time
  tp_key_encipherment :: bool
  tp_eku :: "eku list"
  tp_dns :: "string list"
  tp_uri :: string
  tp_pub :: pubkey

record enroll_request =
  er_tls :: "cert list option"
  er_lifetime :: string \<comment> \<open>the query parameter, empty when absent\<close>
  er_body :: "bytes option"

record enroll_io =
  eo_now :: time
  eo_stamp :: string \<comment> \<open>the time stamp of the ledger line\<close>
  eo_append :: append_outcome
  eo_serial :: "nat option"
  eo_created :: "template \<Rightarrow> cert \<Rightarrow> cert option" \<comment> \<open>\<open>CreateCertificate\<close> under an issuer\<close>

datatype enroll_reply = Refused nat string | Issued template cert cert

fun is_rsa :: "pubkey \<Rightarrow> bool" where
  "is_rsa (RSA_key n b) = True"
| "is_rsa _ = False"

text \<open>Step 2: the lifetime asked for, within policy.\<close>

definition requested_lifetime :: "'k ext \<Rightarrow> enroll_config \<Rightarrow> string \<Rightarrow> enroll_rejection + duration" where
  "requested_lifetime E cfg v =
     (case (if v = [] then Some (ec_default_lifetime cfg) else parse_duration E v) of
        None \<Rightarrow> Inl (400, ''lifetime_invalid'')
      | Some lifetime \<Rightarrow>
          if lifetime < ec_min_lifetime cfg \<or> ec_max_lifetime cfg < lifetime
          then Inl (400, ''lifetime_out_of_policy'') else Inr lifetime)"

text \<open>Step 1: the caller, authenticated by the credential class of the endpoint.\<close>

definition authenticate_caller ::
  "'k ext \<Rightarrow> enroll_server \<Rightarrow> profile \<Rightarrow> time \<Rightarrow> cert list option \<Rightarrow> enroll_rejection + cert" where
  "authenticate_caller E s p now tls =
     (case tls of
        Some (caller # rest) \<Rightarrow>
          (case VerifyChain E (caller # rest)
                  (case p of profileBootstrap \<Rightarrow> es_boot_pool s | profileRenew \<Rightarrow> es_op_pool s) now ClientAuth of
             Inl kind \<Rightarrow> Inl (401, ''client_certificate_'' @ chain_kind_name kind)
           | Inr _ \<Rightarrow>
               if \<not> identityPattern (c_cn caller) then Inl (403, ''identity_invalid'') else Inr caller)
      | _ \<Rightarrow> Inl (401, ''client_certificate_missing''))"

text \<open>Step 3: the request, the branch that signs it, and the names it may carry.\<close>

definition check_request ::
  "'k ext \<Rightarrow> enroll_server \<Rightarrow> cert \<Rightarrow> time \<Rightarrow> bytes option \<Rightarrow> enroll_rejection + csr \<times> branch" where
  "check_request E s caller notAfter body =
     (case parseCSR E body of
        Inl rej \<Rightarrow> Inl rej
      | Inr csr \<Rightarrow>
          (case branchFor s (csr_pub csr) of
             None \<Rightarrow> Inl (400, ''key_not_allowed'')
           | Some br \<Rightarrow>
               if c_not_after (br_cert br) < notAfter then Inl (400, ''lifetime_exceeds_issuer'')
               else if list_ex (\<lambda>name. name \<notin> set (c_dns caller) \<or> \<not> dnsSuffixAllowed s name) (csr_dns csr)
               then Inl (403, ''dns_name_not_authorized'')
               else Inr (csr, br)))"

definition enroll_issue ::
  "'k ext \<Rightarrow> enroll_server \<Rightarrow> enroll_io \<Rightarrow> profile \<Rightarrow> enroll_request \<Rightarrow> enroll_reply \<times> enroll_server" where
  "enroll_issue E s io p r =
     (case authenticate_caller E s p (eo_now io) (er_tls r) of
        Inl (st, code) \<Rightarrow> (Refused st code, s)
      | Inr caller \<Rightarrow>
          (case requested_lifetime E (es_cfg s) (er_lifetime r) of
             Inl (st, code) \<Rightarrow> (Refused st code, s)
           | Inr lifetime \<Rightarrow>
               let notAfter = time_add (eo_now io) lifetime
               in case check_request E s caller notAfter (er_body r) of
                    Inl (st, code) \<Rightarrow> (Refused st code, s)
                  | Inr (csr, br) \<Rightarrow>
                      (case (case p of
                               profileBootstrap \<Rightarrow> Consume (es_used s) caller (eo_stamp io) (eo_append io)
                             | profileRenew \<Rightarrow> (Inr (), es_used s)) of
                         (Inl _, u) \<Rightarrow> (Refused 403 ''bootstrap_credential_reused'', s\<lparr>es_used := u\<rparr>)
                       | (Inr _, u) \<Rightarrow>
                           (case eo_serial io of
                              None \<Rightarrow> (Refused 500 ''internal'', s\<lparr>es_used := u\<rparr>)
                            | Some serial \<Rightarrow>
                                let tmpl =
                                  \<lparr>tp_serial = serial, tp_cn = c_cn caller,
                                   tp_ou = ec_organizational_unit (es_cfg s), tp_org = ec_organization (es_cfg s),
                                   tp_not_before = time_add (eo_now io) (wrap64 (- ec_backdate (es_cfg s))),
                                   tp_not_after = notAfter, tp_key_encipherment = is_rsa (csr_pub csr),
                                   tp_eku = [ClientAuth, ServerAuth], tp_dns = csr_dns csr,
                                   tp_uri = ''urn:oran:ric:xapp:'' @ c_cn caller, tp_pub = csr_pub csr\<rparr>
                                in case eo_created io tmpl (br_cert br) of
                                     None \<Rightarrow> (Refused 500 ''internal'', s\<lparr>es_used := u\<rparr>)
                                   | Some leaf \<Rightarrow> (Issued tmpl leaf (br_cert br), s\<lparr>es_used := u\<rparr>)))))"

text \<open>\<open>GET /v1/ca-chain\<close>: the issuing certificates.\<close>

definition ca_chain :: "enroll_server \<Rightarrow> cert list" where
  "ca_chain s = br_cert (es_classical s) #
     (case es_post_quantum s of Some b \<Rightarrow> [br_cert b] | None \<Rightarrow> [])"


section \<open>What an issued certificate presupposes\<close>

lemma parseCSR_Inr: "parseCSR E body = Inr csr \<Longrightarrow> csr_signed csr \<and> key_allowed (csr_pub csr)"
  by (auto simp: parseCSR_def split: option.splits prod.splits if_splits)

lemma requested_lifetime_Inr:
  "requested_lifetime E cfg v = Inr d \<Longrightarrow> ec_min_lifetime cfg \<le> d \<and> d \<le> ec_max_lifetime cfg"
  by (auto simp: requested_lifetime_def not_less split: option.splits if_splits)

lemma authenticate_caller_Inr:
  assumes "authenticate_caller E s p now tls = Inr caller"
  obtains rest where "tls = Some (caller # rest)" "identityPattern (c_cn caller)"
    "VerifyChain E (caller # rest) (case p of profileBootstrap \<Rightarrow> es_boot_pool s | profileRenew \<Rightarrow> es_op_pool s)
       now ClientAuth = Inr ()"
  using assms by (auto simp: authenticate_caller_def split: option.splits list.splits sum.splits if_splits)

lemma check_request_Inr:
  assumes "check_request E s caller notAfter body = Inr (csr, br)"
  shows "parseCSR E body = Inr csr" "branchFor s (csr_pub csr) = Some br"
    "notAfter \<le> c_not_after (br_cert br)" "set (csr_dns csr) \<subseteq> set (c_dns caller)"
    "\<forall>name\<in>set (csr_dns csr). dnsSuffixAllowed s name"
  using assms
  by (auto simp: check_request_def list_ex_iff not_less split: sum.splits option.splits if_splits)

lemma enroll_issue_Issued:
  assumes "enroll_issue E s io p r = (Issued t leaf issuer, s')"
  obtains caller lifetime csr br u where
    "authenticate_caller E s p (eo_now io) (er_tls r) = Inr caller"
    "requested_lifetime E (es_cfg s) (er_lifetime r) = Inr lifetime"
    "check_request E s caller (time_add (eo_now io) lifetime) (er_body r) = Inr (csr, br)"
    "p = profileBootstrap \<longrightarrow> Consume (es_used s) caller (eo_stamp io) (eo_append io) = (Inr (), es_used s')"
    "p = profileRenew \<longrightarrow> es_used s' = es_used s"
    "tp_cn t = c_cn caller" "tp_not_after t = time_add (eo_now io) lifetime" "tp_dns t = csr_dns csr"
    "tp_pub t = csr_pub csr" "issuer = br_cert br" "eo_created io t issuer = Some leaf"
    "tp_uri t = ''urn:oran:ric:xapp:'' @ c_cn caller"
  using assms
  by (auto simp: enroll_issue_def Let_def split: sum.splits prod.splits option.splits profile.splits)


section \<open>Runs of the service\<close>

datatype enroll_step = Enroll_call enroll_io profile enroll_request | Enroll_restart

fun enroll_advance :: "'k ext \<Rightarrow> enroll_server \<Rightarrow> enroll_step \<Rightarrow> enroll_server" where
  "enroll_advance E s (Enroll_call io p r) = snd (enroll_issue E s io p r)"
| "enroll_advance E s Enroll_restart = s\<lparr>es_used := ledger_advance (es_used s) Restart\<rparr>"

text \<open>The ledger call of a step, if it makes one, and whether its append is whole.\<close>

fun ledger_call :: "enroll_step \<Rightarrow> ledger_step option" where
  "ledger_call (Enroll_call io profileBootstrap r) =
     (case er_tls r of
        Some (c # rest) \<Rightarrow> Some (Consume_call c (eo_stamp io) (eo_append io))
      | _ \<Rightarrow> None)"
| "ledger_call (Enroll_call io profileRenew r) = None"
| "ledger_call Enroll_restart = Some Restart"

definition whole_call :: "enroll_step \<Rightarrow> bool" where
  "whole_call d = (case ledger_call d of Some c \<Rightarrow> whole_append c | None \<Rightarrow> True)"

lemma enroll_issue_ledger:
  "es_used (snd (enroll_issue E s io p r)) = es_used s \<or>
   (\<exists>c rest. p = profileBootstrap \<and> er_tls r = Some (c # rest)
      \<and> es_used (snd (enroll_issue E s io p r)) = snd (Consume (es_used s) c (eo_stamp io) (eo_append io)))"
proof -
  show ?thesis
    by (auto simp: enroll_issue_def Let_def split: sum.splits prod.splits option.splits profile.splits
        elim!: authenticate_caller_Inr)
qed

interpretation enroll_use: single_use_client ledger_ok ledger_accepts ledger_advance step_key "\<lambda>_. ()"
  "\<lambda>u k _. k \<in> set (lg_used u) \<and> ledger_ok u" "\<lambda>c _. whole_append c"
  "enroll_advance E" es_used "\<lambda>d c. ledger_call d = Some c" for E
proof
  fix s d
  show "es_used (enroll_advance E s d) = es_used s \<or>
    (\<exists>c. ledger_call d = Some c \<and> es_used (enroll_advance E s d) = ledger_advance (es_used s) c)"
  proof (cases d)
    case (Enroll_call io p r)
    then show ?thesis using enroll_issue_ledger [of E s io p r] by auto
  next
    case Enroll_restart
    then show ?thesis by simp
  qed
qed

lemma bootstrap_Issued:
  assumes "enroll_issue E s io profileBootstrap r = (Issued t leaf issuer, s')"
    and "er_tls r = Some (c # rest)"
  shows "ledger_accepts (es_used s) (Consume_call c (eo_stamp io) (eo_append io))"
    and "es_used s' = ledger_advance (es_used s) (Consume_call c (eo_stamp io) (eo_append io))"
proof -
  from assms(1) obtain caller where a: "authenticate_caller E s profileBootstrap (eo_now io) (er_tls r) = Inr caller"
    and u: "Consume (es_used s) caller (eo_stamp io) (eo_append io) = (Inr (), es_used s')"
    by (auto elim!: enroll_issue_Issued)
  have "caller = c" using a assms(2) by (auto elim: authenticate_caller_Inr)
  with u show "ledger_accepts (es_used s) (Consume_call c (eo_stamp io) (eo_append io))"
    "es_used s' = ledger_advance (es_used s) (Consume_call c (eo_stamp io) (eo_append io))"
    by simp_all
qed

text \<open>A used credential is refused whatever whole steps the service makes in between.\<close>

lemma bootstrap_refused:
  assumes "ledger_ok (es_used s)"
    and "enroll_issue E s io profileBootstrap r = (Issued t leaf issuer, s1)" "er_tls r = Some (c # rest)"
    and "er_tls r' = Some (c' # rest')" "c_issuer c' = c_issuer c" "c_serial c' = c_serial c"
    and "whole_call (Enroll_call io profileBootstrap r)" "whole_call (Enroll_call io' profileBootstrap r')"
    and "\<forall>d\<in>set ds. whole_call d"
  shows "\<exists>status code. fst (enroll_issue E (foldl (enroll_advance E) s1 ds) io' profileBootstrap r') = Refused status code"
proof (cases "fst (enroll_issue E (foldl (enroll_advance E) s1 ds) io' profileBootstrap r')")
  case (Issued t' leaf' issuer')
  let ?s2 = "foldl (enroll_advance E) s1 ds"
  let ?c = "Consume_call c (eo_stamp io) (eo_append io)" and ?c' = "Consume_call c' (eo_stamp io') (eo_append io')"
  from Issued obtain s3 where again: "enroll_issue E ?s2 io' profileBootstrap r' = (Issued t' leaf' issuer', s3)"
    by (metis prod.collapse)
  note b = bootstrap_Issued [OF assms(2,3)]
  have k: "credentialKey c' = credentialKey c" using assms(5,6) by (simp add: credentialKey_def)
  have "\<not> ledger_accepts (es_used ?s2) ?c'"
    by (rule enroll_use.client_at_most_once [OF assms(1) b(1) _ b(2)])
      (use assms(3,4,7,8,9) k in \<open>auto simp: whole_call_def\<close>)
  with bootstrap_Issued(1) [OF again assms(4)] show ?thesis by blast
next
  case (Refused status code)
  then show ?thesis by blast
qed

end
