(* ===== verification/Enroll_Props.thy ===== *)
theory Enroll_Props
  imports Enroll Samples
begin

text \<open>
  A sample enrollment service, and the properties of issuing and of the one-time bootstrap
  credentials.
\<close>

section \<open>Samples\<close>

definition sample_enroll :: enroll_server where
  "sample_enroll =
     \<lparr>es_cfg = \<lparr>ec_listen_addr = '':8443'', ec_server_cert = ''c'', ec_server_key = ''k'',
        ec_issuer_cert = ''i'', ec_issuer_key = ''j'', ec_issuer_cert_pq = [], ec_issuer_key_pq = [],
        ec_bootstrap_trust = [''b''], ec_operational_trust = [''o''], ec_state_dir = ''d'',
        ec_organization = ''RIC'', ec_organizational_unit = ''xApps'', ec_default_lifetime = 600 * second,
        ec_min_lifetime = 5 * second, ec_max_lifetime = 1000 * second, ec_dns_suffixes = [''.ric''],
        ec_backdate = 2 * second, ec_pq_kex_only = False\<rparr>,
      es_classical = \<lparr>br_name = ''classical'', br_cert = sample_root\<rparr>, es_post_quantum = None,
      es_boot_pool = [sample_root], es_op_pool = [sample_root], es_used = \<lparr>lg_file = None, lg_used = []\<rparr>\<rparr>"

definition sample_enroll_io :: enroll_io where
  "sample_enroll_io = \<lparr>eo_now = t0, eo_stamp = ''T'', eo_append = Appended, eo_serial = Some 7,
     eo_created = (\<lambda>t issuer. Some sample_leaf)\<rparr>"

definition sample_enroll_request :: enroll_request where
  "sample_enroll_request = \<lparr>er_tls = Some [sample_leaf], er_lifetime = [], er_body = Some []\<rparr>"

lemma sample_identity: "identityPattern ''xapp-a''"
  by (simp add: identityPattern_def lower_alnum_def is_digit_def)

lemma sample_key_text: "credentialKey sample_leaf = ''64:2a''"
  by (simp add: credentialKey_def sample_leaf_def hex_encode_def hex_digit_def show_hex.simps) code_simp

lemma sample_enroll_sel [simp]:
  "es_used sample_enroll = \<lparr>lg_file = None, lg_used = []\<rparr>" "er_tls sample_enroll_request = Some [sample_leaf]"
  "eo_append sample_enroll_io = Appended" "eo_stamp sample_enroll_io = ''T''" "eo_now sample_enroll_io = t0"
  by (simp_all add: sample_enroll_def sample_enroll_request_def sample_enroll_io_def)

definition sample_enrolled :: "enroll_reply \<times> enroll_server" where
  "sample_enrolled = enroll_issue sample_ext sample_enroll sample_enroll_io profileBootstrap sample_enroll_request"

lemma sample_enroll_issued: "\<exists>t leaf. sample_enrolled = (Issued t leaf sample_root, snd sample_enrolled)"
proof -
  have a: "authenticate_caller sample_ext sample_enroll profileBootstrap t0 (Some [sample_leaf]) = Inr sample_leaf"
    using sample_chain sample_identity
    by (simp add: authenticate_caller_def sample_enroll_def) (simp add: sample_leaf_def)
  have l: "requested_lifetime sample_ext (es_cfg sample_enroll) [] = Inr (600 * second)"
    by (simp add: requested_lifetime_def sample_enroll_def)
  have n: "time_add t0 (600 * second) = t0 + 600 * second" by (rule time_add_sane) (simp_all add: is_duration_def)
  have c: "check_request sample_ext sample_enroll sample_leaf (t0 + 600 * second) (Some []) =
      Inr (\<lparr>csr_dns = [''xapp-a.ric''], csr_pub = EC_key ''P-256'' [2], csr_signed = True\<rparr>,
        \<lparr>br_name = ''classical'', br_cert = sample_root\<rparr>)"
    by (simp add: check_request_def parseCSR_def sample_ext_def branchFor_def sample_enroll_def sample_root_def
        sample_leaf_def dnsSuffixAllowed_def has_suffix_def)
  have u: "Consume (es_used sample_enroll) sample_leaf ''T'' Appended =
      (Inr (), \<lparr>lg_file = Some (ledger_line sample_leaf ''T''), lg_used = [''64:2a'']\<rparr>)"
    by (simp add: Consume_def append_to_def sample_key_text)
  show ?thesis
    using a l c u n
    by (simp add: sample_enrolled_def enroll_issue_def sample_enroll_io_def sample_enroll_request_def Let_def)
qed


section \<open>Issuing\<close>

text \<open>C22: A certificate is issued only to a caller authenticated by the credential class of the endpoint, for
  that caller's own identity, for a key it has proved to hold and the policy allows, for DNS
  names granted to the caller, within the lifetime policy and the issuer's own lifetime, and by
  the branch of the key's family.\<close>
theorem issued_certificate_authorized:
  assumes "enroll_issue E s io p r = (Issued t leaf issuer, s')"
  shows "\<exists>caller rest csr br.
    er_tls r = Some (caller # rest) \<and>
    VerifyChain E (caller # rest) (case p of profileBootstrap \<Rightarrow> es_boot_pool s | profileRenew \<Rightarrow> es_op_pool s)
      (eo_now io) ClientAuth = Inr () \<and>
    identityPattern (c_cn caller) \<and> tp_cn t = c_cn caller \<and> tp_uri t = ''urn:oran:ric:xapp:'' @ c_cn caller \<and>
    parseCSR E (er_body r) = Inr csr \<and> csr_signed csr \<and> key_allowed (csr_pub csr) \<and> tp_pub t = csr_pub csr \<and>
    set (tp_dns t) \<subseteq> set (c_dns caller) \<and> (\<forall>name\<in>set (tp_dns t). dnsSuffixAllowed s name) \<and>
    branchFor s (csr_pub csr) = Some br \<and> issuer = br_cert br \<and> tp_not_after t \<le> c_not_after issuer \<and>
    (\<exists>lifetime. ec_min_lifetime (es_cfg s) \<le> lifetime \<and> lifetime \<le> ec_max_lifetime (es_cfg s)
       \<and> tp_not_after t = time_add (eo_now io) lifetime)"
  using assms
proof (rule enroll_issue_Issued)
  fix caller lifetime csr br
  assume a: "authenticate_caller E s p (eo_now io) (er_tls r) = Inr caller"
    and l: "requested_lifetime E (es_cfg s) (er_lifetime r) = Inr lifetime"
    and c: "check_request E s caller (time_add (eo_now io) lifetime) (er_body r) = Inr (csr, br)"
    and t: "tp_cn t = c_cn caller" "tp_not_after t = time_add (eo_now io) lifetime" "tp_dns t = csr_dns csr"
      "tp_pub t = csr_pub csr" "issuer = br_cert br" "tp_uri t = ''urn:oran:ric:xapp:'' @ c_cn caller"
  from a obtain rest where "er_tls r = Some (caller # rest)" "identityPattern (c_cn caller)"
    "VerifyChain E (caller # rest) (case p of profileBootstrap \<Rightarrow> es_boot_pool s | profileRenew \<Rightarrow> es_op_pool s)
       (eo_now io) ClientAuth = Inr ()"
    by (rule authenticate_caller_Inr)
  then show ?thesis
    using requested_lifetime_Inr [OF l] check_request_Inr [OF c] parseCSR_Inr [OF check_request_Inr(1) [OF c]] t
    by auto
qed

theorem issued_certificate_authorized_witness:
  "\<exists>t leaf lifetime. fst sample_enrolled = Issued t leaf sample_root \<and> tp_cn t = ''xapp-a'' \<and>
     lifetime \<le> 1000 * second \<and> tp_not_after t = time_add t0 lifetime"
proof -
  obtain t leaf where i: "sample_enrolled = (Issued t leaf sample_root, snd sample_enrolled)"
    using sample_enroll_issued by blast
  have "c_cn sample_leaf = ''xapp-a''" "ec_max_lifetime (es_cfg sample_enroll) = 1000 * second"
    by (simp_all add: sample_leaf_def sample_enroll_def)
  then show ?thesis
    using issued_certificate_authorized [OF i [unfolded sample_enrolled_def]] i
    by (auto; metis fst_conv)
qed


section \<open>One-time bootstrap\<close>

text \<open>C23: A bootstrap certificate enrolls once: after it was used, no request with a credential of the same
  issuer and serial enrolls again, whatever requests and restarts the service went through,
  as long as no append left part of a line in the file.\<close>
theorem bootstrap_single_use:
  assumes "ledger_ok (es_used s)"
    and "enroll_issue E s io profileBootstrap r = (Issued t leaf issuer, s1)"
    and "er_tls r = Some (c # rest)" and "er_tls r' = Some (c' # rest')"
    and "c_issuer c' = c_issuer c" "c_serial c' = c_serial c"
    and "whole_call (Enroll_call io profileBootstrap r)" "whole_call (Enroll_call io' profileBootstrap r')"
    and "\<forall>d\<in>set ds. whole_call d"
  shows "\<exists>status code. fst (enroll_issue E (foldl (enroll_advance E) s1 ds) io' profileBootstrap r') = Refused status code"
  by (rule bootstrap_refused [OF assms])

theorem bootstrap_single_use_witness:
  "\<exists>status code. fst (enroll_issue sample_ext (snd sample_enrolled) sample_enroll_io profileBootstrap
     sample_enroll_request) = Refused status code"
proof -
  obtain t leaf where i: "sample_enrolled = (Issued t leaf sample_root, snd sample_enrolled)"
    using sample_enroll_issued by blast
  have w: "whole_call (Enroll_call sample_enroll_io profileBootstrap sample_enroll_request)"
    by (simp add: whole_call_def ledger_line_def sample_key_text) (simp add: sample_leaf_def)
  have o: "ledger_ok (es_used sample_enroll)" by (simp add: ledger_ok_def)
  show ?thesis
    using bootstrap_single_use [OF o i [unfolded sample_enrolled_def] _ _ _ _ w w, of sample_leaf "[]" sample_leaf "[]" "[]"]
    by (simp add: sample_enrolled_def)
qed

text \<open>C24: The file remembers: after any calls of \<open>Consume\<close> and restarts that leave no partial line, reading the
  file again succeeds and loses no credential that memory held.\<close>
theorem ledger_survives_restart:
  assumes "OpenUsedCredentials file = Some u" and "\<forall>content. file = Some content \<longrightarrow> terminated content"
    and "\<forall>a\<in>set as. whole_append a"
  shows "\<exists>v. OpenUsedCredentials (lg_file (foldl ledger_advance u as)) = Some v \<and> ledger_ok v \<and>
    set (lg_used (foldl ledger_advance u as)) \<subseteq> set (lg_used v) \<and> set (lg_used u) \<subseteq> set (lg_used v)"
proof -
  let ?w = "foldl ledger_advance u as"
  note w = run_keeps_ok [OF OpenUsedCredentials_ok [OF assms(1,2)] assms(3)]
  have "\<exists>v. OpenUsedCredentials (lg_file ?w) = Some v"
    using w by (fastforce simp: ledger_ok_def OpenUsedCredentials_def list_ex_iff split: option.splits)
  then obtain v where v: "OpenUsedCredentials (lg_file ?w) = Some v" by blast
  then have "ledger_advance ?w Restart = v" by simp
  with Restart_keeps_ok [of ?w] w v show ?thesis by auto
qed

theorem ledger_survives_restart_witness:
  "\<exists>v. OpenUsedCredentials (Some (ledger_line sample_leaf ''T'')) = Some v \<and> ''64:2a'' \<in> set (lg_used v)"
proof -
  have o: "OpenUsedCredentials None = Some \<lparr>lg_file = None, lg_used = []\<rparr>" by (simp add: OpenUsedCredentials_def)
  have w: "whole_append (Consume_call sample_leaf ''T'' Appended)"
    by (simp add: ledger_line_def sample_key_text) (simp add: sample_leaf_def)
  show ?thesis
    using ledger_survives_restart [OF o, of "[Consume_call sample_leaf ''T'' Appended]"] w
    by (auto simp: Consume_def append_to_def sample_key_text simp del: whole_append.simps)
qed

text \<open>The ledger key identifies a credential: exactly its issuer and its serial number.\<close>

lemma credentials_distinguished:
  "credentialKey a = credentialKey b \<longleftrightarrow> c_issuer a = c_issuer b \<and> c_serial a = c_serial b"
  by (metis credentialKey_inj credentialKey_def)


text \<open>The limit of C23: when an append stops inside a line, the next credential's line is glued to it; the
  service accepts that credential, and after a restart accepts it a second time.\<close>
lemma partial_append_forgets:
  "\<exists>a b n stamp. credentialKey a \<noteq> credentialKey b \<and>
     (let s1 = ledger_advance \<lparr>lg_file = None, lg_used = []\<rparr> (Consume_call a stamp (Write_failed n));
          s2 = ledger_advance s1 (Consume_call b stamp Appended)
      in ledger_accepts s1 (Consume_call b stamp Appended) \<and>
         ledger_accepts (ledger_advance s2 Restart) (Consume_call b stamp Appended))"
proof (intro exI conjI)
  let ?a = "sample_leaf\<lparr>c_serial := 43\<rparr>"
  have k: "credentialKey ?a = ''64:2b''"
    by (simp add: credentialKey_def sample_leaf_def hex_encode_def hex_digit_def show_hex.simps) code_simp
  then show "credentialKey ?a \<noteq> credentialKey sample_leaf" by (simp add: sample_key_text)
  have cn: "c_cn sample_leaf = ''xapp-a''" by (simp add: sample_leaf_def)
  have s1: "ledger_advance \<lparr>lg_file = None, lg_used = []\<rparr> (Consume_call ?a ''T'' (Write_failed 3)) =
      \<lparr>lg_file = Some ''64:'', lg_used = []\<rparr>"
    by (simp add: Consume_def append_to_def ledger_line_def k)
  have s2: "ledger_advance \<lparr>lg_file = Some ''64:'', lg_used = []\<rparr> (Consume_call sample_leaf ''T'' Appended) =
      \<lparr>lg_file = Some (''64:64:2a xapp-a T'' @ [CHR 0x0A]), lg_used = [''64:2a'']\<rparr>"
    by (simp add: Consume_def append_to_def ledger_line_def sample_key_text cn)
  have r: "raw_lines (''64:64:2a xapp-a T'' @ [CHR 0x0A]) = [''64:64:2a xapp-a T'']"
    by (simp add: raw_lines_def Let_def)
  have f: "file_keys (''64:64:2a xapp-a T'' @ [CHR 0x0A]) = [''64:64:2a'']"
    unfolding file_keys_def scan_lines_def r
    by (simp add: map_filter_simps drop_cr_def line_key_def cut_def)
  have "ledger_advance \<lparr>lg_file = Some (''64:64:2a xapp-a T'' @ [CHR 0x0A]), lg_used = [''64:2a'']\<rparr> Restart =
      \<lparr>lg_file = Some (''64:64:2a xapp-a T'' @ [CHR 0x0A]), lg_used = [''64:64:2a'']\<rparr>"
    unfolding ledger_advance.simps ledger.select_convs OpenUsedCredentials_def option.case r f by simp
  then show "let s1 = ledger_advance \<lparr>lg_file = None, lg_used = []\<rparr> (Consume_call ?a ''T'' (Write_failed 3));
          s2 = ledger_advance s1 (Consume_call sample_leaf ''T'' Appended)
      in ledger_accepts s1 (Consume_call sample_leaf ''T'' Appended) \<and>
         ledger_accepts (ledger_advance s2 Restart) (Consume_call sample_leaf ''T'' Appended)"
    unfolding Let_def s1 s2 by (simp add: Consume_accepted sample_key_text)
qed

end
