(* ===== verification/Codec.thy ===== *)
theory Codec
  imports Go_Strings
begin

text \<open>
  The contract of a length-prefixed encoding: decoding a stream that starts with an encoded
  value gives that value and the rest.  Frames, fields and the hello messages of the tunnel are
  its instances; unambiguity and the decoding of sequences are proved here once.
\<close>

locale prefix_codec =
  fixes enc :: "'a \<Rightarrow> bytes"
    and dec :: "bytes \<Rightarrow> ('a \<times> bytes) option"
    and fits :: "'a \<Rightarrow> bool"
  assumes dec_enc: "fits x \<Longrightarrow> dec (enc x @ rest) = Some (x, rest)"
begin

lemma enc_unambiguous:
  assumes "fits x" "fits y" "enc x @ r = enc y @ s"
  shows "x = y \<and> r = s"
  using dec_enc [OF assms(1), of r] dec_enc [OF assms(2), of s]
  unfolding assms(3) by simp

lemma enc_inj: "\<lbrakk>fits x; fits y; enc x = enc y\<rbrakk> \<Longrightarrow> x = y"
  using enc_unambiguous [of x y "[]" "[]"] by simp

text \<open>A sequence of \<open>n\<close> values.\<close>

fun dec_many :: "nat \<Rightarrow> bytes \<Rightarrow> ('a list \<times> bytes) option" where
  "dec_many 0 s = Some ([], s)"
| "dec_many (Suc n) s =
     (case dec s of
        None \<Rightarrow> None
      | Some (x, r) \<Rightarrow> (case dec_many n r of None \<Rightarrow> None | Some (xs, r') \<Rightarrow> Some (x # xs, r')))"

lemma dec_many_enc:
  "\<forall>x\<in>set xs. fits x \<Longrightarrow> dec_many (length xs) (concat (map enc xs) @ rest) = Some (xs, rest)"
  by (induction xs) (auto simp: dec_enc)

lemma enc_list_unambiguous:
  assumes "\<forall>x\<in>set xs. fits x" "\<forall>y\<in>set ys. fits y" "length xs = length ys"
    and "concat (map enc xs) @ r = concat (map enc ys) @ s"
  shows "xs = ys \<and> r = s"
  using dec_many_enc [OF assms(1), of r] dec_many_enc [OF assms(2), of s]
  unfolding assms(3,4) by simp

end

end
