(* ===== verification/Frame.thy ===== *)
theory Frame
  imports Codec Ext
begin

text \<open>
  \<open>sidecar/pqtunnel/frame.go\<close> and the chain codec of \<open>identity.go\<close>.  A writer is the bytes it
  has put on the wire and the fate of its coming \<open>Write\<close> calls; a reader is the bytes still to
  come, after which it is at the end of the stream.
\<close>

definition MaxFrame :: nat where "MaxFrame = 1048576"


section \<open>Streams\<close>

text \<open>
  \<open>w_faults\<close> lists the outcomes of the next writes: \<open>None\<close> for a complete one and \<open>Some n\<close> for an
  error after \<open>n\<close> bytes; beyond the list writes are complete.
\<close>

record wire =
  w_out :: bytes
  w_faults :: "nat option list"

definition wire_write :: "wire \<Rightarrow> bytes \<Rightarrow> bool \<times> wire" where
  "wire_write w b =
     (case w_faults w of
        [] \<Rightarrow> (True, w\<lparr>w_out := w_out w @ b\<rparr>)
      | None # fs \<Rightarrow> (True, w\<lparr>w_out := w_out w @ b, w_faults := fs\<rparr>)
      | Some n # fs \<Rightarrow> (False, w\<lparr>w_out := w_out w @ take n b, w_faults := fs\<rparr>))"

datatype read_error = Read_EOF | Read_unexpected_EOF | Frame_too_large nat

text \<open>\<open>io.ReadFull\<close> of \<open>n\<close> bytes.\<close>

definition read_full :: "nat \<Rightarrow> bytes \<Rightarrow> (read_error + bytes) \<times> bytes" where
  "read_full n s =
     (if n \<le> length s then (Inr (take n s), drop n s)
      else if s = [] then (Inl Read_EOF, []) else (Inl Read_unexpected_EOF, []))"


section \<open>Frames\<close>

text \<open>The flag is true when \<open>writeFrame\<close> returns nil.\<close>

definition writeFrame :: "wire \<Rightarrow> bytes \<Rightarrow> bool \<times> wire" where
  "writeFrame w payload =
     (if MaxFrame < length payload then (False, w)
      else case wire_write w (put_be32 (length payload)) of
             (False, w1) \<Rightarrow> (False, w1)
           | (True, w1) \<Rightarrow> wire_write w1 payload)"

definition readFrame :: "bytes \<Rightarrow> (read_error + bytes) \<times> bytes" where
  "readFrame s =
     (case read_full 4 s of
        (Inl e, s1) \<Rightarrow> (Inl e, s1)
      | (Inr hdr, s1) \<Rightarrow>
          let n = get_be32 hdr
          in if MaxFrame < n then (Inl (Frame_too_large n), s1) else read_full n s1)"

text \<open>What a complete frame puts on the wire, and the frame at the head of a stream.\<close>

definition frame_bytes :: "bytes \<Rightarrow> bytes" where
  "frame_bytes payload = put_be32 (length payload) @ payload"

definition frame_dec :: "bytes \<Rightarrow> (bytes \<times> bytes) option" where
  "frame_dec s = (case readFrame s of (Inr p, r) \<Rightarrow> Some (p, r) | _ \<Rightarrow> None)"

lemma frame_bytes_inj: "frame_bytes a = frame_bytes b \<longleftrightarrow> a = b"
  by (auto simp: frame_bytes_def)

lemma MaxFrame_small: "n \<le> MaxFrame \<Longrightarrow> n < 2 ^ 32"
  by (simp add: MaxFrame_def)

lemma readFrame_bytes:
  assumes "length p \<le> MaxFrame"
  shows "readFrame (frame_bytes p @ rest) = (Inr p, rest)"
proof -
  have "read_full 4 (frame_bytes p @ rest) = (Inr (put_be32 (length p)), p @ rest)"
    by (simp add: read_full_def frame_bytes_def)
  then show ?thesis
    using assms MaxFrame_small [OF assms] by (simp add: readFrame_def read_full_def)
qed

interpretation frame: prefix_codec frame_bytes frame_dec "\<lambda>p. length p \<le> MaxFrame"
  by unfold_locales (simp add: frame_dec_def readFrame_bytes)

lemma writeFrame_complete:
  assumes "length p \<le> MaxFrame" and "w_faults w = []"
  shows "writeFrame w p = (True, w\<lparr>w_out := w_out w @ frame_bytes p\<rparr>)"
  using assms by (simp add: writeFrame_def wire_write_def frame_bytes_def)

text \<open>No announcement makes the reader allocate more than the cap.\<close>

lemma readFrame_bound: "readFrame s = (Inr p, r) \<Longrightarrow> length p \<le> MaxFrame \<and> s = frame_bytes p @ r"
proof -
  assume h: "readFrame s = (Inr p, r)"
  then have l: "4 \<le> length s" and n: "get_be32 (take 4 s) \<le> MaxFrame"
    and d: "read_full (get_be32 (take 4 s)) (drop 4 s) = (Inr p, r)"
    by (auto simp: readFrame_def read_full_def [of 4] Let_def not_less split: if_splits)
  from d have p: "p = take (get_be32 (take 4 s)) (drop 4 s)" "r = drop (get_be32 (take 4 s)) (drop 4 s)"
    and len: "length p = get_be32 (take 4 s)"
    by (auto simp: read_full_def split: if_splits)
  have "put_be32 (length p) = take 4 s" using l len by (simp add: put_get_be32)
  moreover have "p @ r = drop 4 s" unfolding p by (rule append_take_drop_id)
  ultimately have "frame_bytes p @ r = take 4 s @ drop 4 s" by (simp add: frame_bytes_def)
  then show ?thesis using n len by simp
qed


section \<open>Fields\<close>

definition appendField :: "bytes \<Rightarrow> bytes \<Rightarrow> bytes" where
  "appendField dst field = dst @ put_be32 (length field) @ field"

record reader =
  rd_buf :: bytes
  rd_pos :: nat

definition rd_field :: "reader \<Rightarrow> (bytes \<times> reader) option" where
  "rd_field r =
     (if length (rd_buf r) < rd_pos r + 4 then None
      else
        let n = get_be32 (drop (rd_pos r) (rd_buf r)); pos = rd_pos r + 4
        in if length (rd_buf r) < pos + n then None
           else Some (take n (drop pos (rd_buf r)), r\<lparr>rd_pos := pos + n\<rparr>))"

definition rd_done :: "reader \<Rightarrow> bool" where
  "rd_done r \<longleftrightarrow> rd_pos r = length (rd_buf r)"

text \<open>A reader is what remains of its buffer.\<close>

definition remaining :: "reader \<Rightarrow> bytes" where
  "remaining r = drop (rd_pos r) (rd_buf r)"

definition field_dec :: "bytes \<Rightarrow> (bytes \<times> bytes) option" where
  "field_dec s =
     (if length s < 4 \<or> length s < 4 + get_be32 s then None
      else Some (take (get_be32 s) (drop 4 s), drop (4 + get_be32 s) s))"

interpretation field: prefix_codec "appendField []" field_dec "\<lambda>f. length f < 2 ^ 32"
  by unfold_locales (simp add: field_dec_def appendField_def)

lemma appendField_alt: "appendField dst f = dst @ appendField [] f"
  by (simp add: appendField_def)

definition rd_ok :: "reader \<Rightarrow> bool" where
  "rd_ok r \<longleftrightarrow> rd_pos r \<le> length (rd_buf r)"

lemma rd_field_dec:
  assumes "rd_ok r"
  shows "rd_field r = None \<longleftrightarrow> field_dec (remaining r) = None"
    and "rd_field r = Some (f, r') \<Longrightarrow>
      field_dec (remaining r) = Some (f, remaining r') \<and> rd_ok r' \<and> rd_buf r' = rd_buf r"
  using assms
  by (auto simp: rd_field_def field_dec_def remaining_def rd_ok_def Let_def add.commute add.left_commute
      split: if_splits)

lemma rd_done_remaining: "rd_ok r \<Longrightarrow> rd_done r \<longleftrightarrow> remaining r = []"
  by (auto simp: rd_done_def remaining_def rd_ok_def)

text \<open>A field that decodes is the encoding of its content: the encoding is canonical.\<close>

lemma field_dec_canonical:
  assumes "field_dec s = Some (f, r)"
  shows "s = appendField [] f @ r" and "length f < 2 ^ 32"
proof -
  from assms have l: "4 \<le> length s" "4 + get_be32 s \<le> length s"
    and f: "f = take (get_be32 s) (drop 4 s)" "r = drop (4 + get_be32 s) s"
    by (auto simp: field_dec_def split: if_splits)
  have len: "length f = get_be32 s" using l f by simp
  then show "length f < 2 ^ 32" using get_be32_bound [of s] by simp
  have "put_be32 (get_be32 s) = take 4 s"
    using put_get_be32 [of "take 4 s"] l(1) by (simp add: get_be32_def)
  then show "s = appendField [] f @ r"
    using len f by (simp add: appendField_def) (metis add.commute append_take_drop_id drop_drop)
qed


lemma rd_field_enc:
  assumes "rd_ok r" and "remaining r = appendField [] f @ rest" and "length f < 2 ^ 32"
  shows "\<exists>r'. rd_field r = Some (f, r') \<and> remaining r' = rest \<and> rd_ok r'"
proof -
  have dec: "field_dec (remaining r) = Some (f, rest)"
    using assms(2,3) by (metis field.dec_enc)
  then have "rd_field r \<noteq> None" using rd_field_dec(1) [OF assms(1)] by simp
  then obtain g r' where f: "rd_field r = Some (g, r')" by auto
  then show ?thesis using rd_field_dec(2) [OF assms(1) f] dec by auto
qed


section \<open>Certificate chains\<close>

definition encodeChain :: "bytes list \<Rightarrow> bytes" where
  "encodeChain chain = foldl appendField (put_be32 (length chain)) chain"

fun read_certs :: "'k ext \<Rightarrow> nat \<Rightarrow> reader \<Rightarrow> (cert list \<times> reader) option" where
  "read_certs E 0 r = Some ([], r)"
| "read_certs E (Suc n) r =
     (case rd_field r of
        None \<Rightarrow> None
      | Some (der, r1) \<Rightarrow>
          (case x509_parse E der of
             None \<Rightarrow> None
           | Some c \<Rightarrow>
               (case read_certs E n r1 of
                  None \<Rightarrow> None
                | Some (cs, r2) \<Rightarrow> Some (c # cs, r2))))"

definition decodeChain :: "'k ext \<Rightarrow> bytes \<Rightarrow> cert list option" where
  "decodeChain E b =
     (if length b < 4 then None
      else
        let n = get_be32 (take 4 b)
        in if n = 0 \<or> 8 < n then None
           else case read_certs E n \<lparr>rd_buf = b, rd_pos = 4\<rparr> of
                  None \<Rightarrow> None
                | Some (chain, r) \<Rightarrow> if rd_done r then Some chain else None)"

lemma encodeChain_alt: "encodeChain chain = put_be32 (length chain) @ concat (map (appendField []) chain)"
proof -
  have "foldl appendField b chain = b @ concat (map (appendField []) chain)" for b
  proof (induction chain arbitrary: b)
    case (Cons x chain)
    have "foldl appendField b (x # chain) = foldl appendField (b @ appendField [] x) chain"
      by (simp add: appendField_alt [of b])
    also have "\<dots> = b @ concat (map (appendField []) (x # chain))" by (simp add: Cons.IH)
    finally show ?case .
  qed simp
  then show ?thesis by (simp add: encodeChain_def)
qed

text \<open>The certificates are those of consecutive fields, and nothing else was read.\<close>

lemma read_certs_Some:
  "\<lbrakk>read_certs E n r = Some (cs, r'); rd_ok r\<rbrakk> \<Longrightarrow>
     \<exists>ders. length ders = n \<and> remaining r = concat (map (appendField []) ders) @ remaining r'
       \<and> (\<forall>d\<in>set ders. length d < 2 ^ 32) \<and> map (x509_parse E) ders = map Some cs \<and> rd_ok r'"
proof (induction n arbitrary: r cs)
  case 0
  then show ?case by simp
next
  case (Suc n)
  from Suc.prems obtain der r1 c cs' where f: "rd_field r = Some (der, r1)" "x509_parse E der = Some c"
    "read_certs E n r1 = Some (cs', r')" "cs = c # cs'"
    by (auto split: option.splits)
  note d = rd_field_dec(2) [OF Suc.prems(2) f(1)]
  then obtain ders where "length ders = n" "remaining r1 = concat (map (appendField []) ders) @ remaining r'"
    "\<forall>d\<in>set ders. length d < 2 ^ 32" "map (x509_parse E) ders = map Some cs'" "rd_ok r'"
    using Suc.IH [OF f(3)] by blast
  with d f(2,4) field_dec_canonical [of "remaining r" der "remaining r1"] show ?case
    by (intro exI [of _ "der # ders"]) simp
qed

lemma read_certs_enc:
  assumes "\<forall>d\<in>set ders. length d < 2 ^ 32" and "map (x509_parse E) ders = map Some cs"
    and "rd_ok r" and "remaining r = concat (map (appendField []) ders) @ rest"
  shows "\<exists>r'. read_certs E (length ders) r = Some (cs, r') \<and> remaining r' = rest \<and> rd_ok r'"
  using assms
proof (induction ders arbitrary: cs r)
  case Nil
  then show ?case by auto
next
  case (Cons d ders)
  then obtain c cs' where cs: "cs = c # cs'" "x509_parse E d = Some c" "map (x509_parse E) ders = map Some cs'"
    by (cases cs) auto
  have rem: "remaining r = appendField [] d @ concat (map (appendField []) ders) @ rest"
    using Cons.prems(4) by simp
  obtain r1 where f: "rd_field r = Some (d, r1)"
    and r1: "remaining r1 = concat (map (appendField []) ders) @ rest" "rd_ok r1"
    using rd_field_enc [OF Cons.prems(3) rem] Cons.prems(1) by auto
  have "\<forall>d\<in>set ders. length d < 2 ^ 32" using Cons.prems(1) by simp
  from Cons.IH [OF this cs(3) r1(2,1)] obtain r' where
    "read_certs E (length ders) r1 = Some (cs', r')" "remaining r' = rest" "rd_ok r'" by blast
  then show ?case using f cs(1,2) by simp
qed

end
