(* ===== verification/Handshake.thy ===== *)
theory Handshake
  imports Frame Pki
begin

text \<open>
  The handshake of the tunnel: \<open>sidecar/pqtunnel/identity.go\<close> (the chain codec is in \<open>Frame\<close>)
  and \<open>handshake.go\<close>, with the key assignment of \<open>newConn\<close> (\<open>conn.go\<close>).  ML-DSA, ML-KEM, HKDF
  and AES-GCM of the Go library are the fields of a record \<open>crypto\<close> over the types of private
  keys \<open>'s\<close> and decapsulation keys \<open>'d\<close>; the random bytes a call draws are an argument.
  Durations are not modelled.
\<close>

record ('s, 'd) crypto =
  signer_public :: "'s \<Rightarrow> pubkey"
  mldsa_sign :: "'s \<Rightarrow> string \<Rightarrow> bytes \<Rightarrow> bytes option"
  mldsa_verify :: "mldsa_params \<Rightarrow> bytes \<Rightarrow> string \<Rightarrow> bytes \<Rightarrow> bytes \<Rightarrow> bool"
  kem_generate :: "bytes \<Rightarrow> 'd option"
  kem_public :: "'d \<Rightarrow> bytes"
  kem_valid :: "bytes \<Rightarrow> bool"
  kem_encapsulate :: "bytes \<Rightarrow> bytes \<Rightarrow> bytes \<times> bytes"
  kem_decapsulate :: "'d \<Rightarrow> bytes \<Rightarrow> bytes option"
  hkdf_key :: "bytes \<Rightarrow> bytes \<Rightarrow> string \<Rightarrow> nat \<Rightarrow> bytes option"
  gcm_seal :: "bytes \<Rightarrow> bytes \<Rightarrow> bytes \<Rightarrow> bytes"
  gcm_open :: "bytes \<Rightarrow> bytes \<Rightarrow> bytes \<Rightarrow> bytes option"


section \<open>Identities\<close>

record peer =
  pe_chain :: "cert list"
  pe_leaf :: cert
  pe_alg :: string
  pe_thumbprint :: string

text \<open>The receiver may be nil; a peer built by \<open>authenticate\<close> always has a leaf.\<close>

definition CommonName :: "peer option \<Rightarrow> string" where
  "CommonName p = (case p of None \<Rightarrow> [] | Some q \<Rightarrow> c_cn (pe_leaf q))"

definition matchesName :: "cert \<Rightarrow> string \<Rightarrow> bool" where
  "matchesName leaf want \<longleftrightarrow> equal_fold (c_cn leaf) want \<or> list_ex (\<lambda>dns. equal_fold dns want) (c_dns leaf)"

datatype peer_error = Chain_rejected chain_kind | Not_MLDSA string | Wrong_name

definition authenticate ::
  "'k ext \<Rightarrow> cert list \<Rightarrow> cert list \<Rightarrow> string \<Rightarrow> time \<Rightarrow> eku \<Rightarrow> peer_error + peer" where
  "authenticate E chain roots peerName now eku =
     (case VerifyChain E chain roots now eku of
        Inl kind \<Rightarrow> Inl (Chain_rejected kind)
      | Inr _ \<Rightarrow>
          let leaf = hd chain
          in if \<not> IsPostQuantum (c_pub leaf) then Inl (Not_MLDSA (KeyAlgName (c_pub leaf)))
             else if peerName \<noteq> [] \<and> \<not> matchesName leaf peerName then Inl Wrong_name
             else Inr \<lparr>pe_chain = chain, pe_leaf = leaf, pe_alg = KeyAlgName (c_pub leaf),
                       pe_thumbprint = ThumbprintS256 E leaf\<rparr>)"

text \<open>A \<open>tls.Certificate\<close>; the key is \<open>None\<close> when it is no \<open>crypto.Signer\<close>.\<close>

record 's credential =
  cred_chain :: "bytes list"
  cred_key :: "'s option"

datatype cred_error = No_identity | No_signer | Key_not_MLDSA string

definition signerFor :: "('s, 'd) crypto \<Rightarrow> 's credential option \<Rightarrow> cred_error + 's \<times> bytes list" where
  "signerFor C cert =
     (case cert of
        None \<Rightarrow> Inl No_identity
      | Some cr \<Rightarrow>
          if cred_chain cr = [] then Inl No_identity
          else (case cred_key cr of
                  None \<Rightarrow> Inl No_signer
                | Some k \<Rightarrow>
                    if \<not> IsPostQuantum (signer_public C k) then Inl (Key_not_MLDSA (KeyAlgName (signer_public C k)))
                    else Inr (k, cred_chain cr)))"

fun verify :: "('s, 'd) crypto \<Rightarrow> pubkey \<Rightarrow> string \<Rightarrow> bytes \<Rightarrow> bytes \<Rightarrow> bool" where
  "verify C (MLDSA_key p b) ctxt transcript sig = mldsa_verify C p b ctxt transcript sig"
| "verify C _ ctxt transcript sig = False"


section \<open>Hello messages\<close>

definition magic :: bytes where "magic = bytes_of ''PQTB1''"
definition tunnel_version :: "8 word" where "tunnel_version = 1"
definition tunnel_suite :: "8 word" where "tunnel_suite = 1"
definition contextClientHello :: string where "contextClientHello = ''PQTB1 client hello''"
definition contextServerHello :: string where "contextServerHello = ''PQTB1 server hello''"
definition infoClientToServer :: string where "infoClientToServer = ''PQTB1 c2s''"
definition infoServerToClient :: string where "infoServerToClient = ''PQTB1 s2c''"

text \<open>The part of a hello that the signature covers.\<close>

definition hello_body :: "bytes list \<Rightarrow> bytes \<Rightarrow> bytes" where
  "hello_body chain keyMaterial =
     appendField (appendField (magic @ [tunnel_version, tunnel_suite]) (encodeChain chain)) keyMaterial"

datatype parse_error = Bad_magic | Bad_version | Bad_suite | Bad_fields | Bad_chain

definition parseHello :: "'k ext \<Rightarrow> bytes \<Rightarrow> parse_error + cert list \<times> bytes \<times> bytes" where
  "parseHello E msg =
     (if length msg < length magic + 2 \<or> take (length magic) msg \<noteq> magic then Inl Bad_magic
      else if msg ! length magic \<noteq> tunnel_version then Inl Bad_version
      else if msg ! (length magic + 1) \<noteq> tunnel_suite then Inl Bad_suite
      else case rd_field \<lparr>rd_buf = msg, rd_pos = length magic + 2\<rparr> of
             None \<Rightarrow> Inl Bad_fields
           | Some (rawChain, r1) \<Rightarrow>
      (case rd_field r1 of
         None \<Rightarrow> Inl Bad_fields
       | Some (keyMaterial, r2) \<Rightarrow>
      (case rd_field r2 of
         None \<Rightarrow> Inl Bad_fields
       | Some (sig, r3) \<Rightarrow>
           if \<not> rd_done r3 then Inl Bad_fields
           else (case decodeChain E rawChain of
                   None \<Rightarrow> Inl Bad_chain
                 | Some chain \<Rightarrow> Inr (chain, keyMaterial, sig)))))"

definition transcript :: "'k ext \<Rightarrow> bytes \<Rightarrow> bytes \<Rightarrow> bytes" where
  "transcript E clientHello serverHello = sha256 E (clientHello @ serverHello)"

text \<open>What remains of a hello without its signature field.\<close>

definition before_signature :: "bytes \<Rightarrow> bytes \<Rightarrow> bytes" where
  "before_signature hello sig = take (length hello - length sig - 4) hello"


section \<open>Keys\<close>

definition deriveKeys :: "('s, 'd) crypto \<Rightarrow> bytes \<Rightarrow> bytes \<Rightarrow> (bytes \<times> bytes) option" where
  "deriveKeys C shared t =
     (case hkdf_key C shared t infoClientToServer 32 of
        None \<Rightarrow> None
      | Some c2s \<Rightarrow>
          (case hkdf_key C shared t infoServerToClient 32 of
             None \<Rightarrow> None
           | Some s2c \<Rightarrow> Some (c2s, s2c)))"

text \<open>\<open>aes.NewCipher\<close> takes keys of 16, 24 or 32 bytes; an AEAD is represented by its key.\<close>

definition newGCM :: "bytes \<Rightarrow> bytes option" where
  "newGCM key = (if length key \<in> {16, 24, 32} then Some key else None)"


section \<open>Connections\<close>

text \<open>
  A network connection: its writer, the bytes the other end will deliver, and the outcomes of
  the coming \<open>SetDeadline\<close> calls (true beyond the list).
\<close>

record raw =
  raw_w :: wire
  raw_in :: bytes
  raw_deadlines :: "bool list"

definition set_deadline :: "raw \<Rightarrow> bool \<times> raw" where
  "set_deadline r =
     (case raw_deadlines r of
        [] \<Rightarrow> (True, r)
      | ok # rest \<Rightarrow> (ok, r\<lparr>raw_deadlines := rest\<rparr>))"

record hs_stats =
  st_sent :: nat
  st_recv :: nat

text \<open>\<open>Conn\<close>; the mutexes make each operation on one direction atomic.\<close>

record conn =
  k_raw :: raw
  k_peer :: peer
  k_stats :: hs_stats
  k_seal :: bytes
  k_wIV :: bytes
  k_wSeq :: "64 word"
  k_wClosed :: bool
  k_open :: bytes
  k_rIV :: bytes
  k_rSeq :: "64 word"
  k_rEOF :: bool
  k_buffer :: bytes

datatype hs_error =
    HE_deadline
  | HE_credential cred_error
  | HE_keygen
  | HE_sign
  | HE_write
  | HE_read read_error
  | HE_parse parse_error
  | HE_peer peer_error
  | HE_signature
  | HE_kem_key
  | HE_decapsulate
  | HE_derive

text \<open>\<open>copy\<close> into a four-byte array.\<close>

definition iv4 :: "bytes \<Rightarrow> bytes" where
  "iv4 b = take 4 (b @ replicate 4 0)"

definition newConn ::
  "('s, 'd) crypto \<Rightarrow> raw \<Rightarrow> bytes \<Rightarrow> bytes \<Rightarrow> peer \<Rightarrow> bool \<Rightarrow> hs_stats \<Rightarrow> hs_error + conn" where
  "newConn C r shared t p isClient st =
     (case deriveKeys C shared t of
        None \<Rightarrow> Inl HE_derive
      | Some (c2s, s2c) \<Rightarrow>
     (case hkdf_key C shared t (infoClientToServer @ '' iv'') 4 of
        None \<Rightarrow> Inl HE_derive
      | Some c2sIV \<Rightarrow>
     (case hkdf_key C shared t (infoServerToClient @ '' iv'') 4 of
        None \<Rightarrow> Inl HE_derive
      | Some s2cIV \<Rightarrow>
          let (sealKey, openKey, sealIV, openIV) =
                (if isClient then (c2s, s2c, c2sIV, s2cIV) else (s2c, c2s, s2cIV, c2sIV))
          in case newGCM sealKey of
               None \<Rightarrow> Inl HE_derive
             | Some seal \<Rightarrow>
            (case newGCM openKey of
               None \<Rightarrow> Inl HE_derive
             | Some opn \<Rightarrow>
                 (case set_deadline r of
                    (False, r1) \<Rightarrow> Inl HE_deadline
                  | (True, r1) \<Rightarrow>
                      Inr \<lparr>k_raw = r1, k_peer = p, k_stats = st, k_seal = seal, k_wIV = iv4 sealIV, k_wSeq = 0,
                           k_wClosed = False, k_open = opn, k_rIV = iv4 openIV, k_rSeq = 0, k_rEOF = False,
                           k_buffer = []\<rparr>)))))"


section \<open>The handshake\<close>

record 's tunnel_config =
  tc_credential :: "'s credential option" \<comment> \<open>what \<open>Credential()\<close> returns in this handshake\<close>
  tc_roots :: "cert list"
  tc_peer_name :: string
  tc_now :: time

text \<open>The client hello, and what the client makes of the server's.\<close>

definition client_start :: "('s, 'd) crypto \<Rightarrow> 's tunnel_config \<Rightarrow> bytes \<Rightarrow> hs_error + 'd \<times> bytes" where
  "client_start C cfg seed =
     (case signerFor C (tc_credential cfg) of
        Inl e \<Rightarrow> Inl (HE_credential e)
      | Inr (key, chain) \<Rightarrow>
     (case kem_generate C seed of
        None \<Rightarrow> Inl HE_keygen
      | Some dk \<Rightarrow>
          let body = hello_body chain (kem_public C dk)
          in case mldsa_sign C key contextClientHello body of
               None \<Rightarrow> Inl HE_sign
             | Some sig \<Rightarrow> Inr (dk, appendField body sig)))"

definition client_finish ::
  "('s, 'd) crypto \<Rightarrow> 'k ext \<Rightarrow> 's tunnel_config \<Rightarrow> 'd \<Rightarrow> bytes \<Rightarrow> bytes \<Rightarrow> hs_error + bytes \<times> peer" where
  "client_finish C E cfg dk clientHello serverHello =
     (case parseHello E serverHello of
        Inl e \<Rightarrow> Inl (HE_parse e)
      | Inr (serverChain, ciphertext, serverSig) \<Rightarrow>
          let signed = clientHello @ before_signature serverHello serverSig
          in case authenticate E serverChain (tc_roots cfg) (tc_peer_name cfg) (tc_now cfg) ServerAuth of
               Inl e \<Rightarrow> Inl (HE_peer e)
             | Inr p \<Rightarrow>
                 if \<not> verify C (c_pub (pe_leaf p)) contextServerHello signed serverSig then Inl HE_signature
                 else (case kem_decapsulate C dk ciphertext of
                         None \<Rightarrow> Inl HE_decapsulate
                       | Some shared \<Rightarrow> Inr (shared, p)))"

definition Client ::
  "('s, 'd) crypto \<Rightarrow> 'k ext \<Rightarrow> 's tunnel_config \<Rightarrow> bytes \<Rightarrow> raw \<Rightarrow> hs_error + conn" where
  "Client C E cfg seed r =
     (case set_deadline r of
        (False, r0) \<Rightarrow> Inl HE_deadline
      | (True, r0) \<Rightarrow>
     (case client_start C cfg seed of
        Inl e \<Rightarrow> Inl e
      | Inr (dk, clientHello) \<Rightarrow>
     (case writeFrame (raw_w r0) clientHello of
        (False, w) \<Rightarrow> Inl HE_write
      | (True, w) \<Rightarrow>
     (case readFrame (raw_in r0) of
        (Inl e, rest) \<Rightarrow> Inl (HE_read e)
      | (Inr serverHello, rest) \<Rightarrow>
     (case client_finish C E cfg dk clientHello serverHello of
        Inl e \<Rightarrow> Inl e
      | Inr (shared, p) \<Rightarrow>
          newConn C (r0\<lparr>raw_w := w, raw_in := rest\<rparr>) shared (transcript E clientHello serverHello) p True
            \<lparr>st_sent = length clientHello + 4, st_recv = length serverHello + 4\<rparr>)))))"

text \<open>What the server makes of a client hello, and its answer.\<close>

definition server_check ::
  "('s, 'd) crypto \<Rightarrow> 'k ext \<Rightarrow> 's tunnel_config \<Rightarrow> bytes \<Rightarrow> hs_error + bytes \<times> peer" where
  "server_check C E cfg clientHello =
     (case parseHello E clientHello of
        Inl e \<Rightarrow> Inl (HE_parse e)
      | Inr (clientChain, ekBytes, clientSig) \<Rightarrow>
          (case authenticate E clientChain (tc_roots cfg) (tc_peer_name cfg) (tc_now cfg) ClientAuth of
             Inl e \<Rightarrow> Inl (HE_peer e)
           | Inr p \<Rightarrow>
               if \<not> verify C (c_pub (pe_leaf p)) contextClientHello (before_signature clientHello clientSig) clientSig
               then Inl HE_signature
               else Inr (ekBytes, p)))"

definition server_answer ::
  "('s, 'd) crypto \<Rightarrow> 's \<Rightarrow> bytes list \<Rightarrow> bytes \<Rightarrow> bytes \<Rightarrow> bytes \<Rightarrow> hs_error + bytes \<times> bytes" where
  "server_answer C key chain clientHello ekBytes seed =
     (if \<not> kem_valid C ekBytes then Inl HE_kem_key
      else
        let (shared, ciphertext) = kem_encapsulate C ekBytes seed;
            body = hello_body chain ciphertext
        in case mldsa_sign C key contextServerHello (clientHello @ body) of
             None \<Rightarrow> Inl HE_sign
           | Some sig \<Rightarrow> Inr (shared, appendField body sig))"

definition Server ::
  "('s, 'd) crypto \<Rightarrow> 'k ext \<Rightarrow> 's tunnel_config \<Rightarrow> bytes \<Rightarrow> raw \<Rightarrow> hs_error + conn" where
  "Server C E cfg seed r =
     (case set_deadline r of
        (False, r0) \<Rightarrow> Inl HE_deadline
      | (True, r0) \<Rightarrow>
     (case signerFor C (tc_credential cfg) of
        Inl e \<Rightarrow> Inl (HE_credential e)
      | Inr (key, chain) \<Rightarrow>
     (case readFrame (raw_in r0) of
        (Inl e, rest) \<Rightarrow> Inl (HE_read e)
      | (Inr clientHello, rest) \<Rightarrow>
     (case server_check C E cfg clientHello of
        Inl e \<Rightarrow> Inl e
      | Inr (ekBytes, p) \<Rightarrow>
     (case server_answer C key chain clientHello ekBytes seed of
        Inl e \<Rightarrow> Inl e
      | Inr (shared, serverHello) \<Rightarrow>
     (case writeFrame (raw_w r0) serverHello of
        (False, w) \<Rightarrow> Inl HE_write
      | (True, w) \<Rightarrow>
          newConn C (r0\<lparr>raw_w := w, raw_in := rest\<rparr>) shared (transcript E clientHello serverHello) p False
            \<lparr>st_sent = length serverHello + 4, st_recv = length clientHello + 4\<rparr>))))))"


section \<open>Hellos are encoded unambiguously\<close>

text \<open>A chain decodes exactly when it is the encoding of one to eight certificates.\<close>

definition chain_ders :: "'k ext \<Rightarrow> cert list \<Rightarrow> bytes list \<Rightarrow> bool" where
  "chain_ders E chain ders \<longleftrightarrow> ders \<noteq> [] \<and> length ders \<le> 8 \<and> (\<forall>d\<in>set ders. length d < 2 ^ 32)
     \<and> map (x509_parse E) ders = map Some chain"

lemma decodeChain_Some:
  assumes "decodeChain E b = Some chain"
  shows "\<exists>ders. b = encodeChain ders \<and> chain_ders E chain ders"
proof -
  let ?n = "get_be32 (take 4 b)" and ?r = "\<lparr>rd_buf = b, rd_pos = 4\<rparr>"
  from assms have l: "4 \<le> length b" and n: "?n \<noteq> 0" "?n \<le> 8"
    by (auto simp: decodeChain_def Let_def split: if_splits)
  with assms obtain r' where r: "read_certs E ?n ?r = Some (chain, r')" "rd_done r'"
    by (auto simp: decodeChain_def Let_def not_less split: option.splits if_splits)
  have "rd_ok ?r" using l by (simp add: rd_ok_def)
  from read_certs_Some [OF r(1) this] obtain ders where d: "length ders = ?n"
    "remaining ?r = concat (map (appendField []) ders) @ remaining r'" "\<forall>d\<in>set ders. length d < 2 ^ 32"
    "map (x509_parse E) ders = map Some chain" "rd_ok r'" by blast
  have "remaining r' = []" using rd_done_remaining [OF d(5)] r(2) by simp
  then have "drop 4 b = concat (map (appendField []) ders)" using d(2) by (simp add: remaining_def)
  moreover have "take 4 b = put_be32 (length ders)" using l d(1) by (simp add: put_get_be32)
  ultimately have "b = encodeChain ders" by (simp add: encodeChain_alt) (metis append_take_drop_id)
  then show ?thesis using d n by (auto simp: chain_ders_def)
qed

lemma decodeChain_encodeChain:
  assumes "chain_ders E chain ders"
  shows "decodeChain E (encodeChain ders) = Some chain"
proof -
  let ?b = "encodeChain ders" and ?r = "\<lparr>rd_buf = encodeChain ders, rd_pos = 4\<rparr>"
  have l: "ders \<noteq> []" "length ders \<le> 8" using assms by (simp_all add: chain_ders_def)
  have n: "get_be32 (take 4 ?b) = length ders" using l(2) by (simp add: encodeChain_alt)
  have "rd_ok ?r" "remaining ?r = concat (map (appendField []) ders) @ []"
    by (simp_all add: rd_ok_def remaining_def encodeChain_alt)
  from read_certs_enc [OF _ _ this, of E chain] assms obtain r' where
    "read_certs E (length ders) ?r = Some (chain, r')" "remaining r' = []" "rd_ok r'"
    by (auto simp: chain_ders_def)
  moreover have "\<not> length ?b < 4" by (simp add: encodeChain_alt)
  ultimately show ?thesis
    using l n by (simp add: decodeChain_def Let_def rd_done_remaining not_less)
qed

text \<open>The three fields after the fixed header.\<close>

definition hello_wire :: "bytes \<times> bytes \<times> bytes \<Rightarrow> bytes" where
  "hello_wire = (\<lambda>(rc, km, sig). magic @ [tunnel_version, tunnel_suite]
     @ appendField [] rc @ appendField [] km @ appendField [] sig)"

definition hello_fits :: "bytes \<times> bytes \<times> bytes \<Rightarrow> bool" where
  "hello_fits = (\<lambda>(rc, km, sig). length rc < 2 ^ 32 \<and> length km < 2 ^ 32 \<and> length sig < 2 ^ 32)"

definition hello_dec :: "bytes \<Rightarrow> ((bytes \<times> bytes \<times> bytes) \<times> bytes) option" where
  "hello_dec s =
     (case field_dec (drop 7 s) of None \<Rightarrow> None
      | Some (rc, s1) \<Rightarrow> (case field_dec s1 of None \<Rightarrow> None
      | Some (km, s2) \<Rightarrow> (case field_dec s2 of None \<Rightarrow> None
      | Some (sig, s3) \<Rightarrow> Some ((rc, km, sig), s3))))"

lemma magic_length [simp]: "length magic = 5"
  by (simp add: magic_def bytes_of_def)

lemma drop_header: "drop 7 (magic @ [a, b] @ s) = s"
  by simp

interpretation hello: prefix_codec hello_wire hello_dec hello_fits
proof
  fix x rest assume f: "hello_fits x"
  obtain rc km sig where x: "x = (rc, km, sig)" by (cases x) auto
  have "drop 7 (hello_wire x @ rest) = appendField [] rc @ appendField [] km @ appendField [] sig @ rest"
    unfolding x hello_wire_def prod.case append_assoc by (rule drop_header)
  then show "hello_dec (hello_wire x @ rest) = Some (x, rest)"
    using f by (simp add: hello_dec_def hello_fits_def x field.dec_enc)
qed

lemma hello_body_wire: "appendField (hello_body ders km) sig = hello_wire (encodeChain ders, km, sig)"
  by (simp add: hello_body_def hello_wire_def appendField_def)

lemma before_signature_hello: "before_signature (appendField body sig) sig = body"
  by (simp add: before_signature_def appendField_def)


lemma parseHello_Inr:
  assumes "parseHello E msg = Inr (chain, km, sig)"
  shows "\<exists>rc. msg = hello_wire (rc, km, sig) \<and> hello_fits (rc, km, sig) \<and> decodeChain E rc = Some chain"
proof -
  let ?r = "\<lparr>rd_buf = msg, rd_pos = length magic + 2\<rparr>"
  from assms have l: "7 \<le> length msg" and m: "take 5 msg = magic"
    and v: "msg ! 5 = tunnel_version" and s: "msg ! 6 = tunnel_suite"
    by (auto simp: parseHello_def not_less split: if_splits)
  with assms obtain rc r1 r2 r3 where f: "rd_field ?r = Some (rc, r1)" "rd_field r1 = Some (km, r2)"
    "rd_field r2 = Some (sig, r3)" "rd_done r3" and ch: "decodeChain E rc = Some chain"
    by (auto simp: parseHello_def split: option.splits if_splits)
  have ok: "rd_ok ?r" using l by (simp add: rd_ok_def)
  note d1 = rd_field_dec(2) [OF ok f(1)]
  note d2 = rd_field_dec(2) [OF d1 [THEN conjunct2, THEN conjunct1] f(2)]
  note d3 = rd_field_dec(2) [OF d2 [THEN conjunct2, THEN conjunct1] f(3)]
  have "remaining r3 = []" using d3 f(4) rd_done_remaining by blast
  moreover note c1 = field_dec_canonical [OF d1 [THEN conjunct1]]
  moreover note c2 = field_dec_canonical [OF d2 [THEN conjunct1]]
  moreover note c3 = field_dec_canonical [OF d3 [THEN conjunct1]]
  moreover have "msg = magic @ [tunnel_version, tunnel_suite] @ drop 7 msg"
  proof -
    have "msg = take 5 msg @ msg ! 5 # msg ! 6 # drop 7 msg"
      using l append_take_drop_id [of 5 msg] Cons_nth_drop_Suc [of 5 msg] Cons_nth_drop_Suc [of 6 msg] by simp
    then show ?thesis using m v s by simp
  qed
  ultimately have "msg = hello_wire (rc, km, sig)" "hello_fits (rc, km, sig)"
    by (simp_all add: hello_wire_def hello_fits_def remaining_def)
  with ch show ?thesis by blast
qed

text \<open>\<open>parseHello\<close> accepts exactly what \<open>hello_body\<close> and \<open>appendField\<close> build.\<close>

lemma parseHello_exact_iff:
  "parseHello E msg = Inr (chain, km, sig) \<longleftrightarrow>
     (\<exists>ders. chain_ders E chain ders \<and> hello_fits (encodeChain ders, km, sig)
        \<and> msg = appendField (hello_body ders km) sig)"
proof
  assume "parseHello E msg = Inr (chain, km, sig)"
  from parseHello_Inr [OF this] obtain rc where rc: "msg = hello_wire (rc, km, sig)"
    "hello_fits (rc, km, sig)" "decodeChain E rc = Some chain" by blast
  moreover from decodeChain_Some [OF rc(3)] obtain ders where "rc = encodeChain ders" "chain_ders E chain ders"
    by blast
  ultimately show "\<exists>ders. chain_ders E chain ders \<and> hello_fits (encodeChain ders, km, sig)
        \<and> msg = appendField (hello_body ders km) sig"
    by (auto simp: hello_body_wire)
next
  assume "\<exists>ders. chain_ders E chain ders \<and> hello_fits (encodeChain ders, km, sig)
        \<and> msg = appendField (hello_body ders km) sig"
  then obtain ders where d: "chain_ders E chain ders" "hello_fits (encodeChain ders, km, sig)"
    and msg: "msg = hello_wire (encodeChain ders, km, sig)" by (auto simp: hello_body_wire)
  let ?r = "\<lparr>rd_buf = msg, rd_pos = length magic + 2\<rparr>"
  define rc where "rc = encodeChain ders"
  have h: "take 5 msg = magic" "drop 5 msg = tunnel_version # tunnel_suite # drop 7 msg" "length msg \<ge> 7"
    by (simp_all add: msg hello_wire_def)
  then have v: "msg ! 5 = tunnel_version" "msg ! 6 = tunnel_suite"
    using Cons_nth_drop_Suc [of 5 msg] Cons_nth_drop_Suc [of 6 msg] by simp_all
  have ok: "rd_ok ?r" using h(3) by (simp add: rd_ok_def)
  have rem: "remaining ?r = appendField [] rc @ appendField [] km @ appendField [] sig"
    by (simp add: remaining_def msg hello_wire_def rc_def)
  have fits: "length rc < 2 ^ 32" "length km < 2 ^ 32" "length sig < 2 ^ 32"
    using d(2) by (simp_all add: hello_fits_def rc_def)
  obtain r1 where r1: "rd_field ?r = Some (rc, r1)" "remaining r1 = appendField [] km @ appendField [] sig" "rd_ok r1"
    using rd_field_enc [OF ok rem fits(1)] by blast
  obtain r2 where r2: "rd_field r1 = Some (km, r2)" "remaining r2 = appendField [] sig @ []" "rd_ok r2"
    using rd_field_enc [OF r1(3,2) fits(2)] by auto
  obtain r3 where r3: "rd_field r2 = Some (sig, r3)" "remaining r3 = []" "rd_ok r3"
    using rd_field_enc [OF r2(3,2) fits(3)] by blast
  have "rd_done r3" using rd_done_remaining [OF r3(3)] r3(2) by simp
  then show "parseHello E msg = Inr (chain, km, sig)"
    using h v r1(1) r2(1) r3(1) decodeChain_encodeChain [OF d(1)]
    by (simp add: parseHello_def rc_def not_less)
qed

text \<open>
  A signed text that is a hello followed by the signed part of another one determines both: what
  the server signs names one client hello and one server hello body.
\<close>

lemma signed_pair_unambiguous:
  assumes "hello_fits x" "hello_fits y" "hello_wire x @ b = hello_wire y @ c"
  shows "x = y \<and> b = c"
  using hello.enc_unambiguous [OF assms] .

lemma before_signature_append:
  assumes "parseHello E msg = Inr (chain, km, sig)"
  shows "msg = appendField (before_signature msg sig) sig"
  using assms by (auto simp: parseHello_exact_iff before_signature_hello)


section \<open>What success means\<close>

lemma authenticate_Inr:
  "authenticate E chain roots name now eku = Inr p \<longleftrightarrow>
     VerifyChain E chain roots now eku = Inr () \<and> IsPostQuantum (c_pub (hd chain))
     \<and> (name = [] \<or> matchesName (hd chain) name)
     \<and> p = \<lparr>pe_chain = chain, pe_leaf = hd chain, pe_alg = KeyAlgName (c_pub (hd chain)),
           pe_thumbprint = ThumbprintS256 E (hd chain)\<rparr>"
  by (auto simp: authenticate_def Let_def split: sum.splits if_splits)

lemma signerFor_Inr:
  "signerFor C cert = Inr (key, ders) \<longleftrightarrow>
     (\<exists>cr. cert = Some cr \<and> ders = cred_chain cr \<and> ders \<noteq> [] \<and> cred_key cr = Some key
        \<and> IsPostQuantum (signer_public C key))"
  by (auto simp: signerFor_def split: option.splits if_splits)

lemma verify_iff:
  "verify C pub ctxt t sig \<longleftrightarrow> (\<exists>p b. pub = MLDSA_key p b \<and> mldsa_verify C p b ctxt t sig)"
  by (cases pub) auto

lemma client_start_Inr:
  "client_start C cfg seed = Inr (dk, ch) \<longleftrightarrow>
     (\<exists>key ders sig. signerFor C (tc_credential cfg) = Inr (key, ders) \<and> kem_generate C seed = Some dk
        \<and> mldsa_sign C key contextClientHello (hello_body ders (kem_public C dk)) = Some sig
        \<and> ch = appendField (hello_body ders (kem_public C dk)) sig)"
  by (auto simp: client_start_def Let_def split: sum.splits option.splits)

lemma client_finish_Inr:
  "client_finish C E cfg dk ch sh = Inr (shared, p) \<longleftrightarrow>
     (\<exists>chain ct sig. parseHello E sh = Inr (chain, ct, sig)
        \<and> authenticate E chain (tc_roots cfg) (tc_peer_name cfg) (tc_now cfg) ServerAuth = Inr p
        \<and> verify C (c_pub (pe_leaf p)) contextServerHello (ch @ before_signature sh sig) sig
        \<and> kem_decapsulate C dk ct = Some shared)"
  by (auto simp: client_finish_def Let_def split: sum.splits option.splits if_splits)

lemma server_check_Inr:
  "server_check C E cfg ch = Inr (ek, p) \<longleftrightarrow>
     (\<exists>chain sig. parseHello E ch = Inr (chain, ek, sig)
        \<and> authenticate E chain (tc_roots cfg) (tc_peer_name cfg) (tc_now cfg) ClientAuth = Inr p
        \<and> verify C (c_pub (pe_leaf p)) contextClientHello (before_signature ch sig) sig)"
  by (auto simp: server_check_def split: sum.splits if_splits)

lemma server_answer_Inr:
  "server_answer C key ders ch ek seed = Inr (shared, sh) \<longleftrightarrow>
     kem_valid C ek \<and> shared = fst (kem_encapsulate C ek seed)
     \<and> (\<exists>sig. mldsa_sign C key contextServerHello (ch @ hello_body ders (snd (kem_encapsulate C ek seed))) = Some sig
          \<and> sh = appendField (hello_body ders (snd (kem_encapsulate C ek seed))) sig)"
  by (auto simp: server_answer_def Let_def split: prod.splits option.splits)

lemma writeFrame_True:
  assumes "writeFrame w p = (True, w')"
  shows "length p \<le> MaxFrame \<and> w_out w' = w_out w @ frame_bytes p"
  using assms
  by (auto simp: writeFrame_def wire_write_def frame_bytes_def not_less
      split: if_splits list.splits option.splits prod.splits bool.splits)

lemma set_deadline_raw: "set_deadline r = (ok, r') \<Longrightarrow> raw_w r' = raw_w r \<and> raw_in r' = raw_in r"
  by (auto simp: set_deadline_def split: list.splits)

text \<open>The keys a connection runs on.\<close>

definition key_schedule :: "('s, 'd) crypto \<Rightarrow> bytes \<Rightarrow> bytes \<Rightarrow> (bytes \<times> bytes \<times> bytes \<times> bytes) option" where
  "key_schedule C shared t =
     (case (hkdf_key C shared t infoClientToServer 32, hkdf_key C shared t infoServerToClient 32,
            hkdf_key C shared t (infoClientToServer @ '' iv'') 4, hkdf_key C shared t (infoServerToClient @ '' iv'') 4) of
        (Some a, Some b, Some c, Some d) \<Rightarrow> Some (a, b, iv4 c, iv4 d)
      | _ \<Rightarrow> None)"

definition keys_of :: "conn \<Rightarrow> bytes \<times> bytes \<times> bytes \<times> bytes" where
  "keys_of k = (k_seal k, k_open k, k_wIV k, k_rIV k)"

fun opposite :: "bytes \<times> bytes \<times> bytes \<times> bytes \<Rightarrow> bytes \<times> bytes \<times> bytes \<times> bytes" where
  "opposite (a, b, c, d) = (b, a, d, c)"

definition fresh_conn :: "conn \<Rightarrow> bool" where
  "fresh_conn k \<longleftrightarrow> k_wSeq k = 0 \<and> k_rSeq k = 0 \<and> \<not> k_wClosed k \<and> \<not> k_rEOF k \<and> k_buffer k = []
     \<and> length (k_wIV k) = 4 \<and> length (k_rIV k) = 4"

lemma iv4_length [simp]: "length (iv4 b) = 4"
  by (simp add: iv4_def)

lemma newConn_Inr:
  assumes "newConn C r shared t p isClient st = Inr k"
  shows "k_peer k = p \<and> k_stats k = st \<and> raw_w (k_raw k) = raw_w r \<and> raw_in (k_raw k) = raw_in r \<and> fresh_conn k
    \<and> key_schedule C shared t = Some (if isClient then keys_of k else opposite (keys_of k))"
  using assms
  by (auto simp: newConn_def deriveKeys_def newGCM_def key_schedule_def keys_of_def fresh_conn_def Let_def
      dest!: set_deadline_raw split: option.splits if_splits prod.splits bool.splits)

lemma Client_Inr:
  assumes "Client C E cfg seed r = Inr k"
  shows "\<exists>dk ch sh shared. client_start C cfg seed = Inr (dk, ch) \<and> length ch \<le> MaxFrame
     \<and> w_out (raw_w (k_raw k)) = w_out (raw_w r) @ frame_bytes ch
     \<and> raw_in r = frame_bytes sh @ raw_in (k_raw k) \<and> length sh \<le> MaxFrame
     \<and> client_finish C E cfg dk ch sh = Inr (shared, k_peer k) \<and> fresh_conn k
     \<and> key_schedule C shared (transcript E ch sh) = Some (keys_of k)"
proof -
  from assms obtain r0 dk ch w sh rest shared p st where
    d: "set_deadline r = (True, r0)" and s: "client_start C cfg seed = Inr (dk, ch)"
    and w: "writeFrame (raw_w r0) ch = (True, w)" and i: "readFrame (raw_in r0) = (Inr sh, rest)"
    and f: "client_finish C E cfg dk ch sh = Inr (shared, p)"
    and n: "newConn C (r0\<lparr>raw_w := w, raw_in := rest\<rparr>) shared (transcript E ch sh) p True st = Inr k"
    unfolding Client_def by (auto split: prod.splits bool.splits sum.splits)
  from newConn_Inr [OF n] writeFrame_True [OF w] readFrame_bound [OF i] set_deadline_raw [OF d] s f
  show ?thesis by auto
qed

lemma Server_Inr:
  assumes "Server C E cfg seed r = Inr k"
  shows "\<exists>key ders ch ek sh shared. signerFor C (tc_credential cfg) = Inr (key, ders)
     \<and> raw_in r = frame_bytes ch @ raw_in (k_raw k) \<and> length ch \<le> MaxFrame
     \<and> server_check C E cfg ch = Inr (ek, k_peer k)
     \<and> server_answer C key ders ch ek seed = Inr (shared, sh) \<and> length sh \<le> MaxFrame
     \<and> w_out (raw_w (k_raw k)) = w_out (raw_w r) @ frame_bytes sh \<and> fresh_conn k
     \<and> key_schedule C shared (transcript E ch sh) = Some (opposite (keys_of k))"
proof -
  from assms obtain r0 key ders ch rest ek p shared sh w st where
    d: "set_deadline r = (True, r0)" and s: "signerFor C (tc_credential cfg) = Inr (key, ders)"
    and i: "readFrame (raw_in r0) = (Inr ch, rest)" and c: "server_check C E cfg ch = Inr (ek, p)"
    and a: "server_answer C key ders ch ek seed = Inr (shared, sh)"
    and w: "writeFrame (raw_w r0) sh = (True, w)"
    and n: "newConn C (r0\<lparr>raw_w := w, raw_in := rest\<rparr>) shared (transcript E ch sh) p False st = Inr k"
    unfolding Server_def by (auto split: prod.splits bool.splits sum.splits)
  from newConn_Inr [OF n] writeFrame_True [OF w] readFrame_bound [OF i] set_deadline_raw [OF d] s c a
  show ?thesis by auto
qed

end
