(* ===== verification/Tunnel_Conn.thy ===== *)
theory Tunnel_Conn
  imports Handshake "HOL-Library.Sublist"
begin

text \<open>
  \<open>sidecar/pqtunnel/conn.go\<close>: the record layer of the tunnel.  The writer and reader of a
  connection are the fields of \<open>conn\<close> named \<open>k_w..\<close> and \<open>k_r..\<close>; \<open>Write\<close> and
  \<open>CloseWrite\<close> change the first, \<open>Read\<close> the second.
\<close>

definition RecordSize :: nat where "RecordSize = 16384"
definition MaxMessage :: nat where "MaxMessage = 65536"
definition gcm_overhead :: nat where "gcm_overhead = 16"

definition nonce :: "bytes \<Rightarrow> 64 word \<Rightarrow> bytes" where
  "nonce iv seq = iv @ put_be64 seq"

definition seal_record :: "('s, 'd) crypto \<Rightarrow> bytes \<Rightarrow> bytes \<Rightarrow> 64 word \<Rightarrow> bytes \<Rightarrow> bytes" where
  "seal_record C key iv seq chunk = nonce iv seq @ gcm_seal C key (nonce iv seq) chunk"


section \<open>Writing\<close>

text \<open>The frame of a record goes to the network connection below.\<close>

definition k_writeFrame :: "conn \<Rightarrow> bytes \<Rightarrow> bool \<times> conn" where
  "k_writeFrame k record =
     (case writeFrame (raw_w (k_raw k)) record of
        (ok, w) \<Rightarrow> (ok, k\<lparr>k_raw := (k_raw k)\<lparr>raw_w := w\<rparr>\<rparr>))"

text \<open>The loop of \<open>Write\<close>; the result is the number of bytes written and whether the error is nil.\<close>

function write_loop :: "('s, 'd) crypto \<Rightarrow> conn \<Rightarrow> bytes \<Rightarrow> nat \<Rightarrow> (nat \<times> bool) \<times> conn" where
  "write_loop C k p written =
     (if p = [] then ((written, True), k)
      else
        let chunk = take RecordSize p
        in case k_writeFrame k (seal_record C (k_seal k) (k_wIV k) (k_wSeq k) chunk) of
             (False, k1) \<Rightarrow> ((written, False), k1)
           | (True, k1) \<Rightarrow>
               write_loop C (k1\<lparr>k_wSeq := k_wSeq k1 + 1\<rparr>) (drop (length chunk) p) (written + length chunk))"
  by pat_completeness auto
termination
  by (relation "measure (\<lambda>(C, k, p, written). length p)") (auto simp: RecordSize_def)

declare write_loop.simps [simp del]

definition Write :: "('s, 'd) crypto \<Rightarrow> conn \<Rightarrow> bytes \<Rightarrow> (nat \<times> bool) \<times> conn" where
  "Write C k p = (if k_wClosed k then ((0, False), k) else write_loop C k p 0)"

definition CloseWrite :: "('s, 'd) crypto \<Rightarrow> conn \<Rightarrow> bool \<times> conn" where
  "CloseWrite C k =
     (if k_wClosed k then (True, k)
      else
        let k1 = k\<lparr>k_wClosed := True, k_wSeq := k_wSeq k + 1\<rparr>
        in k_writeFrame k1 (seal_record C (k_seal k) (k_wIV k) (k_wSeq k) []))"


section \<open>Reading\<close>

text \<open>An \<open>io.EOF\<close> of the network connection is passed on as it is.\<close>

datatype conn_error = CE_io read_error | CE_sequence | CE_auth | CE_message_too_large nat

definition readRecord :: "('s, 'd) crypto \<Rightarrow> conn \<Rightarrow> (conn_error + bytes) \<times> conn" where
  "readRecord C k =
     (case readFrame (raw_in (k_raw k)) of
        (Inl e, rest) \<Rightarrow> (Inl (CE_io e), k\<lparr>k_raw := (k_raw k)\<lparr>raw_in := rest\<rparr>\<rparr>)
      | (Inr record, rest) \<Rightarrow>
          let k1 = k\<lparr>k_raw := (k_raw k)\<lparr>raw_in := rest\<rparr>\<rparr>; want = nonce (k_rIV k) (k_rSeq k)
          in if length record < 12 + gcm_overhead then (Inl (CE_io Read_unexpected_EOF), k1)
             else if take 12 record \<noteq> want then (Inl CE_sequence, k1)
             else (case gcm_open C (k_open k) want (drop 12 record) of
                     None \<Rightarrow> (Inl CE_auth, k1)
                   | Some plain \<Rightarrow> (Inr plain, k1\<lparr>k_rSeq := k_rSeq k + 1\<rparr>)))"

text \<open>\<open>Read\<close> into a slice of \<open>n\<close> bytes: a non-empty record ends the loop over \<open>readRecord\<close> at once.\<close>

definition Read :: "('s, 'd) crypto \<Rightarrow> conn \<Rightarrow> nat \<Rightarrow> (conn_error + bytes) \<times> conn" where
  "Read C k n =
     (if k_buffer k \<noteq> [] then (Inr (take n (k_buffer k)), k\<lparr>k_buffer := drop n (k_buffer k)\<rparr>)
      else if k_rEOF k then (Inl (CE_io Read_EOF), k)
      else case readRecord C k of
             (Inl e, k1) \<Rightarrow> (Inl e, k1)
           | (Inr plain, k1) \<Rightarrow>
               if plain = [] then (Inl (CE_io Read_EOF), k1\<lparr>k_rEOF := True\<rparr>)
               else (Inr (take n plain), k1\<lparr>k_buffer := drop n plain\<rparr>))"

text \<open>
  \<open>io.ReadFull\<close> over \<open>Read\<close>: \<open>acc\<close> is what has been read of the \<open>length acc + n\<close> bytes.
  \<open>Read\<close> never returns no bytes for \<open>n > 0\<close> (\<open>Read_nonempty\<close>).
\<close>

function conn_read_full :: "('s, 'd) crypto \<Rightarrow> conn \<Rightarrow> nat \<Rightarrow> bytes \<Rightarrow> (conn_error + bytes) \<times> conn" where
  "conn_read_full C k n acc =
     (if n = 0 then (Inr acc, k)
      else case Read C k n of
             (Inl e, k1) \<Rightarrow>
               (Inl (if acc \<noteq> [] \<and> e = CE_io Read_EOF then CE_io Read_unexpected_EOF else e), k1)
           | (Inr b, k1) \<Rightarrow>
               if b = [] then (Inr acc, k1) else conn_read_full C k1 (n - length b) (acc @ b))"
  by pat_completeness auto
termination
  by (relation "measure (\<lambda>(C, k, n, acc). n)") auto

declare conn_read_full.simps [simp del]


section \<open>Control messages\<close>

definition WriteMessage :: "('s, 'd) crypto \<Rightarrow> conn \<Rightarrow> bytes \<Rightarrow> bool \<times> conn" where
  "WriteMessage C k b =
     (if MaxMessage < length b then (False, k)
      else case Write C k (put_be32 (length b) @ b) of ((_, ok), k1) \<Rightarrow> (ok, k1))"

definition ReadMessage :: "('s, 'd) crypto \<Rightarrow> conn \<Rightarrow> (conn_error + bytes) \<times> conn" where
  "ReadMessage C k =
     (case conn_read_full C k 4 [] of
        (Inl e, k1) \<Rightarrow> (Inl e, k1)
      | (Inr hdr, k1) \<Rightarrow>
          let n = get_be32 hdr
          in if MaxMessage < n then (Inl (CE_message_too_large n), k1) else conn_read_full C k1 n [])"


section \<open>The stream of records\<close>

text \<open>The records \<open>Write\<close> makes of a text, and the frames of a sequence of records.\<close>

function chunks :: "bytes \<Rightarrow> bytes list" where
  "chunks p = (if p = [] then [] else take RecordSize p # chunks (drop RecordSize p))"
  by pat_completeness auto
termination
  by (relation "measure length") (auto simp: RecordSize_def)

declare chunks.simps [simp del]

fun frames_from :: "('s, 'd) crypto \<Rightarrow> bytes \<Rightarrow> bytes \<Rightarrow> 64 word \<Rightarrow> bytes list \<Rightarrow> bytes" where
  "frames_from C key iv seq [] = []"
| "frames_from C key iv seq (c # cs) =
     frame_bytes (seal_record C key iv seq c) @ frames_from C key iv (seq + 1) cs"

lemma frames_from_append:
  "frames_from C key iv seq (cs @ ds) =
     frames_from C key iv seq cs @ frames_from C key iv (seq + of_nat (length cs)) ds"
  by (induction cs arbitrary: seq) (auto simp: add.assoc)

lemma concat_chunks [simp]: "concat (chunks p) = p"
  by (induction p rule: chunks.induct) (subst chunks.simps, auto)

lemma chunks_bounds: "c \<in> set (chunks p) \<Longrightarrow> c \<noteq> [] \<and> length c \<le> RecordSize"
  by (induction p rule: chunks.induct) (subst (asm) (2) chunks.simps, auto simp: RecordSize_def split: if_splits)

lemma chunks_Nil [simp]: "chunks [] = []"
  by (simp add: chunks.simps)

lemma chunks_Cons: "p \<noteq> [] \<Longrightarrow> chunks p = take RecordSize p # chunks (drop RecordSize p)"
  by (simp add: chunks.simps)

text \<open>What the model relies on of AES-GCM: a 16-byte tag, and opening inverts sealing.\<close>

definition gcm_correct :: "('s, 'd) crypto \<Rightarrow> bool" where
  "gcm_correct C \<longleftrightarrow> (\<forall>key n p. length (gcm_seal C key n p) = length p + gcm_overhead
     \<and> gcm_open C key n (gcm_seal C key n p) = Some p)"

text \<open>A writer whose network connection takes every byte.\<close>

definition healthy :: "conn \<Rightarrow> bool" where
  "healthy k \<longleftrightarrow> w_faults (raw_w (k_raw k)) = []"

definition put_out :: "conn \<Rightarrow> bytes \<Rightarrow> conn" where
  "put_out k b = k\<lparr>k_raw := (k_raw k)\<lparr>raw_w := (raw_w (k_raw k))\<lparr>w_out := w_out (raw_w (k_raw k)) @ b\<rparr>\<rparr>\<rparr>"

lemma k_writeFrame_healthy:
  "\<lbrakk>healthy k; length record \<le> MaxFrame\<rbrakk> \<Longrightarrow> k_writeFrame k record = (True, put_out k (frame_bytes record))"
  by (simp add: k_writeFrame_def healthy_def writeFrame_complete put_out_def)

lemma put_out_simps [simp]:
  "k_seal (put_out k b) = k_seal k" "k_wIV (put_out k b) = k_wIV k" "k_wSeq (put_out k b) = k_wSeq k"
  "k_wClosed (put_out k b) = k_wClosed k" "healthy (put_out k b) = healthy k"
  "w_out (raw_w (k_raw (put_out k b))) = w_out (raw_w (k_raw k)) @ b"
  by (simp_all add: put_out_def healthy_def)

lemma put_out_append: "put_out (put_out k a\<lparr>k_wSeq := s\<rparr>) b\<lparr>k_wSeq := t\<rparr> = put_out k (a @ b)\<lparr>k_wSeq := t\<rparr>"
  by (simp add: put_out_def)

lemma seal_record_length:
  "\<lbrakk>gcm_correct C; length iv = 4\<rbrakk> \<Longrightarrow> length (seal_record C key iv seq c) = length c + 28"
  by (simp add: seal_record_def nonce_def gcm_correct_def gcm_overhead_def)

lemma seal_record_fits:
  "\<lbrakk>gcm_correct C; length iv = 4; length c \<le> RecordSize\<rbrakk> \<Longrightarrow> length (seal_record C key iv seq c) \<le> MaxFrame"
  by (simp add: seal_record_length RecordSize_def MaxFrame_def)

lemma write_loop_complete:
  assumes "gcm_correct C" "healthy k" "length (k_wIV k) = 4"
  shows "write_loop C k p n = ((n + length p, True),
     put_out k (frames_from C (k_seal k) (k_wIV k) (k_wSeq k) (chunks p))
       \<lparr>k_wSeq := k_wSeq k + of_nat (length (chunks p))\<rparr>)"
  using assms
proof (induction C k p n rule: write_loop.induct)
  case (1 C k p n)
  show ?case
  proof (cases "p = []")
    case True
    then show ?thesis by (simp add: write_loop.simps put_out_def)
  next
    case False
    let ?c = "take RecordSize p"
    let ?f = "seal_record C (k_seal k) (k_wIV k) (k_wSeq k) ?c"
    let ?k = "put_out k (frame_bytes ?f)\<lparr>k_wSeq := k_wSeq (put_out k (frame_bytes ?f)) + 1\<rparr>"
    have w: "k_writeFrame k ?f = (True, put_out k (frame_bytes ?f))"
      using 1(2-4) by (intro k_writeFrame_healthy seal_record_fits) auto
    have d: "drop (length ?c) p = drop RecordSize p" "n + length ?c + length (drop RecordSize p) = n + length p"
      by (cases "length p \<le> RecordSize", simp_all)
    have k: "healthy ?k" "length (k_wIV ?k) = 4" using 1(3,4) by (simp_all add: healthy_def put_out_def)
    have "write_loop C k p n = write_loop C ?k (drop (length ?c) p) (n + length ?c)"
      using False w by (simp add: write_loop.simps [of C k p n])
    also have "\<dots> = ((n + length ?c + length (drop (length ?c) p), True),
       put_out ?k (frames_from C (k_seal ?k) (k_wIV ?k) (k_wSeq ?k) (chunks (drop (length ?c) p)))
       \<lparr>k_wSeq := k_wSeq ?k + of_nat (length (chunks (drop (length ?c) p)))\<rparr>)"
      by (rule 1(1) [OF False refl w [symmetric] refl 1(2) k])
    finally show ?thesis
      using d by (simp add: put_out_append chunks_Cons [OF False] add.assoc)
  qed
qed


lemma Write_complete:
  assumes "gcm_correct C" "healthy k" "length (k_wIV k) = 4" "\<not> k_wClosed k"
  shows "Write C k p = ((length p, True),
     put_out k (frames_from C (k_seal k) (k_wIV k) (k_wSeq k) (chunks p))
       \<lparr>k_wSeq := k_wSeq k + of_nat (length (chunks p))\<rparr>)"
  using assms by (simp add: Write_def write_loop_complete)

lemma CloseWrite_complete:
  assumes "gcm_correct C" "healthy k" "length (k_wIV k) = 4" "\<not> k_wClosed k"
  shows "CloseWrite C k = (True,
     put_out k (frames_from C (k_seal k) (k_wIV k) (k_wSeq k) [[]])\<lparr>k_wSeq := k_wSeq k + 1, k_wClosed := True\<rparr>)"
proof -
  let ?k = "k\<lparr>k_wClosed := True, k_wSeq := k_wSeq k + 1\<rparr>"
  let ?f = "seal_record C (k_seal k) (k_wIV k) (k_wSeq k) []"
  have "length ?f \<le> MaxFrame" using assms(1,3) by (intro seal_record_fits) auto
  moreover have "healthy ?k" using assms(2) by (simp add: healthy_def)
  ultimately have "k_writeFrame ?k ?f = (True, put_out ?k (frame_bytes ?f))" by (intro k_writeFrame_healthy)
  then show ?thesis using assms(4) by (simp add: CloseWrite_def Let_def put_out_def)
qed

text \<open>
  What a reader has to come: its buffer and the records in \<open>recs\<close>, sealed under its key in
  sequence, before anything else on the connection.
\<close>

definition incoming :: "('s, 'd) crypto \<Rightarrow> conn \<Rightarrow> bytes list \<Rightarrow> bytes \<Rightarrow> bool" where
  "incoming C k recs rest \<longleftrightarrow> raw_in (k_raw k) = frames_from C (k_open k) (k_rIV k) (k_rSeq k) recs @ rest
     \<and> (\<forall>c\<in>set recs. length c \<le> RecordSize) \<and> length (k_rIV k) = 4"

definition to_come :: "conn \<Rightarrow> bytes list \<Rightarrow> bytes" where
  "to_come k recs = k_buffer k @ concat recs"

lemma readRecord_incoming:
  assumes "gcm_correct C" "incoming C k (c # cs) rest"
  shows "\<exists>k'. readRecord C k = (Inr c, k') \<and> incoming C k' cs rest
     \<and> k_buffer k' = k_buffer k \<and> k_rEOF k' = k_rEOF k"
proof -
  let ?f = "seal_record C (k_open k) (k_rIV k) (k_rSeq k) c"
  let ?n = "nonce (k_rIV k) (k_rSeq k)"
  have iv: "length (k_rIV k) = 4" "length c \<le> RecordSize" using assms(2) by (auto simp: incoming_def)
  have "length ?f \<le> MaxFrame" using seal_record_fits [OF assms(1) iv] .
  then have "readFrame (raw_in (k_raw k)) = (Inr ?f, frames_from C (k_open k) (k_rIV k) (k_rSeq k + 1) cs @ rest)"
    using assms(2) by (simp add: incoming_def readFrame_bytes)
  moreover have "length ?f = length c + 28" using seal_record_length [OF assms(1) iv(1)] .
  moreover have "length ?n = 12" using iv by (simp add: nonce_def)
  then have "take 12 ?f = ?n" "drop 12 ?f = gcm_seal C (k_open k) ?n c"
    by (simp_all add: seal_record_def)
  moreover have "gcm_open C (k_open k) ?n (gcm_seal C (k_open k) ?n c) = Some c"
    using assms(1) by (simp add: gcm_correct_def)
  ultimately show ?thesis
    using assms(2) by (simp add: readRecord_def Let_def gcm_overhead_def incoming_def)
qed

lemma Read_incoming:
  assumes "gcm_correct C" "incoming C k (recs @ tail) rest" "\<not> k_rEOF k" "\<forall>c\<in>set recs. c \<noteq> []"
    and "to_come k recs \<noteq> []" "0 < n"
  shows "\<exists>b k' recs'. Read C k n = (Inr b, k') \<and> b \<noteq> [] \<and> length b \<le> n \<and> incoming C k' (recs' @ tail) rest
     \<and> \<not> k_rEOF k' \<and> set recs' \<subseteq> set recs \<and> to_come k recs = b @ to_come k' recs'"
proof (cases "k_buffer k = []")
  case False
  then show ?thesis
    using assms(2,3,6) by (intro exI [of _ "take n (k_buffer k)"] exI [of _ "k\<lparr>k_buffer := drop n (k_buffer k)\<rparr>"] exI [of _ recs])
      (simp add: Read_def incoming_def to_come_def)
next
  case True
  then obtain c cs where recs: "recs = c # cs" using assms(5) by (cases recs) (auto simp: to_come_def)
  from readRecord_incoming [OF assms(1) assms(2) [unfolded recs append_Cons]] obtain k' where
    k': "readRecord C k = (Inr c, k')" "incoming C k' (cs @ tail) rest" "k_buffer k' = k_buffer k" "k_rEOF k' = k_rEOF k"
    by blast
  have c: "c \<noteq> []" using assms(4) recs by simp
  then have "Read C k n = (Inr (take n c), k'\<lparr>k_buffer := drop n c\<rparr>)"
    using True assms(3) k'(1) by (simp add: Read_def)
  moreover have "incoming C (k'\<lparr>k_buffer := drop n c\<rparr>) (cs @ tail) rest" using k'(2) by (simp add: incoming_def)
  moreover have "to_come k recs = take n c @ to_come (k'\<lparr>k_buffer := drop n c\<rparr>) cs"
    using True recs by (simp add: to_come_def)
  ultimately show ?thesis using c assms(3,6) k'(4) recs
    by (intro exI [of _ "take n c"] exI [of _ "k'\<lparr>k_buffer := drop n c\<rparr>"] exI [of _ cs]) auto
qed

lemma conn_read_full_incoming:
  assumes "gcm_correct C" "incoming C k (recs @ tail) rest" "\<not> k_rEOF k" "\<forall>c\<in>set recs. c \<noteq> []"
    and "n \<le> length (to_come k recs)"
  shows "\<exists>k' recs'. conn_read_full C k n acc = (Inr (acc @ take n (to_come k recs)), k')
     \<and> incoming C k' (recs' @ tail) rest \<and> \<not> k_rEOF k' \<and> set recs' \<subseteq> set recs
     \<and> to_come k' recs' = drop n (to_come k recs)"
  using assms
proof (induction n arbitrary: k recs acc rule: less_induct)
  case (less n)
  show ?case
  proof (cases "n = 0")
    case True
    then show ?thesis using less.prems by (auto simp: conn_read_full.simps [of C k])
  next
    case False
    have ne: "to_come k recs \<noteq> []" using less.prems(5) False by auto
    from Read_incoming [OF less.prems(1-4) ne] False obtain b k1 recs1 where
      r: "Read C k n = (Inr b, k1)" "b \<noteq> []" "length b \<le> n" "incoming C k1 (recs1 @ tail) rest" "\<not> k_rEOF k1"
        "set recs1 \<subseteq> set recs" "to_come k recs = b @ to_come k1 recs1" by blast
    have "n - length b < n" "\<forall>c\<in>set recs1. c \<noteq> []" "n - length b \<le> length (to_come k1 recs1)"
      using r less.prems(4,5) by (cases b, auto)
    from less.IH [OF this(1) less.prems(1) r(4,5) this(2,3), of "acc @ b"] obtain k' recs' where
      "conn_read_full C k1 (n - length b) (acc @ b) = (Inr ((acc @ b) @ take (n - length b) (to_come k1 recs1)), k')"
      "incoming C k' (recs' @ tail) rest" "\<not> k_rEOF k'" "set recs' \<subseteq> set recs1"
      "to_come k' recs' = drop (n - length b) (to_come k1 recs1)" by blast
    then show ?thesis using r False by (intro exI [of _ k'] exI [of _ recs']) (auto simp: conn_read_full.simps [of C k])
  qed
qed


lemma Read_nonempty: "\<lbrakk>Read C k n = (Inr b, k'); 0 < n\<rbrakk> \<Longrightarrow> b \<noteq> []"
  by (auto simp: Read_def split: if_splits prod.splits sum.splits)


section \<open>Sequences of operations\<close>

text \<open>What an application does with the writing half, and the records it amounts to.\<close>

datatype write_op = Op_write bytes | Op_message bytes | Op_close

fun write_step :: "('s, 'd) crypto \<Rightarrow> write_op \<Rightarrow> conn \<Rightarrow> conn" where
  "write_step C (Op_write p) k = snd (Write C k p)"
| "write_step C (Op_message b) k = snd (WriteMessage C k b)"
| "write_step C Op_close k = snd (CloseWrite C k)"

definition write_run :: "('s, 'd) crypto \<Rightarrow> write_op list \<Rightarrow> conn \<Rightarrow> conn" where
  "write_run C ops k = fold (write_step C) ops k"

definition message_bytes :: "bytes \<Rightarrow> bytes" where
  "message_bytes b = put_be32 (length b) @ b"

fun data_records :: "write_op list \<Rightarrow> bytes list" where
  "data_records [] = []"
| "data_records (Op_write p # ops) = chunks p @ data_records ops"
| "data_records (Op_message b # ops) =
     (if MaxMessage < length b then [] else chunks (message_bytes b)) @ data_records ops"
| "data_records (Op_close # ops) = []"

text \<open>The records including the end marker of \<open>CloseWrite\<close>.\<close>

definition all_records :: "write_op list \<Rightarrow> bytes list" where
  "all_records ops = data_records ops @ (if Op_close \<in> set ops then [[]] else [])"

lemma data_records_bounds: "c \<in> set (data_records ops) \<Longrightarrow> c \<noteq> [] \<and> length c \<le> RecordSize"
  by (induction ops rule: data_records.induct) (auto split: if_splits dest: chunks_bounds)

lemma write_step_closed: "k_wClosed k \<Longrightarrow> write_step C op k = k"
  by (cases op) (auto simp: Write_def WriteMessage_def CloseWrite_def)

lemma write_run_closed: "k_wClosed k \<Longrightarrow> write_run C ops k = k"
  by (induction ops) (auto simp: write_run_def write_step_closed)

definition emits :: "('s, 'd) crypto \<Rightarrow> conn \<Rightarrow> conn \<Rightarrow> bytes list \<Rightarrow> bool" where
  "emits C k k' recs \<longleftrightarrow>
     w_out (raw_w (k_raw k')) = w_out (raw_w (k_raw k)) @ frames_from C (k_seal k) (k_wIV k) (k_wSeq k) recs
     \<and> k_wSeq k' = k_wSeq k + of_nat (length recs) \<and> healthy k' = healthy k
     \<and> k_seal k' = k_seal k \<and> k_wIV k' = k_wIV k"

lemma emits_trans: "\<lbrakk>emits C k k1 cs; emits C k1 k2 ds\<rbrakk> \<Longrightarrow> emits C k k2 (cs @ ds)"
  by (simp add: emits_def frames_from_append add.assoc)

lemma emits_refl: "emits C k k []"
  by (simp add: emits_def)

lemma emits_put_out:
  "emits C k (put_out k (frames_from C (k_seal k) (k_wIV k) (k_wSeq k) recs)
     \<lparr>k_wSeq := k_wSeq k + of_nat (length recs)\<rparr>) recs"
  by (simp add: emits_def put_out_def healthy_def)

lemma Write_emits:
  assumes "gcm_correct C" "healthy k" "length (k_wIV k) = 4" "\<not> k_wClosed k"
  shows "emits C k (snd (Write C k p)) (chunks p) \<and> \<not> k_wClosed (snd (Write C k p))"
  using assms emits_put_out [of C k "chunks p"] by (simp add: Write_complete)

lemma WriteMessage_Write:
  "length b \<le> MaxMessage \<Longrightarrow> snd (WriteMessage C k b) = snd (Write C k (message_bytes b))"
  by (simp add: WriteMessage_def message_bytes_def split: prod.splits)

lemma CloseWrite_emits:
  assumes "gcm_correct C" "healthy k" "length (k_wIV k) = 4" "\<not> k_wClosed k"
  shows "emits C k (snd (CloseWrite C k)) [[]] \<and> k_wClosed (snd (CloseWrite C k))"
  by (simp add: CloseWrite_complete [OF assms] emits_def put_out_def healthy_def)

lemma write_run_emits:
  assumes "gcm_correct C" "healthy k" "length (k_wIV k) = 4" "\<not> k_wClosed k"
  shows "emits C k (write_run C ops k) (all_records ops)"
  using assms
proof (induction ops arbitrary: k)
  case Nil
  then show ?case by (simp add: write_run_def all_records_def emits_refl)
next
  case (Cons op ops)
  have run: "write_run C (op # ops) k = write_run C ops (write_step C op k)" by (simp add: write_run_def)
  have next_op: ?case if "emits C k (write_step C op k) recs" "\<not> k_wClosed (write_step C op k)"
    "all_records (op # ops) = recs @ all_records ops" for recs
  proof -
    have "healthy (write_step C op k)" "length (k_wIV (write_step C op k)) = 4"
      using that(1) Cons.prems by (simp_all add: emits_def)
    from Cons.IH [OF Cons.prems(1) this that(2)] show ?thesis
      unfolding run that(3) by (rule emits_trans [OF that(1)])
  qed
  show ?case
  proof (cases op)
    case (Op_write p)
    with Write_emits [OF Cons.prems] show ?thesis by (intro next_op [of "chunks p"]) (auto simp: all_records_def)
  next
    case (Op_message b)
    show ?thesis
    proof (cases "MaxMessage < length b")
      case True
      then show ?thesis using Op_message Cons.prems
        by (intro next_op [of "[]"]) (auto simp: all_records_def WriteMessage_def emits_refl)
    next
      case False
      then show ?thesis using Op_message Write_emits [OF Cons.prems, of "message_bytes b"]
        by (intro next_op [of "chunks (message_bytes b)"]) (auto simp: all_records_def WriteMessage_Write)
    qed
  next
    case Op_close
    then show ?thesis using CloseWrite_emits [OF Cons.prems] run by (simp add: write_run_closed all_records_def)
  qed
qed


section \<open>Integrity of what is read\<close>

text \<open>
  The assumption on AES-GCM under an attacker: whatever opens under the reader's key was sealed by
  the writer, whose \<open>i\<close>-th record \<open>P ! i\<close> had the nonce of sequence number \<open>i\<close>.
\<close>

definition genuine :: "('s, 'd) crypto \<Rightarrow> bytes \<Rightarrow> bytes \<Rightarrow> bytes list \<Rightarrow> bool" where
  "genuine C key iv P \<longleftrightarrow>
     (\<forall>n c p. gcm_open C key n c = Some p \<longrightarrow> (\<exists>i<length P. n = nonce iv (of_nat i) \<and> p = P ! i))"

text \<open>The reader after it has returned \<open>out\<close>.\<close>

definition tracks :: "bytes list \<Rightarrow> bytes \<Rightarrow> conn \<Rightarrow> bool" where
  "tracks P out k \<longleftrightarrow> (\<exists>j\<le>length P. k_rSeq k = of_nat j \<and> out @ k_buffer k = concat (take j P)
     \<and> (k_rEOF k \<longrightarrow> 0 < j \<and> P ! (j - 1) = [] \<and> k_buffer k = []))"

lemma nonce_inj: "nonce iv a = nonce iv b \<longleftrightarrow> a = b"
  by (simp add: nonce_def put_be64_inj)

lemma of_nat64_inj: "\<lbrakk>i < 2 ^ 64; j < 2 ^ 64; (of_nat i :: 64 word) = of_nat j\<rbrakk> \<Longrightarrow> i = j"
  using word_of_nat_eq_iff [where 'a=64, of i j] by (simp add: take_bit_nat_eq_self)

lemma readRecord_genuine:
  assumes "genuine C (k_open k) (k_rIV k) P" "length P < 2 ^ 64" "k_rSeq k = of_nat j" "j \<le> length P"
    and "readRecord C k = (Inr plain, k')"
  shows "j < length P \<and> plain = P ! j \<and> k_rSeq k' = of_nat (Suc j)"
proof -
  from assms(5) obtain c where o: "gcm_open C (k_open k) (nonce (k_rIV k) (k_rSeq k)) c = Some plain"
    and s: "k_rSeq k' = k_rSeq k + 1"
    by (auto simp: readRecord_def Let_def split: prod.splits sum.splits if_splits option.splits)
  from assms(1) o obtain i where i: "i < length P" "nonce (k_rIV k) (k_rSeq k) = nonce (k_rIV k) (of_nat i)" "plain = P ! i"
    unfolding genuine_def by blast
  then have "(of_nat j :: 64 word) = of_nat i" using assms(3) by (simp add: nonce_inj)
  moreover have "i < 2 ^ 64" "j < 2 ^ 64" using i(1) assms(2,4) by auto
  ultimately have "j = i" using of_nat64_inj by blast
  then show ?thesis using i s assms(3) by (simp add: add.commute)
qed

lemma readRecord_keeps:
  "readRecord C k = (x, k') \<Longrightarrow> k_open k' = k_open k \<and> k_rIV k' = k_rIV k \<and> k_buffer k' = k_buffer k \<and> k_rEOF k' = k_rEOF k
     \<and> ((\<exists>e. x = Inl e) \<longrightarrow> k_rSeq k' = k_rSeq k)"
  by (auto simp: readRecord_def Let_def split: prod.splits sum.splits if_splits option.splits)

lemma Read_keeps: "Read C k n = (x, k') \<Longrightarrow> k_open k' = k_open k \<and> k_rIV k' = k_rIV k"
  by (auto simp: Read_def dest!: readRecord_keeps split: prod.splits sum.splits if_splits)

lemma Read_tracks:
  assumes g: "genuine C (k_open k) (k_rIV k) P" "length P < 2 ^ 64" and t: "tracks P out k"
    and r: "Read C k n = (x, k')"
  shows "tracks P (out @ (case x of Inl _ \<Rightarrow> [] | Inr b \<Rightarrow> b)) k'"
proof -
  from t obtain j where j: "j \<le> length P" "k_rSeq k = of_nat j" "out @ k_buffer k = concat (take j P)"
    "k_rEOF k \<longrightarrow> 0 < j \<and> P ! (j - 1) = [] \<and> k_buffer k = []" unfolding tracks_def by blast
  show ?thesis
  proof (cases "k_buffer k \<noteq> [] \<or> k_rEOF k")
    case True
    then show ?thesis
    proof (cases "k_buffer k = []")
      case False
      then have "x = Inr (take n (k_buffer k))" "k' = k\<lparr>k_buffer := drop n (k_buffer k)\<rparr>" "\<not> k_rEOF k"
        using r j(4) by (auto simp: Read_def)
      then show ?thesis using j by (simp add: tracks_def) blast
    next
      case b: True
      then have "x = Inl (CE_io Read_EOF)" "k' = k" using r True by (auto simp: Read_def)
      then show ?thesis using t by simp
    qed
  next
    case False
    obtain y k1 where y: "readRecord C k = (y, k1)" by fastforce
    note keep = readRecord_keeps [OF y]
    show ?thesis
    proof (cases y)
      case (Inl e)
      then have "x = Inl e" "k' = k1" using r y False by (auto simp: Read_def)
      then show ?thesis using j keep Inl False by (auto simp: tracks_def)
    next
      case (Inr plain)
      from readRecord_genuine [OF g j(2,1) y [unfolded Inr]] have p: "j < length P" "plain = P ! j"
        "k_rSeq k1 = of_nat (Suc j)" by auto
      have out: "out @ plain = concat (take (Suc j) P)"
        using j(3) False p by (simp add: take_Suc_conv_app_nth)
      show ?thesis
      proof (cases "plain = []")
        case True
        then have "x = Inl (CE_io Read_EOF)" "k' = k1\<lparr>k_rEOF := True\<rparr>" using r y Inr False by (auto simp: Read_def)
        then show ?thesis unfolding tracks_def using p keep False out True
          by (intro exI [of _ "Suc j"]) simp
      next
        case ne: False
        then have "x = Inr (take n plain)" "k' = k1\<lparr>k_buffer := drop n plain\<rparr>" using r y Inr False by (auto simp: Read_def)
        then show ?thesis unfolding tracks_def using p keep False out ne
          by (intro exI [of _ "Suc j"]) simp
      qed
    qed
  qed
qed

text \<open>Reads with slices of the given sizes; the application may go on after an error.\<close>

fun read_run :: "('s, 'd) crypto \<Rightarrow> nat list \<Rightarrow> conn \<Rightarrow> bytes \<times> conn" where
  "read_run C [] k = ([], k)"
| "read_run C (n # ns) k =
     (case Read C k n of
        (x, k1) \<Rightarrow> (case read_run C ns k1 of
                     (out, k2) \<Rightarrow> ((case x of Inl _ \<Rightarrow> [] | Inr b \<Rightarrow> b) @ out, k2)))"

lemma read_run_tracks:
  assumes "genuine C (k_open k) (k_rIV k) P" "length P < 2 ^ 64" "tracks P out k"
    and "read_run C ns k = (outs, k')"
  shows "tracks P (out @ outs) k'"
  using assms
proof (induction ns arbitrary: k out outs)
  case Nil
  then show ?case by simp
next
  case (Cons n ns)
  obtain x k1 outs1 where x: "Read C k n = (x, k1)" and m: "read_run C ns k1 = (outs1, k')"
    and outs: "outs = (case x of Inl _ \<Rightarrow> [] | Inr b \<Rightarrow> b) @ outs1"
    using Cons.prems(4) by (auto split: prod.splits)
  have "genuine C (k_open k1) (k_rIV k1) P" using Cons.prems(1) Read_keeps [OF x] by simp
  from Cons.IH [OF this Cons.prems(2) Read_tracks [OF Cons.prems(1-3) x] m] show ?case
    by (simp add: outs)
qed

lemma fresh_tracks: "fresh_conn k \<Longrightarrow> tracks P [] k"
  by (auto simp: fresh_conn_def tracks_def intro!: exI [of _ 0])

lemma tracks_prefix: "tracks P out k \<Longrightarrow> prefix out (concat P)"
  unfolding tracks_def by (metis append_take_drop_id concat_append prefix_def append.assoc)

text \<open>An end of the stream that was announced by a record comes after all the data.\<close>

lemma tracks_EOF:
  assumes "tracks (all_records ops) out k" "k_rEOF k"
  shows "out = concat (data_records ops) \<and> Op_close \<in> set ops"
proof -
  from assms obtain j where j: "j \<le> length (all_records ops)" "out = concat (take j (all_records ops))"
    "0 < j" "all_records ops ! (j - 1) = []" unfolding tracks_def by auto
  have "j - 1 \<ge> length (data_records ops)"
  proof (rule ccontr)
    assume "\<not> ?thesis"
    then have "data_records ops ! (j - 1) = []" "j - 1 < length (data_records ops)"
      using j(4) by (simp_all add: all_records_def nth_append)
    then show False using data_records_bounds nth_mem by metis
  qed
  with j(1,3) have c: "Op_close \<in> set ops" "j = length (all_records ops)"
    by (auto simp: all_records_def split: if_splits)
  then show ?thesis using j(2) by (simp add: all_records_def)
qed


section \<open>Two honest ends\<close>

lemma hello_wire_fits: "length (hello_wire x) \<le> MaxFrame \<Longrightarrow> hello_fits x"
  by (cases x) (auto simp: hello_wire_def hello_fits_def appendField_def MaxFrame_def)

text \<open>What the handshake relies on of ML-DSA, ML-KEM and HKDF.\<close>

definition crypto_correct :: "('s, 'd) crypto \<Rightarrow> bool" where
  "crypto_correct C \<longleftrightarrow>
     (\<forall>key ctxt m sig. mldsa_sign C key ctxt m = Some sig \<longrightarrow> IsPostQuantum (signer_public C key)
        \<longrightarrow> verify C (signer_public C key) ctxt m sig)
     \<and> (\<forall>d seed. kem_valid C (kem_public C d)
        \<and> kem_decapsulate C d (snd (kem_encapsulate C (kem_public C d) seed)) =
            Some (fst (kem_encapsulate C (kem_public C d) seed)))
     \<and> (\<forall>s t i n. \<exists>b. hkdf_key C s t i n = Some b \<and> length b = n)"

text \<open>
  The credential of \<open>own\<close> is the one \<open>other\<close> authenticates as \<open>p\<close>: its chain parses, passes the
  checks of \<open>other\<close>, and carries the public key of the signer.
\<close>

definition accepts_identity ::
  "('s, 'd) crypto \<Rightarrow> 'k ext \<Rightarrow> 's tunnel_config \<Rightarrow> 's tunnel_config \<Rightarrow> eku \<Rightarrow> peer \<Rightarrow> bool" where
  "accepts_identity C E own other eku p \<longleftrightarrow>
     (\<exists>key ders chain. signerFor C (tc_credential own) = Inr (key, ders) \<and> chain_ders E chain ders
        \<and> authenticate E chain (tc_roots other) (tc_peer_name other) (tc_now other) eku = Inr p
        \<and> c_pub (pe_leaf p) = signer_public C key)"

definition quiet :: "raw \<Rightarrow> bool" where
  "quiet r \<longleftrightarrow> w_faults (raw_w r) = [] \<and> raw_deadlines r = []"

text \<open>What one end writes the other reads: the keys of the two directions are crossed.\<close>

definition linked :: "conn \<Rightarrow> conn \<Rightarrow> bool" where
  "linked k k' \<longleftrightarrow> k_seal k = k_open k' \<and> k_wIV k = k_rIV k' \<and> k_wSeq k = k_rSeq k'
     \<and> k_seal k' = k_open k \<and> k_wIV k' = k_rIV k \<and> k_wSeq k' = k_rSeq k"

lemma fresh_linked:
  assumes "fresh_conn k" "fresh_conn k'" "keys_of k' = opposite (keys_of k)"
  shows "linked k k'"
  using assms by (simp add: linked_def fresh_conn_def keys_of_def)

lemma key_schedule_exists:
  assumes "crypto_correct C"
  shows "\<exists>a b c d. key_schedule C s t = Some (a, b, c, d) \<and> length a = 32 \<and> length b = 32
    \<and> length c = 4 \<and> length d = 4"
proof -
  have h: "\<exists>b. hkdf_key C s t i n = Some b \<and> length b = n" for i n
    using assms unfolding crypto_correct_def by blast
  obtain a b c d where "hkdf_key C s t infoClientToServer 32 = Some a" "length a = 32"
    "hkdf_key C s t infoServerToClient 32 = Some b" "length b = 32"
    "hkdf_key C s t (infoClientToServer @ '' iv'') 4 = Some c" "length c = 4"
    "hkdf_key C s t (infoServerToClient @ '' iv'') 4 = Some d" "length d = 4"
    using h by metis
  then show ?thesis by (simp add: key_schedule_def iv4_def)
qed

lemma newConn_complete:
  assumes "crypto_correct C" "raw_deadlines r = []"
  shows "\<exists>k. newConn C r shared t p isClient st = Inr k \<and> k_raw k = r"
proof -
  have h: "\<exists>b. hkdf_key C s t i n = Some b \<and> length b = n" for s t i n
    using assms unfolding crypto_correct_def by blast
  obtain a b c d where "hkdf_key C shared t infoClientToServer 32 = Some a" "length a = 32"
    "hkdf_key C shared t infoServerToClient 32 = Some b" "length b = 32"
    "hkdf_key C shared t (infoClientToServer @ '' iv'') 4 = Some c"
    "hkdf_key C shared t (infoServerToClient @ '' iv'') 4 = Some d"
    using h by metis
  then show ?thesis
    using assms(2) by (simp add: newConn_def deriveKeys_def newGCM_def set_deadline_def split: prod.splits)
qed

lemma hello_parses:
  assumes "chain_ders E chain ders" "length (appendField (hello_body ders km) sig) \<le> MaxFrame"
  shows "parseHello E (appendField (hello_body ders km) sig) = Inr (chain, km, sig)"
  using assms hello_wire_fits [of "(encodeChain ders, km, sig)"]
  by (auto simp: parseHello_exact_iff hello_body_wire)

lemma signed_verifies:
  "\<lbrakk>crypto_correct C; mldsa_sign C key ctxt m = Some sig; IsPostQuantum (signer_public C key)\<rbrakk>
     \<Longrightarrow> verify C (signer_public C key) ctxt m sig"
  by (simp add: crypto_correct_def)

lemma server_check_complete:
  assumes C: "crypto_correct C" and id: "accepts_identity C E own other ClientAuth p"
    and s: "client_start C own seed = Inr (dk, ch)" and l: "length ch \<le> MaxFrame"
  shows "server_check C E other ch = Inr (kem_public C dk, p)"
proof -
  from s obtain key ders sig where k: "signerFor C (tc_credential own) = Inr (key, ders)"
    "mldsa_sign C key contextClientHello (hello_body ders (kem_public C dk)) = Some sig"
    "ch = appendField (hello_body ders (kem_public C dk)) sig" by (auto simp: client_start_Inr)
  from id k(1) obtain chain where c: "chain_ders E chain ders"
    "authenticate E chain (tc_roots other) (tc_peer_name other) (tc_now other) ClientAuth = Inr p"
    "c_pub (pe_leaf p) = signer_public C key" by (auto simp: accepts_identity_def)
  have "IsPostQuantum (signer_public C key)" using k(1) by (auto simp: signerFor_Inr)
  from signed_verifies [OF C k(2) this] c hello_parses [OF c(1)] l k(3) show ?thesis
    by (auto simp: server_check_Inr before_signature_hello)
qed

lemma client_finish_complete:
  assumes C: "crypto_correct C" and id: "accepts_identity C E other own ServerAuth p"
    and k: "signerFor C (tc_credential other) = Inr (key, ders)"
    and a: "server_answer C key ders ch (kem_public C dk) seed = Inr (shared, sh)" and l: "length sh \<le> MaxFrame"
  shows "client_finish C E own dk ch sh = Inr (shared, p)"
proof -
  let ?ct = "snd (kem_encapsulate C (kem_public C dk) seed)"
  from a obtain sig where s: "shared = fst (kem_encapsulate C (kem_public C dk) seed)"
    "mldsa_sign C key contextServerHello (ch @ hello_body ders ?ct) = Some sig"
    "sh = appendField (hello_body ders ?ct) sig" by (auto simp: server_answer_Inr)
  from id k obtain chain where c: "chain_ders E chain ders"
    "authenticate E chain (tc_roots own) (tc_peer_name own) (tc_now own) ServerAuth = Inr p"
    "c_pub (pe_leaf p) = signer_public C key" by (auto simp: accepts_identity_def)
  have "IsPostQuantum (signer_public C key)" using k by (auto simp: signerFor_Inr)
  moreover have "kem_decapsulate C dk ?ct = Some shared" using C s(1) by (simp add: crypto_correct_def)
  ultimately show ?thesis
    using signed_verifies [OF C s(2)] c hello_parses [OF c(1)] l s(3)
    by (auto simp: client_finish_Inr before_signature_hello)
qed

lemma Client_complete:
  assumes C: "crypto_correct C" and q: "quiet r" and s: "client_start C cfg seed = Inr (dk, ch)"
    and l: "length ch \<le> MaxFrame" "length sh \<le> MaxFrame" and i: "raw_in r = frame_bytes sh @ ys"
    and f: "client_finish C E cfg dk ch sh = Inr (shared, p)"
  shows "\<exists>k. Client C E cfg seed r = Inr k \<and> raw_in (k_raw k) = ys
    \<and> raw_w (k_raw k) = (raw_w r)\<lparr>w_out := w_out (raw_w r) @ frame_bytes ch\<rparr> \<and> raw_deadlines (k_raw k) = []"
proof -
  have d: "set_deadline r = (True, r)" using q by (simp add: set_deadline_def quiet_def)
  let ?w = "(raw_w r)\<lparr>w_out := w_out (raw_w r) @ frame_bytes ch\<rparr>"
  have w: "writeFrame (raw_w r) ch = (True, ?w)"
    using q l(1) by (simp add: quiet_def writeFrame_complete)
  have n: "raw_deadlines (r\<lparr>raw_w := ?w, raw_in := ys\<rparr>) = []" using q by (simp add: quiet_def)
  from newConn_complete [OF C n, of shared "transcript E ch sh" p True
      "\<lparr>st_sent = length ch + 4, st_recv = length sh + 4\<rparr>"] obtain x where
    "newConn C (r\<lparr>raw_w := ?w, raw_in := ys\<rparr>) shared (transcript E ch sh) p True
       \<lparr>st_sent = length ch + 4, st_recv = length sh + 4\<rparr> = Inr x" "k_raw x = r\<lparr>raw_w := ?w, raw_in := ys\<rparr>"
    by blast
  then show ?thesis
    unfolding Client_def d w i readFrame_bytes [OF l(2)] s f prod.case sum.case bool.case using q
    by (intro exI [of _ x]) (simp add: quiet_def)
qed

lemma Server_complete:
  assumes C: "crypto_correct C" and q: "quiet r" and k: "signerFor C (tc_credential cfg) = Inr (key, ders)"
    and l: "length ch \<le> MaxFrame" "length sh \<le> MaxFrame" and i: "raw_in r = frame_bytes ch @ ys"
    and c: "server_check C E cfg ch = Inr (ek, p)" and a: "server_answer C key ders ch ek seed = Inr (shared, sh)"
  shows "\<exists>k. Server C E cfg seed r = Inr k \<and> raw_in (k_raw k) = ys
    \<and> raw_w (k_raw k) = (raw_w r)\<lparr>w_out := w_out (raw_w r) @ frame_bytes sh\<rparr> \<and> raw_deadlines (k_raw k) = []"
proof -
  have d: "set_deadline r = (True, r)" using q by (simp add: set_deadline_def quiet_def)
  let ?w = "(raw_w r)\<lparr>w_out := w_out (raw_w r) @ frame_bytes sh\<rparr>"
  have w: "writeFrame (raw_w r) sh = (True, ?w)"
    using q l(2) by (simp add: quiet_def writeFrame_complete)
  have n: "raw_deadlines (r\<lparr>raw_w := ?w, raw_in := ys\<rparr>) = []" using q by (simp add: quiet_def)
  from newConn_complete [OF C n, of shared "transcript E ch sh" p False
      "\<lparr>st_sent = length sh + 4, st_recv = length ch + 4\<rparr>"] obtain x where
    "newConn C (r\<lparr>raw_w := ?w, raw_in := ys\<rparr>) shared (transcript E ch sh) p False
       \<lparr>st_sent = length sh + 4, st_recv = length ch + 4\<rparr> = Inr x" "k_raw x = r\<lparr>raw_w := ?w, raw_in := ys\<rparr>"
    by blast
  then show ?thesis
    unfolding Server_def d w i readFrame_bytes [OF l(1)] k c a prod.case sum.case bool.case using q
    by (intro exI [of _ x]) (simp add: quiet_def)
qed


section \<open>Delivery\<close>

lemma ReadMessage_incoming:
  assumes "gcm_correct C" "incoming C k (recs @ tail) rest" "\<not> k_rEOF k" "\<forall>c\<in>set recs. c \<noteq> []"
    and "to_come k recs = message_bytes b @ more_data" "length b \<le> MaxMessage"
  shows "\<exists>k' recs'. ReadMessage C k = (Inr b, k') \<and> incoming C k' (recs' @ tail) rest \<and> \<not> k_rEOF k'
     \<and> set recs' \<subseteq> set recs \<and> to_come k' recs' = more_data"
proof -
  have n: "4 \<le> length (to_come k recs)" by (simp add: assms(5) message_bytes_def)
  have lt: "length b < 2 ^ 32" using assms(6) by (simp add: MaxMessage_def)
  from conn_read_full_incoming [OF assms(1-4) n, of "[]"] obtain k1 recs1 where
    1: "conn_read_full C k 4 [] = (Inr (put_be32 (length b)), k1)" "incoming C k1 (recs1 @ tail) rest" "\<not> k_rEOF k1"
      "set recs1 \<subseteq> set recs" "to_come k1 recs1 = b @ more_data"
    by (auto simp: assms(5) message_bytes_def)
  have ne: "\<forall>c\<in>set recs1. c \<noteq> []" using 1(4) assms(4) by blast
  have "length b \<le> length (to_come k1 recs1)" by (simp add: 1(5))
  from conn_read_full_incoming [OF assms(1) 1(2,3) ne this, of "[]"] obtain k2 recs2 where
    "conn_read_full C k1 (length b) [] = (Inr b, k2)" "incoming C k2 (recs2 @ tail) rest" "\<not> k_rEOF k2"
      "set recs2 \<subseteq> set recs1" "to_come k2 recs2 = more_data"
    by (auto simp: 1(5))
  then show ?thesis
    using 1(1,4) lt assms(6) by (intro exI [of _ k2] exI [of _ recs2]) (auto simp: ReadMessage_def)
qed

text \<open>A number of control messages.\<close>

fun read_messages :: "('s, 'd) crypto \<Rightarrow> nat \<Rightarrow> conn \<Rightarrow> (conn_error + bytes list) \<times> conn" where
  "read_messages C 0 k = (Inr [], k)"
| "read_messages C (Suc n) k =
     (case ReadMessage C k of
        (Inl e, k1) \<Rightarrow> (Inl e, k1)
      | (Inr b, k1) \<Rightarrow>
          (case read_messages C n k1 of
             (Inl e, k2) \<Rightarrow> (Inl e, k2)
           | (Inr bs, k2) \<Rightarrow> (Inr (b # bs), k2)))"

lemma read_messages_incoming:
  assumes "gcm_correct C" "incoming C k (recs @ tail) rest" "\<not> k_rEOF k" "\<forall>c\<in>set recs. c \<noteq> []"
    and "to_come k recs = concat (map message_bytes bs) @ more_data" "\<forall>b\<in>set bs. length b \<le> MaxMessage"
  shows "\<exists>k' recs'. read_messages C (length bs) k = (Inr bs, k') \<and> incoming C k' (recs' @ tail) rest
     \<and> \<not> k_rEOF k' \<and> set recs' \<subseteq> set recs \<and> to_come k' recs' = more_data"
  using assms
proof (induction bs arbitrary: k recs)
  case Nil
  then show ?case by (intro exI [of _ k] exI [of _ recs]) simp
next
  case (Cons b bs)
  have tc: "to_come k recs = message_bytes b @ (concat (map message_bytes bs) @ more_data)"
    and l: "length b \<le> MaxMessage" "\<forall>b\<in>set bs. length b \<le> MaxMessage"
    using Cons.prems(5,6) by simp_all
  from ReadMessage_incoming [OF Cons.prems(1-4) tc l(1)] obtain k1 recs1 where
    1: "ReadMessage C k = (Inr b, k1)" "incoming C k1 (recs1 @ tail) rest" "\<not> k_rEOF k1" "set recs1 \<subseteq> set recs"
      "to_come k1 recs1 = concat (map message_bytes bs) @ more_data" by blast
  have "\<forall>c\<in>set recs1. c \<noteq> []" using 1(4) Cons.prems(4) by blast
  from Cons.IH [OF Cons.prems(1) 1(2,3) this 1(5) l(2)] obtain k2 recs2 where
    "read_messages C (length bs) k1 = (Inr bs, k2)" "incoming C k2 (recs2 @ tail) rest" "\<not> k_rEOF k2"
    "set recs2 \<subseteq> set recs1" "to_come k2 recs2 = more_data" by blast
  then show ?case using 1(1,4) by (intro exI [of _ k2] exI [of _ recs2]) auto
qed

lemma Read_marker:
  assumes "gcm_correct C" "incoming C k (recs @ [[]]) rest" "\<not> k_rEOF k" "\<forall>c\<in>set recs. c \<noteq> []"
    and "to_come k recs = []"
  shows "\<exists>k'. Read C k n = (Inl (CE_io Read_EOF), k') \<and> k_rEOF k'"
proof -
  have b: "k_buffer k = []" "recs = []" using assms(4,5) by (auto simp: to_come_def)
  from readRecord_incoming [OF assms(1), of k "[]" "[]" rest] assms(2) b(2) obtain k' where
    "readRecord C k = (Inr [], k')" by auto
  then show ?thesis using b(1) assms(3) by (auto simp: Read_def)
qed

lemma data_records_messages:
  "\<forall>b\<in>set bs. length b \<le> MaxMessage \<Longrightarrow>
     concat (data_records (map Op_message bs @ ops)) = concat (map message_bytes bs) @ concat (data_records ops)"
  by (induction bs) (auto simp: not_less)

text \<open>
  A reader at the place of a writer, about to receive what the writer put on the network
  between two of its states.
\<close>

definition receives :: "conn \<Rightarrow> conn \<Rightarrow> conn \<Rightarrow> bool" where
  "receives kr kw kw' \<longleftrightarrow> k_open kr = k_seal kw \<and> k_rIV kr = k_wIV kw \<and> k_rSeq kr = k_wSeq kw
     \<and> k_buffer kr = [] \<and> \<not> k_rEOF kr \<and> w_out (raw_w (k_raw kw')) = w_out (raw_w (k_raw kw)) @ raw_in (k_raw kr)"

lemma receives_incoming:
  assumes "emits C kw kw' recs" "receives kr kw kw'" "length (k_wIV kw) = 4" "\<forall>c\<in>set recs. length c \<le> RecordSize"
  shows "incoming C kr recs []"
  using assms by (auto simp: emits_def receives_def incoming_def)


text \<open>A connection that the network ends between two records ends the stream for the application.\<close>

lemma truncation_reads_as_end:
  assumes "k_buffer k = []" "raw_in (k_raw k) = []"
  shows "fst (Read C k n) = Inl (CE_io Read_EOF)"
  using assms by (simp add: Read_def readRecord_def readFrame_def read_full_def)

end
