(* ===== verification/Tunnel_Props.thy ===== *)
theory Tunnel_Props
  imports Tunnel_Conn Samples
begin

text \<open>
  The properties of the tunnel: handshake and record layer.  The sample cryptography is a toy that
  satisfies the correctness assumptions; the sample certificates are those of an xApp and of the
  sidecar of a platform service.
\<close>

section \<open>Samples\<close>

definition sample_ch :: bytes where
  "sample_ch = appendField (hello_body [[201]] [9]) ([7] @ bytes_of contextClientHello @ hello_body [[201]] [9])"

definition sample_sh :: bytes where
  "sample_sh = appendField (hello_body [[202]] [10])
     ([8] @ bytes_of contextServerHello @ sample_ch @ hello_body [[202]] [10])"

text \<open>The server's key signs one message only.\<close>

definition sample_signs :: "bytes \<Rightarrow> string \<Rightarrow> bytes \<Rightarrow> bool" where
  "sample_signs k ctxt m \<longleftrightarrow> (k = [8] \<and> ctxt = contextServerHello \<longrightarrow> m = sample_ch @ hello_body [[202]] [10])"

definition sample_crypto :: "(bytes, bytes) crypto" where
  "sample_crypto =
     \<lparr>signer_public = MLDSA_key MLDSA65,
      mldsa_sign = (\<lambda>k ctxt m. if sample_signs k ctxt m then Some (k @ bytes_of ctxt @ m) else None),
      mldsa_verify = (\<lambda>p k ctxt m s. sample_signs k ctxt m \<and> s = k @ bytes_of ctxt @ m),
      kem_generate = Some, kem_public = (\<lambda>d. d), kem_valid = (\<lambda>_. True),
      kem_encapsulate = (\<lambda>ek seed. (ek @ seed, seed)), kem_decapsulate = (\<lambda>d ct. Some (d @ ct)),
      hkdf_key = (\<lambda>s t i n. Some (take n (bytes_of (drop 6 i) @ replicate n 0))),
      gcm_seal = (\<lambda>key n p. p @ replicate 16 0),
      gcm_open = (\<lambda>key n c. if length c < 16 then None else Some (take (length c - 16) c))\<rparr>"

definition tunnel_client_cert :: cert where
  "tunnel_client_cert = sample_leaf\<lparr>c_raw := [201], c_pub := MLDSA_key MLDSA65 [7]\<rparr>"

definition tunnel_server_cert :: cert where
  "tunnel_server_cert = sample_leaf\<lparr>c_raw := [202], c_cn := ''ric'', c_dns := [], c_pub := MLDSA_key MLDSA65 [8]\<rparr>"

definition tunnel_ext :: "nat ext" where
  "tunnel_ext = sample_ext\<lparr>x509_parse := (\<lambda>b. if b = [201] then Some tunnel_client_cert
     else if b = [202] then Some tunnel_server_cert else None)\<rparr>"

definition client_cfg :: "bytes tunnel_config" where
  "client_cfg = \<lparr>tc_credential = Some \<lparr>cred_chain = [[201]], cred_key = Some [7]\<rparr>, tc_roots = [sample_root],
     tc_peer_name = ''ric'', tc_now = t0\<rparr>"

definition server_cfg :: "bytes tunnel_config" where
  "server_cfg = \<lparr>tc_credential = Some \<lparr>cred_chain = [[202]], cred_key = Some [8]\<rparr>, tc_roots = [sample_root],
     tc_peer_name = [], tc_now = t0\<rparr>"

definition sample_raw :: "bytes \<Rightarrow> raw" where
  "sample_raw b = \<lparr>raw_w = \<lparr>w_out = [], w_faults = []\<rparr>, raw_in = b, raw_deadlines = []\<rparr>"

definition sample_peer :: "cert \<Rightarrow> peer" where
  "sample_peer c = \<lparr>pe_chain = [c], pe_leaf = c, pe_alg = ''ML-DSA-65'', pe_thumbprint = ThumbprintS256 tunnel_ext c\<rparr>"

lemma sample_crypto_correct: "crypto_correct sample_crypto" "gcm_correct sample_crypto"
  unfolding crypto_correct_def gcm_correct_def
  by (simp_all add: sample_crypto_def gcm_overhead_def min_def)

lemma sample_signers:
  "signerFor sample_crypto (tc_credential client_cfg) = Inr ([7], [[201]])"
  "signerFor sample_crypto (tc_credential server_cfg) = Inr ([8], [[202]])"
  by (simp_all add: signerFor_def sample_crypto_def client_cfg_def server_cfg_def)

lemma sample_client_start: "client_start sample_crypto client_cfg [9] = Inr ([9], sample_ch)"
  using sample_signers(1) by (simp add: client_start_Inr) (simp add: sample_crypto_def sample_ch_def sample_signs_def)

lemma sample_server_answer:
  "server_answer sample_crypto [8] [[202]] sample_ch [9] [10] = Inr ([9, 10], sample_sh)"
  by (simp add: server_answer_Inr) (simp add: sample_crypto_def sample_sh_def sample_signs_def)

lemma length_bytes_of: "length (bytes_of s) = length s"
  by (simp add: bytes_of_def)

lemma sample_hello_lengths: "length sample_ch \<le> MaxFrame" "length sample_sh \<le> MaxFrame"
  by (simp_all add: sample_sh_def sample_ch_def hello_body_def appendField_def encodeChain_def length_bytes_of
      contextClientHello_def contextServerHello_def MaxFrame_def)

lemma sample_tunnel_chain:
  "chain_ders tunnel_ext [tunnel_client_cert] [[201]]" "chain_ders tunnel_ext [tunnel_server_cert] [[202]]"
  by (simp_all add: chain_ders_def tunnel_ext_def)

lemma tunnel_cert_simps [simp]:
  "c_pub tunnel_client_cert = MLDSA_key MLDSA65 [7]" "c_pub tunnel_server_cert = MLDSA_key MLDSA65 [8]"
  "c_cn tunnel_client_cert = ''xapp-a''" "c_cn tunnel_server_cert = ''ric''"
  "c_raw tunnel_client_cert = [201]" "c_raw tunnel_server_cert = [202]"
  by (simp_all add: tunnel_client_cert_def tunnel_server_cert_def sample_leaf_def)

lemma tunnel_chain_valid:
  "VerifyChain tunnel_ext [tunnel_client_cert] [sample_root] t0 usage = Inr ()"
  "VerifyChain tunnel_ext [tunnel_server_cert] [sample_root] t0 usage = Inr ()"
  by (simp_all add: VerifyChain_Inr)
    (simp_all add: tunnel_client_cert_def tunnel_server_cert_def sample_leaf_def tunnel_ext_def sample_ext_def sample_root_def)

lemma sample_authenticate:
  "authenticate tunnel_ext [tunnel_client_cert] [sample_root] [] t0 ClientAuth = Inr (sample_peer tunnel_client_cert)"
  "authenticate tunnel_ext [tunnel_server_cert] [sample_root] ''ric'' t0 ServerAuth = Inr (sample_peer tunnel_server_cert)"
  by (simp_all add: authenticate_def tunnel_chain_valid sample_peer_def matchesName_def equal_fold_def)

lemma sample_cfg_simps:
  "tc_roots client_cfg = [sample_root]" "tc_peer_name client_cfg = ''ric''" "tc_now client_cfg = t0"
  "tc_roots server_cfg = [sample_root]" "tc_peer_name server_cfg = []" "tc_now server_cfg = t0"
  by (simp_all add: client_cfg_def server_cfg_def)

lemma sample_identities:
  "accepts_identity sample_crypto tunnel_ext client_cfg server_cfg ClientAuth (sample_peer tunnel_client_cert)"
  "accepts_identity sample_crypto tunnel_ext server_cfg client_cfg ServerAuth (sample_peer tunnel_server_cert)"
proof -
  have p: "c_pub (pe_leaf (sample_peer tunnel_client_cert)) = signer_public sample_crypto [7]"
    "c_pub (pe_leaf (sample_peer tunnel_server_cert)) = signer_public sample_crypto [8]"
    by (simp_all add: sample_peer_def sample_crypto_def)
  show "accepts_identity sample_crypto tunnel_ext client_cfg server_cfg ClientAuth (sample_peer tunnel_client_cert)"
    unfolding accepts_identity_def sample_cfg_simps
    using sample_signers(1) sample_tunnel_chain(1) sample_authenticate(1) p(1) by blast
  show "accepts_identity sample_crypto tunnel_ext server_cfg client_cfg ServerAuth (sample_peer tunnel_server_cert)"
    unfolding accepts_identity_def sample_cfg_simps
    using sample_signers(2) sample_tunnel_chain(2) sample_authenticate(2) p(2) by blast
qed

lemma sample_quiet [simp]: "quiet (sample_raw b)" "raw_in (sample_raw b) = b"
  by (simp_all add: quiet_def sample_raw_def)


lemma sample_pub: "kem_public sample_crypto [9] = [9]"
  by (simp add: sample_crypto_def)

lemma sample_server_answer_pub:
  "server_answer sample_crypto [8] [[202]] sample_ch (kem_public sample_crypto [9]) [10] = Inr ([9, 10], sample_sh)"
  unfolding sample_pub by (rule sample_server_answer)

lemma sample_client_finish:
  "client_finish sample_crypto tunnel_ext client_cfg [9] sample_ch sample_sh = Inr ([9, 10], sample_peer tunnel_server_cert)"
  by (rule client_finish_complete [OF sample_crypto_correct(1) sample_identities(2) sample_signers(2)
      sample_server_answer_pub sample_hello_lengths(2)])

lemma sample_server_check:
  "server_check sample_crypto tunnel_ext server_cfg sample_ch = Inr ([9], sample_peer tunnel_client_cert)"
  using server_check_complete [OF sample_crypto_correct(1) sample_identities(1) sample_client_start sample_hello_lengths(1)]
  by (simp add: sample_pub)

lemma sample_frame_in: "raw_in (sample_raw (frame_bytes b)) = frame_bytes b @ []"
  by simp

lemma sample_client_run:
  "\<exists>k. Client sample_crypto tunnel_ext client_cfg [9] (sample_raw (frame_bytes sample_sh)) = Inr k
     \<and> pe_leaf (k_peer k) = tunnel_server_cert \<and> raw_in (k_raw k) = []"
proof -
  obtain k where k: "Client sample_crypto tunnel_ext client_cfg [9] (sample_raw (frame_bytes sample_sh)) = Inr k"
    "raw_in (k_raw k) = []"
    using Client_complete [OF sample_crypto_correct(1) sample_quiet(1) sample_client_start sample_hello_lengths
        sample_frame_in sample_client_finish] by blast
  have "k_peer k = sample_peer tunnel_server_cert"
    using Client_Inr [OF k(1)] sample_client_start sample_client_finish k(2) by (auto simp: frame_bytes_inj)
  then show ?thesis using k by (simp add: sample_peer_def)
qed

lemma sample_server_run:
  "\<exists>k. Server sample_crypto tunnel_ext server_cfg [10] (sample_raw (frame_bytes sample_ch)) = Inr k"
  using Server_complete [OF sample_crypto_correct(1) sample_quiet(1) sample_signers(2) sample_hello_lengths
      sample_frame_in sample_server_check sample_server_answer] by blast


section \<open>The handshake\<close>
text \<open>C27: Two honest ends complete the handshake: when each accepts the other's identity and the two hellos
  reach the other end, both return a connection, each knows the other by its certificate, and
  the record keys, IVs and counters of the two directions are crossed.\<close>
theorem handshake_completes:
  assumes "crypto_correct C"
    and "client_start C cc seed = Inr (dk, ch)" "length ch \<le> MaxFrame"
    and "signerFor C (tc_credential sc) = Inr (key, ders)"
    and "server_answer C key ders ch (kem_public C dk) seed' = Inr (shared, sh)" "length sh \<le> MaxFrame"
    and "accepts_identity C E cc sc ClientAuth client" "accepts_identity C E sc cc ServerAuth server"
    and "quiet rc" "raw_in rc = frame_bytes sh @ xs" and "quiet rs" "raw_in rs = frame_bytes ch @ ys"
  shows "\<exists>kc ks. Client C E cc seed rc = Inr kc \<and> Server C E sc seed' rs = Inr ks
    \<and> k_peer kc = server \<and> k_peer ks = client \<and> linked kc ks \<and> fresh_conn kc \<and> fresh_conn ks
    \<and> w_out (raw_w (k_raw kc)) = w_out (raw_w rc) @ frame_bytes ch \<and> raw_in (k_raw kc) = xs
    \<and> w_out (raw_w (k_raw ks)) = w_out (raw_w rs) @ frame_bytes sh \<and> raw_in (k_raw ks) = ys"
proof -
  note f = client_finish_complete [OF assms(1,8,4,5,6)] and c = server_check_complete [OF assms(1,7,2,3)]
  obtain kc where kc: "Client C E cc seed rc = Inr kc" "raw_in (k_raw kc) = xs"
    "raw_w (k_raw kc) = (raw_w rc)\<lparr>w_out := w_out (raw_w rc) @ frame_bytes ch\<rparr>"
    using Client_complete [OF assms(1,9,2,3,6,10) f] by blast
  obtain ks where ks: "Server C E sc seed' rs = Inr ks" "raw_in (k_raw ks) = ys"
    "raw_w (k_raw ks) = (raw_w rs)\<lparr>w_out := w_out (raw_w rs) @ frame_bytes sh\<rparr>"
    using Server_complete [OF assms(1,11,4,3,6,12) c assms(5)] by blast
  have k: "k_peer kc = server" "fresh_conn kc" "key_schedule C shared (transcript E ch sh) = Some (keys_of kc)"
    using Client_Inr [OF kc(1)] f assms(2,10) kc(2) by (auto simp: frame_bytes_inj)
  have s: "k_peer ks = client" "fresh_conn ks" "key_schedule C shared (transcript E ch sh) = Some (opposite (keys_of ks))"
    using Server_Inr [OF ks(1)] c assms(4,5,12) ks(2) by (auto simp: frame_bytes_inj)
  have "keys_of ks = opposite (keys_of kc)" using k(3) s(3) by (simp add: keys_of_def)
  from fresh_linked [OF k(2) s(2) this] kc ks k s show ?thesis by auto
qed

theorem handshake_completes_witness:
  "\<exists>kc ks. Client sample_crypto tunnel_ext client_cfg [9] (sample_raw (frame_bytes sample_sh)) = Inr kc
     \<and> Server sample_crypto tunnel_ext server_cfg [10] (sample_raw (frame_bytes sample_ch)) = Inr ks
     \<and> k_peer kc = sample_peer tunnel_server_cert \<and> k_peer ks = sample_peer tunnel_client_cert \<and> linked kc ks"
  using handshake_completes [OF sample_crypto_correct(1) sample_client_start sample_hello_lengths(1)
      sample_signers(2) sample_server_answer_pub sample_hello_lengths(2) sample_identities
      sample_quiet(1) sample_frame_in sample_quiet(1) sample_frame_in]
  by blast

text \<open>C28: A client that got a connection authenticated the server: the chain of the server hello is valid for
  server authentication at the client's time and is the peer's, its leaf has the expected name
  and an ML-DSA key, and that key signed this client's own hello together with the server hello,
  under the server's context string.\<close>
theorem client_authenticates_server:
  assumes "Client C E cfg seed r = Inr k"
  shows "\<exists>ch sh chain ct sig par key.
    w_out (raw_w (k_raw k)) = w_out (raw_w r) @ frame_bytes ch \<and>
    raw_in r = frame_bytes sh @ raw_in (k_raw k) \<and> parseHello E sh = Inr (chain, ct, sig) \<and>
    VerifyChain E chain (tc_roots cfg) (tc_now cfg) ServerAuth = Inr () \<and>
    pe_chain (k_peer k) = chain \<and> pe_leaf (k_peer k) = hd chain \<and>
    pe_thumbprint (k_peer k) = ThumbprintS256 E (hd chain) \<and>
    (tc_peer_name cfg = [] \<or> matchesName (hd chain) (tc_peer_name cfg)) \<and>
    c_pub (hd chain) = MLDSA_key par key \<and>
    mldsa_verify C par key ''PQTB1 server hello'' (ch @ before_signature sh sig) sig"
proof -
  from Client_Inr [OF assms] obtain dk ch sh shared where h:
    "w_out (raw_w (k_raw k)) = w_out (raw_w r) @ frame_bytes ch" "raw_in r = frame_bytes sh @ raw_in (k_raw k)"
    "client_finish C E cfg dk ch sh = Inr (shared, k_peer k)" by blast
  from h(3) obtain chain ct sig par key where c: "parseHello E sh = Inr (chain, ct, sig)"
    "authenticate E chain (tc_roots cfg) (tc_peer_name cfg) (tc_now cfg) ServerAuth = Inr (k_peer k)"
    "c_pub (pe_leaf (k_peer k)) = MLDSA_key par key"
    "mldsa_verify C par key ''PQTB1 server hello'' (ch @ before_signature sh sig) sig"
    by (auto simp: client_finish_Inr verify_iff contextServerHello_def)
  from c(2) have p: "VerifyChain E chain (tc_roots cfg) (tc_now cfg) ServerAuth = Inr ()"
    "pe_chain (k_peer k) = chain" "pe_leaf (k_peer k) = hd chain" "pe_thumbprint (k_peer k) = ThumbprintS256 E (hd chain)"
    "tc_peer_name cfg = [] \<or> matchesName (hd chain) (tc_peer_name cfg)" by (simp_all add: authenticate_Inr)
  show ?thesis using h(1,2) c(1,3,4) p unfolding p(3) by blast
qed

theorem client_authenticates_server_witness:
  "\<exists>k sh chain ct sig. Client sample_crypto tunnel_ext client_cfg [9] (sample_raw (frame_bytes sample_sh)) = Inr k
     \<and> parseHello tunnel_ext sh = Inr (chain, ct, sig) \<and> hd chain = pe_leaf (k_peer k)
     \<and> matchesName (hd chain) ''ric''"
proof -
  obtain k where k: "Client sample_crypto tunnel_ext client_cfg [9] (sample_raw (frame_bytes sample_sh)) = Inr k"
    using sample_client_run by blast
  have n: "tc_peer_name client_cfg = ''ric''" by (simp add: client_cfg_def)
  show ?thesis using client_authenticates_server [OF k] k unfolding n by fastforce
qed

text \<open>C29: A server that got a connection authenticated the client: the chain of the client hello is valid for
  client authentication at the server's time and is the peer's, its leaf has the expected name
  and an ML-DSA key, and that key signed the client hello under the client's context string.\<close>
theorem server_authenticates_client:
  assumes "Server C E cfg seed r = Inr k"
  shows "\<exists>ch chain ek sig par key.
    raw_in r = frame_bytes ch @ raw_in (k_raw k) \<and> parseHello E ch = Inr (chain, ek, sig) \<and>
    VerifyChain E chain (tc_roots cfg) (tc_now cfg) ClientAuth = Inr () \<and>
    pe_chain (k_peer k) = chain \<and> pe_leaf (k_peer k) = hd chain \<and>
    pe_thumbprint (k_peer k) = ThumbprintS256 E (hd chain) \<and>
    (tc_peer_name cfg = [] \<or> matchesName (hd chain) (tc_peer_name cfg)) \<and>
    c_pub (hd chain) = MLDSA_key par key \<and>
    mldsa_verify C par key ''PQTB1 client hello'' (before_signature ch sig) sig"
proof -
  from Server_Inr [OF assms] obtain ch ek where h:
    "raw_in r = frame_bytes ch @ raw_in (k_raw k)" "server_check C E cfg ch = Inr (ek, k_peer k)" by blast
  from h(2) obtain chain sig par key where c: "parseHello E ch = Inr (chain, ek, sig)"
    "authenticate E chain (tc_roots cfg) (tc_peer_name cfg) (tc_now cfg) ClientAuth = Inr (k_peer k)"
    "c_pub (pe_leaf (k_peer k)) = MLDSA_key par key"
    "mldsa_verify C par key ''PQTB1 client hello'' (before_signature ch sig) sig"
    by (auto simp: server_check_Inr verify_iff contextClientHello_def)
  from c(2) have p: "VerifyChain E chain (tc_roots cfg) (tc_now cfg) ClientAuth = Inr ()"
    "pe_chain (k_peer k) = chain" "pe_leaf (k_peer k) = hd chain" "pe_thumbprint (k_peer k) = ThumbprintS256 E (hd chain)"
    "tc_peer_name cfg = [] \<or> matchesName (hd chain) (tc_peer_name cfg)" by (simp_all add: authenticate_Inr)
  show ?thesis using h(1) c(1,3,4) p unfolding p(3) by blast
qed

theorem server_authenticates_client_witness:
  "\<exists>k ch chain ek sig. Server sample_crypto tunnel_ext server_cfg [10] (sample_raw (frame_bytes sample_ch)) = Inr k
     \<and> parseHello tunnel_ext ch = Inr (chain, ek, sig) \<and> hd chain = pe_leaf (k_peer k)
     \<and> VerifyChain tunnel_ext chain [sample_root] t0 ClientAuth = Inr ()"
proof -
  obtain k where k: "Server sample_crypto tunnel_ext server_cfg [10] (sample_raw (frame_bytes sample_ch)) = Inr k"
    using sample_server_run by blast
  show ?thesis using server_authenticates_client [OF k] k unfolding sample_cfg_simps by fastforce
qed

text \<open>C30: The server hello answers this client and no other: if the holder of the accepted key signs only what
  \<open>Server\<close> signs, that is a client hello it has parsed followed by its own hello body, then the
  server has parsed exactly this client's hello, and the client has decapsulated exactly the
  ciphertext the server sent for it.\<close>
theorem server_hello_answers_client:
  assumes "Client C E cfg seed r = Inr k"
    and "\<And>par key m sig. \<lbrakk>c_pub (pe_leaf (k_peer k)) = MLDSA_key par key;
           mldsa_verify C par key ''PQTB1 server hello'' m sig\<rbrakk> \<Longrightarrow>
         \<exists>ch ders ct. (ch, ders, ct) \<in> answered \<and> m = ch @ hello_body ders ct
           \<and> (\<exists>x. parseHello E ch = Inr x)"
  shows "\<exists>dk ch ders ct shared sh. client_start C cfg seed = Inr (dk, ch) \<and> (ch, ders, ct) \<in> answered \<and>
    kem_decapsulate C dk ct = Some shared \<and>
    raw_in r = frame_bytes sh @ raw_in (k_raw k) \<and>
    key_schedule C shared (transcript E ch sh) = Some (keys_of k)"
proof -
  from Client_Inr [OF assms(1)] obtain dk ch sh shared where h: "client_start C cfg seed = Inr (dk, ch)"
    "length ch \<le> MaxFrame" "raw_in r = frame_bytes sh @ raw_in (k_raw k)"
    "client_finish C E cfg dk ch sh = Inr (shared, k_peer k)"
    "key_schedule C shared (transcript E ch sh) = Some (keys_of k)" "length sh \<le> MaxFrame" by blast
  from h(4) obtain chain ct sig where f: "parseHello E sh = Inr (chain, ct, sig)"
    "verify C (c_pub (pe_leaf (k_peer k))) contextServerHello (ch @ before_signature sh sig) sig"
    "kem_decapsulate C dk ct = Some shared" by (auto simp: client_finish_Inr)
  from f(2) obtain par key where v: "c_pub (pe_leaf (k_peer k)) = MLDSA_key par key"
    "mldsa_verify C par key ''PQTB1 server hello'' (ch @ before_signature sh sig) sig"
    by (auto simp: verify_iff contextServerHello_def)
  from assms(2) [OF v] obtain ch' ders ct' x where a: "(ch', ders, ct') \<in> answered"
    "ch @ before_signature sh sig = ch' @ hello_body ders ct'" "parseHello E ch' = Inr x" by blast
  from h(1) obtain ders0 sig0 where "ch = appendField (hello_body ders0 (kem_public C dk)) sig0"
    by (auto simp: client_start_Inr)
  then have own: "ch = hello_wire (encodeChain ders0, kem_public C dk, sig0)" by (simp add: hello_body_wire)
  note fit = hello_wire_fits [OF h(2) [unfolded own]]
  obtain rc' km' sig' where other: "ch' = hello_wire (rc', km', sig')" "hello_fits (rc', km', sig')"
    using a(3) parseHello_Inr by (cases x) blast
  from signed_pair_unambiguous [OF fit other(2) a(2) [unfolded own other(1)]]
  have eq: "ch' = ch" "before_signature sh sig = hello_body ders ct'" using own other(1) by auto
  have "sh = appendField (hello_body ders ct') sig" using before_signature_append [OF f(1)] eq(2) by simp
  then have sh: "hello_wire (encodeChain ders, ct', sig) = sh" by (simp add: hello_body_wire)
  have fit': "hello_fits (encodeChain ders, ct', sig)" using sh h(6) hello_wire_fits by simp
  from parseHello_Inr [OF f(1)] obtain rc where rc: "sh = hello_wire (rc, ct, sig)" "hello_fits (rc, ct, sig)" by blast
  have "(encodeChain ders, ct', sig) = (rc, ct, sig)"
    by (rule hello.enc_inj [OF fit' rc(2)]) (simp add: sh rc(1) [symmetric])
  then have "ct' = ct" by simp
  then show ?thesis using h(1,3,5) f(3) a(1) eq(1) by blast
qed

theorem server_hello_answers_client_witness:
  "\<exists>k shared. Client sample_crypto tunnel_ext client_cfg [9] (sample_raw (frame_bytes sample_sh)) = Inr k
     \<and> kem_decapsulate sample_crypto [9] [10] = Some shared
     \<and> key_schedule sample_crypto shared (transcript tunnel_ext sample_ch sample_sh) = Some (keys_of k)"
proof -
  obtain k where k: "Client sample_crypto tunnel_ext client_cfg [9] (sample_raw (frame_bytes sample_sh)) = Inr k"
    "pe_leaf (k_peer k) = tunnel_server_cert" "raw_in (k_raw k) = []"
    using sample_client_run by blast
  have parses: "\<exists>x. parseHello tunnel_ext sample_ch = Inr x"
    using hello_parses [OF sample_tunnel_chain(1)] sample_hello_lengths(1) by (auto simp: sample_ch_def)
  have "\<exists>dk ch ders ct shared sh. client_start sample_crypto client_cfg [9] = Inr (dk, ch)
      \<and> (ch, ders, ct) \<in> {(sample_ch, [[202 :: 8 word]], [10])}
      \<and> kem_decapsulate sample_crypto dk ct = Some shared
      \<and> raw_in (sample_raw (frame_bytes sample_sh)) = frame_bytes sh @ raw_in (k_raw k)
      \<and> key_schedule sample_crypto shared (transcript tunnel_ext ch sh) = Some (keys_of k)"
  proof (rule server_hello_answers_client [OF k(1)])
    fix par key m sig
    assume "c_pub (pe_leaf (k_peer k)) = MLDSA_key par key" "mldsa_verify sample_crypto par key ''PQTB1 server hello'' m sig"
    then have "m = sample_ch @ hello_body [[202]] [10]"
      using k(2) by (simp add: sample_crypto_def sample_signs_def contextServerHello_def)
    then show "\<exists>ch ders ct. (ch, ders, ct) \<in> {(sample_ch, [[202]], [10])} \<and> m = ch @ hello_body ders ct
        \<and> (\<exists>x. parseHello tunnel_ext ch = Inr x)"
      using parses by blast
  qed
  then show ?thesis using k(1,3) sample_client_start by (auto simp: frame_bytes_inj)
qed


section \<open>The record layer\<close>

definition sample_conn :: "bytes \<Rightarrow> conn" where
  "sample_conn b = \<lparr>k_raw = sample_raw b, k_peer = sample_peer tunnel_server_cert, k_stats = \<lparr>st_sent = 0, st_recv = 0\<rparr>,
     k_seal = replicate 32 0, k_wIV = replicate 4 0, k_wSeq = 0, k_wClosed = False,
     k_open = replicate 32 0, k_rIV = replicate 4 0, k_rSeq = 0, k_rEOF = False, k_buffer = []\<rparr>"

lemma sample_conn_simps [simp]:
  "healthy (sample_conn b)" "length (k_wIV (sample_conn b)) = 4" "\<not> k_wClosed (sample_conn b)" "fresh_conn (sample_conn b)"
  "k_rIV (sample_conn b) = replicate 4 0" "k_rSeq (sample_conn b) = 0" "k_buffer (sample_conn b) = []" "\<not> k_rEOF (sample_conn b)"
  "raw_in (k_raw (sample_conn b)) = b" "w_out (raw_w (k_raw (sample_conn b))) = []"
  by (simp_all add: sample_conn_def healthy_def fresh_conn_def sample_raw_def)

lemma sample_receives:
  "receives (sample_conn (w_out (raw_w (k_raw kw')))) (sample_conn []) kw'"
  by (simp add: receives_def) (simp add: sample_conn_def sample_raw_def)

text \<open>A tunnel on which one record was sealed, and nothing else opens.\<close>

definition integrity_crypto :: "(bytes, bytes) crypto" where
  "integrity_crypto = sample_crypto\<lparr>gcm_open := (\<lambda>key n c.
     if n = nonce (replicate 4 0) 0 \<and> c = 5 # replicate 16 0 then Some [5] else None)\<rparr>"

lemma integrity_genuine: "genuine integrity_crypto key (replicate 4 0) (all_records [Op_write [5]])"
  by (auto simp: genuine_def integrity_crypto_def all_records_def chunks_Cons RecordSize_def split: if_splits)

text \<open>C31: \<open>parseHello\<close> accepts exactly the messages the ends build, and reads off them what was put in: one
  to eight certificates that parse, the key material and the signature, in one encoding only.\<close>
theorem hello_canonical:
  "parseHello E msg = Inr (chain, km, sig) \<longleftrightarrow>
     (\<exists>ders. chain_ders E chain ders \<and> hello_fits (encodeChain ders, km, sig)
        \<and> msg = appendField (hello_body ders km) sig)"
  by (rule parseHello_exact_iff)

text \<open>C32: The stream is delivered: control messages, then data, then the end of the stream, as one end writes
  them, are read by the other end in the same order and complete, however they were split into
  records.\<close>
theorem tunnel_delivers:
  assumes "gcm_correct C" "healthy kw" "length (k_wIV kw) = 4" "\<not> k_wClosed kw"
    and "\<forall>b\<in>set msgs. length b \<le> MaxMessage"
    and "receives kr kw (write_run C (map Op_message msgs @ [Op_write data, Op_close]) kw)"
  shows "\<exists>k1 k2 k3. read_messages C (length msgs) kr = (Inr msgs, k1) \<and>
    conn_read_full C k1 (length data) [] = (Inr data, k2) \<and>
    Read C k2 n = (Inl (CE_io Read_EOF), k3) \<and> k_rEOF k3"
proof -
  let ?ops = "map Op_message msgs @ [Op_write data, Op_close]"
  have "\<forall>c\<in>set (all_records ?ops). length c \<le> RecordSize"
    by (auto simp: all_records_def dest: data_records_bounds)
  from receives_incoming [OF write_run_emits [OF assms(1-4)] assms(6,3) this]
  have i: "incoming C kr (data_records ?ops @ [[]]) []" by (simp add: all_records_def)
  have e: "\<not> k_rEOF kr" "k_buffer kr = []" using assms(6) by (simp_all add: receives_def)
  have ne: "\<forall>c\<in>set (data_records ?ops). c \<noteq> []" using data_records_bounds by blast
  have tc: "to_come kr (data_records ?ops) = concat (map message_bytes msgs) @ data"
    using data_records_messages [OF assms(5), of "[Op_write data, Op_close]"] e(2) by (simp add: to_come_def)
  from read_messages_incoming [OF assms(1) i e(1) ne tc assms(5)] obtain k1 recs1 where
    1: "read_messages C (length msgs) kr = (Inr msgs, k1)" "incoming C k1 (recs1 @ [[]]) []" "\<not> k_rEOF k1"
      "set recs1 \<subseteq> set (data_records ?ops)" "to_come k1 recs1 = data" by blast
  have ne1: "\<forall>c\<in>set recs1. c \<noteq> []" and l: "length data \<le> length (to_come k1 recs1)"
    using 1(4,5) ne by auto
  from conn_read_full_incoming [OF assms(1) 1(2,3) ne1 l, of "[]"] obtain k2 recs2 where
    2: "conn_read_full C k1 (length data) [] = (Inr data, k2)" "incoming C k2 (recs2 @ [[]]) []" "\<not> k_rEOF k2"
      "set recs2 \<subseteq> set recs1" "to_come k2 recs2 = []" using 1(5) by auto
  have "\<forall>c\<in>set recs2. c \<noteq> []" using 2(4) ne1 by blast
  from Read_marker [OF assms(1) 2(2,3) this 2(5)] 1(1) 2(1) show ?thesis by blast
qed

theorem tunnel_delivers_witness:
  "let kw = write_run sample_crypto (map Op_message [[1, 2]] @ [Op_write [3, 4, 5], Op_close]) (sample_conn []);
       kr = sample_conn (w_out (raw_w (k_raw kw)))
   in \<exists>k1 k2. read_messages sample_crypto 1 kr = (Inr [[1, 2]], k1)
     \<and> conn_read_full sample_crypto k1 3 [] = (Inr [3, 4, 5], k2)"
proof -
  have m: "\<forall>b\<in>set [[1, 2 :: 8 word]]. length b \<le> MaxMessage" by (simp add: MaxMessage_def)
  have l: "length [[1, 2 :: 8 word]] = 1" "length [3, 4, 5 :: 8 word] = 3" by simp_all
  show ?thesis
    using tunnel_delivers [OF sample_crypto_correct(2) sample_conn_simps(1-3) m sample_receives, of "[3, 4, 5]"]
    unfolding l Let_def by blast
qed

text \<open>C33: What is read is what was sent: whatever bytes the network delivers and however the application reads,
  the bytes returned are a prefix of the data the other end wrote, and the reader accepts an end
  record only after all of it.\<close>
theorem tunnel_prefix_integrity:
  assumes "fresh_conn k" and "genuine C (k_open k) (k_rIV k) (all_records ops)"
    and "length (all_records ops) < 2 ^ 64" and "read_run C ns k = (out, k')"
  shows "prefix out (concat (data_records ops)) \<and>
    (\<not> k_rEOF k' \<or> out = concat (data_records ops) \<and> Op_close \<in> set ops)"
proof -
  have "tracks (all_records ops) out k'"
    using read_run_tracks [OF assms(2,3) fresh_tracks [OF assms(1)] assms(4)] by simp
  moreover have "concat (all_records ops) = concat (data_records ops)" by (simp add: all_records_def)
  ultimately show ?thesis using tracks_prefix [of "all_records ops" out k'] tracks_EOF [of ops out k'] by auto
qed

theorem tunnel_prefix_integrity_witness:
  "prefix (fst (read_run integrity_crypto [2, 2] (sample_conn (put_be32 29 @ nonce (replicate 4 0) 0 @ 5 # replicate 16 0)))) [5]"
proof -
  let ?k = "sample_conn (put_be32 29 @ nonce (replicate 4 0) 0 @ 5 # replicate 16 0)"
  obtain out k' where r: "read_run integrity_crypto [2, 2] ?k = (out, k')" by fastforce
  have g: "genuine integrity_crypto (k_open ?k) (k_rIV ?k) (all_records [Op_write [5]])"
    unfolding sample_conn_simps by (rule integrity_genuine)
  have l: "length (all_records [Op_write [5]]) < 2 ^ 64" and d: "concat (data_records [Op_write [5]]) = [5]"
    by (simp_all add: all_records_def chunks_Cons RecordSize_def)
  from tunnel_prefix_integrity [OF sample_conn_simps(4) g l r] show ?thesis unfolding d r fst_conv by blast
qed

text \<open>C34: No nonce is used twice: in any sequence of writes, control messages and closes on a network that takes
  every byte, the frames sent are those of the records, each sealed under the nonce of its own
  sequence number, and these nonces are all different for up to 2^64 records.\<close>
theorem nonces_fresh:
  assumes "gcm_correct C" "healthy k" "length (k_wIV k) = 4" "\<not> k_wClosed k"
    and "length (all_records ops) \<le> 2 ^ 64"
  shows "w_out (raw_w (k_raw (write_run C ops k))) = w_out (raw_w (k_raw k)) @
      concat (map (\<lambda>i. frame_bytes (seal_record C (k_seal k) (k_wIV k) (k_wSeq k + of_nat i) (all_records ops ! i)))
        [0..<length (all_records ops)]) \<and>
    distinct (map (\<lambda>i. nonce (k_wIV k) (k_wSeq k + of_nat i)) [0..<length (all_records ops)])"
proof -
  have f: "frames_from C key iv seq recs =
      concat (map (\<lambda>i. frame_bytes (seal_record C key iv (seq + of_nat i) (recs ! i))) [0..<length recs])" for key iv seq recs
    by (induction recs rule: rev_induct) (auto simp: frames_from_append nth_append intro!: arg_cong [where f = concat] map_cong)
  show ?thesis
    using write_run_emits [OF assms(1-4), of ops] assms(5)
    by (auto simp: emits_def f distinct_map inj_on_def nonce_inj intro: of_nat64_inj)
qed

theorem nonces_fresh_witness:
  "w_out (raw_w (k_raw (write_run sample_crypto [Op_write [5], Op_close] (sample_conn [])))) =
     frame_bytes (nonce (replicate 4 0) 0 @ 5 # replicate 16 0) @ frame_bytes (nonce (replicate 4 0) 1 @ replicate 16 0)
   \<and> nonce (replicate 4 0) 0 \<noteq> nonce (replicate 4 0) 1"
proof -
  have r: "all_records [Op_write [5], Op_close] = [[5], []]"
    by (simp add: all_records_def chunks_Cons RecordSize_def)
  have k: "k_seal (sample_conn []) = replicate 32 0" "k_wIV (sample_conn []) = replicate 4 0" "k_wSeq (sample_conn []) = 0"
    by (simp_all add: sample_conn_def)
  have s: "gcm_seal sample_crypto key n p = p @ replicate 16 0" for key n p by (simp add: sample_crypto_def)
  show ?thesis
    using nonces_fresh [OF sample_crypto_correct(2) sample_conn_simps(1-3), of "[Op_write [5], Op_close]" "[]"]
    unfolding r k by (simp add: seal_record_def s)
qed

text \<open>C35: After a write that failed the nonce is used again: the sequence number advances only when the frame was
  written, so the next record, the end record of \<open>CloseWrite\<close> here, goes out under the nonce
  under which part of the failed record is on the network already.\<close>
theorem failed_write_reuses_nonce:
  assumes "gcm_correct C" "length (k_wIV k) = 4" "\<not> k_wClosed k" "w_faults (raw_w (k_raw k)) = [None, Some n]"
    and "p \<noteq> []" "length p \<le> RecordSize"
  shows "\<exists>k1 k2. Write C k p = ((0, False), k1) \<and> CloseWrite C k1 = (True, k2) \<and>
    w_out (raw_w (k_raw k2)) = w_out (raw_w (k_raw k)) @ put_be32 (length p + 28) @
      take n (nonce (k_wIV k) (k_wSeq k) @ gcm_seal C (k_seal k) (nonce (k_wIV k) (k_wSeq k)) p) @
      frame_bytes (nonce (k_wIV k) (k_wSeq k) @ gcm_seal C (k_seal k) (nonce (k_wIV k) (k_wSeq k)) [])"
proof -
  let ?r = "seal_record C (k_seal k) (k_wIV k) (k_wSeq k) p"
  have l: "length ?r = length p + 28" by (rule seal_record_length [OF assms(1,2)])
  have w: "writeFrame (raw_w (k_raw k)) ?r =
      (False, \<lparr>w_out = w_out (raw_w (k_raw k)) @ put_be32 (length p + 28) @ take n ?r, w_faults = []\<rparr>)"
    using assms(4,6) l by (simp add: writeFrame_def wire_write_def MaxFrame_def RecordSize_def)
  define k1 where "k1 = k\<lparr>k_raw := (k_raw k)\<lparr>raw_w :=
    \<lparr>w_out = w_out (raw_w (k_raw k)) @ put_be32 (length p + 28) @ take n ?r, w_faults = []\<rparr>\<rparr>\<rparr>"
  have c: "take RecordSize p = p" using assms(6) by simp
  have 1: "Write C k p = ((0, False), k1)"
    using assms(3,5) by (simp add: Write_def write_loop.simps [of C k] Let_def c k_writeFrame_def w k1_def)
  have h: "healthy k1" "length (k_wIV k1) = 4" "\<not> k_wClosed k1"
    using assms(2,3) by (simp_all add: k1_def healthy_def)
  from CloseWrite_complete [OF assms(1) h] 1 show ?thesis
    by (simp add: k1_def seal_record_def)
qed

theorem failed_write_reuses_nonce_witness:
  "let k = sample_conn []\<lparr>k_raw := (sample_raw [])\<lparr>raw_w := \<lparr>w_out = [], w_faults = [None, Some 29]\<rparr>\<rparr>\<rparr>
   in \<exists>k1 k2. Write sample_crypto k [5] = ((0, False), k1) \<and> CloseWrite sample_crypto k1 = (True, k2)
     \<and> w_out (raw_w (k_raw k2)) = put_be32 29 @ (nonce (replicate 4 0) 0 @ 5 # replicate 16 0)
         @ frame_bytes (nonce (replicate 4 0) 0 @ replicate 16 0)"
proof -
  let ?k = "sample_conn []\<lparr>k_raw := (sample_raw [])\<lparr>raw_w := \<lparr>w_out = [], w_faults = [None, Some 29]\<rparr>\<rparr>\<rparr>"
  have k: "length (k_wIV ?k) = 4" "\<not> k_wClosed ?k" "w_faults (raw_w (k_raw ?k)) = [None, Some 29]"
    "k_wIV ?k = replicate 4 0" "k_wSeq ?k = 0" "w_out (raw_w (k_raw ?k)) = []"
    by (simp_all add: sample_conn_def)
  have s: "gcm_seal sample_crypto key n p = p @ replicate 16 0" for key n p by (simp add: sample_crypto_def)
  have n: "length (nonce (replicate 4 0) 0) = 12" by (simp add: nonce_def)
  have t: "take 29 (nonce (replicate 4 0) 0 @ 5 # replicate 16 0) = nonce (replicate 4 0) 0 @ 5 # replicate 16 0"
    by (simp add: nonce_def)
  show ?thesis
    using failed_write_reuses_nonce [OF sample_crypto_correct(2) k(1-3), of "[5]"]
    unfolding k Let_def s append_Nil append_Cons t by (simp add: RecordSize_def n)
qed

end
