(* ===== verification/Credentials.thy ===== *)
theory Credentials
  imports Pki Handshake
begin

text \<open>
  The PEM and key-file part of \<open>internal/pki/pki.go\<close> and the credential files of
  \<open>xapp-client/identity.go\<close>.  PEM blocks, key encodings and the pairing check of
  \<open>tls.LoadX509KeyPair\<close> are operations of the Go library, the fields of \<open>pem_lib\<close>.  The file
  system is a map from paths to contents.
\<close>

record 's pem_lib =
  pem_next :: "bytes \<Rightarrow> ((string \<times> bytes) \<times> bytes) option" \<comment> \<open>\<open>pem.Decode\<close>: block and rest\<close>
  pem_encode :: "string \<Rightarrow> bytes \<Rightarrow> bytes"
  parse_pkcs8 :: "bytes \<Rightarrow> 's option"
  parse_ec :: "bytes \<Rightarrow> 's option"
  parse_pkcs1 :: "bytes \<Rightarrow> 's option"
  marshal_pkcs8 :: "'s \<Rightarrow> bytes option"
  key_pairs :: "pubkey \<Rightarrow> 's \<Rightarrow> bool" \<comment> \<open>\<open>tls.X509KeyPair\<close>: the key belongs to the leaf\<close>

type_synonym files = "string \<Rightarrow> bytes option"


section \<open>PEM\<close>

text \<open>
  The blocks of a file: the loop \<open>block, b = pem.Decode(b)\<close>.  \<open>pem.Decode\<close> returns a rest that is
  shorter than its input; a parameter that does not ends the loop.
\<close>

function pem_blocks :: "'s pem_lib \<Rightarrow> bytes \<Rightarrow> (string \<times> bytes) list" where
  "pem_blocks L b =
     (case pem_next L b of
        None \<Rightarrow> []
      | Some (block, rest) \<Rightarrow> if length b \<le> length rest then [] else block # pem_blocks L rest)"
  by pat_completeness auto
termination
  by (relation "measure (\<lambda>(L, b). length b)") auto

declare pem_blocks.simps [simp del]

definition cert_ders :: "'s pem_lib \<Rightarrow> bytes \<Rightarrow> bytes list" where
  "cert_ders L b = map snd (filter (\<lambda>(typ, _). typ = ''CERTIFICATE'') (pem_blocks L b))"

definition ParseCertsPEM :: "'s pem_lib \<Rightarrow> 'k ext \<Rightarrow> bytes \<Rightarrow> cert list option" where
  "ParseCertsPEM L E b =
     (case those (map (x509_parse E) (cert_ders L b)) of
        None \<Rightarrow> None
      | Some certs \<Rightarrow> if certs = [] then None else Some certs)"

definition EncodeCertsPEM :: "'s pem_lib \<Rightarrow> cert list \<Rightarrow> bytes" where
  "EncodeCertsPEM L certs = concat (map (\<lambda>c. pem_encode L ''CERTIFICATE'' (c_raw c)) certs)"

definition LoadCertsFile :: "'s pem_lib \<Rightarrow> 'k ext \<Rightarrow> files \<Rightarrow> string \<Rightarrow> cert list option" where
  "LoadCertsFile L E fs path = (case fs path of None \<Rightarrow> None | Some b \<Rightarrow> ParseCertsPEM L E b)"

text \<open>\<open>AppendCertsFromPEM\<close> skips blocks that do not parse and reports whether it added any.\<close>

definition pool_certs :: "'s pem_lib \<Rightarrow> 'k ext \<Rightarrow> bytes \<Rightarrow> cert list" where
  "pool_certs L E b = List.map_filter (x509_parse E) (cert_ders L b)"

fun LoadCertPool :: "'s pem_lib \<Rightarrow> 'k ext \<Rightarrow> files \<Rightarrow> string list \<Rightarrow> cert list option" where
  "LoadCertPool L E fs [] = Some []"
| "LoadCertPool L E fs (p # ps) =
     (case fs p of
        None \<Rightarrow> None
      | Some b \<Rightarrow>
          if pool_certs L E b = [] then None
          else map_option ((@) (pool_certs L E b)) (LoadCertPool L E fs ps))"


section \<open>Private keys\<close>

definition ParsePrivateKeyPEM :: "'s pem_lib \<Rightarrow> bytes \<Rightarrow> 's option" where
  "ParsePrivateKeyPEM L b =
     (case pem_next L b of
        None \<Rightarrow> None
      | Some ((typ, der), _) \<Rightarrow>
          if typ = ''PRIVATE KEY'' then parse_pkcs8 L der
          else if typ = ''EC PRIVATE KEY'' then parse_ec L der
          else if typ = ''RSA PRIVATE KEY'' then parse_pkcs1 L der
          else None)"

definition LoadPrivateKeyFile :: "'s pem_lib \<Rightarrow> files \<Rightarrow> string \<Rightarrow> 's option" where
  "LoadPrivateKeyFile L fs path = (case fs path of None \<Rightarrow> None | Some b \<Rightarrow> ParsePrivateKeyPEM L b)"

definition EncodePrivateKeyPEM :: "'s pem_lib \<Rightarrow> 's \<Rightarrow> bytes option" where
  "EncodePrivateKeyPEM L key = map_option (pem_encode L ''PRIVATE KEY'') (marshal_pkcs8 L key)"


section \<open>Credentials\<close>

text \<open>A \<open>tls.Certificate\<close> whose \<open>Leaf\<close> is set, as the client library keeps them.\<close>

record 's identity = "'s credential" +
  cred_leaf :: cert

text \<open>
  \<open>tls.LoadX509KeyPair\<close>: the DER of every certificate block, of which only the leaf is parsed,
  and the first private-key block in any of the three encodings, whose key must be the leaf's.
\<close>

definition parse_any_key :: "'s pem_lib \<Rightarrow> bytes \<Rightarrow> 's option" where
  "parse_any_key L der =
     (case parse_pkcs1 L der of Some k \<Rightarrow> Some k
      | None \<Rightarrow> (case parse_pkcs8 L der of Some k \<Rightarrow> Some k | None \<Rightarrow> parse_ec L der))"

definition key_block :: "'s pem_lib \<Rightarrow> bytes \<Rightarrow> bytes option" where
  "key_block L b =
     map_option snd (find (\<lambda>(typ, _). typ = ''PRIVATE KEY'' \<or> has_suffix typ '' PRIVATE KEY'') (pem_blocks L b))"

definition loadCredential :: "'s pem_lib \<Rightarrow> 'k ext \<Rightarrow> files \<Rightarrow> string \<Rightarrow> string \<Rightarrow> 's identity option" where
  "loadCredential L E fs certPath keyPath =
     (case (fs certPath, fs keyPath) of
        (Some cb, Some kb) \<Rightarrow>
          (case (cert_ders L cb, key_block L kb) of
             (der # ders, Some kder) \<Rightarrow>
               (case (x509_parse E der, parse_any_key L kder) of
                  (Some leaf, Some key) \<Rightarrow>
                    if key_pairs L (c_pub leaf) key
                    then Some \<lparr>cred_chain = der # ders, cred_key = Some key, cred_leaf = leaf\<rparr> else None
                | _ \<Rightarrow> None)
           | _ \<Rightarrow> None)
      | _ \<Rightarrow> None)"

text \<open>\<open>filepath.Join\<close> of a directory without a trailing slash and a file name.\<close>

definition path_join :: "string \<Rightarrow> string \<Rightarrow> string" where
  "path_join dir name = dir @ ''/'' @ name"

text \<open>
  The outcomes of the file operations of one \<open>persistCredential\<close>: making the directory, and
  for each of the two files in turn the write of the temporary file and the rename.  A write
  that fails leaves an unknown part of the data in the temporary file.
\<close>

record persist_io =
  po_mkdir :: bool
  po_key_write :: "nat option" \<comment> \<open>\<open>None\<close>: complete\<close>
  po_key_rename :: bool
  po_crt_write :: "nat option"
  po_crt_rename :: bool

definition writeAtomic :: "files \<Rightarrow> nat option \<Rightarrow> bool \<Rightarrow> string \<Rightarrow> bytes \<Rightarrow> bool \<times> files" where
  "writeAtomic fs write rename path data =
     (let tmp = path @ ''.tmp''
      in case write of
           Some n \<Rightarrow> (False, fs(tmp \<mapsto> take n data))
         | None \<Rightarrow>
             if rename then (True, fs(tmp := None, path \<mapsto> data)) else (False, fs(tmp \<mapsto> data)))"

definition persistCredential ::
  "'s pem_lib \<Rightarrow> files \<Rightarrow> persist_io \<Rightarrow> string \<Rightarrow> 's identity \<Rightarrow> bool \<times> files" where
  "persistCredential L fs io dir c =
     (if dir = [] then (True, fs)
      else if \<not> po_mkdir io then (False, fs)
      else
        let chain = concat (map (pem_encode L ''CERTIFICATE'') (cred_chain c))
        in case (case cred_key c of None \<Rightarrow> None | Some k \<Rightarrow> EncodePrivateKeyPEM L k) of
             None \<Rightarrow> (False, fs)
           | Some keyPEM \<Rightarrow>
               (case writeAtomic fs (po_key_write io) (po_key_rename io) (path_join dir ''tls.key'') keyPEM of
                  (False, fs1) \<Rightarrow> (False, fs1)
                | (True, fs1) \<Rightarrow>
                    writeAtomic fs1 (po_crt_write io) (po_crt_rename io) (path_join dir ''tls.crt'') chain))"

definition load_identity :: "'s pem_lib \<Rightarrow> 'k ext \<Rightarrow> files \<Rightarrow> string \<Rightarrow> 's identity option" where
  "load_identity L E fs dir = loadCredential L E fs (path_join dir ''tls.crt'') (path_join dir ''tls.key'')"


section \<open>Files written are read back\<close>

text \<open>What the model relies on of PEM and key encoding.\<close>

definition pem_correct :: "'s pem_lib \<Rightarrow> bool" where
  "pem_correct L \<longleftrightarrow>
     (\<forall>typ der rest. pem_next L (pem_encode L typ der @ rest) = Some ((typ, der), rest) \<and> pem_encode L typ der \<noteq> [])
     \<and> pem_next L [] = None
     \<and> (\<forall>k der. marshal_pkcs8 L k = Some der \<longrightarrow> parse_pkcs1 L der = None \<and> parse_pkcs8 L der = Some k)"

lemma pem_blocks_encoded:
  assumes "pem_correct L"
  shows "pem_blocks L (concat (map (\<lambda>(t, d). pem_encode L t d) bs)) = bs"
proof (induction bs)
  case Nil
  then show ?case using assms by (simp add: pem_blocks.simps [of L "[]"] pem_correct_def)
next
  case (Cons b bs)
  obtain t d where b: "b = (t, d)" by (cases b)
  let ?rest = "concat (map (\<lambda>(t, d). pem_encode L t d) bs)"
  have "pem_next L (pem_encode L t d @ ?rest) = Some ((t, d), ?rest)" "pem_encode L t d \<noteq> []"
    using assms by (simp_all add: pem_correct_def)
  then show ?case using Cons by (simp add: b pem_blocks.simps [of L "pem_encode L t d @ ?rest"])
qed

lemma cert_ders_encoded:
  assumes "pem_correct L"
  shows "cert_ders L (concat (map (pem_encode L ''CERTIFICATE'') ders)) = ders"
proof -
  have "pem_blocks L (concat (map (pem_encode L ''CERTIFICATE'') ders)) = map (Pair ''CERTIFICATE'') ders"
    using pem_blocks_encoded [OF assms, of "map (Pair ''CERTIFICATE'') ders"] by (simp add: o_def)
  then show ?thesis by (simp add: cert_ders_def filter_map o_def)
qed

lemma key_block_encoded:
  assumes "pem_correct L"
  shows "key_block L (pem_encode L ''PRIVATE KEY'' der) = Some der"
  using pem_blocks_encoded [OF assms, of "[(''PRIVATE KEY'', der)]"] by (simp add: key_block_def)

text \<open>A credential whose leaf is what its first certificate parses to and whose key is its own.\<close>

definition sound_identity :: "'s pem_lib \<Rightarrow> 'k ext \<Rightarrow> 's identity \<Rightarrow> bool" where
  "sound_identity L E c \<longleftrightarrow>
     (\<exists>der ders k. cred_chain c = der # ders \<and> x509_parse E der = Some (cred_leaf c)
        \<and> cred_key c = Some k \<and> key_pairs L (c_pub (cred_leaf c)) k)"

definition whole_persist :: "persist_io \<Rightarrow> bool" where
  "whole_persist io \<longleftrightarrow> po_mkdir io \<and> po_key_write io = None \<and> po_key_rename io \<and> po_crt_write io = None \<and> po_crt_rename io"

lemma path_join_inj: "path_join d a = path_join d b \<longleftrightarrow> a = b"
  by (simp add: path_join_def)

lemma persist_load:
  assumes "pem_correct L" "sound_identity L E c" "dir \<noteq> []"
    and "persistCredential L fs io dir c = (True, fs')"
  shows "load_identity L E fs' dir = Some \<lparr>cred_chain = cred_chain c, cred_key = cred_key c, cred_leaf = cred_leaf c\<rparr>"
proof -
  let ?key = "path_join dir ''tls.key''" and ?crt = "path_join dir ''tls.crt''"
  obtain der ders k where c: "cred_chain c = der # ders" "x509_parse E der = Some (cred_leaf c)"
    "cred_key c = Some k" "key_pairs L (c_pub (cred_leaf c)) k" using assms(2) unfolding sound_identity_def by blast
  from assms(3,4) c(3) obtain kder where k: "marshal_pkcs8 L k = Some kder"
    and f: "fs' = fs(?key @ ''.tmp'' := None, ?key \<mapsto> pem_encode L ''PRIVATE KEY'' kder,
      ?crt @ ''.tmp'' := None, ?crt \<mapsto> concat (map (pem_encode L ''CERTIFICATE'') (cred_chain c)))"
    by (auto simp: persistCredential_def writeAtomic_def EncodePrivateKeyPEM_def Let_def
        split: if_splits option.splits prod.splits bool.splits)
  have n: "?key \<noteq> ?crt" "?key \<noteq> ?crt @ ''.tmp''" by (simp_all add: path_join_def)
  have "fs' ?crt = Some (concat (map (pem_encode L ''CERTIFICATE'') (cred_chain c)))"
    "fs' ?key = Some (pem_encode L ''PRIVATE KEY'' kder)" using n by (simp_all add: f)
  moreover have "parse_any_key L kder = Some k"
    using assms(1) k by (simp add: parse_any_key_def pem_correct_def)
  ultimately show ?thesis
    using c cert_ders_encoded [OF assms(1), of "cred_chain c"] key_block_encoded [OF assms(1), of kder]
    by (simp add: load_identity_def loadCredential_def)
qed

text \<open>
  A crash between the two renames of a rotation that changed the key: the new key lies beside the
  old certificate, and the pair no longer loads.
\<close>

lemma crash_between_renames:
  assumes "pem_correct L" "sound_identity L E old" "dir \<noteq> []"
    and "persistCredential L fs io dir old = (True, fs1)"
    and "po_mkdir io'" "po_key_write io' = None" "po_key_rename io'" "po_crt_write io' = Some n \<or> \<not> po_crt_rename io'"
    and "cred_key new = Some k" "marshal_pkcs8 L k \<noteq> None" "\<not> key_pairs L (c_pub (cred_leaf old)) k"
  shows "load_identity L E (snd (persistCredential L fs1 io' dir new)) dir = None"
proof -
  let ?key = "path_join dir ''tls.key''" and ?crt = "path_join dir ''tls.crt''"
  obtain kder where k: "marshal_pkcs8 L k = Some kder" using assms(10) by auto
  let ?fs = "snd (persistCredential L fs1 io' dir new)"
  have n: "?key \<noteq> ?crt" "?key \<noteq> ?crt @ ''.tmp''" "?crt \<noteq> ?key @ ''.tmp''" by (simp_all add: path_join_def)
  have fs: "?fs ?key = Some (pem_encode L ''PRIVATE KEY'' kder) \<and> ?fs ?crt = fs1 ?crt"
    using assms(3,5-9) k n
    by (auto simp: persistCredential_def writeAtomic_def EncodePrivateKeyPEM_def Let_def split: option.splits)
  have "load_identity L E fs1 dir = Some \<lparr>cred_chain = cred_chain old, cred_key = cred_key old, cred_leaf = cred_leaf old\<rparr>"
    by (rule persist_load [OF assms(1-4)])
  then obtain cb where cb: "fs1 ?crt = Some cb" "\<exists>der ders. cert_ders L cb = der # ders \<and> x509_parse E der = Some (cred_leaf old)"
    by (auto simp: load_identity_def loadCredential_def split: option.splits list.splits if_splits)
  have "parse_any_key L kder = Some k" using assms(1) k by (simp add: parse_any_key_def pem_correct_def)
  then show ?thesis
    using fs cb assms(11) key_block_encoded [OF assms(1), of kder]
    by (auto simp: load_identity_def loadCredential_def)
qed

end
