(* ===== verification/Client_Config.thy ===== *)
theory Client_Config
  imports Credentials Netx Env
begin

text \<open>
  \<open>xapp-client/config.go\<close>: the configuration of the client library, its reader and its
  validation, and the margins and URLs computed from it.
\<close>

definition MethodLongTerm :: string where "MethodLongTerm = ''A''"
definition MethodEphemeral :: string where "MethodEphemeral = ''B''"
definition MethodDPoP :: string where "MethodDPoP = ''C''"
definition PQIssuerShim :: string where "PQIssuerShim = ''shim''"
definition PQIssuerKeycloak :: string where "PQIssuerKeycloak = ''keycloak''"
definition RotateOnCertExpiry :: string where "RotateOnCertExpiry = ''cert-expiry''"
definition RotateEveryToken :: string where "RotateEveryToken = ''every-token''"

record 's client_config =
  cc_method :: string
  cc_client_id :: string
  cc_token_url :: string
  cc_scope :: string
  cc_trust_bundle :: "string list"
  cc_ca_url :: string
  cc_bootstrap_cert :: string
  cc_bootstrap_key :: string
  cc_bootstrap :: "'s identity option"
  cc_identity_dir :: string
  cc_key_alg :: string
  cc_cert_lifetime :: duration
  cc_renew_before :: duration
  cc_rotation :: string
  cc_dns_names :: "string list"
  cc_dpop_alg :: string
  cc_pq_enabled :: bool
  cc_pq_issuer :: string
  cc_pq_shim_url :: string
  cc_pq_key_alg :: string
  cc_pq_dpop_alg :: string
  cc_pq_cert_lifetime :: duration
  cc_pq_bootstrap_cert :: string
  cc_pq_bootstrap_key :: string
  cc_pq_bootstrap :: "'s identity option"
  cc_pq_identity_dir :: string
  cc_pq_kex_only :: bool
  cc_pq_proof_validity :: duration
  cc_pq_upgrade_timeout :: duration
  cc_dial_overrides :: "(string \<times> string) list"
  cc_http_timeout :: duration

definition DefaultLifetime :: "string \<Rightarrow> duration" where
  "DefaultLifetime m = (if m = MethodEphemeral then 15 * 60 * second else 7 * 24 * 3600 * second)"

datatype config_error =
    Bad_method
  | Bad_rotation
  | Bad_cert_lifetime
  | Bad_renew_before
  | No_shim_url
  | Bad_pq_issuer
  | Bad_pq_key_alg
  | Bad_pq_dpop_alg

definition Validate :: "'s client_config \<Rightarrow> config_error option" where
  "Validate c =
     (if cc_method c \<notin> {MethodLongTerm, MethodEphemeral, MethodDPoP} then Some Bad_method
      else if cc_rotation c \<notin> {RotateOnCertExpiry, RotateEveryToken} then Some Bad_rotation
      else if cc_cert_lifetime c \<le> 0 then Some Bad_cert_lifetime
      else if cc_cert_lifetime c \<le> cc_renew_before c then Some Bad_renew_before
      else if cc_pq_enabled c then
        (if cc_pq_issuer c = PQIssuerShim \<and> cc_pq_shim_url c = [] then Some No_shim_url
         else if cc_pq_issuer c \<notin> {PQIssuerShim, PQIssuerKeycloak} then Some Bad_pq_issuer
         else if \<not> has_prefix (cc_pq_key_alg c) ''ML-DSA-'' then Some Bad_pq_key_alg
         else if cc_method c = MethodDPoP \<and> \<not> has_prefix (cc_pq_dpop_alg c) ''ML-DSA-'' then Some Bad_pq_dpop_alg
         else None)
      else None)"

text \<open>\<open>ConfigFromEnv\<close> of the client; the bootstrap credential of the environment is always files.\<close>

definition client_ConfigFromEnv ::
  "'k ext \<Rightarrow> (string \<Rightarrow> string option) \<Rightarrow> env_error list + 's client_config" where
  "client_ConfigFromEnv E g = env_result (do {
     method0 \<leftarrow> env_str g ''XAPP_METHOD'' ''A'';
     client_id \<leftarrow> env_req g ''XAPP_CLIENT_ID'';
     token_url \<leftarrow> env_req g ''KEYCLOAK_TOKEN_URL'';
     scope \<leftarrow> env_str g ''TOKEN_SCOPE'' [];
     bundle \<leftarrow> env_list g ''RIC_TRUST_BUNDLE'' [];
     ca_url \<leftarrow> env_req g ''RIC_CA_URL'';
     boot_cert \<leftarrow> env_str g ''BOOTSTRAP_CERT'' [];
     boot_key \<leftarrow> env_str g ''BOOTSTRAP_KEY'' [];
     dir \<leftarrow> env_str g ''IDENTITY_DIR'' [];
     key_alg \<leftarrow> env_str g ''IDENTITY_KEY_ALG'' ''EC-P256'';
     lifetime \<leftarrow> env_dur E g ''CERT_LIFETIME'' (DefaultLifetime (to_upper method0));
     renew \<leftarrow> env_dur E g ''RENEW_BEFORE'' 0;
     rotation \<leftarrow> env_str g ''ROTATION_POLICY'' RotateOnCertExpiry;
     dns \<leftarrow> env_list g ''SERVER_DNS_NAMES'' [];
     dpop_alg \<leftarrow> env_str g ''DPOP_ALG'' ''ES256'';
     pq \<leftarrow> env_bool g ''PQ_MODE'' False;
     pq_issuer \<leftarrow> env_str g ''PQ_ISSUER'' PQIssuerShim;
     pq_shim \<leftarrow> env_str g ''PQ_SHIM_URL'' [];
     pq_key_alg \<leftarrow> env_str g ''PQ_IDENTITY_KEY_ALG'' ''ML-DSA-65'';
     pq_dpop_alg \<leftarrow> env_str g ''PQ_DPOP_ALG'' ''ML-DSA-44'';
     pq_lifetime \<leftarrow> env_dur E g ''PQ_CERT_LIFETIME'' 0;
     pq_cert \<leftarrow> env_str g ''PQ_BOOTSTRAP_CERT'' [];
     pq_key \<leftarrow> env_str g ''PQ_BOOTSTRAP_KEY'' [];
     pq_dir \<leftarrow> env_str g ''PQ_IDENTITY_DIR'' [];
     pq_kex \<leftarrow> env_bool g ''PQ_KEX_ONLY'' False;
     validity \<leftarrow> env_dur E g ''PQ_PROOF_VALIDITY'' (60 * second);
     upgrade \<leftarrow> env_dur E g ''PQ_UPGRADE_TIMEOUT'' (30 * second);
     timeout \<leftarrow> env_dur E g ''HTTP_TIMEOUT'' (15 * second);
     dial \<leftarrow> env_str g ''DIAL_OVERRIDES'' [];
     env_fail_if (ParseDialOverrides dial = None) ''DIAL_OVERRIDES'';
     env_fail_if (bundle = []) ''RIC_TRUST_BUNDLE is required'';
     let c = \<lparr>cc_method = to_upper method0, cc_client_id = client_id, cc_token_url = token_url, cc_scope = scope,
        cc_trust_bundle = bundle, cc_ca_url = ca_url, cc_bootstrap_cert = boot_cert, cc_bootstrap_key = boot_key,
        cc_bootstrap = None, cc_identity_dir = dir, cc_key_alg = key_alg, cc_cert_lifetime = lifetime,
        cc_renew_before = renew, cc_rotation = rotation, cc_dns_names = dns, cc_dpop_alg = dpop_alg,
        cc_pq_enabled = pq, cc_pq_issuer = pq_issuer, cc_pq_shim_url = pq_shim, cc_pq_key_alg = pq_key_alg,
        cc_pq_dpop_alg = pq_dpop_alg, cc_pq_cert_lifetime = pq_lifetime, cc_pq_bootstrap_cert = pq_cert,
        cc_pq_bootstrap_key = pq_key, cc_pq_bootstrap = None, cc_pq_identity_dir = pq_dir, cc_pq_kex_only = pq_kex,
        cc_pq_proof_validity = validity, cc_pq_upgrade_timeout = upgrade,
        cc_dial_overrides = (case ParseDialOverrides dial of None \<Rightarrow> [] | Some m \<Rightarrow> m), cc_http_timeout = timeout\<rparr>;
     env_fail_if (Validate c \<noteq> None) ''invalid configuration'';
     State_Monad.return c
   })"

definition renewBeforeFor :: "'s client_config \<Rightarrow> duration \<Rightarrow> duration" where
  "renewBeforeFor c lifetime = (if 0 < cc_renew_before c then cc_renew_before c else lifetime div 5)"

definition renewBefore :: "'s client_config \<Rightarrow> duration" where
  "renewBefore c = renewBeforeFor c (cc_cert_lifetime c)"

definition pqCertLifetime :: "'s client_config \<Rightarrow> duration" where
  "pqCertLifetime c = (if 0 < cc_pq_cert_lifetime c then cc_pq_cert_lifetime c else cc_cert_lifetime c)"

definition upgradeURL :: "'s client_config \<Rightarrow> string" where
  "upgradeURL c = trim_right CHR ''/'' (cc_pq_shim_url c) @ ''/v1/upgrade''"

text \<open>The margin of the classical certificate is positive and shorter than its lifetime.\<close>

lemma Validate_renew_margin:
  assumes "Validate c = None" and "5 \<le> cc_cert_lifetime c"
  shows "0 < renewBefore c \<and> renewBefore c < cc_cert_lifetime c"
  using assms
  by (auto simp: Validate_def renewBefore_def renewBeforeFor_def split: if_splits)

end
