(* ===== verification/Client_Base.thy ===== *)
theory Client_Base
  imports Client_Config Jose
begin

text \<open>
  \<open>xapp-client/client.go\<close> (the state and the rotation of credentials) and the enroller of
  \<open>identity.go\<close>.  The client's mutex serialises the operations modelled here.  The clock
  readings, the key generator and the answers of the RIC CA are inputs of each call; an answer
  is a function of the request sent.
\<close>

section \<open>State\<close>

record token =
  tk_value :: string
  tk_type :: string
  tk_issued_at :: time
  tk_expires_at :: time
  tk_claims :: jobj
  tk_binding :: string
  tk_thumbprint :: string
  tk_cert_not_after :: time \<comment> \<open>\<open>0\<close> is the zero time\<close>
  tk_alg :: string
  tk_post_quantum :: bool
  tk_classical :: "string option" \<comment> \<open>the value of the token it was upgraded from\<close>

definition expirySkew :: duration where "expirySkew = 5 * second"

definition usable :: "token \<Rightarrow> time \<Rightarrow> bool" where
  "usable t now =
     (let limit = time_add now expirySkew
      in if tk_expires_at t < limit then False
         else tk_cert_not_after t = 0 \<or> \<not> tk_cert_not_after t < limit)"

text \<open>What distinguishes \<open>certBound\<close> from \<open>dpopClient\<close>: the proof keys with their thumbprints.\<close>

datatype 'k client_kind =
    Cert_bound
  | Dpop_bound (dk_signer: "'k signer") (dk_jkt: string) (dk_pq: "('k signer \<times> string) option")

record ('s, 'k) xclient =
  xc_cfg :: "'s client_config"
  xc_roots :: "cert list"
  xc_rotate_keys :: bool
  xc_kind :: "'k client_kind"
  xc_id :: "'s identity option"
  xc_pq_id :: "'s identity option" \<comment> \<open>stays \<open>None\<close> outside PQ mode\<close>
  xc_cached :: "token option"
  xc_tokens_on_cert :: nat
  xc_nonces :: "(string \<times> string) list"
  xc_files :: files

datatype client_error =
    CE_config config_error
  | CE_trust_bundle
  | CE_signer
  | CE_key_generation
  | CE_no_signer
  | CE_csr
  | CE_ca
  | CE_ca_response
  | CE_other_key
  | CE_not_enrolled
  | CE_expired
  | CE_no_bootstrap
  | CE_proof
  | CE_issuer
  | CE_token_malformed
  | CE_binding_missing
  | CE_binding_mismatch
  | CE_upgrade

text \<open>The keys a DPoP client generates; \<open>gen\<close> gives the generated key for an algorithm.\<close>

definition new_dpop_key ::
  "'k ext \<Rightarrow> (string \<Rightarrow> 'k anykey option) \<Rightarrow> string \<Rightarrow> ('k signer \<times> string) option" where
  "new_dpop_key E gen alg =
     (case GenerateSigner E alg (gen alg) of
        None \<Rightarrow> None
      | Some s \<Rightarrow> (case jwk_Thumbprint E (sg_jwk s) of None \<Rightarrow> None | Some t \<Rightarrow> Some (s, t)))"

text \<open>What every method has in common; \<open>http_timeout\<close> is that of its HTTP clients and of the enroller.\<close>

definition http_timeout :: "'s client_config \<Rightarrow> duration" where
  "http_timeout cfg = (if cc_http_timeout cfg = 0 then 15 * second else cc_http_timeout cfg)"

definition newBase :: "'s pem_lib \<Rightarrow> 'k ext \<Rightarrow> files \<Rightarrow> 's client_config \<Rightarrow> client_error + ('s, 'k) xclient" where
  "newBase L E fs cfg =
     (case LoadCertPool L E fs (cc_trust_bundle cfg) of
        None \<Rightarrow> Inl CE_trust_bundle
      | Some roots \<Rightarrow>
          Inr \<lparr>xc_cfg = cfg, xc_roots = roots, xc_rotate_keys = False, xc_kind = Cert_bound, xc_id = None,
               xc_pq_id = None, xc_cached = None, xc_tokens_on_cert = 0, xc_nonces = [], xc_files = fs\<rparr>)"

definition New ::
  "'s pem_lib \<Rightarrow> 'k ext \<Rightarrow> (string \<Rightarrow> 'k anykey option) \<Rightarrow> files \<Rightarrow> 's client_config
     \<Rightarrow> client_error + ('s, 'k) xclient" where
  "New L E gen fs cfg =
     (case Validate cfg of
        Some e \<Rightarrow> Inl (CE_config e)
      | None \<Rightarrow>
     (case newBase L E fs cfg of
        Inl e \<Rightarrow> Inl e
      | Inr b \<Rightarrow>
          if cc_method cfg = MethodLongTerm then Inr b
          else if cc_method cfg = MethodEphemeral then Inr (b\<lparr>xc_rotate_keys := True\<rparr>)
          else (case new_dpop_key E gen (cc_dpop_alg cfg) of
                  None \<Rightarrow> Inl CE_signer
                | Some (s, jkt) \<Rightarrow>
                    if \<not> cc_pq_enabled cfg then Inr (b\<lparr>xc_kind := Dpop_bound s jkt None\<rparr>)
                    else (case new_dpop_key E gen (cc_pq_dpop_alg cfg) of
                            None \<Rightarrow> Inl CE_signer
                          | Some pq \<Rightarrow> Inr (b\<lparr>xc_kind := Dpop_bound s jkt (Some pq)\<rparr>)))))"

definition pqDirect :: "('s, 'k) xclient \<Rightarrow> bool" where
  "pqDirect x \<longleftrightarrow> cc_pq_enabled (xc_cfg x) \<and> cc_pq_issuer (xc_cfg x) = PQIssuerKeycloak"

text \<open>The credential of the authorization-server leg, and the one resource servers see.\<close>

definition asIdentity :: "('s, 'k) xclient \<Rightarrow> 's identity option" where
  "asIdentity x = (if pqDirect x then xc_pq_id x else xc_id x)"

definition activeIdentity :: "('s, 'k) xclient \<Rightarrow> 's identity option" where
  "activeIdentity x = (if cc_pq_enabled (xc_cfg x) then xc_pq_id x else xc_id x)"


section \<open>Planes\<close>

datatype plane = ClassicalPlane | PQPlane

definition planeName :: "plane \<Rightarrow> string" where
  "planeName p = (if p = PQPlane then ''post-quantum'' else ''classical'')"

record 's plane_config =
  pc_id :: "'s identity option"
  pc_key_alg :: string
  pc_lifetime :: duration
  pc_dir :: string
  pc_boot_cert :: string
  pc_boot_key :: string
  pc_bootstrap :: "'s identity option"

definition planeConfig :: "('s, 'k) xclient \<Rightarrow> plane \<Rightarrow> 's plane_config" where
  "planeConfig x p =
     (let c = xc_cfg x
      in if p = PQPlane
         then \<lparr>pc_id = xc_pq_id x, pc_key_alg = cc_pq_key_alg c, pc_lifetime = pqCertLifetime c,
               pc_dir = cc_pq_identity_dir c, pc_boot_cert = cc_pq_bootstrap_cert c,
               pc_boot_key = cc_pq_bootstrap_key c, pc_bootstrap = cc_pq_bootstrap c\<rparr>
         else \<lparr>pc_id = xc_id x, pc_key_alg = cc_key_alg c, pc_lifetime = cc_cert_lifetime c,
               pc_dir = cc_identity_dir c, pc_boot_cert = cc_bootstrap_cert c,
               pc_boot_key = cc_bootstrap_key c, pc_bootstrap = cc_bootstrap c\<rparr>)"

definition planes :: "('s, 'k) xclient \<Rightarrow> plane list" where
  "planes x = (if cc_pq_enabled (xc_cfg x) then [ClassicalPlane, PQPlane] else [ClassicalPlane])"

text \<open>\<open>Identity.set\<close> of the plane's identity.\<close>

definition set_identity :: "('s, 'k) xclient \<Rightarrow> plane \<Rightarrow> 's identity \<Rightarrow> ('s, 'k) xclient" where
  "set_identity x p c = (if p = PQPlane then x\<lparr>xc_pq_id := Some c\<rparr> else x\<lparr>xc_id := Some c\<rparr>)"

definition needsRenewalPlane :: "('s, 'k) xclient \<Rightarrow> plane \<Rightarrow> time \<Rightarrow> bool" where
  "needsRenewalPlane x p now =
     (let pc = planeConfig x p
      in case pc_id pc of
           None \<Rightarrow> True
         | Some c \<Rightarrow> time_sub (c_not_after (cred_leaf c)) now \<le> renewBeforeFor (xc_cfg x) (pc_lifetime pc))"

text \<open>The clock is read once per plane looked at.\<close>

definition needsRenewal :: "('s, 'k) xclient \<Rightarrow> time \<Rightarrow> time \<Rightarrow> bool" where
  "needsRenewal x now1 now2 \<longleftrightarrow>
     needsRenewalPlane x ClassicalPlane now1 \<or> cc_pq_enabled (xc_cfg x) \<and> needsRenewalPlane x PQPlane now2"


section \<open>Enrollment and rotation\<close>

record 's ca_request =
  ca_path :: string
  ca_lifetime :: duration
  ca_auth :: "'s identity" \<comment> \<open>the client certificate of the connection\<close>
  ca_cn :: string
  ca_dns :: "string list"
  ca_key :: 's

record 's ca_io =
  co_key :: "key_kind \<Rightarrow> 's option"
  co_csr :: bool \<comment> \<open>\<open>CreateCertificateRequest\<close> succeeds\<close>
  co_answer :: "'s ca_request \<Rightarrow> http_result"
  co_persist :: persist_io

text \<open>The keys of the known types have an \<open>Equal\<close> method.\<close>

fun key_equal :: "pubkey \<Rightarrow> pubkey \<Rightarrow> bool" where
  "key_equal (Other_key t) q = False"
| "key_equal p q = (p = q)"

lemma key_equalD: "key_equal p q \<Longrightarrow> p = q"
  by (cases p) simp_all

definition Enroll ::
  "('s, 'd) crypto \<Rightarrow> 's pem_lib \<Rightarrow> 'k ext \<Rightarrow> 's client_config \<Rightarrow> 's ca_io \<Rightarrow> 's identity \<Rightarrow> 's \<Rightarrow> duration \<Rightarrow> bool
     \<Rightarrow> client_error + 's identity" where
  "Enroll C L E cfg io auth key lifetime renew =
     (if \<not> co_csr io then Inl CE_csr
      else case co_answer io \<lparr>ca_path = (if renew then ''/v1/renew'' else ''/v1/enroll''), ca_lifetime = lifetime,
                  ca_auth = auth, ca_cn = c_cn (cred_leaf auth), ca_dns = cc_dns_names cfg, ca_key = key\<rparr> of
             Http_error \<Rightarrow> Inl CE_ca
           | Http_unreadable _ \<Rightarrow> Inl CE_ca
           | Http_response st body \<Rightarrow>
               if st \<noteq> 200 then Inl CE_ca
               else (case ParseCertsPEM L E (limit_read 1048576 body) of
                       None \<Rightarrow> Inl CE_ca_response
                     | Some certs \<Rightarrow>
                         if \<not> key_equal (c_pub (hd certs)) (signer_public C key) then Inl CE_other_key
                         else Inr \<lparr>cred_chain = map c_raw certs, cred_key = Some key, cred_leaf = hd certs\<rparr>))"

text \<open>The part of \<open>RotationStats\<close> that is not a duration.\<close>

record rotation_stats =
  rt_serial :: nat
  rt_not_after :: time
  rt_key_alg :: string
  rt_cert_bytes :: nat
  rt_plane :: string

definition enrollLocked ::
  "('s, 'd) crypto \<Rightarrow> 's pem_lib \<Rightarrow> 'k ext \<Rightarrow> 's ca_io \<Rightarrow> ('s, 'k) xclient \<Rightarrow> plane \<Rightarrow> 's identity \<Rightarrow> bool \<Rightarrow> bool
     \<Rightarrow> (client_error + rotation_stats) \<times> ('s, 'k) xclient" where
  "enrollLocked C L E io x p auth renew newKey =
     (let pc = planeConfig x p
      in case (if newKey
               then (case GenerateKey (pc_key_alg pc) of
                       None \<Rightarrow> Inl CE_key_generation
                     | Some kind \<Rightarrow> of_option CE_key_generation (co_key io kind))
               else of_option CE_no_signer (cred_key auth)) of
           Inl e \<Rightarrow> (Inl e, x)
         | Inr key \<Rightarrow>
             (case Enroll C L E (xc_cfg x) io auth key (pc_lifetime pc) renew of
                Inl e \<Rightarrow> (Inl e, x)
              | Inr c \<Rightarrow>
                  (Inr \<lparr>rt_serial = c_serial (cred_leaf c), rt_not_after = c_not_after (cred_leaf c),
                        rt_key_alg = KeyAlgName (c_pub (cred_leaf c)), rt_cert_bytes = length (c_raw (cred_leaf c)),
                        rt_plane = planeName p\<rparr>,
                   (set_identity x p c)
                     \<lparr>xc_files := snd (persistCredential L (xc_files x) (co_persist io) (pc_dir pc) c),
                      xc_cached := None, xc_tokens_on_cert := 0\<rparr>)))"

text \<open>The readings of the clock and the CA of one plane's operation.\<close>

record 's plane_io =
  pi_now_load :: time
  pi_now_need :: time
  pi_now_expired :: time
  pi_ca :: "'s ca_io"

definition rotatePlaneLocked ::
  "('s, 'd) crypto \<Rightarrow> 's pem_lib \<Rightarrow> 'k ext \<Rightarrow> 's plane_io \<Rightarrow> ('s, 'k) xclient \<Rightarrow> plane
     \<Rightarrow> (client_error + rotation_stats) \<times> ('s, 'k) xclient" where
  "rotatePlaneLocked C L E io x p =
     (case pc_id (planeConfig x p) of
        None \<Rightarrow> (Inl CE_not_enrolled, x)
      | Some cur \<Rightarrow>
          if \<not> pi_now_expired io < c_not_after (cred_leaf cur) then (Inl CE_expired, x)
          else enrollLocked C L E (pi_ca io) x p cur True (xc_rotate_keys x))"

definition rotateLocked ::
  "('s, 'd) crypto \<Rightarrow> 's pem_lib \<Rightarrow> 'k ext \<Rightarrow> 's plane_io \<times> 's plane_io \<Rightarrow> ('s, 'k) xclient
     \<Rightarrow> (client_error + rotation_stats) \<times> ('s, 'k) xclient" where
  "rotateLocked C L E io x =
     (case rotatePlaneLocked C L E (fst io) x ClassicalPlane of
        (Inl e, x1) \<Rightarrow> (Inl e, x1)
      | (Inr stats, x1) \<Rightarrow>
          if cc_pq_enabled (xc_cfg x) then rotatePlaneLocked C L E (snd io) x1 PQPlane else (Inr stats, x1))"

definition startIdentity ::
  "('s, 'd) crypto \<Rightarrow> 's pem_lib \<Rightarrow> 'k ext \<Rightarrow> 's plane_io \<Rightarrow> ('s, 'k) xclient \<Rightarrow> plane
     \<Rightarrow> (client_error + unit) \<times> ('s, 'k) xclient" where
  "startIdentity C L E io x p =
     (let pc = planeConfig x p;
          loaded = (if pc_dir pc = [] then None
                    else (case load_identity L E (xc_files x) (pc_dir pc) of
                            None \<Rightarrow> None
                          | Some c \<Rightarrow> if pi_now_load io < c_not_after (cred_leaf c) then Some c else None))
      in if pc_id pc \<noteq> None then (Inr (), x)
         else case loaded of
                Some c \<Rightarrow>
                  let x1 = set_identity x p c
                  in if needsRenewalPlane x1 p (pi_now_need io)
                     then (case rotatePlaneLocked C L E io x1 p of
                             (Inl e, x2) \<Rightarrow> (Inl e, x2) | (Inr _, x2) \<Rightarrow> (Inr (), x2))
                     else (Inr (), x1)
              | None \<Rightarrow>
                  (case (case pc_bootstrap pc of
                           Some b \<Rightarrow> Some b
                         | None \<Rightarrow>
                             if pc_boot_cert pc = [] \<or> pc_boot_key pc = [] then None
                             else loadCredential L E (xc_files x) (pc_boot_cert pc) (pc_boot_key pc)) of
                     None \<Rightarrow> (Inl CE_no_bootstrap, x)
                   | Some boot \<Rightarrow>
                       (case enrollLocked C L E (pi_ca io) x p boot False True of
                          (Inl e, x1) \<Rightarrow> (Inl e, x1) | (Inr _, x1) \<Rightarrow> (Inr (), x1))))"

definition Start ::
  "('s, 'd) crypto \<Rightarrow> 's pem_lib \<Rightarrow> 'k ext \<Rightarrow> 's plane_io \<times> 's plane_io \<Rightarrow> ('s, 'k) xclient
     \<Rightarrow> (client_error + unit) \<times> ('s, 'k) xclient" where
  "Start C L E io x =
     (case startIdentity C L E (fst io) x ClassicalPlane of
        (Inl e, x1) \<Rightarrow> (Inl e, x1)
      | (Inr _, x1) \<Rightarrow>
          if cc_pq_enabled (xc_cfg x) then startIdentity C L E (snd io) x1 PQPlane else (Inr (), x1))"

text \<open>The work of \<open>Maintain\<close> at one tick, and the interval between ticks.\<close>

definition maintain_interval :: "'s client_config \<Rightarrow> duration" where
  "maintain_interval c = max second (min (renewBefore c div 4) (60 * second))"

definition maintain_plane ::
  "('s, 'd) crypto \<Rightarrow> 's pem_lib \<Rightarrow> 'k ext \<Rightarrow> (plane \<Rightarrow> 's plane_io) \<Rightarrow> plane \<Rightarrow> ('s, 'k) xclient \<Rightarrow> ('s, 'k) xclient" where
  "maintain_plane C L E io p x =
     (if needsRenewalPlane x p (pi_now_need (io p)) then snd (rotatePlaneLocked C L E (io p) x p) else x)"

definition maintain_tick ::
  "('s, 'd) crypto \<Rightarrow> 's pem_lib \<Rightarrow> 'k ext \<Rightarrow> (plane \<Rightarrow> 's plane_io) \<Rightarrow> ('s, 'k) xclient \<Rightarrow> ('s, 'k) xclient" where
  "maintain_tick C L E io x = fold (maintain_plane C L E io) (planes x) x"

text \<open>\<open>Maintain\<close> until its context ends: the ticks before that.\<close>

definition Maintain ::
  "('s, 'd) crypto \<Rightarrow> 's pem_lib \<Rightarrow> 'k ext \<Rightarrow> (plane \<Rightarrow> 's plane_io) list \<Rightarrow> ('s, 'k) xclient \<Rightarrow> ('s, 'k) xclient" where
  "Maintain C L E ticks x = fold (maintain_tick C L E) ticks x"

end
