(* ===== verification/Client_Token.thy ===== *)
theory Client_Token
  imports Client_Base
begin

text \<open>
  Issuance in the client library: \<open>issuer.go\<close>, the proofs and the token acquisition of \<open>dpop.go\<close>,
  \<open>certbound.go\<close> and \<open>pq.go\<close>, and \<open>newToken\<close> and \<open>cnfMember\<close> of \<open>client.go\<close>.  A server is a function
  from the request it is sent (and the number of the attempt) to its answer.
\<close>

section \<open>JSON into structs\<close>

text \<open>
  \<open>encoding/json\<close> into a struct: member names match without regard to case, an absent or null
  member leaves the zero value, a value of another type is an error.
\<close>

definition json_member :: "jobj \<Rightarrow> string \<Rightarrow> gval" where
  "json_member m name = (case find (\<lambda>(n, _). equal_fold n name) m of Some (_, v) \<Rightarrow> v | None \<Rightarrow> VNull)"

definition json_str :: "jobj \<Rightarrow> string \<Rightarrow> string option" where
  "json_str m name = (case json_member m name of VNull \<Rightarrow> Some [] | VStr s \<Rightarrow> Some s | _ \<Rightarrow> None)"

definition json_int :: "jobj \<Rightarrow> string \<Rightarrow> int option" where
  "json_int m name = (case json_member m name of VNull \<Rightarrow> Some 0 | VNum s \<Rightarrow> parse_int64 s | _ \<Rightarrow> None)"

definition json_bool :: "jobj \<Rightarrow> string \<Rightarrow> bool option" where
  "json_bool m name = (case json_member m name of VNull \<Rightarrow> Some False | VBool b \<Rightarrow> Some b | _ \<Rightarrow> None)"

text \<open>The members of the value; \<open>null\<close> leaves the struct empty.\<close>

definition json_struct :: "'k ext \<Rightarrow> bytes \<Rightarrow> jobj option" where
  "json_struct E b = (case json_whole E b of Some (VObj m) \<Rightarrow> Some m | Some VNull \<Rightarrow> Some [] | _ \<Rightarrow> None)"


section \<open>The token endpoint\<close>

record 's token_request =
  tq_url :: string
  tq_client_id :: string
  tq_scope :: string
  tq_proof :: string
  tq_identity :: "'s identity option" \<comment> \<open>what the HTTP client presents\<close>

record token_response =
  tr_access_token :: string
  tr_token_type :: string
  tr_expires_in :: int
  tr_scope :: string
  tr_received_at :: time

datatype issuer_error = Issuer_status nat string string | Issuer_failed

fun str_contains :: "string \<Rightarrow> string \<Rightarrow> bool" where
  "str_contains [] sub \<longleftrightarrow> sub = []"
| "str_contains (c # s) sub \<longleftrightarrow> has_prefix (c # s) sub \<or> str_contains s sub"

fun NeedsNonce :: "issuer_error \<Rightarrow> bool" where
  "NeedsNonce (Issuer_status st body nonce) \<longleftrightarrow> nonce \<noteq> [] \<and> str_contains body ''use_dpop_nonce''"
| "NeedsNonce Issuer_failed \<longleftrightarrow> False"

text \<open>The request \<open>KeycloakIssuer\<close> sends, and what it makes of the answer and its \<open>DPoP-Nonce\<close> header.\<close>

record 's http_call =
  hq_method :: string
  hq_url :: string
  hq_headers :: "(string \<times> string) list"
  hq_form :: "(string \<times> string) list"
  hq_identity :: "'s identity option"

definition keycloak_call :: "'s token_request \<Rightarrow> 's http_call" where
  "keycloak_call r =
     \<lparr>hq_method = ''POST'', hq_url = tq_url r,
      hq_headers = [(''Content-Type'', ''application/x-www-form-urlencoded''), (''Accept'', ''application/json'')]
        @ (if tq_proof r \<noteq> [] then [(''DPoP'', tq_proof r)] else []),
      hq_form = [(''grant_type'', ''client_credentials''), (''client_id'', tq_client_id r)]
        @ (if tq_scope r \<noteq> [] then [(''scope'', tq_scope r)] else []),
      hq_identity = tq_identity r\<rparr>"

definition KeycloakIssue ::
  "'k ext \<Rightarrow> ('s http_call \<Rightarrow> http_result \<times> string) \<Rightarrow> time \<Rightarrow> 's token_request \<Rightarrow> issuer_error + token_response" where
  "KeycloakIssue E server now r =
     (if url_parse E (tq_url r) = None then Inl Issuer_failed
      else case server (keycloak_call r) of
             (Http_error, _) \<Rightarrow> Inl Issuer_failed
           | (Http_unreadable _, _) \<Rightarrow> Inl Issuer_failed
           | (Http_response st body, dpopNonce) \<Rightarrow>
               let b = limit_read 1048576 body
               in if st \<noteq> 200 then Inl (Issuer_status st (trim_space (string_of b)) dpopNonce)
                  else (case json_struct E b of
                          None \<Rightarrow> Inl Issuer_failed
                        | Some m \<Rightarrow>
                            (case (json_str m ''access_token'', json_str m ''token_type'', json_int m ''expires_in'', json_str m ''scope'') of
                               (Some tok, Some typ, Some ex, Some sc) \<Rightarrow>
                                 if tok = [] then Inl Issuer_failed
                                 else Inr \<lparr>tr_access_token = tok, tr_token_type = typ, tr_expires_in = ex,
                                           tr_scope = sc, tr_received_at = now\<rparr>
                             | _ \<Rightarrow> Inl Issuer_failed)))"

definition newToken :: "'k ext \<Rightarrow> token_response \<Rightarrow> client_error + token" where
  "newToken E resp =
     (case ParseCompact E (tr_access_token resp) of
        Inl _ \<Rightarrow> Inl CE_token_malformed
      | Inr j \<Rightarrow>
          (case jws_claims E j of
             None \<Rightarrow> Inl CE_token_malformed
           | Some claims \<Rightarrow>
               let exp0 = time_add (tr_received_at resp) (wrap64 (tr_expires_in resp * second));
                   exp = (case map_of claims ''exp'' of
                            Some (VNum n) \<Rightarrow> (case parse_int64 n of Some v \<Rightarrow> unix_time v | None \<Rightarrow> exp0)
                          | _ \<Rightarrow> exp0)
               in Inr \<lparr>tk_value = tr_access_token resp, tk_type = tr_token_type resp,
                       tk_issued_at = tr_received_at resp, tk_expires_at = exp, tk_claims = claims,
                       tk_binding = [], tk_thumbprint = [], tk_cert_not_after = 0, tk_alg = jws_alg j,
                       tk_post_quantum = False, tk_classical = None\<rparr>))"

definition cnfMember :: "jobj \<Rightarrow> string \<Rightarrow> client_error + string" where
  "cnfMember claims name =
     (case map_of claims ''cnf'' of
        Some (VObj cnf) \<Rightarrow>
          (case map_of cnf name of
             Some (VStr v) \<Rightarrow> if v = [] then Inl CE_binding_missing else Inr v
           | _ \<Rightarrow> Inl CE_binding_missing)
      | _ \<Rightarrow> Inl CE_binding_missing)"

text \<open>\<open>requirePQToken\<close>: an authorization server that should sign with ML-DSA must have.\<close>

definition requirePQToken :: "token \<Rightarrow> client_error + token" where
  "requirePQToken tok =
     (if has_prefix (tk_alg tok) ''ML-DSA-'' then Inr (tok\<lparr>tk_post_quantum := True\<rparr>) else Inl CE_binding_mismatch)"


section \<open>Proofs\<close>

definition dpop_claims :: "'k ext \<Rightarrow> string \<Rightarrow> string \<Rightarrow> string \<Rightarrow> string \<Rightarrow> time \<Rightarrow> bytes \<Rightarrow> jobj" where
  "dpop_claims E method htu accessToken nonce now jti =
     [(''jti'', VStr (B64 jti)), (''htm'', VStr method), (''htu'', VStr htu), (''iat'', VInt (time_unix now))]
     @ (if accessToken \<noteq> [] then [(''ath'', VStr (B64 (sha256 E (bytes_of accessToken))))] else [])
     @ (if nonce \<noteq> [] then [(''nonce'', VStr nonce)] else [])"

definition BuildDPoPProof ::
  "'k ext \<Rightarrow> 'k signer \<Rightarrow> string \<Rightarrow> string \<Rightarrow> string \<Rightarrow> string \<Rightarrow> time \<Rightarrow> bytes option \<Rightarrow> string option" where
  "BuildDPoPProof E s method rawURL accessToken nonce now random =
     (case NormalizeHTU E rawURL of
        None \<Rightarrow> None
      | Some htu \<Rightarrow>
          (case random of
             None \<Rightarrow> None
           | Some jti \<Rightarrow>
               SignCompact E s [(''typ'', VStr ''dpop+jwt''), (''jwk'', VObj (sg_jwk s))]
                 (dpop_claims E method htu accessToken nonce now jti)))"

definition origin :: "'k ext \<Rightarrow> string \<Rightarrow> string" where
  "origin E rawURL =
     (case url_parse E rawURL of None \<Rightarrow> rawURL | Some u \<Rightarrow> to_lower (u_scheme u @ ''://'' @ u_host u))"

definition server_nonce :: "'k ext \<Rightarrow> ('s, 'k) xclient \<Rightarrow> string \<Rightarrow> string" where
  "server_nonce E x rawURL = (case map_of (xc_nonces x) (origin E rawURL) of Some n \<Rightarrow> n | None \<Rightarrow> [])"

definition setNonce :: "'k ext \<Rightarrow> ('s, 'k) xclient \<Rightarrow> string \<Rightarrow> string \<Rightarrow> ('s, 'k) xclient" where
  "setNonce E x rawURL n = x\<lparr>xc_nonces := alist_store (origin E rawURL) n (xc_nonces x)\<rparr>"

text \<open>The claims of the post-quantum proof; an error of \<open>rand.Read\<close> leaves the zero bytes.\<close>

definition pqProofClaims :: "'k ext \<Rightarrow> string \<Rightarrow> string \<Rightarrow> time \<Rightarrow> bytes option \<Rightarrow> jobj" where
  "pqProofClaims E htu classicalToken now random =
     [(''jti'', VStr (B64 (case random of Some b \<Rightarrow> b | None \<Rightarrow> replicate 18 0))),
      (''htm'', VStr ''POST''),
      (''htu'', VStr (case NormalizeHTU E htu of Some n \<Rightarrow> n | None \<Rightarrow> htu)),
      (''iat'', VInt (time_unix now)),
      (''ath'', VStr (B64 (sha256 E (bytes_of classicalToken))))]"

text \<open>\<open>imp\<close> is \<open>jwk.Import\<close> of a private key.\<close>

definition pqCertProof ::
  "'k ext \<Rightarrow> ('s \<Rightarrow> 'k option) \<Rightarrow> 's identity option \<Rightarrow> string \<Rightarrow> string \<Rightarrow> time \<Rightarrow> bytes option \<Rightarrow> string option" where
  "pqCertProof E imp pqID htu classicalToken now random =
     (case pqID of
        None \<Rightarrow> None
      | Some current \<Rightarrow>
          (case (case cred_key current of None \<Rightarrow> None | Some key \<Rightarrow> imp key) of
             None \<Rightarrow> None
           | Some key \<Rightarrow>
               (case SignerFromKey E (KeyAlgName (c_pub (cred_leaf current))) (Jwk_key key) of
                  None \<Rightarrow> None
                | Some signer \<Rightarrow>
                    SignCompact E signer
                      [(''typ'', VStr ''pq-binding+jwt''),
                       (''x5c'', VArr (map (\<lambda>der. VStr (b64_std_encode der)) (cred_chain current)))]
                      (pqProofClaims E htu classicalToken now random))))"

definition pqJWKProof ::
  "'k ext \<Rightarrow> ('k signer \<times> string) option \<Rightarrow> string \<Rightarrow> string \<Rightarrow> time \<Rightarrow> bytes option \<Rightarrow> string option" where
  "pqJWKProof E pqSigner htu classicalToken now random =
     (case pqSigner of
        None \<Rightarrow> None
      | Some (s, _) \<Rightarrow>
          SignCompact E s [(''typ'', VStr ''pq-binding+jwt''), (''jwk'', VObj (sg_jwk s))]
            (pqProofClaims E htu classicalToken now random))"

end
