(* ===== verification/Client_Methods.thy ===== *)
theory Client_Methods
  imports Client_Token
begin

text \<open>
  The two client types over the base: \<open>certBound\<close> (methods A and B, \<open>certbound.go\<close>) and
  \<open>dpopClient\<close> (method C, \<open>dpop.go\<close>), with the upgrade of \<open>pq.go\<close>.
\<close>

text \<open>What the outside gives one issuance: the answers of the servers, the clock and random bytes.\<close>

record 's issue_io =
  ii_issue :: "nat \<Rightarrow> 's token_request \<Rightarrow> issuer_error + token_response"
  ii_upgrade :: "'s http_call \<Rightarrow> http_result"
  ii_proof :: "nat \<Rightarrow> time \<times> bytes option"
  ii_upgrade_proof :: "time \<times> bytes option"
  ii_pq_proof :: "time \<times> bytes option"
  ii_received :: time

section \<open>The upgrade\<close>

text \<open>
  \<open>headers\<close> is what the decorator sets, \<open>proof\<close> the post-quantum proof; either may have failed.
  The call goes over the classical HTTP client.
\<close>

definition upgradeToPQ ::
  "'k ext \<Rightarrow> ('s, 'k) xclient \<Rightarrow> 's issue_io \<Rightarrow> token \<Rightarrow> (string \<times> string) list option \<Rightarrow> string option
     \<Rightarrow> client_error + token" where
  "upgradeToPQ E x io classical headers proof =
     (let u = upgradeURL (xc_cfg x)
      in if url_parse E u = None then Inl CE_upgrade
         else case headers of
                None \<Rightarrow> Inl CE_proof
              | Some hs \<Rightarrow>
             (case proof of
                None \<Rightarrow> Inl CE_proof
              | Some pqProof \<Rightarrow>
             (case ii_upgrade io \<lparr>hq_method = ''POST'', hq_url = u, hq_headers = hs @ [(''X-PQ-Proof'', pqProof)],
                     hq_form = [], hq_identity = xc_id x\<rparr> of
                Http_error \<Rightarrow> Inl CE_upgrade
              | Http_unreadable _ \<Rightarrow> Inl CE_upgrade
              | Http_response st body \<Rightarrow>
                  if st \<noteq> 200 then Inl CE_upgrade
                  else (case json_struct E (limit_read 1048576 body) of
                          None \<Rightarrow> Inl CE_upgrade
                        | Some m \<Rightarrow>
                            (case (json_str m ''access_token'', json_str m ''token_type'', json_int m ''expires_in'', json_str m ''alg'') of
                               (Some tok, Some typ, Some ex, Some _) \<Rightarrow>
                                 if (case json_member m ''cnf'' of VObj _ \<Rightarrow> False | VNull \<Rightarrow> False | _ \<Rightarrow> True)
                                 then Inl CE_upgrade
                                 else (case newToken E \<lparr>tr_access_token = tok, tr_token_type = typ, tr_expires_in = ex,
                                                         tr_scope = [], tr_received_at = ii_received io\<rparr> of
                                         Inl e \<Rightarrow> Inl e
                                       | Inr t \<Rightarrow>
                                           if \<not> has_prefix (tk_alg t) ''ML-DSA-'' then Inl CE_binding_mismatch
                                           else Inr (t\<lparr>tk_post_quantum := True,
                                                       tk_classical := Some (tk_value classical)\<rparr>))
                             | _ \<Rightarrow> Inl CE_upgrade)))))"

definition verifyPQBinding :: "token \<Rightarrow> string \<Rightarrow> string \<Rightarrow> client_error + token" where
  "verifyPQBinding tok member want =
     (case cnfMember (tk_claims tok) member of
        Inl e \<Rightarrow> Inl e
      | Inr got \<Rightarrow>
          if got \<noteq> want then Inl CE_binding_mismatch
          else Inr (tok\<lparr>tk_binding := member, tk_thumbprint := got\<rparr>))"


section \<open>Certificate-bound tokens\<close>

definition upgradeCertBound ::
  "'k ext \<Rightarrow> ('s \<Rightarrow> 'k option) \<Rightarrow> ('s, 'k) xclient \<Rightarrow> 's issue_io \<Rightarrow> token \<Rightarrow> client_error + token" where
  "upgradeCertBound E imp x io classical =
     (case xc_pq_id x of
        None \<Rightarrow> Inl CE_not_enrolled
      | Some pq \<Rightarrow>
          (case upgradeToPQ E x io classical (Some [(''Authorization'', ''Bearer '' @ tk_value classical)])
                  (pqCertProof E imp (xc_pq_id x) (upgradeURL (xc_cfg x)) (tk_value classical)
                     (fst (ii_pq_proof io)) (snd (ii_pq_proof io))) of
             Inl e \<Rightarrow> Inl e
           | Inr tok \<Rightarrow>
               (case verifyPQBinding tok ''x5t#S256'' (ThumbprintS256 E (cred_leaf pq)) of
                  Inl e \<Rightarrow> Inl e
                | Inr tok' \<Rightarrow> Inr (tok'\<lparr>tk_cert_not_after := c_not_after (cred_leaf pq)\<rparr>))))"

text \<open>The checks of a token on receipt: the binding to \<open>leaf\<close>.\<close>

definition check_x5t :: "'k ext \<Rightarrow> cert \<Rightarrow> token \<Rightarrow> client_error + token" where
  "check_x5t E leaf tok =
     (case cnfMember (tk_claims tok) ''x5t#S256'' of
        Inl e \<Rightarrow> Inl e
      | Inr x5t \<Rightarrow>
          if x5t \<noteq> ThumbprintS256 E leaf then Inl CE_binding_mismatch
          else Inr (tok\<lparr>tk_binding := ''x5t#S256'', tk_thumbprint := x5t, tk_cert_not_after := c_not_after leaf\<rparr>))"

definition token_request_for :: "('s, 'k) xclient \<Rightarrow> string \<Rightarrow> 's token_request" where
  "token_request_for x proof =
     \<lparr>tq_url = cc_token_url (xc_cfg x), tq_client_id = cc_client_id (xc_cfg x), tq_scope = cc_scope (xc_cfg x),
      tq_proof = proof, tq_identity = asIdentity x\<rparr>"

definition cert_issue ::
  "'k ext \<Rightarrow> ('s \<Rightarrow> 'k option) \<Rightarrow> 's issue_io \<Rightarrow> ('s, 'k) xclient \<Rightarrow> client_error + token" where
  "cert_issue E imp io x =
     (case asIdentity x of
        None \<Rightarrow> Inl CE_not_enrolled
      | Some c \<Rightarrow>
     (case ii_issue io 0 (token_request_for x []) of
        Inl _ \<Rightarrow> Inl CE_issuer
      | Inr resp \<Rightarrow>
     (case newToken E resp of
        Inl e \<Rightarrow> Inl e
      | Inr tok0 \<Rightarrow>
     (case check_x5t E (cred_leaf c) tok0 of
        Inl e \<Rightarrow> Inl e
      | Inr tok \<Rightarrow>
          if pqDirect x then requirePQToken tok
          else if cc_pq_enabled (xc_cfg x) then upgradeCertBound E imp x io tok
          else Inr tok))))"


section \<open>DPoP-bound tokens\<close>

definition asSigner :: "('s, 'k) xclient \<Rightarrow> 'k signer \<Rightarrow> string \<Rightarrow> ('k signer \<times> string) option \<Rightarrow> 'k signer \<times> string" where
  "asSigner x s jkt pq = (if pqDirect x then (case pq of Some p \<Rightarrow> p | None \<Rightarrow> (s, jkt)) else (s, jkt))"

text \<open>
  The loop over attempts: a demand for a nonce in the first answer is met once.  The requests
  sent are part of the result.
\<close>

function dpop_attempts ::
  "'k ext \<Rightarrow> 'k signer \<Rightarrow> 's issue_io \<Rightarrow> nat \<Rightarrow> ('s, 'k) xclient
     \<Rightarrow> 's token_request list \<times> (client_error + token_response) \<times> ('s, 'k) xclient" where
  "dpop_attempts E s io attempt x =
     (let url = cc_token_url (xc_cfg x)
      in case BuildDPoPProof E s ''POST'' url [] (server_nonce E x url) (fst (ii_proof io attempt)) (snd (ii_proof io attempt)) of
           None \<Rightarrow> ([], Inl CE_proof, x)
         | Some proof \<Rightarrow>
             let r = token_request_for x proof
             in case ii_issue io attempt r of
                  Inr resp \<Rightarrow> ([r], Inr resp, x)
                | Inl err \<Rightarrow>
                    if attempt = 0 \<and> NeedsNonce err
                    then (case dpop_attempts E s io (attempt + 1)
                                 (setNonce E x url (case err of Issuer_status _ _ n \<Rightarrow> n | _ \<Rightarrow> [])) of
                            (rs, res, x') \<Rightarrow> (r # rs, res, x'))
                    else ([r], Inl CE_issuer, x))"
  by pat_completeness auto
termination
  by (relation "measure (\<lambda>(E, s, io, attempt, x). 1 - attempt)") auto

declare dpop_attempts.simps [simp del]

definition check_jkt :: "string \<Rightarrow> string \<Rightarrow> token \<Rightarrow> client_error + token" where
  "check_jkt wantJKT token_type tok =
     (case cnfMember (tk_claims tok) ''jkt'' of
        Inl e \<Rightarrow> Inl e
      | Inr jkt \<Rightarrow>
          if jkt \<noteq> wantJKT then Inl CE_binding_mismatch
          else if \<not> equal_fold token_type ''DPoP'' then Inl CE_binding_mismatch
          else Inr (tok\<lparr>tk_binding := ''jkt'', tk_thumbprint := jkt\<rparr>))"

text \<open>\<open>c.Proof\<close> over the upgrade URL with the classical key, as the decorator of \<open>upgradeDPoP\<close>.\<close>

definition upgradeDPoP ::
  "'k ext \<Rightarrow> ('s, 'k) xclient \<Rightarrow> 'k signer \<Rightarrow> ('k signer \<times> string) option \<Rightarrow> 's issue_io \<Rightarrow> token \<Rightarrow> client_error + token" where
  "upgradeDPoP E x s pq io classical =
     (let u = upgradeURL (xc_cfg x);
          hs = (case BuildDPoPProof E s ''POST'' u (tk_value classical) (server_nonce E x u)
                       (fst (ii_upgrade_proof io)) (snd (ii_upgrade_proof io)) of
                  None \<Rightarrow> None
                | Some proof \<Rightarrow> Some [(''Authorization'', ''DPoP '' @ tk_value classical), (''DPoP'', proof)])
      in case upgradeToPQ E x io classical hs
                (pqJWKProof E pq u (tk_value classical) (fst (ii_pq_proof io)) (snd (ii_pq_proof io))) of
           Inl e \<Rightarrow> Inl e
         | Inr tok \<Rightarrow> verifyPQBinding tok ''jkt'' (case pq of Some (_, j) \<Rightarrow> j | None \<Rightarrow> []))"

definition dpop_issue ::
  "'k ext \<Rightarrow> 'k signer \<Rightarrow> string \<Rightarrow> ('k signer \<times> string) option \<Rightarrow> 's issue_io \<Rightarrow> ('s, 'k) xclient
     \<Rightarrow> (client_error + token) \<times> ('s, 'k) xclient" where
  "dpop_issue E s jkt pq io x =
     (let (signer, wantJKT) = asSigner x s jkt pq
      in case dpop_attempts E signer io 0 x of
           (_, Inl e, x1) \<Rightarrow> (Inl e, x1)
         | (_, Inr resp, x1) \<Rightarrow>
             (and_then (newToken E resp) (\<lambda>tok0.
                and_then (check_jkt wantJKT (tr_token_type resp) tok0) (\<lambda>tok.
                  if pqDirect x1 then requirePQToken tok
                  else if cc_pq_enabled (xc_cfg x1) then upgradeDPoP E x1 s pq io tok
                  else Inr tok)), x1))"


section \<open>Token acquisition\<close>

text \<open>\<open>issueLocked\<close>: a token obtained is cached; method A and B count it against the certificate.\<close>

definition issueLocked ::
  "'k ext \<Rightarrow> ('s \<Rightarrow> 'k option) \<Rightarrow> 's issue_io \<Rightarrow> ('s, 'k) xclient \<Rightarrow> (client_error + token) \<times> ('s, 'k) xclient" where
  "issueLocked E imp io x =
     (case xc_kind x of
        Cert_bound \<Rightarrow>
          (case cert_issue E imp io x of
             Inl e \<Rightarrow> (Inl e, x)
           | Inr tok \<Rightarrow> (Inr tok, x\<lparr>xc_cached := Some tok, xc_tokens_on_cert := xc_tokens_on_cert x + 1\<rparr>))
      | Dpop_bound s jkt pq \<Rightarrow>
          (case dpop_issue E s jkt pq io x of
             (Inl e, x1) \<Rightarrow> (Inl e, x1)
           | (Inr tok, x1) \<Rightarrow> (Inr tok, x1\<lparr>xc_cached := Some tok\<rparr>)))"

record 's call_io =
  cl_need :: "time \<times> time"
  cl_rotate :: "'s plane_io \<times> 's plane_io"
  cl_now :: time
  cl_rotate_again :: "'s plane_io \<times> 's plane_io"
  cl_issue :: "'s issue_io"

text \<open>Renewal first, when it is due.\<close>

definition renew_if_due ::
  "('s, 'd) crypto \<Rightarrow> 's pem_lib \<Rightarrow> 'k ext \<Rightarrow> 's call_io \<Rightarrow> ('s, 'k) xclient \<Rightarrow> (client_error + unit) \<times> ('s, 'k) xclient" where
  "renew_if_due C L E io x =
     (if needsRenewal x (fst (cl_need io)) (snd (cl_need io))
      then (case rotateLocked C L E (cl_rotate io) x of (Inl e, x1) \<Rightarrow> (Inl e, x1) | (Inr _, x1) \<Rightarrow> (Inr (), x1))
      else (Inr (), x))"

definition Token ::
  "('s, 'd) crypto \<Rightarrow> 's pem_lib \<Rightarrow> 'k ext \<Rightarrow> ('s \<Rightarrow> 'k option) \<Rightarrow> 's call_io \<Rightarrow> ('s, 'k) xclient
     \<Rightarrow> (client_error + token) \<times> ('s, 'k) xclient" where
  "Token C L E imp io x =
     (case renew_if_due C L E io x of
        (Inl e, x1) \<Rightarrow> (Inl e, x1)
      | (Inr _, x1) \<Rightarrow>
          (case (case xc_cached x1 of Some t \<Rightarrow> if usable t (cl_now io) then Some t else None | None \<Rightarrow> None) of
             Some t \<Rightarrow> (Inr t, x1)
           | None \<Rightarrow>
               if xc_kind x1 = Cert_bound \<and> xc_rotate_keys x1 \<and> cc_rotation (xc_cfg x1) = RotateEveryToken
                    \<and> 0 < xc_tokens_on_cert x1
               then (case rotateLocked C L E (cl_rotate_again io) x1 of
                       (Inl e, x2) \<Rightarrow> (Inl e, x2)
                     | (Inr _, x2) \<Rightarrow> issueLocked E imp (cl_issue io) x2)
               else issueLocked E imp (cl_issue io) x1))"

text \<open>The DPoP client has a method of its own, without the rotation for every token.\<close>

definition dpop_Token ::
  "('s, 'd) crypto \<Rightarrow> 's pem_lib \<Rightarrow> 'k ext \<Rightarrow> ('s \<Rightarrow> 'k option) \<Rightarrow> 's call_io \<Rightarrow> ('s, 'k) xclient
     \<Rightarrow> (client_error + token) \<times> ('s, 'k) xclient" where
  "dpop_Token C L E imp io x =
     (case renew_if_due C L E io x of
        (Inl e, x1) \<Rightarrow> (Inl e, x1)
      | (Inr _, x1) \<Rightarrow>
          (case (case xc_cached x1 of Some t \<Rightarrow> if usable t (cl_now io) then Some t else None | None \<Rightarrow> None) of
             Some t \<Rightarrow> (Inr t, x1)
           | None \<Rightarrow> issueLocked E imp (cl_issue io) x1))"

definition IssueToken ::
  "('s, 'd) crypto \<Rightarrow> 's pem_lib \<Rightarrow> 'k ext \<Rightarrow> ('s \<Rightarrow> 'k option) \<Rightarrow> 's call_io \<Rightarrow> ('s, 'k) xclient
     \<Rightarrow> (client_error + token) \<times> ('s, 'k) xclient" where
  "IssueToken C L E imp io x =
     (case renew_if_due C L E io x of
        (Inl e, x1) \<Rightarrow> (Inl e, x1)
      | (Inr _, x1) \<Rightarrow> issueLocked E imp (cl_issue io) x1)"


section \<open>Resource requests\<close>

record out_request =
  oq_method :: string
  oq_url :: string
  oq_headers :: "(string \<times> string) list"

text \<open>\<open>req.Header.Set\<close>.\<close>

definition set_header :: "string \<Rightarrow> string \<Rightarrow> out_request \<Rightarrow> out_request" where
  "set_header name v r = r\<lparr>oq_headers := alist_store name v (oq_headers r)\<rparr>"

text \<open>A proof with the classical key, and one with the key that matches the token.\<close>

definition dpop_Proof ::
  "'k ext \<Rightarrow> ('s, 'k) xclient \<Rightarrow> 'k signer \<Rightarrow> string \<Rightarrow> string \<Rightarrow> string \<Rightarrow> time \<times> bytes option \<Rightarrow> string option" where
  "dpop_Proof E x s method rawURL accessToken io =
     BuildDPoPProof E s method rawURL accessToken (server_nonce E x rawURL) (fst io) (snd io)"

definition proofFor ::
  "'k ext \<Rightarrow> ('s, 'k) xclient \<Rightarrow> 'k signer \<Rightarrow> ('k signer \<times> string) option \<Rightarrow> token \<Rightarrow> string \<Rightarrow> string
     \<Rightarrow> time \<Rightarrow> bytes option \<Rightarrow> string option" where
  "proofFor E x s pq tok method rawURL now random =
     (case (if tk_post_quantum tok then map_option fst pq else Some s) of
        None \<Rightarrow> None
      | Some signer \<Rightarrow> BuildDPoPProof E signer method rawURL (tk_value tok) (server_nonce E x rawURL) now random)"

definition client_Authorize ::
  "'k ext \<Rightarrow> ('s, 'k) xclient \<Rightarrow> time \<Rightarrow> bytes option \<Rightarrow> token \<Rightarrow> out_request \<Rightarrow> out_request option" where
  "client_Authorize E x now random tok r =
     (case xc_kind x of
        Cert_bound \<Rightarrow> Some (set_header ''Authorization'' (''Bearer '' @ tk_value tok) r)
      | Dpop_bound s jkt pq \<Rightarrow>
          (case proofFor E x s pq tok (oq_method r) (oq_url r) now random of
             None \<Rightarrow> None
           | Some proof \<Rightarrow>
               Some (set_header ''DPoP'' proof (set_header ''Authorization'' (''DPoP '' @ tk_value tok) r))))"

record resource_answer =
  ra_status :: nat
  ra_nonce :: string \<comment> \<open>the \<open>DPoP-Nonce\<close> header\<close>
  ra_challenge :: string \<comment> \<open>the \<open>WWW-Authenticate\<close> header\<close>

record resource_io =
  ro_proof :: "nat \<Rightarrow> time \<times> bytes option"
  ro_send :: "nat \<Rightarrow> out_request \<Rightarrow> resource_answer option" \<comment> \<open>\<open>None\<close>: the round trip failed\<close>
  ro_replayable :: bool \<comment> \<open>no body, or \<open>GetBody\<close> is set\<close>
  ro_body_again :: bool \<comment> \<open>\<open>GetBody\<close> succeeds\<close>

text \<open>\<open>Do\<close> after the token was obtained; the requests sent are part of the result.\<close>

definition dpop_do ::
  "'k ext \<Rightarrow> resource_io \<Rightarrow> token \<Rightarrow> out_request \<Rightarrow> ('s, 'k) xclient
     \<Rightarrow> out_request list \<times> resource_answer option \<times> ('s, 'k) xclient" where
  "dpop_do E io tok r x =
     (case client_Authorize E x (fst (ro_proof io 0)) (snd (ro_proof io 0)) tok r of
        None \<Rightarrow> ([], None, x)
      | Some r1 \<Rightarrow>
          (case ro_send io 0 r1 of
             None \<Rightarrow> ([r1], None, x)
           | Some a \<Rightarrow>
               if xc_kind x \<noteq> Cert_bound \<and> ra_nonce a \<noteq> [] \<and> ra_status a = 401
                    \<and> str_contains (ra_challenge a) ''use_dpop_nonce'' \<and> ro_replayable io
               then
                 (let x1 = setNonce E x (oq_url r1) (ra_nonce a)
                  in if \<not> ro_body_again io then ([r1], None, x1)
                     else (case client_Authorize E x1 (fst (ro_proof io 1)) (snd (ro_proof io 1)) tok r1 of
                             None \<Rightarrow> ([r1], None, x1)
                           | Some r2 \<Rightarrow> ([r1, r2], ro_send io 1 r2, x1)))
               else ([r1], Some a, x)))"

definition client_Do ::
  "('s, 'd) crypto \<Rightarrow> 's pem_lib \<Rightarrow> 'k ext \<Rightarrow> ('s \<Rightarrow> 'k option) \<Rightarrow> 's call_io \<Rightarrow> resource_io \<Rightarrow> out_request \<Rightarrow> ('s, 'k) xclient
     \<Rightarrow> (client_error + out_request list \<times> resource_answer option) \<times> ('s, 'k) xclient" where
  "client_Do C L E imp io rio r x =
     (case Token C L E imp io x of
        (Inl e, x1) \<Rightarrow> (Inl e, x1)
      | (Inr tok, x1) \<Rightarrow>
          (case dpop_do E rio tok r x1 of (sent, a, x2) \<Rightarrow> (Inr (sent, a), x2)))"

end
