(* ===== verification/Client_Bound.thy ===== *)
theory Client_Bound
  imports Client_Methods
begin

text \<open>
  The invariant of the client's state: a cached token is bound to the credential the client
  holds, through every enrollment, renewal, issuance and nonce.
\<close>

section \<open>What a token is bound to\<close>

text \<open>The value is a JWS with the claims and algorithm kept beside it, and its \<open>cnf\<close> member is the binding.\<close>

definition reads_as :: "'k ext \<Rightarrow> token \<Rightarrow> bool" where
  "reads_as E t \<longleftrightarrow> (\<exists>j. ParseCompact E (tk_value t) = Inr j \<and> jws_claims E j = Some (tk_claims t) \<and> jws_alg j = tk_alg t)
     \<and> cnfMember (tk_claims t) (tk_binding t) = Inr (tk_thumbprint t)"

definition held_credential :: "'k ext \<Rightarrow> ('s, 'k) xclient \<Rightarrow> token \<Rightarrow> bool" where
  "held_credential E x t \<longleftrightarrow>
     (case xc_kind x of
        Cert_bound \<Rightarrow>
          (case activeIdentity x of
             None \<Rightarrow> False
           | Some c \<Rightarrow> tk_binding t = ''x5t#S256'' \<and> tk_thumbprint t = ThumbprintS256 E (cred_leaf c)
               \<and> tk_cert_not_after t = c_not_after (cred_leaf c))
      | Dpop_bound s jkt pq \<Rightarrow>
          tk_binding t = ''jkt'' \<and> (if cc_pq_enabled (xc_cfg x) then map_option snd pq = Some (tk_thumbprint t)
                                    else tk_thumbprint t = jkt))"

definition bound_token :: "'k ext \<Rightarrow> ('s, 'k) xclient \<Rightarrow> token \<Rightarrow> bool" where
  "bound_token E x t \<longleftrightarrow> reads_as E t \<and> held_credential E x t \<and> tk_post_quantum t = cc_pq_enabled (xc_cfg x)
     \<and> (cc_pq_enabled (xc_cfg x) \<longrightarrow> has_prefix (tk_alg t) ''ML-DSA-'')"

text \<open>The thumbprints of the proof keys are those of their public JWKs.\<close>

definition kind_ok :: "'k ext \<Rightarrow> 's client_config \<Rightarrow> 'k client_kind \<Rightarrow> bool" where
  "kind_ok E cfg k \<longleftrightarrow>
     (case k of Cert_bound \<Rightarrow> True
      | Dpop_bound s jkt pq \<Rightarrow> jwk_Thumbprint E (sg_jwk s) = Some jkt \<and> (cc_pq_enabled cfg \<longleftrightarrow> pq \<noteq> None)
          \<and> (\<forall>s' j. pq = Some (s', j) \<longrightarrow> jwk_Thumbprint E (sg_jwk s') = Some j))"

definition client_ok :: "'k ext \<Rightarrow> ('s, 'k) xclient \<Rightarrow> bool" where
  "client_ok E x \<longleftrightarrow> kind_ok E (xc_cfg x) (xc_kind x) \<and> (\<forall>t. xc_cached x = Some t \<longrightarrow> bound_token E x t)"

text \<open>What the operations leave alone.\<close>

definition same_client :: "('s, 'k) xclient \<Rightarrow> ('s, 'k) xclient \<Rightarrow> bool" where
  "same_client x y \<longleftrightarrow> xc_cfg y = xc_cfg x \<and> xc_kind y = xc_kind x \<and> xc_roots y = xc_roots x \<and> xc_rotate_keys y = xc_rotate_keys x"

lemma same_client_refl [simp]: "same_client x x"
  by (simp add: same_client_def)

lemma same_client_trans: "same_client x y \<Longrightarrow> same_client y z \<Longrightarrow> same_client x z"
  by (simp add: same_client_def)

lemma bound_token_cong:
  assumes "same_client x y" and "activeIdentity y = activeIdentity x"
  shows "bound_token E y t = bound_token E x t"
  using assms by (simp add: bound_token_def held_credential_def same_client_def split: client_kind.split)

lemma client_ok_keep:
  assumes "client_ok E x" "same_client x y" "activeIdentity y = activeIdentity x" "xc_cached y = xc_cached x"
  shows "client_ok E y"
  using assms bound_token_cong [OF assms(2,3)] by (simp add: client_ok_def same_client_def)

lemma client_ok_dropped: "\<lbrakk>client_ok E x; same_client x y; xc_cached y = None\<rbrakk> \<Longrightarrow> client_ok E y"
  by (simp add: client_ok_def same_client_def)

lemma client_ok_stored:
  assumes "client_ok E x" "same_client x y" "xc_cached y = Some t" "bound_token E y t"
  shows "client_ok E y"
  using assms by (simp add: client_ok_def same_client_def)

lemma New_ok:
  assumes "New L E gen fs cfg = Inr x"
  shows "client_ok E x \<and> xc_cfg x = cfg \<and> xc_cached x = None \<and> xc_id x = None \<and> xc_pq_id x = None"
  using assms
  by (auto simp: New_def newBase_def Let_def client_ok_def kind_ok_def new_dpop_key_def split: if_splits option.splits prod.splits)


section \<open>Rotation\<close>

text \<open>A rotation does nothing but leave files, or installs a credential and drops the token.\<close>

lemma enrollLocked_cases:
  assumes "enrollLocked C L E io x p auth renew newKey = (res, y)"
  shows "same_client x y \<and> ((\<exists>e. res = Inl e) \<and> y = x \<or> (\<exists>s. res = Inr s) \<and> xc_cached y = None \<and> xc_tokens_on_cert y = 0
    \<and> pc_id (planeConfig y p) \<noteq> None)"
  using assms
  by (auto simp: enrollLocked_def Let_def same_client_def set_identity_def planeConfig_def split: sum.splits if_splits option.splits)

lemma rotatePlaneLocked_cases:
  assumes "rotatePlaneLocked C L E io x p = (res, y)"
  shows "same_client x y \<and> ((\<exists>e. res = Inl e) \<and> y = x \<or> (\<exists>s. res = Inr s) \<and> xc_cached y = None \<and> xc_tokens_on_cert y = 0
    \<and> pc_id (planeConfig y p) \<noteq> None)"
  using assms by (auto simp: rotatePlaneLocked_def split: option.splits if_splits dest: enrollLocked_cases)

lemma rotateLocked_cases:
  assumes "rotateLocked C L E io x = (res, y)"
  shows "same_client x y \<and> (y = x \<and> (\<exists>e. res = Inl e) \<or> xc_cached y = None \<and> xc_tokens_on_cert y = 0)"
proof (cases "rotatePlaneLocked C L E (fst io) x ClassicalPlane")
  case (Pair r x1)
  note a = rotatePlaneLocked_cases [OF Pair]
  obtain r2 x2 where b: "rotatePlaneLocked C L E (snd io) x1 PQPlane = (r2, x2)" by fastforce
  show ?thesis
    using a rotatePlaneLocked_cases [OF b] assms Pair b
    by (auto simp: rotateLocked_def split: sum.splits if_splits intro: same_client_trans)
qed

lemma rotatePlaneLocked_ok: "client_ok E x \<Longrightarrow> rotatePlaneLocked C L E io x p = (res, y) \<Longrightarrow> client_ok E y"
  using rotatePlaneLocked_cases client_ok_dropped by metis

lemma rotateLocked_ok: "client_ok E x \<Longrightarrow> rotateLocked C L E io x = (res, y) \<Longrightarrow> client_ok E y"
  using rotateLocked_cases client_ok_dropped by metis

lemma enrollLocked_ok: "client_ok E x \<Longrightarrow> enrollLocked C L E io x p auth renew newKey = (res, y) \<Longrightarrow> client_ok E y"
  using enrollLocked_cases client_ok_dropped by metis

text \<open>A credential loaded for a plane that had none is not the one a cached token was bound to.\<close>

lemma set_identity_ok:
  assumes "client_ok E x" "pc_id (planeConfig x p) = None"
  shows "client_ok E (set_identity x p c)"
proof (cases "xc_cached x")
  case None
  then show ?thesis using assms(1) by (auto simp: client_ok_def set_identity_def)
next
  case (Some t)
  then have b: "bound_token E x t" using assms(1) by (simp add: client_ok_def)
  have "bound_token E (set_identity x p c) t"
    using b assms(2)
    by (auto simp: bound_token_def held_credential_def set_identity_def planeConfig_def activeIdentity_def Let_def
        split: client_kind.splits option.splits if_splits)
  then show ?thesis using Some assms(1) by (auto simp: client_ok_def set_identity_def)
qed

lemma set_identity_same [simp]:
  "same_client x (set_identity x p c)" "same_client (set_identity x p c) y = same_client x y"
  by (auto simp: same_client_def set_identity_def)

lemma startIdentity_ok:
  assumes "client_ok E x" "startIdentity C L E io x p = (res, y)"
  shows "client_ok E y \<and> same_client x y"
  using assms
  by (auto simp: startIdentity_def Let_def split: if_splits option.splits prod.splits sum.splits
      intro: rotatePlaneLocked_ok [OF set_identity_ok] enrollLocked_ok set_identity_ok
      dest: rotatePlaneLocked_cases enrollLocked_cases)


lemma Start_ok:
  assumes "client_ok E x" "Start C L E io x = (res, y)"
  shows "client_ok E y \<and> same_client x y"
proof (cases "startIdentity C L E (fst io) x ClassicalPlane")
  case (Pair r x1)
  note a = startIdentity_ok [OF assms(1) Pair]
  obtain r2 x2 where b: "startIdentity C L E (snd io) x1 PQPlane = (r2, x2)" by fastforce
  show ?thesis
    using a startIdentity_ok [OF conjunct1 [OF a] b] assms(2) Pair b same_client_trans
    by (auto simp: Start_def split: sum.splits if_splits)
qed

lemma maintain_plane_ok:
  assumes "client_ok E x"
  shows "client_ok E (maintain_plane C L E io p x) \<and> same_client x (maintain_plane C L E io p x)"
proof (cases "rotatePlaneLocked C L E (io p) x p")
  case (Pair r y)
  then show ?thesis
    using assms rotatePlaneLocked_ok [OF assms Pair] rotatePlaneLocked_cases [OF Pair] by (simp add: maintain_plane_def)
qed

lemma maintain_tick_ok:
  assumes "client_ok E x"
  shows "client_ok E (maintain_tick C L E io x) \<and> same_client x (maintain_tick C L E io x)"
  using maintain_plane_ok [OF assms, of C L io ClassicalPlane]
    maintain_plane_ok [of E "maintain_plane C L E io ClassicalPlane x" C L io PQPlane]
  by (auto simp: maintain_tick_def planes_def intro: same_client_trans)


section \<open>Issuance\<close>

lemma newToken_Inr:
  assumes "newToken E resp = Inr t"
  shows "tk_value t = tr_access_token resp \<and> tk_post_quantum t = False
    \<and> (\<exists>j. ParseCompact E (tk_value t) = Inr j \<and> jws_claims E j = Some (tk_claims t) \<and> jws_alg j = tk_alg t)"
  using assms by (auto simp: newToken_def Let_def split: sum.splits option.splits)

lemma cnf_reads:
  assumes "\<exists>j. ParseCompact E (tk_value t) = Inr j \<and> jws_claims E j = Some (tk_claims t) \<and> jws_alg j = tk_alg t"
    and "cnfMember (tk_claims t) m = Inr v" "tk_value u = tk_value t" "tk_claims u = tk_claims t" "tk_alg u = tk_alg t"
    and "tk_binding u = m" "tk_thumbprint u = v"
  shows "reads_as E u"
  using assms by (simp add: reads_as_def)

lemma upgradeToPQ_Inr:
  assumes "upgradeToPQ E x io classical headers pf = Inr t"
  shows "has_prefix (tk_alg t) ''ML-DSA-'' \<and> tk_post_quantum t \<and> tk_classical t = Some (tk_value classical)
    \<and> (\<exists>j. ParseCompact E (tk_value t) = Inr j \<and> jws_claims E j = Some (tk_claims t) \<and> jws_alg j = tk_alg t)"
  using assms
  by (auto simp: upgradeToPQ_def Let_def split: if_splits option.splits http_result.splits sum.splits dest: newToken_Inr)

lemma verifyPQBinding_Inr:
  "verifyPQBinding t m want = Inr u \<longleftrightarrow>
     cnfMember (tk_claims t) m = Inr want \<and> u = t\<lparr>tk_binding := m, tk_thumbprint := want\<rparr>"
  by (auto simp: verifyPQBinding_def split: sum.splits)

lemma requirePQToken_Inr:
  "requirePQToken t = Inr u \<longleftrightarrow> has_prefix (tk_alg t) ''ML-DSA-'' \<and> u = t\<lparr>tk_post_quantum := True\<rparr>"
  by (auto simp: requirePQToken_def)

lemma upgradeCertBound_Inr:
  assumes "upgradeCertBound E imp x io classical = Inr t"
  shows "\<exists>pq j. xc_pq_id x = Some pq \<and> tk_thumbprint t = ThumbprintS256 E (cred_leaf pq) \<and> tk_binding t = ''x5t#S256''
    \<and> tk_cert_not_after t = c_not_after (cred_leaf pq) \<and> cnfMember (tk_claims t) ''x5t#S256'' = Inr (tk_thumbprint t)
    \<and> has_prefix (tk_alg t) ''ML-DSA-'' \<and> tk_post_quantum t \<and> tk_classical t = Some (tk_value classical)
    \<and> ParseCompact E (tk_value t) = Inr j \<and> jws_claims E j = Some (tk_claims t) \<and> jws_alg j = tk_alg t"
proof -
  from assms obtain pq hs pf u v where "xc_pq_id x = Some pq" "upgradeToPQ E x io classical hs pf = Inr u"
    "verifyPQBinding u ''x5t#S256'' (ThumbprintS256 E (cred_leaf pq)) = Inr v"
    "t = v\<lparr>tk_cert_not_after := c_not_after (cred_leaf pq)\<rparr>"
    unfolding upgradeCertBound_def by (auto split: option.splits sum.splits)
  then show ?thesis by (auto simp: verifyPQBinding_Inr dest!: upgradeToPQ_Inr)
qed

lemma check_x5t_Inr:
  "check_x5t E leaf t = Inr u \<longleftrightarrow> cnfMember (tk_claims t) ''x5t#S256'' = Inr (ThumbprintS256 E leaf)
     \<and> u = t\<lparr>tk_binding := ''x5t#S256'', tk_thumbprint := ThumbprintS256 E leaf, tk_cert_not_after := c_not_after leaf\<rparr>"
  by (auto simp: check_x5t_def split: sum.splits)

lemma check_jkt_Inr:
  "check_jkt want typ t = Inr u \<longleftrightarrow> cnfMember (tk_claims t) ''jkt'' = Inr want \<and> equal_fold typ ''DPoP''
     \<and> u = t\<lparr>tk_binding := ''jkt'', tk_thumbprint := want\<rparr>"
  by (auto simp: check_jkt_def split: sum.splits)

text \<open>The three ways of \<open>cert_issue\<close>: the token of the server as it is, required to be ML-DSA, or upgraded.\<close>

lemma cert_issue_bound:
  assumes "cert_issue E imp io x = Inr t" "xc_kind x = Cert_bound"
  shows "bound_token E x t"
proof -
  from assms(1) obtain c resp tok0 tok where c: "asIdentity x = Some c" and n: "newToken E resp = Inr tok0"
    and k: "check_x5t E (cred_leaf c) tok0 = Inr tok"
    and r: "(if pqDirect x then requirePQToken tok else if cc_pq_enabled (xc_cfg x) then upgradeCertBound E imp x io tok
      else Inr tok) = Inr t"
    by (auto simp: cert_issue_def split: option.splits sum.splits)
  note facts = newToken_Inr [OF n] k [unfolded check_x5t_Inr] c r assms(2)
  show ?thesis
  proof (cases "cc_pq_enabled (xc_cfg x) \<and> \<not> pqDirect x")
    case False
    then show ?thesis
      using facts by (auto simp: bound_token_def reads_as_def held_credential_def activeIdentity_def asIdentity_def
          requirePQToken_Inr pqDirect_def split: if_splits)
  next
    case True
    with r have "upgradeCertBound E imp x io tok = Inr t" by simp
    then show ?thesis
      using True assms(2) by (auto simp: bound_token_def reads_as_def held_credential_def activeIdentity_def
          dest!: upgradeCertBound_Inr)
  qed
qed


lemma setNonce_same [simp]:
  "same_client x (setNonce E x u n)" "activeIdentity (setNonce E x u n) = activeIdentity x"
  "xc_cached (setNonce E x u n) = xc_cached x"
  by (simp_all add: setNonce_def same_client_def activeIdentity_def)

lemma setNonce_ok: "client_ok E x \<Longrightarrow> client_ok E (setNonce E x u n)"
  by (rule client_ok_keep) simp_all

text \<open>The attempts change nothing but the remembered nonces, and there are at most two.\<close>

lemma dpop_attempts_same:
  assumes "dpop_attempts E s io n x = (rs, res, y)"
  shows "same_client x y \<and> activeIdentity y = activeIdentity x \<and> xc_cached y = xc_cached x \<and> length rs + n \<le> max 2 (n + 1)"
  using assms
proof (induction E s io n x arbitrary: rs res y rule: dpop_attempts.induct)
  case (1 E s io n x)
  let ?u = "cc_token_url (xc_cfg x)"
  let ?next = "\<lambda>err. setNonce E x ?u (case err of Issuer_status _ _ n \<Rightarrow> n | _ \<Rightarrow> [])"
  from "1.prems" consider (stop) "y = x" "length rs \<le> 1"
    | (again) pf r err rs' where "BuildDPoPProof E s ''POST'' ?u [] (server_nonce E x ?u) (fst (ii_proof io n)) (snd (ii_proof io n)) = Some pf"
        "ii_issue io n (token_request_for x pf) = Inl err" "n = 0 \<and> NeedsNonce err"
        "dpop_attempts E s io (n + 1) (?next err) = (rs', res, y)" "rs = r # rs'"
    by (subst (asm) dpop_attempts.simps) (auto simp: Let_def split: option.splits sum.splits if_splits prod.splits)
  then show ?case
  proof cases
    case again
    then show ?thesis
      using "1.IH" [OF refl again(1) refl again(2,3,4)] same_client_trans [OF setNonce_same(1)] by auto
  qed auto
qed

lemma upgradeDPoP_Inr:
  assumes "upgradeDPoP E x s pq io classical = Inr t"
  shows "\<exists>j. map_option snd pq = Some (tk_thumbprint t) \<and> tk_binding t = ''jkt''
    \<and> cnfMember (tk_claims t) ''jkt'' = Inr (tk_thumbprint t)
    \<and> has_prefix (tk_alg t) ''ML-DSA-'' \<and> tk_post_quantum t \<and> tk_classical t = Some (tk_value classical)
    \<and> ParseCompact E (tk_value t) = Inr j \<and> jws_claims E j = Some (tk_claims t) \<and> jws_alg j = tk_alg t"
proof -
  from assms obtain hs pf u where u: "upgradeToPQ E x io classical hs pf = Inr u"
    "verifyPQBinding u ''jkt'' (case pq of Some (_, j) \<Rightarrow> j | None \<Rightarrow> []) = Inr t"
    unfolding upgradeDPoP_def Let_def by (auto split: sum.splits)
  then have c: "cnfMember (tk_claims u) ''jkt'' = Inr (case pq of Some (_, j) \<Rightarrow> j | None \<Rightarrow> [])"
    by (simp add: verifyPQBinding_Inr)
  then have "pq \<noteq> None" by (auto simp: cnfMember_def split: option.splits gval.splits if_splits)
  then show ?thesis using u c by (auto simp: verifyPQBinding_Inr dest!: upgradeToPQ_Inr)
qed

lemma dpop_issue_bound:
  assumes "dpop_issue E s jkt pq io x = (Inr t, y)" "xc_kind x = Dpop_bound s jkt pq" "kind_ok E (xc_cfg x) (xc_kind x)"
  shows "bound_token E y t"
proof -
  obtain signer want where as: "asSigner x s jkt pq = (signer, want)" by fastforce
  from assms(1) as obtain rs resp tok0 tok where d: "dpop_attempts E signer io 0 x = (rs, Inr resp, y)"
    and n: "newToken E resp = Inr tok0" and k: "check_jkt want (tr_token_type resp) tok0 = Inr tok"
    and r: "(if pqDirect y then requirePQToken tok else if cc_pq_enabled (xc_cfg y) then upgradeDPoP E y s pq io tok
      else Inr tok) = Inr t"
    by (auto simp: dpop_issue_def and_then_eq_Inr split: prod.splits sum.splits)
  have y: "xc_cfg y = xc_cfg x" "xc_kind y = Dpop_bound s jkt pq" "pqDirect y = pqDirect x"
    using dpop_attempts_same [OF d] assms(2) by (simp_all add: same_client_def pqDirect_def)
  have w: "pqDirect x \<Longrightarrow> map_option snd pq = Some want" "\<not> pqDirect x \<Longrightarrow> want = jkt"
    using as assms(2,3) by (auto simp: asSigner_def kind_ok_def pqDirect_def split: if_splits)
  note facts = newToken_Inr [OF n] k [unfolded check_jkt_Inr] r y w
  show ?thesis
  proof (cases "cc_pq_enabled (xc_cfg x) \<and> \<not> pqDirect x")
    case False
    then show ?thesis
      using facts by (auto simp: bound_token_def reads_as_def held_credential_def requirePQToken_Inr pqDirect_def split: if_splits)
  next
    case True
    then have "upgradeDPoP E y s pq io tok = Inr t" using r y by simp
    then show ?thesis
      using True y by (auto simp: bound_token_def reads_as_def held_credential_def dest!: upgradeDPoP_Inr)
  qed
qed

lemma dpop_issue_same:
  assumes "dpop_issue E s jkt pq io x = (res, y)"
  shows "same_client x y \<and> activeIdentity y = activeIdentity x \<and> xc_cached y = xc_cached x"
  using assms by (auto simp: dpop_issue_def split: prod.splits sum.splits dest: dpop_attempts_same)

lemma issueLocked_ok:
  assumes "client_ok E x" "issueLocked E imp io x = (res, y)"
  shows "client_ok E y \<and> same_client x y \<and> (\<forall>t. res = Inr t \<longrightarrow> bound_token E y t \<and> xc_cached y = Some t)"
proof (cases "xc_kind x")
  case Cert_bound
  show ?thesis
  proof (cases "cert_issue E imp io x")
    case (Inr t)
    then have y: "res = Inr t" "y = x\<lparr>xc_cached := Some t, xc_tokens_on_cert := xc_tokens_on_cert x + 1\<rparr>"
      using assms(2) Cert_bound by (simp_all add: issueLocked_def)
    have s: "same_client x y" "activeIdentity y = activeIdentity x" by (simp_all add: y(2) same_client_def activeIdentity_def)
    have "bound_token E y t" using cert_issue_bound [OF Inr Cert_bound] bound_token_cong [OF s] by simp
    then show ?thesis using client_ok_stored [OF assms(1) s(1)] s(1) y by simp
  qed (use assms Cert_bound in \<open>auto simp: issueLocked_def\<close>)
next
  case (Dpop_bound s jkt pq)
  show ?thesis
  proof (cases "dpop_issue E s jkt pq io x")
    case (Pair r x1)
    note d = dpop_issue_same [OF Pair]
    have ok: "client_ok E x1" using client_ok_keep [OF assms(1)] d by blast
    show ?thesis
    proof (cases r)
      case (Inl e)
      then show ?thesis using assms(2) Dpop_bound Pair ok d by (auto simp: issueLocked_def)
    next
      case (Inr t)
      have y: "res = Inr t" "y = x1\<lparr>xc_cached := Some t\<rparr>"
        using assms(2) Dpop_bound Pair Inr by (simp_all add: issueLocked_def)
      have s: "same_client x1 y" "activeIdentity y = activeIdentity x1" by (simp_all add: y(2) same_client_def activeIdentity_def)
      have "bound_token E x1 t"
        using dpop_issue_bound [of E s jkt pq io x t x1] Pair Inr Dpop_bound assms(1) by (simp add: client_ok_def)
      then have "bound_token E y t" using bound_token_cong [OF s] by simp
      then show ?thesis using client_ok_stored [OF ok s(1)] s(1) y same_client_trans d by auto
    qed
  qed
qed

lemma renew_if_due_ok:
  "client_ok E x \<Longrightarrow> renew_if_due C L E io x = (res, y) \<Longrightarrow> client_ok E y \<and> same_client x y"
  by (auto simp: renew_if_due_def split: if_splits prod.splits sum.splits dest: rotateLocked_ok rotateLocked_cases)

lemma IssueToken_ok:
  assumes "client_ok E x" "IssueToken C L E imp io x = (res, y)"
  shows "client_ok E y \<and> same_client x y \<and> (\<forall>t. res = Inr t \<longrightarrow> bound_token E y t \<and> xc_cached y = Some t)"
proof (cases "renew_if_due C L E io x")
  case (Pair r x1)
  note a = renew_if_due_ok [OF assms(1) Pair]
  show ?thesis
    using assms(2) Pair a issueLocked_ok [of E x1 imp "cl_issue io" res y] same_client_trans [of x x1 y]
    by (auto simp: IssueToken_def split: sum.splits)
qed

lemma Token_ok:
  assumes "client_ok E x" "Token C L E imp io x = (res, y)"
  shows "client_ok E y \<and> same_client x y \<and> (\<forall>t. res = Inr t \<longrightarrow> bound_token E y t \<and> xc_cached y = Some t)"
proof (cases "renew_if_due C L E io x")
  case (Pair r x1)
  note a = renew_if_due_ok [OF assms(1) Pair]
  show ?thesis
  proof (cases "\<exists>t. r = Inr () \<and> xc_cached x1 = Some t \<and> usable t (cl_now io)")
    case True
    then show ?thesis using assms(2) Pair a by (auto simp: Token_def client_ok_def)
  next
    case False
    obtain r2 x2 where rot: "rotateLocked C L E (cl_rotate_again io) x1 = (r2, x2)" by fastforce
    have b: "client_ok E x2" "same_client x1 x2"
      using a rotateLocked_ok [OF _ rot] rotateLocked_cases [OF rot] by blast+
    from False assms(2) Pair rot consider (err) e where "res = Inl e" "y = x1" | (err2) e where "res = Inl e" "y = x2"
      | (one) "issueLocked E imp (cl_issue io) x1 = (res, y)" | (two) "issueLocked E imp (cl_issue io) x2 = (res, y)"
      by (auto simp: Token_def split: sum.splits option.splits if_splits)
    then show ?thesis
    proof cases
      case err then show ?thesis using a by simp
    next
      case err2 then show ?thesis using a b same_client_trans by auto
    next
      case one then show ?thesis using a issueLocked_ok [OF _ one] same_client_trans by blast
    next
      case two then show ?thesis using a b issueLocked_ok [OF _ two] same_client_trans by blast
    qed
  qed
qed


lemma dpop_do_ok:
  "client_ok E x \<Longrightarrow> client_ok E (snd (snd (dpop_do E io t r x)))"
  by (auto simp: dpop_do_def Let_def setNonce_ok split: option.splits)

lemma client_Do_ok:
  assumes "client_ok E x" "client_Do C L E imp io rio r x = (res, y)"
  shows "client_ok E y"
proof (cases "Token C L E imp io x")
  case (Pair rt x1)
  note a = Token_ok [OF assms(1) Pair]
  show ?thesis
  proof (cases rt)
    case (Inr t)
    then show ?thesis
      using assms(2) Pair a dpop_do_ok [of E x1 rio t r]
      by (cases "dpop_do E rio t r x1") (auto simp: client_Do_def)
  qed (use assms(2) Pair a in \<open>auto simp: client_Do_def\<close>)
qed


section \<open>Runs of a client\<close>

inductive client_run ::
  "('s, 'd) crypto \<Rightarrow> 's pem_lib \<Rightarrow> 'k ext \<Rightarrow> ('s \<Rightarrow> 'k option) \<Rightarrow> ('s, 'k) xclient \<Rightarrow> ('s, 'k) xclient \<Rightarrow> bool"
  for C L E imp x where
  run_start: "client_run C L E imp x x"
| run_Start: "client_run C L E imp x y \<Longrightarrow> client_run C L E imp x (snd (Start C L E io y))"
| run_Rotate: "client_run C L E imp x y \<Longrightarrow> client_run C L E imp x (snd (rotateLocked C L E io y))"
| run_Tick: "client_run C L E imp x y \<Longrightarrow> client_run C L E imp x (maintain_tick C L E pio y)"
| run_Token: "client_run C L E imp x y \<Longrightarrow> client_run C L E imp x (snd (Token C L E imp cio y))"
| run_Issue: "client_run C L E imp x y \<Longrightarrow> client_run C L E imp x (snd (IssueToken C L E imp cio y))"
| run_Do: "client_run C L E imp x y \<Longrightarrow> client_run C L E imp x (snd (client_Do C L E imp cio rio r y))"

lemma client_run_ok:
  assumes "client_run C L E imp x y" "client_ok E x"
  shows "client_ok E y"
  using assms
proof induction
  case (run_Start y io)
  then show ?case using Start_ok [of E y C L io] by (cases "Start C L E io y") simp
next
  case (run_Rotate y io)
  then show ?case using rotateLocked_ok [of E y C L io] by (cases "rotateLocked C L E io y") simp
next
  case (run_Tick y pio)
  then show ?case using maintain_tick_ok by blast
next
  case (run_Token y cio)
  then show ?case using Token_ok [of E y C L imp cio] by (cases "Token C L E imp cio y") simp
next
  case (run_Issue y cio)
  then show ?case using IssueToken_ok [of E y C L imp cio] by (cases "IssueToken C L E imp cio y") simp
next
  case (run_Do y cio rio r)
  then show ?case using client_Do_ok [of E y C L imp cio rio r] by (cases "client_Do C L E imp cio rio r y") simp
qed

text \<open>The maintenance loop is part of a run, from and to any state of it.\<close>

lemma client_run_Maintain: "client_run C L E imp x y \<Longrightarrow> client_run C L E imp x (Maintain C L E ticks y)"
  by (induction ticks arbitrary: y) (auto simp: Maintain_def intro: run_Tick)

text \<open>On a DPoP client the two methods do the same.\<close>

lemma dpop_Token_eq:
  assumes "xc_kind x = Dpop_bound s jkt pq" "client_ok E x"
  shows "dpop_Token C L E imp io x = Token C L E imp io x"
proof (cases "renew_if_due C L E io x")
  case (Pair r y)
  then have "xc_kind y \<noteq> Cert_bound" using renew_if_due_ok [OF assms(2) Pair] assms(1) by (simp add: same_client_def)
  then show ?thesis using Pair by (simp add: dpop_Token_def Token_def split: sum.splits option.splits)
qed


text \<open>A client that has started holds the identity of every plane it uses.\<close>

lemma startIdentity_holds:
  "startIdentity C L E io x p = (Inr u, y) \<Longrightarrow> pc_id (planeConfig y p) \<noteq> None"
  by (auto simp: startIdentity_def Let_def set_identity_def planeConfig_def split: if_splits option.splits prod.splits sum.splits plane.splits
      dest!: rotatePlaneLocked_cases enrollLocked_cases)

lemma enrollLocked_other: "enrollLocked C L E io x p auth renew newKey = (res, y) \<Longrightarrow> q \<noteq> p \<Longrightarrow> pc_id (planeConfig y q) = pc_id (planeConfig x q)"
  by (cases p; cases q) (auto simp: enrollLocked_def Let_def set_identity_def planeConfig_def split: sum.splits if_splits option.splits)

lemma startIdentity_other:
  "startIdentity C L E io x p = (res, y) \<Longrightarrow> q \<noteq> p \<Longrightarrow> pc_id (planeConfig y q) = pc_id (planeConfig x q)"
  by (cases p; cases q)
    (auto simp: startIdentity_def rotatePlaneLocked_def Let_def set_identity_def planeConfig_def split: if_splits option.splits prod.splits sum.splits
      dest!: enrollLocked_other)

lemma Start_holds:
  assumes "client_ok E x" "Start C L E io x = (Inr u, y)"
  shows "xc_id y \<noteq> None \<and> (cc_pq_enabled (xc_cfg y) \<longrightarrow> xc_pq_id y \<noteq> None)"
proof -
  have ids: "pc_id (planeConfig z ClassicalPlane) = xc_id z" "pc_id (planeConfig z PQPlane) = xc_pq_id z" for z
    by (simp_all add: planeConfig_def Let_def)
  obtain v x1 where a: "startIdentity C L E (fst io) x ClassicalPlane = (Inr v, x1)"
    using assms(2) by (auto simp: Start_def split: sum.splits prod.splits)
  show ?thesis
  proof (cases "cc_pq_enabled (xc_cfg x)")
    case True
    then have b: "startIdentity C L E (snd io) x1 PQPlane = (Inr u, y)" using assms(2) a by (simp add: Start_def)
    show ?thesis using startIdentity_holds [OF a] startIdentity_holds [OF b] startIdentity_other [OF b, of ClassicalPlane] by (simp add: ids)
  next
    case False
    then show ?thesis using assms(2) a startIdentity_holds [OF a] startIdentity_ok [OF assms(1) a] by (auto simp: Start_def ids same_client_def)
  qed
qed

end
