(* ===== verification/Client_Proof.thy ===== *)
theory Client_Proof
  imports Client_Bound Authorize
begin

text \<open>
  The two ends of a DPoP-bound request: what \<open>dpopClient.Authorize\<close> puts on a request is what
  \<open>checkDPoPBinding\<close> of the resource server asks for.
\<close>

text \<open>What the code relies on of a signer: signing as documented, a permitted algorithm, and a JWK of text
  members that is the key's.\<close>

definition signer_sound :: "'k ext \<Rightarrow> 'k signer \<Rightarrow> bool" where
  "signer_sound E s \<longleftrightarrow> signs_with E s \<and> LookupAlg E (sg_alg s) = Inr (sg_alg s)
     \<and> jwk_PublicKey E (sg_jwk s) = Some (sg_pubkey s) \<and> json_view (VObj (sg_jwk s)) = VObj (sg_jwk s)"

text \<open>The request arrives with its headers, and the server reads the URI it was sent to.\<close>

definition arrives :: "'k ext \<Rightarrow> vconfig \<Rightarrow> out_request \<Rightarrow> request \<Rightarrow> bool" where
  "arrives E cfg q r \<longleftrightarrow> rq_method r = oq_method q \<and> requestHTU E cfg r = NormalizeHTU E (oq_url q)
     \<and> (\<forall>h. header_values r h = (case map_of (oq_headers q) h of None \<Rightarrow> [] | Some v \<Rightarrow> [v]))"

lemma BuildDPoPProof_Some:
  assumes "BuildDPoPProof E s method url token nonce now (Some jti) = Some pf" "signer_sound E s" "json_inverse E"
  obtains j htu where "NormalizeHTU E url = Some htu" "ParseCompact E pf = Inr j" "j_compact j = pf" "jws_alg j = sg_alg s"
    "jws_typ j = ''dpop+jwt''" "map_of (j_header j) ''jwk'' = Some (VObj (sg_jwk s))"
    "VerifySignature E j (Jwk_key (sg_pubkey s)) = Inr ()"
    "jws_claims E j = Some (map (\<lambda>(n, v). (n, json_view v)) (dpop_claims E method htu token nonce now jti))"
proof -
  let ?h = "[(''typ'', VStr ''dpop+jwt''), (''jwk'', VObj (sg_jwk s))]"
  from assms(1) obtain htu where n: "NormalizeHTU E url = Some htu"
    and sg: "SignCompact E s ?h (dpop_claims E method htu token nonce now jti) = Some pf"
    by (auto simp: BuildDPoPProof_def split: option.splits)
  have s: "signs_with E s" "LookupAlg E (sg_alg s) = Inr (sg_alg s)" "json_view (VObj (sg_jwk s)) = VObj (sg_jwk s)"
    using assms(2) by (simp_all add: signer_sound_def)
  from SignCompact_parse [OF sg s(1) assms(3)] obtain j where j: "ParseCompact E pf = Inr j" "j_compact j = pf"
    "jws_alg j = sg_alg s" "\<forall>n. n \<noteq> ''alg'' \<longrightarrow> map_of (j_header j) n = map_option json_view (map_of ?h n)"
    "jws_claims E j = Some (map (\<lambda>(n, v). (n, json_view v)) (dpop_claims E method htu token nonce now jti))"
    "jws_verify E pf (sg_alg s) (sg_pubkey s)" by blast
  have "jws_typ j = ''dpop+jwt''" using j(4) by (simp add: jws_typ_def get_str_def)
  moreover have "map_of (j_header j) ''jwk'' = Some (VObj (sg_jwk s))" using j(4) s(3) by simp
  moreover have "VerifySignature E j (Jwk_key (sg_pubkey s)) = Inr ()"
    using j(2,3,6) s(2) by (simp add: VerifySignature_Inr)
  ultimately show thesis using that n j by blast
qed

lemma dpop_claims_view:
  "map_of (map (\<lambda>(n, v). (n, json_view v)) (dpop_claims E method htu token nonce now jti)) k =
     map_option json_view (map_of (dpop_claims E method htu token nonce now jti) k)"
  by (rule map_of_json_view)

lemma proof_passes_claims:
  assumes "jws_claims E j = Some (map (\<lambda>(n, v). (n, json_view v)) (dpop_claims E (rq_method r) htu token nonce now jti))"
    and "token \<noteq> []" "sha256 E (bytes_of token) \<noteq> []" "jti \<noteq> []" "requestHTU E cfg r = Some htu" "NormalizeHTU E htu = Some htu"
    and "\<not> iat_out_of_window (vc_window cfg) (vc_skew cfg) (unix_time (time_unix now)) now'"
  shows "check_proof_claims E cfg now' r token j = Inr (time_unix now, B64 jti)"
proof -
  let ?c = "map (\<lambda>(n, v). (n, json_view v)) (dpop_claims E (rq_method r) htu token nonce now jti)"
  have c: "get_str ?c ''ath'' = token_hash E token" "get_str ?c ''htm'' = rq_method r" "get_str ?c ''htu'' = htu"
    "get_str ?c ''jti'' = B64 jti" "map_of ?c ''iat'' = Some (VNum (show_int (time_unix now)))"
    using assms(2) by (simp_all add: get_str_def dpop_claims_def token_hash_def)
  have i: "numericClaim E ?c ''iat'' = Claim_num (time_unix now)"
    using parse_show_int time_unix_range by (simp add: numericClaim_def c(5))
  have "token_hash E token \<noteq> []" "B64 jti \<noteq> []" using assms(3,4) by (simp_all add: token_hash_def B64_def)
  then show ?thesis
    unfolding check_proof_claims_def assms(1) option.case Let_def c i claim_num.case
    using assms(5-7) by (simp add: ct_equal_def)
qed


lemma proof_passes_key:
  assumes "header_values r ''DPoP'' = [pf]" "ParseCompact E pf = Inr j" "jws_typ j = ''dpop+jwt''"
    and "vc_algs cfg = [] \<or> jws_alg j \<in> set (vc_algs cfg)" "map_of (j_header j) ''jwk'' = Some (VObj (sg_jwk s))"
    and "jwk_PublicKey E (sg_jwk s) = Some (sg_pubkey s)" "VerifySignature E j (Jwk_key (sg_pubkey s)) = Inr ()"
    and "jwk_Thumbprint E (sg_jwk s) = Some jkt"
  shows "check_proof_key E cfg r jkt = Inr j"
  using assms by (auto simp: check_proof_key_def ct_equal_def)

text \<open>The key the client proves is the one the token is bound to.\<close>

lemma proofFor_key:
  assumes "proofFor E x s pq t method url now random = Some pf" "xc_kind x = Dpop_bound s jkt pq"
    and "bound_token E x t" "kind_ok E (xc_cfg x) (xc_kind x)"
  obtains k where "BuildDPoPProof E k method url (tk_value t) (server_nonce E x url) now random = Some pf"
    "jwk_Thumbprint E (sg_jwk k) = Some (tk_thumbprint t)" "k = s \<or> Some k = map_option fst pq"
  using assms
  by (auto simp: proofFor_def bound_token_def held_credential_def kind_ok_def split: if_splits option.splits)

lemma client_proof_checks:
  assumes "client_Authorize E x now (Some jti) t q = Some q'" "xc_kind x = Dpop_bound s jkt pq"
    and "bound_token E x t" "kind_ok E (xc_cfg x) (xc_kind x)"
    and "\<forall>k. k = s \<or> Some k = map_option fst pq \<longrightarrow> signer_sound E k \<and> (vc_algs cfg = [] \<or> sg_alg k \<in> set (vc_algs cfg))"
    and "json_inverse E" "arrives E cfg q' r"
    and "\<forall>n. NormalizeHTU E (oq_url q) = Some n \<longrightarrow> NormalizeHTU E n = Some n"
    and "sha256 E (bytes_of (tk_value t)) \<noteq> []" "jti \<noteq> []"
    and "\<not> iat_out_of_window (vc_window cfg) (vc_skew cfg) (unix_time (time_unix now)) now'"
  shows "\<exists>j. check_proof_key E cfg r (tk_thumbprint t) = Inr j
    \<and> check_proof_claims E cfg now' r (tk_value t) j = Inr (time_unix now, B64 jti)
    \<and> header_values r ''Authorization'' = [''DPoP '' @ tk_value t]"
proof -
  from assms(1,2) obtain pf where pf: "proofFor E x s pq t (oq_method q) (oq_url q) now (Some jti) = Some pf"
    and q': "q' = set_header ''DPoP'' pf (set_header ''Authorization'' (''DPoP '' @ tk_value t) q)"
    by (auto simp: client_Authorize_def split: option.splits)
  from proofFor_key [OF pf assms(2-4)] obtain k where
    b: "BuildDPoPProof E k (oq_method q) (oq_url q) (tk_value t) (server_nonce E x (oq_url q)) now (Some jti) = Some pf"
    and th: "jwk_Thumbprint E (sg_jwk k) = Some (tk_thumbprint t)" and k: "k = s \<or> Some k = map_option fst pq" .
  have ss: "signer_sound E k" "vc_algs cfg = [] \<or> sg_alg k \<in> set (vc_algs cfg)" using assms(5) k by auto
  have r: "rq_method r = oq_method q" "requestHTU E cfg r = NormalizeHTU E (oq_url q)"
    "header_values r ''DPoP'' = [pf]" "header_values r ''Authorization'' = [''DPoP '' @ tk_value t]"
    using assms(7) by (simp_all add: arrives_def q' set_header_def)
  from BuildDPoPProof_Some [OF b ss(1) assms(6)] obtain j htu where
    n: "NormalizeHTU E (oq_url q) = Some htu" and j: "ParseCompact E pf = Inr j" "jws_alg j = sg_alg k" "jws_typ j = ''dpop+jwt''"
    "map_of (j_header j) ''jwk'' = Some (VObj (sg_jwk k))" "VerifySignature E j (Jwk_key (sg_pubkey k)) = Inr ()"
    and c: "jws_claims E j = Some (map (\<lambda>(n, v). (n, json_view v))
      (dpop_claims E (oq_method q) htu (tk_value t) (server_nonce E x (oq_url q)) now jti))" by blast
  have "check_proof_key E cfg r (tk_thumbprint t) = Inr j"
    by (rule proof_passes_key [OF r(3) j(1,3) _ j(4) _ j(5) th]) (use ss j(2) in \<open>auto simp: signer_sound_def\<close>)
  moreover have ne: "tk_value t \<noteq> []" using assms(3) by (auto simp: bound_token_def reads_as_def ParseCompact_def)
  have "requestHTU E cfg r = Some htu" "NormalizeHTU E htu = Some htu" using assms(8) n r(2) by simp_all
  from proof_passes_claims [OF c [folded r(1)] ne assms(9,10) this assms(11)]
  have "check_proof_claims E cfg now' r (tk_value t) j = Inr (time_unix now, B64 jti)" .
  ultimately show ?thesis using r(4) by blast
qed

end
