(* ===== verification/Client_Restart.thy ===== *)
theory Client_Restart
  imports Client_Bound
begin

text \<open>
  A restart: what one process enrolled and wrote, the next one loads, on the same plane and without
  the CA.
\<close>

text \<open>What the code relies on: a parsed certificate keeps its DER, and the pairing check accepts a key for its own certificate.\<close>

definition x509_keeps_raw :: "'k ext \<Rightarrow> bool" where
  "x509_keeps_raw E \<longleftrightarrow> (\<forall>d c. x509_parse E d = Some c \<longrightarrow> c_raw c = d)"

definition keys_pair :: "('s, 'd) crypto \<Rightarrow> 's pem_lib \<Rightarrow> bool" where
  "keys_pair C L \<longleftrightarrow> (\<forall>k. key_pairs L (signer_public C k) k \<and> marshal_pkcs8 L k \<noteq> None)"

lemma ParseCertsPEM_Some:
  assumes "ParseCertsPEM L E b = Some certs" "x509_keeps_raw E"
  shows "certs \<noteq> [] \<and> (\<forall>c\<in>set certs. x509_parse E (c_raw c) = Some c)"
proof -
  from assms(1) have "those (map (x509_parse E) (cert_ders L b)) = Some certs" "certs \<noteq> []"
    by (auto simp: ParseCertsPEM_def split: option.splits if_splits)
  moreover have "those (map (x509_parse E) ds) = Some cs \<Longrightarrow> \<forall>c\<in>set cs. \<exists>d. x509_parse E d = Some c" for ds cs
    by (induction ds arbitrary: cs) (auto split: option.splits)
  ultimately show ?thesis using assms(2) by (metis x509_keeps_raw_def)
qed

lemma Enroll_sound:
  assumes "Enroll C L E cfg io auth key lifetime renew = Inr c" "x509_keeps_raw E" "keys_pair C L"
  shows "sound_identity L E c \<and> cred_key c = Some key"
proof -
  from assms(1) obtain b certs where p: "ParseCertsPEM L E b = Some certs"
    and k: "key_equal (c_pub (hd certs)) (signer_public C key)"
    and c: "c = \<lparr>cred_chain = map c_raw certs, cred_key = Some key, cred_leaf = hd certs\<rparr>"
    by (auto simp: Enroll_def split: if_splits http_result.splits option.splits)
  note cs = ParseCertsPEM_Some [OF p assms(2)]
  then obtain x xs where xs: "certs = x # xs" by (cases certs) auto
  have "key_pairs L (c_pub x) key" using key_equalD [OF k] assms(3) by (simp add: keys_pair_def xs)
  then show ?thesis using cs by (auto simp: sound_identity_def c xs)
qed

lemma persistCredential_whole:
  assumes "whole_persist io" "cred_key c = Some k" "marshal_pkcs8 L k \<noteq> None"
  shows "fst (persistCredential L fs io dir c)"
  using assms by (auto simp: persistCredential_def whole_persist_def writeAtomic_def EncodePrivateKeyPEM_def Let_def)

lemma enrolled_loads:
  assumes "enrollLocked C L E io x p auth renew newKey = (Inr st, y)"
    and "pem_correct L" "x509_keeps_raw E" "keys_pair C L" "whole_persist (co_persist io)" "pc_dir (planeConfig x p) \<noteq> []"
  shows "\<exists>c. pc_id (planeConfig y p) = Some c \<and> load_identity L E (xc_files y) (pc_dir (planeConfig x p)) = Some c"
proof -
  let ?dir = "pc_dir (planeConfig x p)"
  from assms(1) obtain key c where e: "Enroll C L E (xc_cfg x) io auth key (pc_lifetime (planeConfig x p)) renew = Inr c"
    and y: "y = (set_identity x p c)\<lparr>xc_files := snd (persistCredential L (xc_files x) (co_persist io) ?dir c),
       xc_cached := None, xc_tokens_on_cert := 0\<rparr>"
    by (auto simp: enrollLocked_def Let_def split: sum.splits if_splits option.splits)
  note s = Enroll_sound [OF e assms(3,4)]
  obtain fs where f: "persistCredential L (xc_files x) (co_persist io) ?dir c = (True, fs)"
    using persistCredential_whole [OF assms(5), of c key L "xc_files x" ?dir] s assms(4)
    by (cases "persistCredential L (xc_files x) (co_persist io) ?dir c") (auto simp: keys_pair_def)
  have "load_identity L E fs ?dir = Some c"
    using persist_load [OF assms(2) conjunct1 [OF s] assms(6) f] by (cases c) simp
  moreover have "pc_id (planeConfig y p) = Some c" by (simp add: y planeConfig_def set_identity_def Let_def)
  ultimately show ?thesis using f by (simp add: y)
qed

text \<open>Starting on files that hold an identity not due for renewal takes it as it is.\<close>

lemma startIdentity_loaded:
  assumes "pc_id (planeConfig z p) = None" "pc_dir (planeConfig z p) \<noteq> []"
    and "load_identity L E (xc_files z) (pc_dir (planeConfig z p)) = Some c"
    and "pi_now_load io < c_not_after (cred_leaf c)" "\<not> needsRenewalPlane (set_identity z p c) p (pi_now_need io)"
  shows "startIdentity C L E io z p = (Inr (), set_identity z p c)"
  using assms by (simp add: startIdentity_def Let_def)

lemma restart_loads:
  assumes "enrollLocked C L E io x p auth renew newKey = (Inr st, y)"
    and "pem_correct L" "x509_keeps_raw E" "keys_pair C L" "whole_persist (co_persist io)" "pc_dir (planeConfig x p) \<noteq> []"
    and "New L E gen (xc_files y) (xc_cfg x) = Inr z"
    and "pc_id (planeConfig y p) = Some c"
    and "pi_now_load io' < c_not_after (cred_leaf c)"
    and "renewBeforeFor (xc_cfg x) (pc_lifetime (planeConfig x p)) < time_sub (c_not_after (cred_leaf c)) (pi_now_need io')"
  shows "startIdentity C L E io' z p = (Inr (), set_identity z p c)"
proof -
  have z: "xc_files z = xc_files y" "xc_cfg z = xc_cfg x" "xc_id z = None" "xc_pq_id z = None"
    using assms(7) by (auto simp: New_def newBase_def Let_def split: if_splits option.splits prod.splits)
  have pc: "pc_dir (planeConfig z p) = pc_dir (planeConfig x p)" "pc_id (planeConfig z p) = None"
    "pc_id (planeConfig (set_identity z p c) p) = Some c"
    "pc_lifetime (planeConfig (set_identity z p c) p) = pc_lifetime (planeConfig x p)" "xc_cfg (set_identity z p c) = xc_cfg x"
    by (simp_all add: planeConfig_def z set_identity_def Let_def)
  have "load_identity L E (xc_files z) (pc_dir (planeConfig z p)) = Some c"
    using enrolled_loads [OF assms(1-6)] assms(8) by (simp add: z pc(1))
  moreover have "\<not> needsRenewalPlane (set_identity z p c) p (pi_now_need io')"
    using assms(10) pc(3-5) by (simp add: needsRenewalPlane_def Let_def)
  ultimately show ?thesis
    using startIdentity_loaded [of z p L E c io' C] pc(1,2) assms(6,9) by simp
qed

end
