(* ===== verification/Client_Props.thy ===== *)
theory Client_Props
  imports Client_Proof Client_Restart Samples
begin

text \<open>
  The properties of the client library.  The sample is an xApp with a DPoP key, a toy PEM format and a
  CA that answers with the sample certificate; two proofs can be signed, one for the token endpoint
  and one for a resource request.
\<close>

section \<open>Samples\<close>

abbreviation "proof_jwk \<equiv> [(''kty'', VStr ''EC'')]"

definition token_claims_of_proof :: jobj where
  "token_claims_of_proof = [(''jti'', VStr ''CQ''), (''htm'', VStr ''POST''), (''htu'', VStr ''https://kc/jwks''), (''iat'', VInt 1000)]"

definition resource_claims_of_proof :: jobj where
  "resource_claims_of_proof = [(''jti'', VStr ''CQ''), (''htm'', VStr ''GET''), (''htu'', VStr ''https://r/p''), (''iat'', VInt 1000),
     (''ath'', VStr ''QVE'')]"

definition xapp_ext :: "nat ext" where
  "xapp_ext = sample_ext
     \<lparr>json_decode := map_of (([12], json_view (VObj token_claims_of_proof)) # ([13], json_view (VObj resource_claims_of_proof)) # sample_json),
      json_encode := (\<lambda>v. if v = VObj token_claims_of_proof then Some [12] else if v = VObj resource_claims_of_proof then Some [13] else None),
      jws_sign := (\<lambda>alg key header payload.
         if alg = ''ES256'' \<and> header = [(''typ'', VStr ''dpop+jwt''), (''jwk'', VObj proof_jwk)] \<and> payload = [12] then Some ''Aw.DA.AA''
         else if alg = ''ES256'' \<and> header = [(''typ'', VStr ''dpop+jwt''), (''jwk'', VObj proof_jwk)] \<and> payload = [13] then Some ''Aw.DQ.AA''
         else None),
      jwk_object := (\<lambda>_. Some proof_jwk),
      x509_parse := (\<lambda>b. if b = [200] then Some sample_leaf else None)\<rparr>"

definition xapp_pem :: "bytes pem_lib" where
  "xapp_pem = \<lparr>pem_next = (\<lambda>b. if b = [1] then Some ((''CERTIFICATE'', [200]), []) else None),
     pem_encode = (\<lambda>_ b. b), parse_pkcs8 = Some, parse_ec = (\<lambda>_. None), parse_pkcs1 = (\<lambda>_. None),
     marshal_pkcs8 = Some, key_pairs = (\<lambda>_ _. True)\<rparr>"

definition xapp_crypto :: "(bytes, bytes) crypto" where
  "xapp_crypto = \<lparr>signer_public = EC_key ''P-256'', mldsa_sign = (\<lambda>_ _ _. None), mldsa_verify = (\<lambda>_ _ _ _ _. False),
     kem_generate = Some, kem_public = (\<lambda>d. d), kem_valid = (\<lambda>_. False), kem_encapsulate = (\<lambda>ek seed. (ek, seed)),
     kem_decapsulate = (\<lambda>_ _. None), hkdf_key = (\<lambda>_ _ _ _. None), gcm_seal = (\<lambda>_ _ p. p), gcm_open = (\<lambda>_ _ _. None)\<rparr>"

definition xapp_id :: "bytes identity" where
  "xapp_id = \<lparr>cred_chain = [[200]], cred_key = Some [2], cred_leaf = sample_leaf\<rparr>"

definition xapp_cfg :: "bytes client_config" where
  "xapp_cfg =
     \<lparr>cc_method = ''C'', cc_client_id = ''xapp-a'', cc_token_url = ''https://kc/jwks'', cc_scope = ''sdl'', cc_trust_bundle = [],
      cc_ca_url = ''https://ca'', cc_bootstrap_cert = [], cc_bootstrap_key = [], cc_bootstrap = Some xapp_id, cc_identity_dir = [],
      cc_key_alg = ''EC-P256'', cc_cert_lifetime = 900 * second, cc_renew_before = 0, cc_rotation = ''cert-expiry'', cc_dns_names = [],
      cc_dpop_alg = ''ES256'', cc_pq_enabled = False, cc_pq_issuer = ''shim'', cc_pq_shim_url = [], cc_pq_key_alg = ''ML-DSA-65'',
      cc_pq_dpop_alg = ''ML-DSA-44'', cc_pq_cert_lifetime = 0, cc_pq_bootstrap_cert = [], cc_pq_bootstrap_key = [],
      cc_pq_bootstrap = None, cc_pq_identity_dir = [], cc_pq_kex_only = False, cc_pq_proof_validity = 0, cc_pq_upgrade_timeout = 0,
      cc_dial_overrides = [], cc_http_timeout = 0\<rparr>"

definition xapp_signer :: "nat signer" where
  "xapp_signer = \<lparr>sg_alg = ''ES256'', sg_key = 7, sg_pubkey = 7, sg_jwk = proof_jwk\<rparr>"

definition xapp_client :: "(bytes, nat) xclient" where
  "xapp_client = \<lparr>xc_cfg = xapp_cfg, xc_roots = [], xc_rotate_keys = False, xc_kind = Dpop_bound xapp_signer ''CQ'' None,
     xc_id = None, xc_pq_id = None, xc_cached = None, xc_tokens_on_cert = 0, xc_nonces = [], xc_files = (\<lambda>_. None)\<rparr>"

definition xapp_ca :: "bytes ca_io" where
  "xapp_ca = \<lparr>co_key = (\<lambda>_. Some [2]), co_csr = True, co_answer = (\<lambda>_. Http_response 200 [1]),
     co_persist = \<lparr>po_mkdir = True, po_key_write = None, po_key_rename = True, po_crt_write = None, po_crt_rename = True\<rparr>\<rparr>"

definition xapp_plane_io :: "bytes plane_io" where
  "xapp_plane_io = \<lparr>pi_now_load = t0, pi_now_need = t0, pi_now_expired = t0, pi_ca = xapp_ca\<rparr>"

definition xapp_issue_io :: "bytes issue_io" where
  "xapp_issue_io = \<lparr>ii_issue = (\<lambda>_ _. Inr \<lparr>tr_access_token = ''AQ.BQ.AA'', tr_token_type = ''DPoP'', tr_expires_in = 300,
       tr_scope = [], tr_received_at = t0\<rparr>),
     ii_upgrade = (\<lambda>_. Http_error), ii_proof = (\<lambda>_. (t0, Some [9])), ii_upgrade_proof = (t0, None), ii_pq_proof = (t0, None), ii_received = t0\<rparr>"

definition xapp_call_io :: "bytes call_io" where
  "xapp_call_io = \<lparr>cl_need = (t0, t0), cl_rotate = (xapp_plane_io, xapp_plane_io), cl_now = t0,
     cl_rotate_again = (xapp_plane_io, xapp_plane_io), cl_issue = xapp_issue_io\<rparr>"

definition xapp_token :: token where
  "xapp_token = \<lparr>tk_value = ''AQ.BQ.AA'', tk_type = ''DPoP'', tk_issued_at = t0, tk_expires_at = t0 + 300 * second,
     tk_claims = sample_claims (sample_cnf ''jkt'' ''CQ''), tk_binding = ''jkt'', tk_thumbprint = ''CQ'', tk_cert_not_after = 0,
     tk_alg = ''ES256'', tk_post_quantum = False, tk_classical = None\<rparr>"

lemma xapp_parse:
  "ParseCompact xapp_ext ''AQ.BQ.AA'' = Inr \<lparr>j_compact = ''AQ.BQ.AA'', j_header = [(''alg'', VStr ''ES256''), (''kid'', VStr ''k1'')], j_payload = [5]\<rparr>"
  "json_decode xapp_ext [5] = Some (VObj (sample_claims (sample_cnf ''jkt'' ''CQ'')))"
  by (simp_all add: ParseCompact_def decodeObject_def xapp_ext_def sample_ext_def sample_json_def)

lemma xapp_cfg_sel [simp]:
  "cc_method xapp_cfg = ''C''" "cc_trust_bundle xapp_cfg = []" "cc_dpop_alg xapp_cfg = ''ES256''" "\<not> cc_pq_enabled xapp_cfg"
  "cc_key_alg xapp_cfg = ''EC-P256''" "cc_cert_lifetime xapp_cfg = 900 * second" "cc_identity_dir xapp_cfg = []"
  "cc_bootstrap xapp_cfg = Some xapp_id" "cc_token_url xapp_cfg = ''https://kc/jwks''" "cc_renew_before xapp_cfg = 0"
  by (simp_all add: xapp_cfg_def)

lemma xapp_client_sel [simp]:
  "xc_cfg xapp_client = xapp_cfg" "xc_kind xapp_client = Dpop_bound xapp_signer ''CQ'' None" "xc_id xapp_client = None"
  "xc_cached xapp_client = None" "xc_files xapp_client = (\<lambda>_. None)" "xc_nonces xapp_client = []"
  by (simp_all add: xapp_client_def)

lemma xapp_io_sel [simp]:
  "co_key xapp_ca k = Some [2]" "co_csr xapp_ca" "co_answer xapp_ca q = Http_response 200 [1]"
  "pi_ca xapp_plane_io = xapp_ca" "cl_need xapp_call_io = (t0, t0)" "cl_now xapp_call_io = t0" "cl_issue xapp_call_io = xapp_issue_io"
  "ii_proof xapp_issue_io n = (t0, Some [9])"
  by (simp_all add: xapp_ca_def xapp_plane_io_def xapp_call_io_def xapp_issue_io_def)

lemma xapp_id_sel [simp]: "cred_leaf xapp_id = sample_leaf" "cred_key xapp_id = Some [2]"
  by (simp_all add: xapp_id_def)

lemma xapp_alg: "LookupAlg xapp_ext ''ES256'' = Inr ''ES256''"
  using sample_alg by (simp add: LookupAlg_def xapp_ext_def split: if_splits)

lemma xapp_thumb: "jwk_Thumbprint xapp_ext m = Some ''CQ''"
  using sample_thumb_key [of m] by (auto simp: jwk_Thumbprint_def xapp_ext_def split: option.splits)

lemma xapp_New: "New xapp_pem xapp_ext (\<lambda>_. Some (Jwk_key 7)) (\<lambda>_. None) xapp_cfg = Inr xapp_client"
proof -
  have v: "Validate xapp_cfg = None" by code_simp
  have j: "jwk_public xapp_ext 7 = Some 7" "jwk_object xapp_ext 7 = Some proof_jwk" by (simp_all add: xapp_ext_def sample_ext_def)
  have "new_dpop_key xapp_ext (\<lambda>_. Some (Jwk_key 7)) ''ES256'' = Some (xapp_signer, ''CQ'')"
    by (simp add: new_dpop_key_def GenerateSigner_def SignerFromKey_def xapp_alg JWKFromKey_def j xapp_thumb xapp_signer_def)
  then show ?thesis
    by (simp add: New_def newBase_def v MethodLongTerm_def MethodEphemeral_def) (simp add: xapp_client_def)
qed

lemma xapp_enroll:
  "enrollLocked xapp_crypto xapp_pem xapp_ext xapp_ca xapp_client ClassicalPlane xapp_id False True =
     (Inr \<lparr>rt_serial = 42, rt_not_after = t0 + 900 * second, rt_key_alg = KeyAlgName (c_pub sample_leaf), rt_cert_bytes = 1,
        rt_plane = ''classical''\<rparr>, xapp_client\<lparr>xc_id := Some xapp_id\<rparr>)"
proof -
  have n: "pem_next xapp_pem [1] = Some ((''CERTIFICATE'', [200]), [])" "pem_next xapp_pem [] = None"
    by (simp_all add: xapp_pem_def)
  have p: "pem_blocks xapp_pem [1] = [(''CERTIFICATE'', [200])]"
    by (simp add: pem_blocks.simps [of xapp_pem "[1]"] pem_blocks.simps [of xapp_pem "[]"] n)
  have c: "ParseCertsPEM xapp_pem xapp_ext [1] = Some [sample_leaf]"
    by (simp add: ParseCertsPEM_def cert_ders_def p) (simp add: xapp_ext_def)
  have k: "c_pub sample_leaf = EC_key ''P-256'' [2]" "c_raw sample_leaf = [200]" "c_serial sample_leaf = 42"
    "c_not_after sample_leaf = t0 + 900 * second" "signer_public xapp_crypto [2] = EC_key ''P-256'' [2]"
    by (simp_all add: sample_leaf_def xapp_crypto_def)
  have g: "GenerateKey ''EC-P256'' \<noteq> None" by code_simp
  have e: "Enroll xapp_crypto xapp_pem xapp_ext xapp_cfg xapp_ca xapp_id [2] (900 * second) False = Inr xapp_id"
    by (simp add: Enroll_def limit_read_def c k) (simp add: xapp_id_def)
  show ?thesis
    using g e
    by (auto simp: enrollLocked_def planeConfig_def of_option_def persistCredential_def set_identity_def planeName_def k)
      (simp add: xapp_client_def)
qed

lemma xapp_started:
  "snd (Start xapp_crypto xapp_pem xapp_ext (xapp_plane_io, xapp_plane_io) xapp_client) = xapp_client\<lparr>xc_id := Some xapp_id\<rparr>"
  using xapp_enroll by (simp add: Start_def startIdentity_def planeConfig_def)


lemma xapp_htu:
  "NormalizeHTU xapp_ext ''https://kc/jwks'' = Some ''https://kc/jwks''" "NormalizeHTU xapp_ext ''https://r/p'' = Some ''https://r/p''"
  by (simp_all add: NormalizeHTU_def xapp_ext_def sample_ext_def sample_url_def norm_authority_def url_hostname_def url_port_def
     split_host_port_def last_colon_def cut_def strip_brackets_def has_prefix_def to_lower_def to_lower_char_def)

lemma xapp_jti: "B64 [9] = ''CQ''"
  by (simp add: B64_def b64_char_def b64_alphabet_def)

lemma xapp_unix: "time_unix t0 = 1000"
  by (simp add: time_unix_def t0_def wrap64_id)

lemma xapp_jws:
  "json_encode xapp_ext (VObj token_claims_of_proof) = Some [12]" "json_encode xapp_ext (VObj resource_claims_of_proof) = Some [13]"
  "jws_sign xapp_ext ''ES256'' 7 [(''typ'', VStr ''dpop+jwt''), (''jwk'', VObj proof_jwk)] [12] = Some ''Aw.DA.AA''"
  "jws_sign xapp_ext ''ES256'' 7 [(''typ'', VStr ''dpop+jwt''), (''jwk'', VObj proof_jwk)] [13] = Some ''Aw.DQ.AA''"
  by (simp_all add: xapp_ext_def token_claims_of_proof_def resource_claims_of_proof_def)

lemma xapp_token_proof:
  "BuildDPoPProof xapp_ext xapp_signer ''POST'' ''https://kc/jwks'' [] [] t0 (Some [9]) = Some ''Aw.DA.AA''"
proof -
  have "dpop_claims xapp_ext ''POST'' ''https://kc/jwks'' [] [] t0 [9] = token_claims_of_proof"
    by (simp add: dpop_claims_def token_claims_of_proof_def xapp_jti xapp_unix)
  then show ?thesis
    by (simp add: BuildDPoPProof_def xapp_htu SignCompact_def xapp_jws) (simp add: xapp_signer_def xapp_jws)
qed

lemma xapp_resource_proof:
  "BuildDPoPProof xapp_ext xapp_signer ''GET'' ''https://r/p'' ''AQ.BQ.AA'' [] t0 (Some [9]) = Some ''Aw.DQ.AA''"
proof -
  have "B64 (sha256 xapp_ext (bytes_of ''AQ.BQ.AA'')) = ''QVE''"
    using sample_token_hash by (simp add: token_hash_def xapp_ext_def)
  then have "dpop_claims xapp_ext ''GET'' ''https://r/p'' ''AQ.BQ.AA'' [] t0 [9] = resource_claims_of_proof"
    by (simp add: dpop_claims_def resource_claims_of_proof_def xapp_jti xapp_unix)
  then show ?thesis
    by (simp add: BuildDPoPProof_def xapp_htu SignCompact_def xapp_jws) (simp add: xapp_signer_def xapp_jws)
qed

lemma xapp_issued: "newToken xapp_ext \<lparr>tr_access_token = ''AQ.BQ.AA'', tr_token_type = ''DPoP'', tr_expires_in = 300,
    tr_scope = [], tr_received_at = t0\<rparr> = Inr (xapp_token\<lparr>tk_binding := [], tk_thumbprint := []\<rparr>)"
  by (simp add: newToken_def xapp_parse jws_claims_def decodeObject_def xapp_token_def jws_alg_def get_str_def Let_def)

lemma xapp_Token:
  "Token xapp_crypto xapp_pem xapp_ext (\<lambda>_. None) xapp_call_io (xapp_client\<lparr>xc_id := Some xapp_id\<rparr>) =
     (Inr xapp_token, xapp_client\<lparr>xc_id := Some xapp_id, xc_cached := Some xapp_token\<rparr>)"
proof -
  let ?x = "xapp_client\<lparr>xc_id := Some xapp_id\<rparr>"
  have n: "needsRenewal ?x t0 t0 = False"
    by (simp add: needsRenewal_def needsRenewalPlane_def planeConfig_def renewBeforeFor_def)
      (simp add: sample_leaf_def time_sub_def t0_def unix_offset_def)
  have i: "ii_issue xapp_issue_io m r = Inr \<lparr>tr_access_token = ''AQ.BQ.AA'', tr_token_type = ''DPoP'', tr_expires_in = 300,
      tr_scope = [], tr_received_at = t0\<rparr>" for m r
    by (simp add: xapp_issue_io_def)
  have d: "dpop_attempts xapp_ext xapp_signer xapp_issue_io 0 ?x =
     ([token_request_for ?x ''Aw.DA.AA''], Inr \<lparr>tr_access_token = ''AQ.BQ.AA'', tr_token_type = ''DPoP'', tr_expires_in = 300,
      tr_scope = [], tr_received_at = t0\<rparr>, ?x)"
    by (simp add: dpop_attempts.simps server_nonce_def xapp_token_proof i)
  have c: "check_jkt ''CQ'' ''DPoP'' (xapp_token\<lparr>tk_binding := [], tk_thumbprint := []\<rparr>) = Inr xapp_token"
    by (simp add: check_jkt_def cnfMember_def xapp_token_def equal_fold_def)
  have iss: "dpop_issue xapp_ext xapp_signer ''CQ'' None xapp_issue_io ?x = (Inr xapp_token, ?x)"
    by (simp add: dpop_issue_def asSigner_def pqDirect_def d xapp_issued c)
  show ?thesis
    by (simp add: Token_def renew_if_due_def n issueLocked_def iss)
qed


section \<open>Properties\<close>

text \<open>C36: Every token the client hands out is bound to the credential the client holds at that moment: its own
  \<open>cnf\<close> names the thumbprint of the active certificate or of the proof key, and in post-quantum mode
  it is an ML-DSA token.  This holds after any sequence of starts, renewals, maintenance ticks,
  issuances and resource requests, whatever the servers answered.\<close>
theorem tokens_bound:
  assumes "New L E gen fs cfg = Inr x0" and "client_run C L E imp x0 x"
    and "Token C L E imp io x = (Inr t, y)"
  shows "bound_token E y t \<and> xc_cached y = Some t"
proof -
  have "client_ok E x" using client_run_ok [OF assms(2)] New_ok [OF assms(1)] by blast
  from Token_ok [OF this assms(3)] show ?thesis by blast
qed

theorem tokens_bound_witness:
  "bound_token xapp_ext (xapp_client\<lparr>xc_id := Some xapp_id, xc_cached := Some xapp_token\<rparr>) xapp_token"
proof -
  have "client_run xapp_crypto xapp_pem xapp_ext (\<lambda>_. None) xapp_client (xapp_client\<lparr>xc_id := Some xapp_id\<rparr>)"
    using client_run.run_Start [OF client_run.run_start [of xapp_crypto xapp_pem xapp_ext "\<lambda>_. None" xapp_client],
        of "(xapp_plane_io, xapp_plane_io)"] by (simp only: xapp_started)
  from tokens_bound [OF xapp_New this xapp_Token] show ?thesis by blast
qed

text \<open>C37: The two libraries agree: the proof the client puts on a request with a DPoP-bound token passes
  every check of the resource server it is sent to, within the window of its clock and while the
  server's replay cache has room -- the key, the token hash, the method, the URI and the time.\<close>
theorem client_proof_accepted:
  assumes "client_ok E x" "xc_cached x = Some t" "xc_kind x = Dpop_bound s jkt pq"
    and "client_Authorize E x now (Some jti) t q = Some q'" "arrives E cfg q' r"
    and "\<forall>k. k = s \<or> Some k = map_option fst pq \<longrightarrow> signer_sound E k \<and> (vc_algs cfg = [] \<or> sg_alg k \<in> set (vc_algs cfg))"
    and "json_inverse E" "\<forall>n. NormalizeHTU E (oq_url q) = Some n \<longrightarrow> NormalizeHTU E n = Some n"
    and "sha256 E (bytes_of (tk_value t)) \<noteq> []" "jti \<noteq> []"
    and "\<not> iat_out_of_window (vc_window cfg) (vc_skew cfg) (unix_time (time_unix now)) now'"
    and "CheckAndStore rc (replay_key (tk_thumbprint t) (B64 jti))
      (proof_expiry (vc_window cfg) (vc_skew cfg) (unix_time (time_unix now))) now' = (ReplayFresh, rc')"
  shows "checkDPoPBinding E cfg rc now' r ''dpop'' (tk_value t) (tk_thumbprint t) = (None, rc')
    \<and> header_values r ''Authorization'' = [''DPoP '' @ tk_value t]"
proof -
  have "bound_token E x t" "kind_ok E (xc_cfg x) (xc_kind x)" using assms(1,2) by (simp_all add: client_ok_def)
  from client_proof_checks [OF assms(4,3) this assms(6,7,5,8-11)] assms(12)
  show ?thesis by (auto simp: checkDPoPBinding_def)
qed


lemma xapp_proofs_parse:
  "ParseCompact xapp_ext ''Aw.DA.AA'' = Inr \<lparr>j_compact = ''Aw.DA.AA'',
     j_header = [(''typ'', VStr ''dpop+jwt''), (''alg'', VStr ''ES256''), (''jwk'', VObj proof_jwk)], j_payload = [12]\<rparr>"
  "ParseCompact xapp_ext ''Aw.DQ.AA'' = Inr \<lparr>j_compact = ''Aw.DQ.AA'',
     j_header = [(''typ'', VStr ''dpop+jwt''), (''alg'', VStr ''ES256''), (''jwk'', VObj proof_jwk)], j_payload = [13]\<rparr>"
proof -
  have "b64_decode ''DA'' = Some [12]" "b64_decode ''DQ'' = Some [13]"
    using b64_val_char [of 3] sample_b64_val by (simp_all add: b64_decode_def b64_char_def b64_alphabet_def)
  then show "ParseCompact xapp_ext ''Aw.DA.AA'' = Inr \<lparr>j_compact = ''Aw.DA.AA'',
     j_header = [(''typ'', VStr ''dpop+jwt''), (''alg'', VStr ''ES256''), (''jwk'', VObj proof_jwk)], j_payload = [12]\<rparr>"
    "ParseCompact xapp_ext ''Aw.DQ.AA'' = Inr \<lparr>j_compact = ''Aw.DQ.AA'',
     j_header = [(''typ'', VStr ''dpop+jwt''), (''alg'', VStr ''ES256''), (''jwk'', VObj proof_jwk)], j_payload = [13]\<rparr>"
    by (simp_all add: ParseCompact_def decodeObject_def xapp_ext_def sample_json_def)
qed

lemma xapp_signs: "signer_sound xapp_ext xapp_signer"
proof -
  have v: "jws_verify xapp_ext x a 7" for x a by (simp add: xapp_ext_def sample_ext_def)
  have s: "jws_sign xapp_ext ''ES256'' 7 header payload = Some token \<longleftrightarrow> header = [(''typ'', VStr ''dpop+jwt''), (''jwk'', VObj proof_jwk)]
      \<and> (payload = [12] \<and> token = ''Aw.DA.AA'' \<or> payload = [13] \<and> token = ''Aw.DQ.AA'')" for header payload token
    by (auto simp: xapp_ext_def)
  have "signs_with xapp_ext xapp_signer"
    unfolding signs_with_def xapp_signer_def signer.select_convs s by (auto simp: xapp_proofs_parse v)
  moreover have "jwk_PublicKey xapp_ext proof_jwk = Some 7"
    by (simp add: jwk_PublicKey_def privateMembers_def) (simp add: xapp_ext_def sample_ext_def)
  ultimately show ?thesis by (simp add: signer_sound_def) (simp add: xapp_signer_def xapp_alg)
qed

lemma xapp_json: "json_inverse xapp_ext"
  by (auto simp: json_inverse_def xapp_ext_def)

definition xapp_get :: out_request where
  "xapp_get = \<lparr>oq_method = ''GET'', oq_url = ''https://r/p'', oq_headers = []\<rparr>"

theorem client_proof_accepted_witness:
  "fst (checkDPoPBinding xapp_ext sample_cfg (NewReplayCache 2) t0 (dpop_request ''AQ.BQ.AA'' ''Aw.DQ.AA'') ''dpop'' ''AQ.BQ.AA'' ''CQ'') = None"
proof -
  let ?x = "xapp_client\<lparr>xc_id := Some xapp_id, xc_cached := Some xapp_token\<rparr>"
  have ok: "client_ok xapp_ext ?x"
    by (simp add: client_ok_def kind_ok_def bound_token_def held_credential_def reads_as_def)
      (simp add: xapp_token_def xapp_parse xapp_thumb jws_claims_def decodeObject_def jws_alg_def get_str_def cnfMember_def)
  have a: "client_Authorize xapp_ext ?x t0 (Some [9]) xapp_token xapp_get = Some \<lparr>oq_method = ''GET'', oq_url = ''https://r/p'',
      oq_headers = [(''DPoP'', ''Aw.DQ.AA''), (''Authorization'', ''DPoP AQ.BQ.AA'')]\<rparr>"
    by (simp add: client_Authorize_def proofFor_def server_nonce_def)
      (simp add: xapp_token_def xapp_get_def xapp_resource_proof set_header_def alist_store_def)
  have r: "arrives xapp_ext sample_cfg \<lparr>oq_method = ''GET'', oq_url = ''https://r/p'',
      oq_headers = [(''DPoP'', ''Aw.DQ.AA''), (''Authorization'', ''DPoP AQ.BQ.AA'')]\<rparr> (dpop_request ''AQ.BQ.AA'' ''Aw.DQ.AA'')"
    by (auto simp: arrives_def dpop_request_def header_values_def requestHTU_def sample_cfg_def)
  have w: "\<not> iat_out_of_window (vc_window sample_cfg) (vc_skew sample_cfg) (unix_time (time_unix t0)) t0"
    using sample_time_bounds by (simp add: iat_out_of_window_def sample_cfg_def wrap64_id xapp_unix)
  have t: "tk_value xapp_token = ''AQ.BQ.AA''" "tk_thumbprint xapp_token = ''CQ''" by (simp_all add: xapp_token_def)
  have h: "sha256 xapp_ext (bytes_of ''AQ.BQ.AA'') \<noteq> []" by (simp add: xapp_ext_def sample_ext_def bytes_of_def)
  have g: "vc_algs sample_cfg = []" by (simp add: sample_cfg_def)
  show ?thesis
    using client_proof_accepted [OF ok _ _ a r _ xapp_json _ _ _ w sample_cache] h xapp_signs
    by (simp add: t g xapp_get_def xapp_htu)
qed


section \<open>Restart\<close>

text \<open>A PEM format with the lengths of the type and of the contents in unary.\<close>

definition unary :: "bytes \<Rightarrow> bytes" where
  "unary b = replicate (length b) 1 @ 0 # b"

definition read_unary :: "bytes \<Rightarrow> bytes \<times> bytes" where
  "read_unary b = (let n = length (takeWhile (\<lambda>x. x = 1) b); r = drop (n + 1) b in (take n r, drop n r))"

definition disk_pem :: "bytes pem_lib" where
  "disk_pem = xapp_pem
     \<lparr>pem_next := (\<lambda>b. if b = [] then None else
        let (t, r) = read_unary b; (d, r') = read_unary r in Some ((string_of t, d), r')),
      pem_encode := (\<lambda>t d. unary (bytes_of t) @ unary d)\<rparr>"

lemma read_unary: "read_unary (unary b @ r) = (b, r)"
proof -
  have "takeWhile (\<lambda>x. x = 1) (replicate (length b) (1::8 word) @ 0 # b @ r) = replicate (length b) 1"
    by (subst takeWhile_append2) auto
  then show ?thesis by (simp add: read_unary_def unary_def)
qed

lemma disk_pem_correct: "pem_correct disk_pem"
proof -
  have "unary b \<noteq> []" for b by (simp add: unary_def)
  then show ?thesis unfolding pem_correct_def by (simp add: disk_pem_def read_unary xapp_pem_def)
qed

definition disk_cfg :: "bytes client_config" where
  "disk_cfg = xapp_cfg\<lparr>cc_identity_dir := ''/id''\<rparr>"

definition disk_ca :: "bytes ca_io" where
  "disk_ca = xapp_ca\<lparr>co_answer := (\<lambda>_. Http_response 200 (pem_encode disk_pem ''CERTIFICATE'' [200]))\<rparr>"

definition disk_enrolled :: "(bytes, nat) xclient" where
  "disk_enrolled = snd (enrollLocked xapp_crypto disk_pem xapp_ext disk_ca (xapp_client\<lparr>xc_cfg := disk_cfg\<rparr>) ClassicalPlane xapp_id False True)"

definition disk_client :: "(bytes, nat) xclient" where
  "disk_client = xapp_client\<lparr>xc_cfg := disk_cfg, xc_files := xc_files disk_enrolled\<rparr>"

text \<open>C38: A restart keeps the identity: after an enrollment or renewal whose files were written, a new process
  with the same configuration starts on exactly the credential the old one held -- chain, key and
  leaf -- without asking the CA and without touching the bootstrap credential, until the renewal margin.\<close>
theorem restart_keeps_identity:
  assumes "enrollLocked C L E io x p auth renew newKey = (Inr st, y)"
    and "pem_correct L" "x509_keeps_raw E" "keys_pair C L" "whole_persist (co_persist io)" "pc_dir (planeConfig x p) \<noteq> []"
    and "New L E gen (xc_files y) (xc_cfg x) = Inr z"
    and "pc_id (planeConfig y p) = Some c"
    and "pi_now_load io' < c_not_after (cred_leaf c)"
    and "renewBeforeFor (xc_cfg x) (pc_lifetime (planeConfig x p)) < time_sub (c_not_after (cred_leaf c)) (pi_now_need io')"
  shows "startIdentity C L E io' z p = (Inr (), set_identity z p c)"
  using assms by (rule restart_loads)

lemma disk_enroll:
  "\<exists>st. enrollLocked xapp_crypto disk_pem xapp_ext disk_ca (xapp_client\<lparr>xc_cfg := disk_cfg\<rparr>) ClassicalPlane xapp_id False True = (Inr st, disk_enrolled)"
  "pc_id (planeConfig disk_enrolled ClassicalPlane) = Some xapp_id"
proof -
  have l: "limit_read 1048576 (pem_encode disk_pem ''CERTIFICATE'' [200]) = pem_encode disk_pem ''CERTIFICATE'' [200]"
    by (simp add: limit_read_def disk_pem_def unary_def bytes_of_def)
  have c: "ParseCertsPEM disk_pem xapp_ext (pem_encode disk_pem ''CERTIFICATE'' [200]) = Some [sample_leaf]"
    using cert_ders_encoded [OF disk_pem_correct, of "[[200]]"] by (simp add: ParseCertsPEM_def) (simp add: xapp_ext_def)
  have k: "c_pub sample_leaf = EC_key ''P-256'' [2]" "c_raw sample_leaf = [200]" "signer_public xapp_crypto [2] = EC_key ''P-256'' [2]"
    by (simp_all add: sample_leaf_def xapp_crypto_def)
  have g: "GenerateKey ''EC-P256'' \<noteq> None" by code_simp
  have e: "Enroll xapp_crypto disk_pem xapp_ext disk_cfg disk_ca xapp_id [2] (900 * second) False = Inr xapp_id"
    by (simp add: Enroll_def disk_ca_def l c k) (simp add: xapp_id_def)
  have s: "cc_key_alg disk_cfg = ''EC-P256''" "cc_cert_lifetime disk_cfg = 900 * second" "co_key disk_ca t = Some [2]" for t
    by (simp_all add: disk_cfg_def disk_ca_def)
  obtain st y where r: "enrollLocked xapp_crypto disk_pem xapp_ext disk_ca (xapp_client\<lparr>xc_cfg := disk_cfg\<rparr>) ClassicalPlane xapp_id False True = (Inr st, y)"
    "pc_id (planeConfig y ClassicalPlane) = Some xapp_id"
    using g e s by (auto simp: enrollLocked_def planeConfig_def Let_def set_identity_def)
  then show "\<exists>st. enrollLocked xapp_crypto disk_pem xapp_ext disk_ca (xapp_client\<lparr>xc_cfg := disk_cfg\<rparr>) ClassicalPlane xapp_id False True = (Inr st, disk_enrolled)"
    "pc_id (planeConfig disk_enrolled ClassicalPlane) = Some xapp_id"
    by (simp_all add: disk_enrolled_def)
qed

theorem restart_keeps_identity_witness:
  "startIdentity xapp_crypto disk_pem xapp_ext xapp_plane_io disk_client ClassicalPlane
     = (Inr (), set_identity disk_client ClassicalPlane xapp_id)"
proof -
  obtain st where e: "enrollLocked xapp_crypto disk_pem xapp_ext disk_ca (xapp_client\<lparr>xc_cfg := disk_cfg\<rparr>) ClassicalPlane xapp_id False True
      = (Inr st, disk_enrolled)" using disk_enroll(1) by blast
  have r: "x509_keeps_raw xapp_ext" by (simp add: x509_keeps_raw_def xapp_ext_def sample_leaf_def)
  have k: "keys_pair xapp_crypto disk_pem" by (simp add: keys_pair_def disk_pem_def xapp_pem_def)
  have w: "whole_persist (co_persist disk_ca)" by (simp add: whole_persist_def disk_ca_def xapp_ca_def)
  have d: "pc_dir (planeConfig (xapp_client\<lparr>xc_cfg := disk_cfg\<rparr>) ClassicalPlane) \<noteq> []"
    by (simp add: planeConfig_def disk_cfg_def)
  have v: "Validate disk_cfg = None" by code_simp
  have n: "New disk_pem xapp_ext (\<lambda>_. Some (Jwk_key 7)) (xc_files disk_enrolled) disk_cfg = Inr disk_client"
    using xapp_New v by (auto simp: New_def newBase_def disk_cfg_def disk_client_def xapp_client_def Let_def split: if_splits option.splits)
  have t: "pi_now_load xapp_plane_io < c_not_after (cred_leaf xapp_id)"
    "renewBeforeFor disk_cfg (pc_lifetime (planeConfig (xapp_client\<lparr>xc_cfg := disk_cfg\<rparr>) ClassicalPlane))
       < time_sub (c_not_after (cred_leaf xapp_id)) (pi_now_need xapp_plane_io)"
    by (simp_all add: xapp_plane_io_def sample_leaf_def renewBeforeFor_def disk_cfg_def planeConfig_def time_sub_def t0_def unix_offset_def)
  show ?thesis
    using restart_keeps_identity [OF e disk_pem_correct r k w d _ disk_enroll(2) t(1)] n t(2) by simp
qed

end
