(* ===== verification/Sidecar.thy ===== *)
theory Sidecar
  imports Client_Methods Channel Tunnel_Conn
begin

text \<open>
  \<open>sidecar/\<close>: the configuration with its routes, the authorization frame, the two halves of a
  connection -- \<open>accept\<close> for one that arrives and \<open>forward\<close> for one that leaves -- and the start of the
  process.  Network, clock, random bytes and the wording of a refusal are inputs; the relay of an
  authorized connection is in \<open>Relay\<close>.
\<close>

section \<open>Configuration\<close>

record egress_route =
  er_name :: string
  er_listen :: string
  er_peer :: string
  er_peer_name :: string

record ingress_route =
  ir_name :: string
  ir_local :: string

record sidecar_config =
  sd_name :: string
  sd_authority :: string
  sd_ingress_listen :: string
  sd_ingress_routes :: "ingress_route list"
  sd_egress_routes :: "egress_route list"
  sd_handshake_timeout :: duration
  sd_auth_timeout :: duration
  sd_idle_timeout :: duration
  sd_dial_timeout :: duration
  sd_token_timeout :: duration
  sd_health_listen :: string

definition splitList :: "string \<Rightarrow> string list" where
  "splitList s = filter (\<lambda>p. p \<noteq> []) (map trim_space (split_on CHR '','' s))"

definition ingress_spec :: "string \<Rightarrow> ingress_route option" where
  "ingress_spec spec =
     (case split_on CHR ''|'' spec of
        [name, local] \<Rightarrow> if name = [] \<or> local = [] then None else Some \<lparr>ir_name = name, ir_local = local\<rparr>
      | _ \<Rightarrow> None)"

definition parseIngress :: "string \<Rightarrow> ingress_route list option" where
  "parseIngress s = those (map ingress_spec (splitList s))"

definition egress_spec :: "string \<Rightarrow> egress_route option" where
  "egress_spec spec =
     (case split_on CHR ''|'' spec of
        name # listen # peer # rest \<Rightarrow>
          if 1 < length rest \<or> name = [] \<or> listen = [] \<or> peer = [] then None
          else Some \<lparr>er_name = name, er_listen = listen, er_peer = peer,
                     er_peer_name = (case rest of p # _ \<Rightarrow> p | [] \<Rightarrow> [])\<rparr>
      | _ \<Rightarrow> None)"

definition parseEgress :: "string \<Rightarrow> egress_route list option" where
  "parseEgress s = those (map egress_spec (splitList s))"

text \<open>A list of routes that does not parse leaves the routes empty.\<close>

definition sidecar_ConfigFromEnv ::
  "'k ext \<Rightarrow> (string \<Rightarrow> string option) \<Rightarrow> env_error list + sidecar_config" where
  "sidecar_ConfigFromEnv E g = env_result (do {
     name \<leftarrow> env_req g ''SIDECAR_NAME'';
     authority \<leftarrow> env_str g ''SIDECAR_AUTHORITY'' [];
     listen \<leftarrow> env_str g ''SIDECAR_INGRESS_LISTEN'' [];
     handshake \<leftarrow> env_dur E g ''SIDECAR_HANDSHAKE_TIMEOUT'' (15 * second);
     auth \<leftarrow> env_dur E g ''SIDECAR_AUTH_TIMEOUT'' (15 * second);
     idle \<leftarrow> env_dur E g ''SIDECAR_IDLE_TIMEOUT'' 0;
     dial \<leftarrow> env_dur E g ''SIDECAR_DIAL_TIMEOUT'' (10 * second);
     token \<leftarrow> env_dur E g ''SIDECAR_TOKEN_TIMEOUT'' (30 * second);
     health \<leftarrow> env_str g ''SIDECAR_HEALTH_LISTEN'' '':8081'';
     ingress \<leftarrow> env_str g ''SIDECAR_INGRESS_ROUTES'' [];
     env_fail_if (parseIngress ingress = None) ''SIDECAR_INGRESS_ROUTES'';
     egress \<leftarrow> env_str g ''SIDECAR_EGRESS_ROUTES'' [];
     env_fail_if (parseEgress egress = None) ''SIDECAR_EGRESS_ROUTES'';
     let ins = (case parseIngress ingress of Some rs \<Rightarrow> rs | None \<Rightarrow> []);
     let outs = (case parseEgress egress of Some rs \<Rightarrow> rs | None \<Rightarrow> []);
     env_fail_if (listen = [] \<and> outs = []) ''nothing to do'';
     env_fail_if (listen \<noteq> [] \<and> ins = []) ''SIDECAR_INGRESS_ROUTES is empty'';
     env_fail_if (listen \<noteq> [] \<and> authority = []) ''SIDECAR_AUTHORITY is required'';
     State_Monad.return
       \<lparr>sd_name = name, sd_authority = authority, sd_ingress_listen = listen, sd_ingress_routes = ins,
        sd_egress_routes = outs, sd_handshake_timeout = handshake, sd_auth_timeout = auth, sd_idle_timeout = idle,
        sd_dial_timeout = dial, sd_token_timeout = token, sd_health_listen = health\<rparr>
   })"

definition IngressAuthority :: "sidecar_config \<Rightarrow> string \<Rightarrow> string" where
  "IngressAuthority c route = sd_authority c @ ''/'' @ route"

definition IngressTarget :: "sidecar_config \<Rightarrow> string \<Rightarrow> string option" where
  "IngressTarget c name = map_option ir_local (find (\<lambda>r. ir_name r = name) (sd_ingress_routes c))"

definition egress_target :: "egress_route \<Rightarrow> string" where
  "egress_target r = ''https://'' @ er_peer r @ ''/'' @ er_name r"


section \<open>Authorization frames\<close>

record authFrame =
  af_version :: int
  af_client_id :: string
  af_route :: string
  af_target :: string
  af_token :: string
  af_proof :: string

record authAck =
  ak_ok :: bool
  ak_binding :: string
  ak_peer :: string
  ak_code :: string
  ak_detail :: string

definition authFrameVersion :: int where "authFrameVersion = 1"

text \<open>An \<open>omitempty\<close> member is left out when empty.\<close>

definition omitempty :: "string \<Rightarrow> string \<Rightarrow> jobj" where
  "omitempty name v = (if v = [] then [] else [(name, VStr v)])"

definition frame_json :: "authFrame \<Rightarrow> jobj" where
  "frame_json f =
     [(''v'', VInt (af_version f)), (''client_id'', VStr (af_client_id f)), (''route'', VStr (af_route f)),
      (''target'', VStr (af_target f)), (''token'', VStr (af_token f))] @ omitempty ''proof'' (af_proof f)"

definition ack_json :: "authAck \<Rightarrow> jobj" where
  "ack_json a = [(''ok'', VBool (ak_ok a))] @ omitempty ''binding'' (ak_binding a) @ omitempty ''peer'' (ak_peer a)
     @ omitempty ''code'' (ak_code a) @ omitempty ''detail'' (ak_detail a)"

definition decode_frame :: "'k ext \<Rightarrow> bytes \<Rightarrow> authFrame option" where
  "decode_frame E b =
     (case json_struct E b of
        None \<Rightarrow> None
      | Some m \<Rightarrow>
          (case (json_int m ''v'', json_str m ''client_id'', json_str m ''route'', json_str m ''target'', json_str m ''token'', json_str m ''proof'') of
             (Some v, Some c, Some r, Some t, Some k, Some p) \<Rightarrow>
               Some \<lparr>af_version = v, af_client_id = c, af_route = r, af_target = t, af_token = k, af_proof = p\<rparr>
           | _ \<Rightarrow> None))"

definition decode_ack :: "'k ext \<Rightarrow> bytes \<Rightarrow> authAck option" where
  "decode_ack E b =
     (case json_struct E b of
        None \<Rightarrow> None
      | Some m \<Rightarrow>
          (case (json_bool m ''ok'', json_str m ''binding'', json_str m ''peer'', json_str m ''code'', json_str m ''detail'') of
             (Some k, Some b, Some p, Some c, Some d) \<Rightarrow>
               Some \<lparr>ak_ok = k, ak_binding = b, ak_peer = p, ak_code = c, ak_detail = d\<rparr>
           | _ \<Rightarrow> None))"


section \<open>The sidecar\<close>

record ('s, 'k) sidecar =
  sd_cfg :: sidecar_config
  sd_client :: "('s, 'k) xclient"
  sd_validator :: "'k validator option"
  sd_counter :: "(string \<times> nat) list"

datatype sidecar_error =
    SE_pq_required
  | SE_client client_error
  | SE_validator
  | SE_no_proof_key
  | SE_proof
  | SE_dial
  | SE_handshake hs_error
  | SE_deadline
  | SE_encode
  | SE_write
  | SE_read conn_error
  | SE_ack_malformed
  | SE_refused string
  | SE_app_unreachable

definition sidecar_New ::
  "'s pem_lib \<Rightarrow> 'k ext \<Rightarrow> (string \<Rightarrow> 'k anykey option) \<Rightarrow> files \<Rightarrow> sidecar_config \<Rightarrow> 's client_config \<Rightarrow> vconfig
     \<Rightarrow> sidecar_error + ('s, 'k) sidecar" where
  "sidecar_New L E gen fs cfg ccfg rcfg =
     (if \<not> cc_pq_enabled ccfg then Inl SE_pq_required
      else case New L E gen fs ccfg of
             Inl e \<Rightarrow> Inl (SE_client e)
           | Inr x \<Rightarrow>
               if sd_ingress_listen cfg = []
               then Inr \<lparr>sd_cfg = cfg, sd_client = x, sd_validator = None, sd_counter = []\<rparr>
               else (case NewValidator rcfg (LoadCertPool L E fs (vc_trust_bundle rcfg)) of
                       None \<Rightarrow> Inl SE_validator
                     | Some v \<Rightarrow> Inr \<lparr>sd_cfg = cfg, sd_client = x, sd_validator = Some v, sd_counter = []\<rparr>))"

definition Counters :: "('s, 'k) sidecar \<Rightarrow> string \<Rightarrow> nat" where
  "Counters s name = (case map_of (sd_counter s) name of Some n \<Rightarrow> n | None \<Rightarrow> 0)"

definition count :: "string \<Rightarrow> ('s, 'k) sidecar \<Rightarrow> ('s, 'k) sidecar" where
  "count name s = s\<lparr>sd_counter := alist_store name (Counters s name + 1) (sd_counter s)\<rparr>"

text \<open>The credential is the post-quantum identity at the time of the handshake.\<close>

definition tunnelConfig :: "('s, 'k) sidecar \<Rightarrow> string \<Rightarrow> time \<Rightarrow> 's tunnel_config" where
  "tunnelConfig s peerName now =
     \<lparr>tc_credential = map_option credential.truncate (xc_pq_id (sd_client s)), tc_roots = xc_roots (sd_client s),
      tc_peer_name = peerName, tc_now = now\<rparr>"

text \<open>\<open>Conn.SetDeadline\<close> is that of the connection below.\<close>

definition tun_deadline :: "conn \<Rightarrow> bool \<times> conn" where
  "tun_deadline k = (case set_deadline (k_raw k) of (ok, r) \<Rightarrow> (ok, k\<lparr>k_raw := r\<rparr>))"

text \<open>\<open>reply\<close>; false when the acknowledgement could not be sent.\<close>

definition reply :: "('s, 'd) crypto \<Rightarrow> 'k ext \<Rightarrow> conn \<Rightarrow> authAck \<Rightarrow> sidecar_error option \<times> conn" where
  "reply C E tun ack =
     (case json_encode E (VObj (ack_json ack)) of
        None \<Rightarrow> (Some SE_encode, tun)
      | Some b \<Rightarrow> (case WriteMessage C tun b of (ok, tun1) \<Rightarrow> (if ok then None else Some SE_write, tun1)))"

definition refuse :: "('s, 'd) crypto \<Rightarrow> 'k ext \<Rightarrow> conn \<Rightarrow> string \<Rightarrow> string \<Rightarrow> sidecar_error \<times> conn" where
  "refuse C E tun code detail =
     (case reply C E tun \<lparr>ak_ok = False, ak_binding = [], ak_peer = [], ak_code = code, ak_detail = detail\<rparr> of
        (Some e, tun1) \<Rightarrow> (e, tun1)
      | (None, tun1) \<Rightarrow> (SE_refused code, tun1))"


section \<open>Connections that arrive\<close>

record ingress_io =
  gi_seed :: bytes
  gi_now :: time \<comment> \<open>the clock of the handshake\<close>
  gi_auth :: auth_io
  gi_detail :: "string \<Rightarrow> string" \<comment> \<open>the wording that goes with a code\<close>
  gi_dial :: "string \<Rightarrow> bool" \<comment> \<open>the application is reachable\<close>

text \<open>The checks of the frame before the token: version, route and target; an error is the code of the refusal.\<close>

definition check_frame :: "sidecar_config \<Rightarrow> authFrame \<Rightarrow> string + string" where
  "check_frame cfg f =
     (if af_version f \<noteq> authFrameVersion then Inl ''authorization_frame_version''
      else case IngressTarget cfg (af_route f) of
             None \<Rightarrow> Inl ''route_unknown''
           | Some local \<Rightarrow>
               if af_target f \<noteq> ''https://'' @ IngressAuthority cfg (af_route f) then Inl ''channel_target_mismatch''
               else Inr local)"

definition frame_request :: "authFrame \<Rightarrow> peer \<Rightarrow> channel_request" where
  "frame_request f p =
     \<lparr>cr_token = af_token f, cr_proof = af_proof f, cr_peer_chain = pe_chain p, cr_target = af_target f,
      cr_operation = ChannelOperation\<rparr>"

text \<open>The token and the identity of the peer.\<close>

definition authorize_frame ::
  "'k ext \<Rightarrow> ingress_io \<Rightarrow> authFrame \<Rightarrow> peer \<Rightarrow> 'k validator \<Rightarrow> ('s, 'k) sidecar \<Rightarrow> (string + principal) \<times> ('s, 'k) sidecar" where
  "authorize_frame E io f p v s =
     (case AuthorizeChannel E v (gi_auth io) (frame_request f p) of
        (Inl rej, v') \<Rightarrow>
          (Inl (reason_code rej), count (''ingress_rejected_'' @ reason_code rej) (s\<lparr>sd_validator := Some v'\<rparr>))
      | (Inr pr, v') \<Rightarrow>
          (let s1 = s\<lparr>sd_validator := Some v'\<rparr>
           in if p_client_id pr \<noteq> [] \<and> CommonName (Some p) \<noteq> [] \<and> p_client_id pr \<noteq> CommonName (Some p)
              then (Inl ''peer_identity_mismatch'', count ''ingress_rejected_peer_identity_mismatch'' s1)
              else (Inr pr, s1)))"

datatype ingress_outcome =
    Ingress_failed sidecar_error
  | Ingress_unreachable string
  | Ingress_relaying string principal

text \<open>From the accepted frame to the relay: acknowledge, lift the deadline, dial.\<close>

definition admit ::
  "('s, 'd) crypto \<Rightarrow> 'k ext \<Rightarrow> ingress_io \<Rightarrow> authFrame \<Rightarrow> string \<Rightarrow> principal \<Rightarrow> conn \<Rightarrow> ('s, 'k) sidecar
     \<Rightarrow> ingress_outcome \<times> conn \<times> ('s, 'k) sidecar" where
  "admit C E io f local pr tun s =
     (case reply C E tun \<lparr>ak_ok = True, ak_binding = p_binding pr, ak_peer = sd_name (sd_cfg s), ak_code = [], ak_detail = []\<rparr> of
        (Some e, tun1) \<Rightarrow> (Ingress_failed e, tun1, s)
      | (None, tun1) \<Rightarrow>
          (case tun_deadline tun1 of
             (False, tun2) \<Rightarrow> (Ingress_failed SE_deadline, tun2, s)
           | (True, tun2) \<Rightarrow>
               (let s1 = count (''ingress_ok_'' @ af_route f) s
                in if gi_dial io local then (Ingress_relaying local pr, tun2, s1)
                   else (Ingress_unreachable local, tun2, count ''ingress_app_unreachable'' s1))))"

text \<open>The first message, and what becomes of it.\<close>

definition handle_frame ::
  "('s, 'd) crypto \<Rightarrow> 'k ext \<Rightarrow> ingress_io \<Rightarrow> bytes \<Rightarrow> 'k validator \<Rightarrow> conn \<Rightarrow> ('s, 'k) sidecar
     \<Rightarrow> ingress_outcome \<times> conn \<times> ('s, 'k) sidecar" where
  "handle_frame C E io payload v tun s =
     (let refused = (\<lambda>code s1. case refuse C E tun code (gi_detail io code) of (e, tun1) \<Rightarrow> (Ingress_failed e, tun1, s1))
      in case decode_frame E payload of
           None \<Rightarrow> refused ''authorization_frame_malformed'' s
         | Some f \<Rightarrow>
             (case check_frame (sd_cfg s) f of
                Inl code \<Rightarrow> refused code s
              | Inr local \<Rightarrow>
                  (case authorize_frame E io f (k_peer tun) v s of
                     (Inl code, s1) \<Rightarrow> refused code s1
                   | (Inr pr, s1) \<Rightarrow> admit C E io f local pr tun s1)))"

text \<open>\<open>accept\<close> of a listening sidecar, which has a validator.\<close>

definition accept ::
  "('s, 'd) crypto \<Rightarrow> 'k ext \<Rightarrow> ingress_io \<Rightarrow> 'k validator \<Rightarrow> raw \<Rightarrow> ('s, 'k) sidecar
     \<Rightarrow> ingress_outcome \<times> conn option \<times> ('s, 'k) sidecar" where
  "accept C E io v r s =
     (case Server C E (tunnelConfig s [] (gi_now io)) (gi_seed io) r of
        Inl e \<Rightarrow> (Ingress_failed (SE_handshake e), None, count ''ingress_handshake_failed'' s)
      | Inr tun0 \<Rightarrow>
          (case tun_deadline tun0 of
             (False, tun) \<Rightarrow> (Ingress_failed SE_deadline, Some tun, s)
           | (True, tun) \<Rightarrow>
               (case ReadMessage C tun of
                  (Inl e, tun1) \<Rightarrow> (Ingress_failed (SE_read e), Some tun1, count ''ingress_no_auth_frame'' s)
                | (Inr payload, tun1) \<Rightarrow>
                    (case handle_frame C E io payload v tun1 s of (res, tun2, s1) \<Rightarrow> (res, Some tun2, s1)))))"

text \<open>One connection of \<open>serveIngress\<close>, which runs only with an ingress listener.\<close>

definition ingress_conn ::
  "('s, 'd) crypto \<Rightarrow> 'k ext \<Rightarrow> ingress_io \<Rightarrow> raw \<Rightarrow> ('s, 'k) sidecar \<Rightarrow> (ingress_outcome \<times> conn option) option \<times> ('s, 'k) sidecar" where
  "ingress_conn C E io r s =
     (case sd_validator s of
        None \<Rightarrow> (None, s)
      | Some v \<Rightarrow> (case accept C E io v r s of (res, tun, s1) \<Rightarrow> (Some (res, tun), s1)))"


section \<open>Connections that leave\<close>

record 's egress_io =
  eg_call :: "'s call_io"
  eg_proof :: "time \<times> bytes option"
  eg_dial :: "string \<Rightarrow> raw option"
  eg_seed :: bytes
  eg_now :: time

text \<open>\<open>buildAuthFrame\<close>: a token, and a proof of its key when it is bound to one.\<close>

definition channel_proof ::
  "'k ext \<Rightarrow> ('s, 'k) xclient \<Rightarrow> token \<Rightarrow> string \<Rightarrow> time \<Rightarrow> bytes option \<Rightarrow> sidecar_error + string" where
  "channel_proof E x tok target now random =
     (if tk_binding tok \<noteq> ''jkt'' then Inr []
      else case xc_kind x of
             Cert_bound \<Rightarrow> Inl SE_no_proof_key
           | Dpop_bound s jkt pq \<Rightarrow>
               (case (if tk_post_quantum tok then map_option fst pq else Some s) of
                  None \<Rightarrow> Inl SE_no_proof_key
                | Some signer \<Rightarrow> of_option SE_proof (BuildDPoPProof E signer ChannelOperation target (tk_value tok) [] now random)))"

definition buildAuthFrame ::
  "('s, 'd) crypto \<Rightarrow> 's pem_lib \<Rightarrow> 'k ext \<Rightarrow> ('s \<Rightarrow> 'k option) \<Rightarrow> 's egress_io \<Rightarrow> egress_route \<Rightarrow> ('s, 'k) xclient
     \<Rightarrow> (sidecar_error + authFrame \<times> token) \<times> ('s, 'k) xclient" where
  "buildAuthFrame C L E imp io route x =
     (case Token C L E imp (eg_call io) x of
        (Inl e, x1) \<Rightarrow> (Inl (SE_client e), x1)
      | (Inr tok, x1) \<Rightarrow>
          (case channel_proof E x1 tok (egress_target route) (fst (eg_proof io)) (snd (eg_proof io)) of
             Inl e \<Rightarrow> (Inl e, x1)
           | Inr proof \<Rightarrow>
               (Inr (\<lparr>af_version = authFrameVersion, af_client_id = cc_client_id (xc_cfg x1), af_route = er_name route,
                      af_target = egress_target route, af_token = tk_value tok, af_proof = proof\<rparr>, tok), x1)))"

text \<open>Send the frame and wait for the answer.\<close>

definition exchange_frame ::
  "('s, 'd) crypto \<Rightarrow> 'k ext \<Rightarrow> authFrame \<Rightarrow> conn \<Rightarrow> (sidecar_error + authAck) \<times> conn" where
  "exchange_frame C E f tun =
     (case tun_deadline tun of
        (False, t1) \<Rightarrow> (Inl SE_deadline, t1)
      | (True, t1) \<Rightarrow>
     (case json_encode E (VObj (frame_json f)) of
        None \<Rightarrow> (Inl SE_encode, t1)
      | Some payload \<Rightarrow>
     (case WriteMessage C t1 payload of
        (False, t2) \<Rightarrow> (Inl SE_write, t2)
      | (True, t2) \<Rightarrow>
     (case ReadMessage C t2 of
        (Inl e, t3) \<Rightarrow> (Inl (SE_read e), t3)
      | (Inr b, t3) \<Rightarrow> (of_option SE_ack_malformed (decode_ack E b), t3)))))"

text \<open>\<open>forward\<close>; the value is the connection to relay.\<close>

definition forward ::
  "('s, 'd) crypto \<Rightarrow> 's pem_lib \<Rightarrow> 'k ext \<Rightarrow> ('s \<Rightarrow> 'k option) \<Rightarrow> 's egress_io \<Rightarrow> egress_route \<Rightarrow> ('s, 'k) sidecar
     \<Rightarrow> (sidecar_error + conn) \<times> ('s, 'k) sidecar" where
  "forward C L E imp io route s =
     (case buildAuthFrame C L E imp io route (sd_client s) of
        (Inl e, x) \<Rightarrow> (Inl e, s\<lparr>sd_client := x\<rparr>)
      | (Inr (f, tok), x) \<Rightarrow>
          (let s1 = s\<lparr>sd_client := x\<rparr>
           in case eg_dial io (er_peer route) of
                None \<Rightarrow> (Inl SE_dial, s1)
              | Some raw \<Rightarrow>
                  (case Client C E (tunnelConfig s1 (er_peer_name route) (eg_now io)) (eg_seed io) raw of
                     Inl e \<Rightarrow> (Inl (SE_handshake e), s1)
                   | Inr tun \<Rightarrow>
                       (case exchange_frame C E f tun of
                          (Inl e, t1) \<Rightarrow> (Inl e, s1)
                        | (Inr ack, t1) \<Rightarrow>
                            if \<not> ak_ok ack then (Inl (SE_refused (ak_code ack)), count (''egress_rejected_'' @ ak_code ack) s1)
                            else (case tun_deadline t1 of
                                    (False, t2) \<Rightarrow> (Inl SE_deadline, s1)
                                  | (True, t2) \<Rightarrow> (Inr t2, count (''egress_ok_'' @ er_name route) s1))))))"

text \<open>One connection of \<open>serveEgress\<close>.\<close>

definition egress_conn ::
  "('s, 'd) crypto \<Rightarrow> 's pem_lib \<Rightarrow> 'k ext \<Rightarrow> ('s \<Rightarrow> 'k option) \<Rightarrow> 's egress_io \<Rightarrow> egress_route \<Rightarrow> ('s, 'k) sidecar
     \<Rightarrow> (sidecar_error + conn) \<times> ('s, 'k) sidecar" where
  "egress_conn C L E imp io route s =
     (case forward C L E imp io route s of
        (Inl e, s1) \<Rightarrow> (Inl e, count (''egress_failed_'' @ er_name route) s1)
      | (Inr tun, s1) \<Rightarrow> (Inr tun, s1))"


section \<open>The start of the process\<close>

text \<open>
  The attempts of \<open>Run\<close> to obtain an identity: after a failure the loop ends when the context is
  done, at the thirtieth attempt, or when it is done during the pause.
\<close>

datatype start_outcome = Started | Start_cancelled | Start_failed client_error

record 's start_io =
  so_start :: "'s plane_io \<times> 's plane_io"
  so_done :: bool
  so_done_in_pause :: bool

definition start_attempts_max :: nat where "start_attempts_max = 30"

function start_attempts ::
  "('s, 'd) crypto \<Rightarrow> 's pem_lib \<Rightarrow> 'k ext \<Rightarrow> (nat \<Rightarrow> 's start_io) \<Rightarrow> nat \<Rightarrow> ('s, 'k) xclient \<Rightarrow> (nat \<times> start_outcome) \<times> ('s, 'k) xclient" where
  "start_attempts C L E io attempt x =
     (case Start C L E (so_start (io attempt)) x of
        (Inr _, x1) \<Rightarrow> ((attempt, Started), x1)
      | (Inl e, x1) \<Rightarrow>
          if so_done (io attempt) then ((attempt, Start_cancelled), x1)
          else if start_attempts_max \<le> attempt then ((attempt, Start_failed e), x1)
          else if so_done_in_pause (io attempt) then ((attempt, Start_cancelled), x1)
          else start_attempts C L E io (attempt + 1) x1)"
  by pat_completeness auto
termination
  by (relation "measure (\<lambda>(C, L, E, io, attempt, x). start_attempts_max - attempt)") auto

declare start_attempts.simps [simp del]

end
