(* ===== verification/Session.thy ===== *)
theory Session
  imports Sidecar
begin

text \<open>
  The two halves of a connection of the sidecar, \<open>forward\<close> and \<open>accept\<close>: what a dialed application
  implies, and that two honest sidecars reach the relay.
\<close>

section \<open>What a dial means\<close>

fun dialed :: "ingress_outcome \<Rightarrow> string option" where
  "dialed (Ingress_failed e) = None"
| "dialed (Ingress_unreachable local) = Some local"
| "dialed (Ingress_relaying local p) = Some local"

lemma check_frame_Inr:
  "check_frame cfg f = Inr local \<longleftrightarrow> af_version f = authFrameVersion \<and> IngressTarget cfg (af_route f) = Some local
     \<and> af_target f = ''https://'' @ IngressAuthority cfg (af_route f)"
  by (auto simp: check_frame_def split: option.splits)

lemma authorize_frame_Inr:
  assumes "authorize_frame E io f p v s = (Inr pr, s1)"
  shows "\<exists>v'. AuthorizeChannel E v (gi_auth io) (frame_request f p) = (Inr pr, v') \<and> s1 = s\<lparr>sd_validator := Some v'\<rparr>
    \<and> (p_client_id pr = [] \<or> c_cn (pe_leaf p) = [] \<or> p_client_id pr = c_cn (pe_leaf p))"
  using assms by (auto simp: authorize_frame_def CommonName_def Let_def split: prod.splits sum.splits if_splits)

lemma admit_dialed: "admit C E io f local pr tun s = (res, tun1, s1) \<Longrightarrow> dialed res = Some l \<Longrightarrow> l = local"
  by (auto simp: admit_def Let_def split: prod.splits option.splits bool.splits if_splits)

lemma handle_frame_dialed:
  assumes "handle_frame C E io payload v tun s = (res, tun1, s1)" "dialed res = Some local"
  shows "\<exists>f pr v'. decode_frame E payload = Some f \<and> check_frame (sd_cfg s) f = Inr local
    \<and> AuthorizeChannel E v (gi_auth io) (frame_request f (k_peer tun)) = (Inr pr, v')
    \<and> (p_client_id pr = [] \<or> c_cn (pe_leaf (k_peer tun)) = [] \<or> p_client_id pr = c_cn (pe_leaf (k_peer tun)))"
proof -
  from assms obtain f l pr s2 where f: "decode_frame E payload = Some f" "check_frame (sd_cfg s) f = Inr l"
    and a: "authorize_frame E io f (k_peer tun) v s = (Inr pr, s2)" and d: "admit C E io f l pr tun s2 = (res, tun1, s1)"
    by (auto simp: handle_frame_def Let_def split: option.splits sum.splits prod.splits)
  from admit_dialed [OF d assms(2)] authorize_frame_Inr [OF a] f show ?thesis by auto
qed

text \<open>Reading leaves everything but the reading half alone, writing everything but the writing half.\<close>

definition beside_reader :: "conn \<Rightarrow> wire \<times> bool list \<times> peer \<times> bytes \<times> bytes \<times> 64 word \<times> bool" where
  "beside_reader k = (raw_w (k_raw k), raw_deadlines (k_raw k), k_peer k, k_seal k, k_wIV k, k_wSeq k, k_wClosed k)"

definition beside_writer :: "conn \<Rightarrow> bytes \<times> bool list \<times> peer \<times> bytes \<times> bytes \<times> 64 word \<times> bool \<times> bytes" where
  "beside_writer k = (raw_in (k_raw k), raw_deadlines (k_raw k), k_peer k, k_open k, k_rIV k, k_rSeq k, k_rEOF k, k_buffer k)"

lemma Read_beside: "Read C k n = (y, k1) \<Longrightarrow> beside_reader k1 = beside_reader k"
  by (auto simp: Read_def readRecord_def beside_reader_def Let_def split: if_splits prod.splits sum.splits option.splits)

lemma conn_read_full_beside: "conn_read_full C k n acc = (x, k') \<Longrightarrow> beside_reader k' = beside_reader k"
proof (induction C k n acc arbitrary: x k' rule: conn_read_full.induct)
  case (1 C k n acc)
  show ?case
  proof (cases "n = 0")
    case True
    then show ?thesis using 1(2) by (simp add: conn_read_full.simps [of C k])
  next
    case False
    obtain y k1 where y: "Read C k n = (y, k1)" by fastforce
    show ?thesis
      using 1(1) [OF False y [symmetric]] 1(2) y Read_beside [OF y] False
      by (cases y) (auto simp: conn_read_full.simps [of C k] split: if_splits)
  qed
qed

lemma ReadMessage_beside: "ReadMessage C k = (x, k') \<Longrightarrow> beside_reader k' = beside_reader k"
  by (auto simp: ReadMessage_def Let_def split: prod.splits sum.splits if_splits dest!: conn_read_full_beside)

lemma ReadMessage_peer: "ReadMessage C k = (x, k') \<Longrightarrow> k_peer k' = k_peer k"
  using ReadMessage_beside by (fastforce simp: beside_reader_def)

lemma tun_deadline_quiet: "raw_deadlines (k_raw k) = [] \<Longrightarrow> tun_deadline k = (True, k)"
  by (simp add: tun_deadline_def set_deadline_def)

text \<open>One message over a healthy connection, sent and received.\<close>

lemma send_message:
  assumes "gcm_correct C" "healthy k" "length (k_wIV k) = 4" "\<not> k_wClosed k" "length b \<le> MaxMessage"
  shows "\<exists>k'. WriteMessage C k b = (True, k') \<and> beside_writer k' = beside_writer k
    \<and> w_out (raw_w (k_raw k')) = w_out (raw_w (k_raw k)) @ frames_from C (k_seal k) (k_wIV k) (k_wSeq k) (chunks (message_bytes b))"
  using Write_complete [OF assms(1-4), of "message_bytes b"] assms(5)
  by (simp add: WriteMessage_def message_bytes_def beside_writer_def) (simp add: put_out_def)

lemma receive_message:
  assumes "gcm_correct C" "length (k_rIV k) = 4" "\<not> k_rEOF k" "k_buffer k = []" "length b \<le> MaxMessage"
    and "raw_in (k_raw k) = frames_from C (k_open k) (k_rIV k) (k_rSeq k) (chunks (message_bytes b))"
  shows "\<exists>k'. ReadMessage C k = (Inr b, k') \<and> beside_reader k' = beside_reader k"
proof -
  let ?recs = "chunks (message_bytes b)"
  have "incoming C k (?recs @ []) []" "\<forall>c\<in>set ?recs. c \<noteq> []"
    using assms(2,6) by (auto simp: incoming_def dest: chunks_bounds)
  moreover have "to_come k ?recs = message_bytes b @ []" by (simp add: to_come_def assms(4))
  ultimately show ?thesis
    using ReadMessage_incoming [OF assms(1) _ assms(3) _ _ assms(5)] ReadMessage_beside by metis
qed

lemma tun_deadline_peer: "tun_deadline k = (ok, k') \<Longrightarrow> k_peer k' = k_peer k"
  by (auto simp: tun_deadline_def split: prod.splits)

lemma accept_dialed:
  assumes "accept C E io v r s = (res, tun, s1)" "dialed res = Some local"
  shows "\<exists>k k1 payload k2 f pr v'. Server C E (tunnelConfig s [] (gi_now io)) (gi_seed io) r = Inr k
    \<and> tun_deadline k = (True, k1) \<and> ReadMessage C k1 = (Inr payload, k2) \<and> decode_frame E payload = Some f
    \<and> check_frame (sd_cfg s) f = Inr local
    \<and> AuthorizeChannel E v (gi_auth io) (frame_request f (k_peer k)) = (Inr pr, v')
    \<and> (p_client_id pr = [] \<or> c_cn (pe_leaf (k_peer k)) = [] \<or> p_client_id pr = c_cn (pe_leaf (k_peer k)))"
proof -
  from assms obtain k k1 payload k2 tun2 s2 where k: "Server C E (tunnelConfig s [] (gi_now io)) (gi_seed io) r = Inr k"
    and d: "tun_deadline k = (True, k1)" and m: "ReadMessage C k1 = (Inr payload, k2)"
    and h: "handle_frame C E io payload v k2 s = (res, tun2, s2)"
    by (auto simp: accept_def split: sum.splits prod.splits bool.splits)
  have "k_peer k2 = k_peer k" using tun_deadline_peer [OF d] ReadMessage_peer [OF m] by simp
  with handle_frame_dialed [OF h assms(2)] k d m show ?thesis by auto
qed

text \<open>The binding of the principal is to what the peer showed on this connection.\<close>

lemma AuthorizeChannel_binding:
  assumes "AuthorizeChannel E v io cr = (Inr pr, v')"
  shows "(p_binding pr = ''x5t#S256'' \<longrightarrow> (\<exists>leaf rest. cr_peer_chain cr = leaf # rest \<and> p_thumbprint pr = ThumbprintS256 E leaf))
    \<and> (p_binding pr = ''jkt'' \<longrightarrow> (\<exists>u token j iat jti. proves_key E (v_cfg v) (ai_now_dpop io) (channel_http_request cr u) token (p_thumbprint pr) j iat jti))
    \<and> (p_binding pr = ''x5t#S256'' \<or> p_binding pr = ''jkt'')"
  using assms
proof (rule AuthorizeChannel_Inr)
  fix u
  assume a: "Authorize E v io (channelMode v) (channel_http_request cr u) = (Inr pr, v')"
  have x: "\<exists>leaf rest. cr_peer_chain cr = leaf # rest \<and> p_thumbprint pr = ThumbprintS256 E leaf" if "p_binding pr = ''x5t#S256''"
    using a
  proof (rule Authorize_Inr)
    fix scheme token claims ks x5t jkt rc
    assume c: "confirmation claims = Inr (x5t, jkt)"
      and b: "check_binding E v io (channel_http_request cr u) scheme token (x5t, jkt)
        (base_principal (channelMode v) claims) = (Inr pr, rc)"
    note b' = check_binding_Inr [OF b]
    have "jkt = None" using b'(5) that by (auto split: option.splits)
    moreover from this obtain g where g: "x5t = Some g" using confirmation_Inr [OF c] by auto
    ultimately have "p_thumbprint pr = g" using b'(5) by simp
    moreover have "presents_certificate E (v_roots v) (ai_now_cert io) (channel_http_request cr u) g" using b'(1) g by simp
    ultimately show ?thesis by (auto simp: presents_certificate_def channel_http_request_def)
  qed
  moreover have "\<exists>u token j iat jti. proves_key E (v_cfg v) (ai_now_dpop io) (channel_http_request cr u) token (p_thumbprint pr) j iat jti"
    if "p_binding pr = ''jkt''" using Authorize_jkt [OF a that] by metis
  moreover have "p_binding pr = ''x5t#S256'' \<or> p_binding pr = ''jkt''" using Authorize_not_jkt [OF a] by blast
  ultimately show ?thesis by blast
qed


section \<open>Frames across the tunnel\<close>

lemma equal_fold_samples [simp]:
  "equal_fold s s"
  by (simp add: equal_fold_def)

text \<open>The struct members are found under their own names, and only there.\<close>

lemma decode_frame_json:
  assumes "json_whole E b = Some (json_view (VObj (frame_json f)))" "min_int64 \<le> af_version f \<and> af_version f \<le> max_int64"
  shows "decode_frame E b = Some f"
proof -
  have n: "\<not> equal_fold ''v'' ''client_id''" "\<not> equal_fold ''v'' ''route''" "\<not> equal_fold ''v'' ''target''" "\<not> equal_fold ''v'' ''token''"
    "\<not> equal_fold ''v'' ''proof''" "\<not> equal_fold ''client_id'' ''route''" "\<not> equal_fold ''client_id'' ''target''"
    "\<not> equal_fold ''client_id'' ''token''" "\<not> equal_fold ''client_id'' ''proof''" "\<not> equal_fold ''route'' ''target''"
    "\<not> equal_fold ''route'' ''token''" "\<not> equal_fold ''route'' ''proof''" "\<not> equal_fold ''target'' ''token''"
    "\<not> equal_fold ''target'' ''proof''" "\<not> equal_fold ''token'' ''proof''"
    by code_simp+
  have "json_struct E b = Some (map (\<lambda>(n, v). (n, json_view v)) (frame_json f))" by (simp add: json_struct_def assms(1))
  then show ?thesis
    using parse_show_int assms(2) n
    by (cases f) (simp add: decode_frame_def frame_json_def omitempty_def json_int_def json_str_def json_member_def)
qed

lemma decode_ack_json:
  assumes "json_whole E b = Some (json_view (VObj (ack_json a)))"
  shows "decode_ack E b = Some a"
proof -
  have n: "\<not> equal_fold ''ok'' ''binding''" "\<not> equal_fold ''ok'' ''peer''" "\<not> equal_fold ''ok'' ''code''" "\<not> equal_fold ''ok'' ''detail''"
    "\<not> equal_fold ''binding'' ''peer''" "\<not> equal_fold ''binding'' ''code''" "\<not> equal_fold ''binding'' ''detail''"
    "\<not> equal_fold ''peer'' ''binding''" "\<not> equal_fold ''code'' ''binding''" "\<not> equal_fold ''detail'' ''binding''"
    "\<not> equal_fold ''peer'' ''code''" "\<not> equal_fold ''peer'' ''detail''" "\<not> equal_fold ''code'' ''peer''" "\<not> equal_fold ''detail'' ''peer''"
    "\<not> equal_fold ''code'' ''detail''" "\<not> equal_fold ''detail'' ''code''"
    by code_simp+
  have "json_struct E b = Some (map (\<lambda>(n, v). (n, json_view v)) (ack_json a))" by (simp add: json_struct_def assms(1))
  then show ?thesis
    using n by (cases a) (simp add: decode_ack_def ack_json_def omitempty_def json_bool_def json_str_def json_member_def)
qed

text \<open>The value a sender marshals is the value the receiver's parser returns.\<close>

definition json_travels :: "'k ext \<Rightarrow> jobj \<Rightarrow> bytes \<Rightarrow> bool" where
  "json_travels E m b \<longleftrightarrow> json_encode E (VObj m) = Some b \<and> json_whole E b = Some (json_view (VObj m)) \<and> length b \<le> MaxMessage"

definition one_message :: "('s, 'd) crypto \<Rightarrow> bytes \<Rightarrow> bytes \<Rightarrow> bytes \<Rightarrow> bytes" where
  "one_message C key iv b = frames_from C key iv 0 (chunks (message_bytes b))"

definition accepting_ack :: "principal \<Rightarrow> sidecar_config \<Rightarrow> authAck" where
  "accepting_ack pr cfg = \<lparr>ak_ok = True, ak_binding = p_binding pr, ak_peer = sd_name cfg, ak_code = [], ak_detail = []\<rparr>"

lemma admit_relays:
  assumes "gcm_correct C" "healthy k" "length (k_wIV k) = 4" "\<not> k_wClosed k" "raw_deadlines (k_raw k) = []"
    and "json_travels E (ack_json (accepting_ack pr (sd_cfg s))) b" "gi_dial io local" "k_wSeq k = 0"
  shows "\<exists>k' s'. admit C E io f local pr k s = (Ingress_relaying local pr, k', s') \<and> beside_writer k' = beside_writer k
    \<and> w_out (raw_w (k_raw k')) = w_out (raw_w (k_raw k)) @ one_message C (k_seal k) (k_wIV k) b"
proof -
  from send_message [OF assms(1-4)] assms(6) obtain k' where w: "WriteMessage C k b = (True, k')" "beside_writer k' = beside_writer k"
    "w_out (raw_w (k_raw k')) = w_out (raw_w (k_raw k)) @ frames_from C (k_seal k) (k_wIV k) (k_wSeq k) (chunks (message_bytes b))"
    by (auto simp: json_travels_def)
  then have "raw_deadlines (k_raw k') = []" using assms(5) by (simp add: beside_writer_def)
  note d = tun_deadline_quiet [OF this]
  have "reply C E k \<lparr>ak_ok = True, ak_binding = p_binding pr, ak_peer = sd_name (sd_cfg s), ak_code = [], ak_detail = []\<rparr> = (None, k')"
    using assms(6) w(1) by (simp add: reply_def json_travels_def accepting_ack_def)
  then show ?thesis using d w assms(7,8) by (simp add: admit_def one_message_def)
qed

lemma accept_relays:
  assumes C: "gcm_correct C" and S: "Server C E (tunnelConfig s [] (gi_now io)) (gi_seed io) r = Inr k"
    and k: "fresh_conn k" "healthy k" "raw_deadlines (k_raw k) = []" "raw_in (k_raw k) = one_message C (k_open k) (k_rIV k) b"
    and f: "json_travels E (frame_json f) b" "af_version f = authFrameVersion" "check_frame (sd_cfg s) f = Inr local"
    and a: "AuthorizeChannel E v (gi_auth io) (frame_request f (k_peer k)) = (Inr pr, v')"
      "p_client_id pr = [] \<or> c_cn (pe_leaf (k_peer k)) = [] \<or> p_client_id pr = c_cn (pe_leaf (k_peer k))"
    and d: "gi_dial io local" and t: "json_travels E (ack_json (accepting_ack pr (sd_cfg s))) b'"
  shows "\<exists>k' s'. accept C E io v r s = (Ingress_relaying local pr, Some k', s') \<and> k_peer k' = k_peer k
    \<and> w_out (raw_w (k_raw k')) = w_out (raw_w (k_raw k)) @ one_message C (k_seal k) (k_wIV k) b'"
proof -
  note fc = k(1) [unfolded fresh_conn_def]
  obtain k1 where m: "ReadMessage C k = (Inr b, k1)" "beside_reader k1 = beside_reader k"
    using receive_message [of C k b] C k(4) fc f(1) by (auto simp: one_message_def json_travels_def)
  have k1: "k_peer k1 = k_peer k" "healthy k1" "length (k_wIV k1) = 4" "\<not> k_wClosed k1" "raw_deadlines (k_raw k1) = []" "k_wSeq k1 = 0"
    "k_seal k1 = k_seal k" "k_wIV k1 = k_wIV k" "raw_w (k_raw k1) = raw_w (k_raw k)"
    using m(2) k(2,3) fc by (simp_all add: beside_reader_def healthy_def)
  have df: "decode_frame E b = Some f" using f(1,2) by (intro decode_frame_json) (simp_all add: json_travels_def authFrameVersion_def)
  let ?s = "s\<lparr>sd_validator := Some v'\<rparr>"
  have af: "authorize_frame E io f (k_peer k) v s = (Inr pr, ?s)"
    using a by (auto simp: authorize_frame_def CommonName_def)
  obtain k' s' where "admit C E io f local pr k1 ?s = (Ingress_relaying local pr, k', s')" "beside_writer k' = beside_writer k1"
    "w_out (raw_w (k_raw k')) = w_out (raw_w (k_raw k1)) @ one_message C (k_seal k1) (k_wIV k1) b'"
    using admit_relays [of C k1 E pr ?s b' io local f] C k1 t d by auto
  then show ?thesis
    using k1 f(3) by (simp add: accept_def S tun_deadline_quiet [OF k(3)] m(1) handle_frame_def df af beside_writer_def)
qed

lemma exchange_accepted:
  assumes C: "gcm_correct C"
    and k: "fresh_conn k" "healthy k" "raw_deadlines (k_raw k) = []" "raw_in (k_raw k) = one_message C (k_open k) (k_rIV k) b'"
    and f: "json_travels E (frame_json f) b" and t: "json_travels E (ack_json ack) b'"
  shows "\<exists>k'. exchange_frame C E f k = (Inr ack, k') \<and> k_peer k' = k_peer k \<and> raw_deadlines (k_raw k') = []
    \<and> w_out (raw_w (k_raw k')) = w_out (raw_w (k_raw k)) @ one_message C (k_seal k) (k_wIV k) b"
proof -
  note fc = k(1) [unfolded fresh_conn_def]
  obtain k1 where w: "WriteMessage C k b = (True, k1)" "beside_writer k1 = beside_writer k"
    "w_out (raw_w (k_raw k1)) = w_out (raw_w (k_raw k)) @ one_message C (k_seal k) (k_wIV k) b"
    using send_message [of C k b] C k(2) fc f by (auto simp: one_message_def json_travels_def)
  have k1: "length (k_rIV k1) = 4" "\<not> k_rEOF k1" "k_buffer k1 = []" "k_peer k1 = k_peer k" "raw_deadlines (k_raw k1) = []"
    "raw_in (k_raw k1) = frames_from C (k_open k1) (k_rIV k1) (k_rSeq k1) (chunks (message_bytes b'))"
    using w(2) k(3,4) fc by (simp_all add: beside_writer_def one_message_def)
  obtain k2 where r: "ReadMessage C k1 = (Inr b', k2)" "beside_reader k2 = beside_reader k1"
    using receive_message [OF C k1(1-3) _ k1(6)] t by (auto simp: json_travels_def)
  have "decode_ack E b' = Some ack" using t by (intro decode_ack_json) (simp add: json_travels_def)
  then show ?thesis
    using f w r k1 by (simp add: exchange_frame_def tun_deadline_quiet [OF k(3)] json_travels_def beside_reader_def)
qed


lemma forward_relays:
  assumes C: "gcm_correct C" and f: "buildAuthFrame C L E imp io route (sd_client s) = (Inr (f, tok), x)"
    and d: "eg_dial io (er_peer route) = Some r"
    and S: "Client C E (tunnelConfig (s\<lparr>sd_client := x\<rparr>) (er_peer_name route) (eg_now io)) (eg_seed io) r = Inr k"
    and k: "fresh_conn k" "healthy k" "raw_deadlines (k_raw k) = []" "raw_in (k_raw k) = one_message C (k_open k) (k_rIV k) b'"
    and t: "json_travels E (frame_json f) b" "json_travels E (ack_json ack) b'" "ak_ok ack"
  shows "\<exists>k' s'. forward C L E imp io route s = (Inr k', s') \<and> k_peer k' = k_peer k
    \<and> w_out (raw_w (k_raw k')) = w_out (raw_w (k_raw k)) @ one_message C (k_seal k) (k_wIV k) b"
proof -
  obtain k' where e: "exchange_frame C E f k = (Inr ack, k')" "k_peer k' = k_peer k" "raw_deadlines (k_raw k') = []"
    "w_out (raw_w (k_raw k')) = w_out (raw_w (k_raw k)) @ one_message C (k_seal k) (k_wIV k) b"
    using exchange_accepted [OF C k t(1,2)] by blast
  then show ?thesis using t(3) by (simp add: forward_def f d S tun_deadline_quiet)
qed

text \<open>
  The two ends of one connection: an egress sidecar \<open>s\<close> with the frame and token it built, an ingress
  sidecar \<open>z\<close> that serves the route, the certificates each accepts, and quiet networks.  \<open>m\<close> collects the
  messages of one run.
\<close>

record 'd session =
  ss_dk :: 'd
  ss_ch :: bytes
  ss_sh :: bytes
  ss_shared :: bytes
  ss_frame :: bytes
  ss_ack :: bytes

definition hellos_exchanged ::
  "('s, 'd) crypto \<Rightarrow> 'k ext \<Rightarrow> 's tunnel_config \<Rightarrow> 's tunnel_config \<Rightarrow> bytes \<Rightarrow> bytes \<Rightarrow> peer \<Rightarrow> peer \<Rightarrow> 'd session \<Rightarrow> bool" where
  "hellos_exchanged C E cc sc seed seed' client server m \<longleftrightarrow>
     client_start C cc seed = Inr (ss_dk m, ss_ch m) \<and> length (ss_ch m) \<le> MaxFrame
     \<and> (\<exists>key ders. signerFor C (tc_credential sc) = Inr (key, ders)
          \<and> server_answer C key ders (ss_ch m) (kem_public C (ss_dk m)) seed' = Inr (ss_shared m, ss_sh m)) \<and> length (ss_sh m) \<le> MaxFrame
     \<and> accepts_identity C E cc sc ClientAuth client \<and> accepts_identity C E sc cc ServerAuth server"

text \<open>What the network carries each way: the hello, then one sealed message.\<close>

definition to_server :: "('s, 'd) crypto \<Rightarrow> 'k ext \<Rightarrow> 'd session \<Rightarrow> bytes" where
  "to_server C E m = frame_bytes (ss_ch m) @
     (case key_schedule C (ss_shared m) (transcript E (ss_ch m) (ss_sh m)) of
        Some (a, b, c, d) \<Rightarrow> one_message C a c (ss_frame m) | None \<Rightarrow> [])"

definition to_client :: "('s, 'd) crypto \<Rightarrow> 'k ext \<Rightarrow> 'd session \<Rightarrow> bytes" where
  "to_client C E m = frame_bytes (ss_sh m) @
     (case key_schedule C (ss_shared m) (transcript E (ss_ch m) (ss_sh m)) of
        Some (a, b, c, d) \<Rightarrow> one_message C b d (ss_ack m) | None \<Rightarrow> [])"

lemma session_handshake:
  assumes "crypto_correct C" "hellos_exchanged C E cc sc seed seed' client server m"
    and "quiet rc" "raw_in rc = to_client C E m" "quiet rs" "raw_in rs = to_server C E m"
  shows "\<exists>kc ks. Client C E cc seed rc = Inr kc \<and> Server C E sc seed' rs = Inr ks \<and> k_peer kc = server \<and> k_peer ks = client
    \<and> fresh_conn kc \<and> fresh_conn ks \<and> healthy kc \<and> healthy ks \<and> raw_deadlines (k_raw kc) = [] \<and> raw_deadlines (k_raw ks) = []
    \<and> raw_in (k_raw kc) = one_message C (k_open kc) (k_rIV kc) (ss_ack m) \<and> raw_in (k_raw ks) = one_message C (k_open ks) (k_rIV ks) (ss_frame m)
    \<and> w_out (raw_w (k_raw kc)) @ one_message C (k_seal kc) (k_wIV kc) (ss_frame m) = w_out (raw_w rc) @ to_server C E m
    \<and> w_out (raw_w (k_raw ks)) @ one_message C (k_seal ks) (k_wIV ks) (ss_ack m) = w_out (raw_w rs) @ to_client C E m"
proof -
  let ?t = "transcript E (ss_ch m) (ss_sh m)"
  from assms(2) obtain key ders where h: "client_start C cc seed = Inr (ss_dk m, ss_ch m)" "length (ss_ch m) \<le> MaxFrame"
    "signerFor C (tc_credential sc) = Inr (key, ders)"
    "server_answer C key ders (ss_ch m) (kem_public C (ss_dk m)) seed' = Inr (ss_shared m, ss_sh m)" "length (ss_sh m) \<le> MaxFrame"
    "accepts_identity C E cc sc ClientAuth client" "accepts_identity C E sc cc ServerAuth server"
    unfolding hellos_exchanged_def by blast
  note f = client_finish_complete [OF assms(1) h(7) h(3,4) h(5)] and c = server_check_complete [OF assms(1) h(6) h(1,2)]
  obtain a b iva ivb where ks: "key_schedule C (ss_shared m) ?t = Some (a, b, iva, ivb)"
    using key_schedule_exists [OF assms(1)] by blast
  have ic: "raw_in rc = frame_bytes (ss_sh m) @ one_message C b ivb (ss_ack m)" and
    isx: "raw_in rs = frame_bytes (ss_ch m) @ one_message C a iva (ss_frame m)"
    using assms(4,6) ks by (simp_all add: to_client_def to_server_def)
  obtain kc where kc: "Client C E cc seed rc = Inr kc" "raw_in (k_raw kc) = one_message C b ivb (ss_ack m)"
    "raw_w (k_raw kc) = (raw_w rc)\<lparr>w_out := w_out (raw_w rc) @ frame_bytes (ss_ch m)\<rparr>" "raw_deadlines (k_raw kc) = []"
    using Client_complete [OF assms(1,3) h(1,2,5) ic f] by blast
  obtain k where k: "Server C E sc seed' rs = Inr k" "raw_in (k_raw k) = one_message C a iva (ss_frame m)"
    "raw_w (k_raw k) = (raw_w rs)\<lparr>w_out := w_out (raw_w rs) @ frame_bytes (ss_sh m)\<rparr>" "raw_deadlines (k_raw k) = []"
    using Server_complete [OF assms(1,5) h(3,2,5) isx c h(4)] by blast
  have c1: "k_peer kc = server" "fresh_conn kc" "key_schedule C (ss_shared m) ?t = Some (keys_of kc)"
    using Client_Inr [OF kc(1)] f h(1) ic kc(2) by (auto simp: frame_bytes_inj)
  have s1: "k_peer k = client" "fresh_conn k" "key_schedule C (ss_shared m) ?t = Some (opposite (keys_of k))"
    using Server_Inr [OF k(1)] c h(3,4) isx k(2) by (auto simp: frame_bytes_inj)
  have keys: "k_seal kc = a" "k_open kc = b" "k_wIV kc = iva" "k_rIV kc = ivb"
    "k_open k = a" "k_seal k = b" "k_rIV k = iva" "k_wIV k = ivb"
    using ks c1(3) s1(3) by (simp_all add: keys_of_def)
  have "healthy kc" "healthy k" using assms(3,5) kc(3) k(3) by (simp_all add: healthy_def quiet_def)
  then show ?thesis using kc k c1(1,2) s1(1,2) keys by (simp add: to_server_def to_client_def ks)
qed

lemma session_runs:
  assumes "crypto_correct C" "gcm_correct C"
    and "buildAuthFrame C L E imp io route (sd_client s) = (Inr (f, tok), x)" "eg_dial io (er_peer route) = Some rc"
    and "hellos_exchanged C E (tunnelConfig (s\<lparr>sd_client := x\<rparr>) (er_peer_name route) (eg_now io)) (tunnelConfig z [] (gi_now gio))
      (eg_seed io) (gi_seed gio) client server m"
    and "json_travels E (frame_json f) (ss_frame m)" "json_travels E (ack_json (accepting_ack pr (sd_cfg z))) (ss_ack m)"
    and "sd_authority (sd_cfg z) = er_peer route" "IngressTarget (sd_cfg z) (er_name route) = Some local" "gi_dial gio local"
    and "AuthorizeChannel E v (gi_auth gio) (frame_request f client) = (Inr pr, v')" "p_client_id pr = c_cn (pe_leaf client)"
    and "quiet rc" "raw_in rc = to_client C E m" "quiet rs" "raw_in rs = to_server C E m"
  shows "\<exists>kc ks s' z'. forward C L E imp io route s = (Inr kc, s') \<and>
    accept C E gio v rs z = (Ingress_relaying local pr, Some ks, z') \<and> k_peer kc = server \<and> k_peer ks = client \<and>
    w_out (raw_w (k_raw kc)) = w_out (raw_w rc) @ to_server C E m \<and>
    w_out (raw_w (k_raw ks)) = w_out (raw_w rs) @ to_client C E m"
proof -
  from session_handshake [OF assms(1,5,13-16)] obtain kc ks where h:
    "Client C E (tunnelConfig (s\<lparr>sd_client := x\<rparr>) (er_peer_name route) (eg_now io)) (eg_seed io) rc = Inr kc"
    "Server C E (tunnelConfig z [] (gi_now gio)) (gi_seed gio) rs = Inr ks" "k_peer kc = server" "k_peer ks = client"
    "fresh_conn kc" "healthy kc" "raw_deadlines (k_raw kc) = []" "raw_in (k_raw kc) = one_message C (k_open kc) (k_rIV kc) (ss_ack m)"
    "fresh_conn ks" "healthy ks" "raw_deadlines (k_raw ks) = []" "raw_in (k_raw ks) = one_message C (k_open ks) (k_rIV ks) (ss_frame m)"
    "w_out (raw_w (k_raw kc)) @ one_message C (k_seal kc) (k_wIV kc) (ss_frame m) = w_out (raw_w rc) @ to_server C E m"
    "w_out (raw_w (k_raw ks)) @ one_message C (k_seal ks) (k_wIV ks) (ss_ack m) = w_out (raw_w rs) @ to_client C E m"
    by blast
  have f: "af_version f = authFrameVersion" "check_frame (sd_cfg z) f = Inr local"
    using assms(3,8,9) by (auto simp: buildAuthFrame_def check_frame_Inr egress_target_def IngressAuthority_def
        split: sum.splits prod.splits)
  obtain kc' s' where c: "forward C L E imp io route s = (Inr kc', s')" "k_peer kc' = k_peer kc"
    "w_out (raw_w (k_raw kc')) = w_out (raw_w (k_raw kc)) @ one_message C (k_seal kc) (k_wIV kc) (ss_frame m)"
    using forward_relays [OF assms(2-4) h(1) h(5-8) assms(6,7)] by (auto simp: accepting_ack_def)
  obtain ks' z' where a: "accept C E gio v rs z = (Ingress_relaying local pr, Some ks', z')" "k_peer ks' = k_peer ks"
    "w_out (raw_w (k_raw ks')) = w_out (raw_w (k_raw ks)) @ one_message C (k_seal ks) (k_wIV ks) (ss_ack m)"
    using accept_relays [OF assms(2) h(2) h(9-12) assms(6) f assms(11) [folded h(4)] _ assms(10,7)] assms(12) h(4) by auto
  show ?thesis using c a h(3,4,13,14) by auto
qed

end
