(* ===== verification/Sidecar_Props.thy ===== *)
theory Sidecar_Props
  imports Session Tunnel_Props Client_Props
begin

text \<open>
  The properties of the sidecar: what stands between the network and the application, and that two
  honest sidecars connect their applications.  The samples are the two ends of one connection: the
  xApp's sidecar, with a cached post-quantum token, and that of the service.
\<close>

section \<open>Samples\<close>

definition gate_frame :: authFrame where
  "gate_frame = \<lparr>af_version = 1, af_client_id = ''xapp-a'', af_route = ''p'', af_target = ''https://r/p'',
     af_token = ''AQ.BQ.AA'', af_proof = ''Aw.Bw.AA''\<rparr>"

definition gate_ack :: authAck where
  "gate_ack = \<lparr>ak_ok = True, ak_binding = ''jkt'', ak_peer = ''ric'', ak_code = [], ak_detail = []\<rparr>"

definition gate_ext :: "nat ext" where
  "gate_ext = tunnel_ext
     \<lparr>json_encode := (\<lambda>v. if v = VObj (frame_json gate_frame) then Some [77] else Some [88]),
      json_whole := (\<lambda>b. if b = [77] then Some (json_view (VObj (frame_json gate_frame))) else Some (json_view (VObj (ack_json gate_ack)))),
      jws_sign := (\<lambda>_ _ _ _. Some ''Aw.Bw.AA'')\<rparr>"

lemma gate_ops:
  "sha256 gate_ext = sha256 sample_ext" "json_decode gate_ext = json_decode sample_ext" "num_float64 gate_ext = num_float64 sample_ext"
  "url_parse gate_ext = url_parse sample_ext" "x509_verify gate_ext = x509_verify sample_ext" "jwa_known gate_ext = jwa_known sample_ext"
  "jwk_parse gate_ext = jwk_parse sample_ext" "jwk_public gate_ext = jwk_public sample_ext" "jwk_thumb gate_ext = jwk_thumb sample_ext"
  "jwk_import gate_ext = jwk_import sample_ext" "jwk_use gate_ext = jwk_use sample_ext" "jwk_alg gate_ext = jwk_alg sample_ext"
  "jws_verify gate_ext = jws_verify sample_ext" "jwks_parse gate_ext = jwks_parse sample_ext" "x509_parse gate_ext = x509_parse tunnel_ext"
  by (simp_all add: gate_ext_def tunnel_ext_def)

lemma gate_asKey: "asKey gate_ext k = asKey sample_ext k"
  by (cases k) (simp_all add: gate_ops)

lemma gate_AuthorizeChannel: "AuthorizeChannel gate_ext v io cr = AuthorizeChannel sample_ext v io cr"
  unfolding AuthorizeChannel_def Authorize_def token_claims_def validateLocally_def ks_key_def ks_refresh_def check_key_def
    VerifySignature_def LookupAlg_def jws_claims_def decodeObject_def check_times_def numericClaim_def checkIssuerAudience_def Introspect_def
    check_binding_def checkCertificateBinding_def VerifyChain_def ThumbprintS256_def checkDPoPBinding_def check_proof_key_def
    check_proof_claims_def ParseCompact_def jwk_PublicKey_def jwk_Thumbprint_def token_hash_def requestHTU_def NormalizeHTU_def gate_ops gate_asKey
  by (rule refl)

lemma tunnel_ops: "sha256 tunnel_ext = sha256 sample_ext" "x509_verify tunnel_ext = x509_verify sample_ext"
  by (simp_all add: tunnel_ext_def)

lemma gate_identity: "accepts_identity C gate_ext a b u p = accepts_identity C tunnel_ext a b u p"
  unfolding accepts_identity_def chain_ders_def authenticate_def VerifyChain_def ThumbprintS256_def gate_ops tunnel_ops
  by (rule refl)

definition pq_id :: "bytes identity" where
  "pq_id = \<lparr>cred_chain = [[201]], cred_key = Some [7], cred_leaf = tunnel_client_cert\<rparr>"

definition service_id :: "bytes identity" where
  "service_id = \<lparr>cred_chain = [[202]], cred_key = Some [8], cred_leaf = tunnel_server_cert\<rparr>"

definition egress_client :: "(bytes, nat) xclient" where
  "egress_client = xapp_client\<lparr>xc_cfg := xapp_cfg\<lparr>cc_pq_enabled := True\<rparr>, xc_roots := [sample_root],
     xc_kind := Dpop_bound xapp_signer ''CQ'' (Some (xapp_signer, ''CQ'')), xc_id := Some xapp_id, xc_pq_id := Some pq_id,
     xc_cached := Some (xapp_token\<lparr>tk_post_quantum := True\<rparr>)\<rparr>"

definition gate_cfg :: sidecar_config where
  "gate_cfg = \<lparr>sd_name = ''ric'', sd_authority = ''r'', sd_ingress_listen = '':4570'',
     sd_ingress_routes = [\<lparr>ir_name = ''p'', ir_local = ''127.0.0.1:8080''\<rparr>], sd_egress_routes = [],
     sd_handshake_timeout = 0, sd_auth_timeout = 0, sd_idle_timeout = 0, sd_dial_timeout = 0, sd_token_timeout = 0, sd_health_listen = []\<rparr>"

definition egress_side :: "(bytes, nat) sidecar" where
  "egress_side = \<lparr>sd_cfg = gate_cfg, sd_client = egress_client, sd_validator = None, sd_counter = []\<rparr>"

definition ingress_side :: "(bytes, nat) sidecar" where
  "ingress_side = \<lparr>sd_cfg = gate_cfg, sd_client = egress_client\<lparr>xc_pq_id := Some service_id\<rparr>, sd_validator = Some sample_validator, sd_counter = []\<rparr>"

definition gate_route :: egress_route where
  "gate_route = \<lparr>er_name = ''p'', er_listen = '':18080'', er_peer = ''r'', er_peer_name = ''ric''\<rparr>"

definition gate_io :: ingress_io where
  "gate_io = \<lparr>gi_seed = [10], gi_now = t0, gi_auth = sample_io t0, gi_detail = (\<lambda>c. c), gi_dial = (\<lambda>_. True)\<rparr>"

definition gate_session :: "bytes session" where
  "gate_session = \<lparr>ss_dk = [9], ss_ch = sample_ch, ss_sh = sample_sh, ss_shared = [9, 10], ss_frame = [77], ss_ack = [88]\<rparr>"

definition gate_egress_io :: "bytes egress_io" where
  "gate_egress_io = \<lparr>eg_call = xapp_call_io, eg_proof = (t0, Some [1]),
     eg_dial = (\<lambda>_. Some (sample_raw (to_client sample_crypto gate_ext gate_session))), eg_seed = [9], eg_now = t0\<rparr>"

definition gate_principal :: principal where
  "gate_principal = (base_principal ModeLocal (sample_claims (sample_cnf ''jkt'' ''CQ'')))\<lparr>p_binding := ''jkt'', p_thumbprint := ''CQ''\<rparr>"

lemma gate_authorized: "\<exists>v'. AuthorizeChannel gate_ext sample_validator (gi_auth gate_io) (frame_request gate_frame p) = (Inr gate_principal, v')"
  using sample_tunnel_accepted_from [of ChannelOperation "pe_chain p"]
  by (simp add: gate_AuthorizeChannel gate_io_def gate_frame_def frame_request_def gate_principal_def)

lemma gate_configs:
  "tunnelConfig egress_side ''ric'' t0 = client_cfg" "tunnelConfig ingress_side [] t0 = server_cfg"
  by (simp_all add: tunnelConfig_def egress_side_def ingress_side_def egress_client_def pq_id_def service_id_def
      credential.truncate_def client_cfg_def server_cfg_def)

lemma gate_built:
  "buildAuthFrame sample_crypto xapp_pem gate_ext (\<lambda>_. None) gate_egress_io gate_route egress_client =
     (Inr (gate_frame, xapp_token\<lparr>tk_post_quantum := True\<rparr>), egress_client)"
proof -
  have n: "needsRenewal egress_client t0 t0 = False"
    by (simp add: needsRenewal_def needsRenewalPlane_def planeConfig_def renewBeforeFor_def egress_client_def pqCertLifetime_def)
      (simp add: tunnel_client_cert_def pq_id_def sample_leaf_def time_sub_def t0_def unix_offset_def xapp_cfg_def renewBeforeFor_def)
  have u: "usable (xapp_token\<lparr>tk_post_quantum := True\<rparr>) t0"
    using time_add_sane [OF sane_t0(1), of expirySkew]
    by (simp add: usable_def xapp_token_def expirySkew_def is_duration_def)
  have t: "Token sample_crypto xapp_pem gate_ext (\<lambda>_. None) xapp_call_io egress_client =
      (Inr (xapp_token\<lparr>tk_post_quantum := True\<rparr>), egress_client)"
    using u by (simp add: Token_def renew_if_due_def n) (simp add: egress_client_def)
  have h: "NormalizeHTU gate_ext ''https://r/p'' = Some ''https://r/p''"
    using sample_NormalizeHTU unfolding NormalizeHTU_def gate_ops .
  have j: "json_encode gate_ext m \<noteq> None" "jws_sign gate_ext a k hd pl = Some ''Aw.Bw.AA''" for m a k hd pl
    by (simp_all add: gate_ext_def)
  have p: "BuildDPoPProof gate_ext xapp_signer ChannelOperation ''https://r/p'' ''AQ.BQ.AA'' [] t0 (Some [1]) = Some ''Aw.Bw.AA''"
    using j by (auto simp: BuildDPoPProof_def h SignCompact_def split: option.splits)
  have e: "eg_call gate_egress_io = xapp_call_io" "eg_proof gate_egress_io = (t0, Some [1])" "egress_target gate_route = ''https://r/p''"
    by (simp_all add: gate_egress_io_def egress_target_def gate_route_def)
  have c: "channel_proof gate_ext egress_client (xapp_token\<lparr>tk_post_quantum := True\<rparr>) ''https://r/p'' t0 (Some [1]) = Inr ''Aw.Bw.AA''"
    by (simp add: channel_proof_def) (simp add: egress_client_def xapp_token_def p)
  show ?thesis
    by (simp add: buildAuthFrame_def t e c)
      (simp add: gate_frame_def gate_route_def authFrameVersion_def xapp_token_def egress_client_def xapp_cfg_def)
qed

lemma gate_hellos:
  "hellos_exchanged sample_crypto gate_ext client_cfg server_cfg [9] [10] (sample_peer tunnel_client_cert) (sample_peer tunnel_server_cert) gate_session"
  unfolding hellos_exchanged_def gate_identity
  using sample_client_start sample_hello_lengths sample_signers(2) sample_server_answer_pub sample_identities
  by (simp add: gate_session_def)


lemma gate_travels:
  "json_travels gate_ext (frame_json gate_frame) [77]" "json_travels gate_ext (ack_json gate_ack) [88]"
proof -
  have "frame_json gate_frame \<noteq> ack_json gate_ack" by (simp add: frame_json_def ack_json_def gate_frame_def gate_ack_def)
  then show "json_travels gate_ext (frame_json gate_frame) [77]" "json_travels gate_ext (ack_json gate_ack) [88]"
    by (simp_all add: json_travels_def gate_ext_def MaxMessage_def)
qed

lemma gate_accepting: "accepting_ack gate_principal (sd_cfg ingress_side) = gate_ack"
  by (simp add: accepting_ack_def gate_ack_def gate_principal_def ingress_side_def gate_cfg_def)


lemma gate_setup:
  "buildAuthFrame sample_crypto xapp_pem gate_ext (\<lambda>_. None) gate_egress_io gate_route (sd_client egress_side) =
     (Inr (gate_frame, xapp_token\<lparr>tk_post_quantum := True\<rparr>), egress_client)"
  "eg_dial gate_egress_io (er_peer gate_route) = Some (sample_raw (to_client sample_crypto gate_ext gate_session))"
  "hellos_exchanged sample_crypto gate_ext (tunnelConfig (egress_side\<lparr>sd_client := egress_client\<rparr>) (er_peer_name gate_route) (eg_now gate_egress_io))
      (tunnelConfig ingress_side [] (gi_now gate_io)) (eg_seed gate_egress_io) (gi_seed gate_io)
      (sample_peer tunnel_client_cert) (sample_peer tunnel_server_cert) gate_session"
  "json_travels gate_ext (frame_json gate_frame) (ss_frame gate_session)"
  "json_travels gate_ext (ack_json (accepting_ack gate_principal (sd_cfg ingress_side))) (ss_ack gate_session)"
  "sd_authority (sd_cfg ingress_side) = er_peer gate_route"
  "IngressTarget (sd_cfg ingress_side) (er_name gate_route) = Some ''127.0.0.1:8080''" "gi_dial gate_io ''127.0.0.1:8080''"
proof -
  have io: "sd_client egress_side = egress_client" "eg_now gate_egress_io = t0" "eg_seed gate_egress_io = [9]" "er_peer_name gate_route = ''ric''"
    "gi_now gate_io = t0" "gi_seed gate_io = [10]" "egress_side\<lparr>sd_client := egress_client\<rparr> = egress_side"
    by (simp_all add: egress_side_def gate_egress_io_def gate_route_def gate_io_def)
  show "buildAuthFrame sample_crypto xapp_pem gate_ext (\<lambda>_. None) gate_egress_io gate_route (sd_client egress_side) =
     (Inr (gate_frame, xapp_token\<lparr>tk_post_quantum := True\<rparr>), egress_client)" by (simp only: io(1) gate_built)
  show "hellos_exchanged sample_crypto gate_ext (tunnelConfig (egress_side\<lparr>sd_client := egress_client\<rparr>) (er_peer_name gate_route) (eg_now gate_egress_io))
      (tunnelConfig ingress_side [] (gi_now gate_io)) (eg_seed gate_egress_io) (gi_seed gate_io)
      (sample_peer tunnel_client_cert) (sample_peer tunnel_server_cert) gate_session"
    unfolding io gate_configs by (rule gate_hellos)
  show "json_travels gate_ext (frame_json gate_frame) (ss_frame gate_session)"
    "json_travels gate_ext (ack_json (accepting_ack gate_principal (sd_cfg ingress_side))) (ss_ack gate_session)"
    using gate_travels unfolding gate_accepting by (simp_all add: gate_session_def)
qed (simp_all add: ingress_side_def gate_cfg_def gate_route_def gate_io_def IngressTarget_def gate_egress_io_def)

lemma gate_peer_name: "p_client_id gate_principal = c_cn (pe_leaf (sample_peer tunnel_client_cert))"
  by (simp add: gate_principal_def base_principal_def sample_peer_def get_str_def Let_def)


section \<open>Properties\<close>



text \<open>C21: Two honest sidecars connect their applications: when the egress side holds a bound token, the route names
  the ingress sidecar's authority and one of its routes, each end accepts the other's certificate and
  the validator accepts the token for that certificate, then over networks that deliver what is
  written both ends reach the relay, each with the other as its authenticated peer -- the bytes each
  end reads being exactly those the other end has written.\<close>
theorem session_established:
  assumes "crypto_correct C" "gcm_correct C"
    and "buildAuthFrame C L E imp io route (sd_client s) = (Inr (f, tok), x)" "eg_dial io (er_peer route) = Some rc"
    and "hellos_exchanged C E (tunnelConfig (s\<lparr>sd_client := x\<rparr>) (er_peer_name route) (eg_now io)) (tunnelConfig z [] (gi_now gio))
      (eg_seed io) (gi_seed gio) client server m"
    and "json_travels E (frame_json f) (ss_frame m)" "json_travels E (ack_json (accepting_ack pr (sd_cfg z))) (ss_ack m)"
    and "sd_authority (sd_cfg z) = er_peer route" "IngressTarget (sd_cfg z) (er_name route) = Some local" "gi_dial gio local"
    and "AuthorizeChannel E v (gi_auth gio) (frame_request f client) = (Inr pr, v')" "p_client_id pr = c_cn (pe_leaf client)"
    and "quiet rc" "raw_in rc = to_client C E m" "quiet rs" "raw_in rs = to_server C E m"
  shows "\<exists>kc ks s' z'. forward C L E imp io route s = (Inr kc, s') \<and>
    accept C E gio v rs z = (Ingress_relaying local pr, Some ks, z') \<and> k_peer kc = server \<and> k_peer ks = client \<and>
    w_out (raw_w (k_raw kc)) = w_out (raw_w rc) @ to_server C E m \<and>
    w_out (raw_w (k_raw ks)) = w_out (raw_w rs) @ to_client C E m"
  using assms by (rule session_runs)

theorem session_established_witness:
  "\<exists>kc ks s' z'. forward sample_crypto xapp_pem gate_ext (\<lambda>_. None) gate_egress_io gate_route egress_side = (Inr kc, s') \<and>
    accept sample_crypto gate_ext gate_io sample_validator (sample_raw (to_server sample_crypto gate_ext gate_session)) ingress_side
      = (Ingress_relaying ''127.0.0.1:8080'' gate_principal, Some ks, z') \<and>
    k_peer kc = sample_peer tunnel_server_cert \<and> k_peer ks = sample_peer tunnel_client_cert"
proof -
  obtain v' where v: "AuthorizeChannel gate_ext sample_validator (gi_auth gate_io) (frame_request gate_frame (sample_peer tunnel_client_cert))
      = (Inr gate_principal, v')" using gate_authorized by blast
  show ?thesis
    using session_established [OF sample_crypto_correct gate_setup v gate_peer_name sample_quiet(1) sample_quiet(2) sample_quiet(1) sample_quiet(2)]
    by blast
qed

end
