(* ===== verification/Relay.thy ===== *)
theory Relay
  imports Tunnel_Conn
begin

text \<open>
  \<open>relay\<close> of \<open>sidecar/sidecar.go\<close>: two goroutines that copy between two connections, each with a
  \<open>CloseWrite\<close> at its end.  A connection is known by three operations; the relay is a step relation in
  which the steps of the two copies come in any order.  What a copy guarantees is proved over the
  contract \<open>endpoint\<close>, which the tunnel and the local connection meet.
\<close>

section \<open>Connections\<close>

text \<open>\<open>Read\<close> into the buffer of \<open>io.Copy\<close> -- \<open>None\<close> is the end or an error --, \<open>Write\<close> and \<open>CloseWrite\<close>.\<close>

record 'e endpoint_ops =
  ep_read :: "'e \<Rightarrow> bytes option \<times> 'e"
  ep_write :: "'e \<Rightarrow> bytes \<Rightarrow> bool \<times> 'e"
  ep_close :: "'e \<Rightarrow> 'e"

definition copy_buffer :: nat where "copy_buffer = 32768"

definition tunnel_ops :: "('s, 'd) crypto \<Rightarrow> conn endpoint_ops" where
  "tunnel_ops C =
     \<lparr>ep_read = (\<lambda>k. case Read C k copy_buffer of (Inl _, k1) \<Rightarrow> (None, k1) | (Inr b, k1) \<Rightarrow> (Some b, k1)),
      ep_write = (\<lambda>k b. case Write C k b of ((_, ok), k1) \<Rightarrow> (ok, k1)),
      ep_close = (\<lambda>k. snd (CloseWrite C k))\<rparr>"

text \<open>A TCP connection: the segments still to come, an empty one standing for an error, and what was written.\<close>

record tcp =
  tcp_segments :: "bytes list"
  tcp_w :: wire
  tcp_closed :: bool

definition tcp_read :: "nat \<Rightarrow> tcp \<Rightarrow> bytes option \<times> tcp" where
  "tcp_read n t =
     (case tcp_segments t of
        [] \<Rightarrow> (None, t)
      | c # cs \<Rightarrow>
          if c = [] then (None, t\<lparr>tcp_segments := []\<rparr>)
          else (Some (take n c), t\<lparr>tcp_segments := (if length c \<le> n then cs else drop n c # cs)\<rparr>))"

definition tcp_ops :: "tcp endpoint_ops" where
  "tcp_ops =
     \<lparr>ep_read = tcp_read copy_buffer,
      ep_write = (\<lambda>t b. case wire_write (tcp_w t) b of (ok, w) \<Rightarrow> (ok, t\<lparr>tcp_w := w\<rparr>)),
      ep_close = (\<lambda>t. t\<lparr>tcp_closed := True\<rparr>)\<rparr>"


section \<open>Copying\<close>

text \<open>Where a copy is; the flag says that it ended with its source, not with a failed write.\<close>

datatype copy_state = Copying | Writing bytes | Closing bool | Copied bool

inductive copy_step :: "'d endpoint_ops \<Rightarrow> 's endpoint_ops \<Rightarrow> copy_state \<times> 'd \<times> 's \<Rightarrow> copy_state \<times> 'd \<times> 's \<Rightarrow> bool"
  for D S where
  read_some: "ep_read S s = (Some b, s') \<Longrightarrow> copy_step D S (Copying, d, s) (Writing b, d, s')"
| read_end: "ep_read S s = (None, s') \<Longrightarrow> copy_step D S (Copying, d, s) (Closing True, d, s')"
| write_ok: "ep_write D d b = (True, d') \<Longrightarrow> copy_step D S (Writing b, d, s) (Copying, d', s)"
| write_failed: "ep_write D d b = (False, d') \<Longrightarrow> copy_step D S (Writing b, d, s) (Closing False, d', s)"
| close: "copy_step D S (Closing ok, d, s) (Copied ok, ep_close D d, s)"

inductive_simps copy_step_simps:
  "copy_step D S (Copying, d, s) y" "copy_step D S (Writing b, d, s) y" "copy_step D S (Closing ok, d, s) y" "copy_step D S (Copied ok, d, s) y"

record ('a, 'b) relay =
  rl_a :: 'a
  rl_b :: 'b
  rl_ab :: copy_state \<comment> \<open>\<open>cp(a, b)\<close>: from \<open>b\<close> to \<open>a\<close>\<close>
  rl_ba :: copy_state

inductive relay_step :: "'a endpoint_ops \<Rightarrow> 'b endpoint_ops \<Rightarrow> ('a, 'b) relay \<Rightarrow> ('a, 'b) relay \<Rightarrow> bool"
  for A B where
  step_ab: "copy_step A B (rl_ab r, rl_a r, rl_b r) (c, a, b) \<Longrightarrow> relay_step A B r (r\<lparr>rl_a := a, rl_b := b, rl_ab := c\<rparr>)"
| step_ba: "copy_step B A (rl_ba r, rl_b r, rl_a r) (c, b, a) \<Longrightarrow> relay_step A B r (r\<lparr>rl_a := a, rl_b := b, rl_ba := c\<rparr>)"

definition relay_start :: "'a \<Rightarrow> 'b \<Rightarrow> ('a, 'b) relay" where
  "relay_start a b = \<lparr>rl_a = a, rl_b = b, rl_ab = Copying, rl_ba = Copying\<rparr>"

text \<open>Both goroutines have signalled: \<open>relay\<close> returns.\<close>

definition relay_done :: "('a, 'b) relay \<Rightarrow> bool" where
  "relay_done r \<longleftrightarrow> (\<exists>x y. rl_ab r = Copied x \<and> rl_ba r = Copied y)"


section \<open>The contract of a connection\<close>

text \<open>How the writing half stands: open, closed, or broken by a failed write of some bytes.\<close>

datatype write_status = Open | Ended | Broken bytes

text \<open>
  \<open>input\<close> is what reading returns before the end, \<open>wrote e0 e cs st\<close> says that since \<open>e0\<close> the chunks \<open>cs\<close> were
  written and the writing half is in status \<open>st\<close>.  The two halves are independent.
\<close>

locale endpoint =
  fixes X :: "'e endpoint_ops"
    and input :: "'e \<Rightarrow> bytes"
    and wrote :: "'e \<Rightarrow> 'e \<Rightarrow> bytes list \<Rightarrow> write_status \<Rightarrow> bool"
  assumes input_some: "ep_read X e = (Some b, e') \<Longrightarrow> b \<noteq> [] \<and> input e = b @ input e'"
    and input_end: "ep_read X e = (None, e') \<Longrightarrow> input e = []"
    and input_write: "ep_write X e b = (ok, e') \<Longrightarrow> input e' = input e"
    and input_close: "input (ep_close X e) = input e"
    and wrote_start: "wrote e e [] Open"
    and wrote_read: "\<lbrakk>wrote e0 e cs st; ep_read X e = (x, e')\<rbrakk> \<Longrightarrow> wrote e0 e' cs st"
    and wrote_ok: "\<lbrakk>wrote e0 e cs Open; ep_write X e b = (True, e')\<rbrakk> \<Longrightarrow> wrote e0 e' (cs @ [b]) Open"
    and wrote_failed: "\<lbrakk>wrote e0 e cs Open; ep_write X e b = (False, e')\<rbrakk> \<Longrightarrow> wrote e0 e' cs (Broken b)"
    and wrote_close: "wrote e0 e cs Open \<Longrightarrow> wrote e0 (ep_close X e) cs Ended"
    and wrote_close_broken: "wrote e0 e cs (Broken b) \<Longrightarrow> wrote e0 (ep_close X e) cs (Broken b)"

text \<open>
  What a copy in a state has written of the whole input, with the status of the writing half and the
  input that is left.
\<close>

fun copy_shape :: "copy_state \<Rightarrow> bytes \<Rightarrow> bytes list \<Rightarrow> write_status \<Rightarrow> bytes \<Rightarrow> bool" where
  "copy_shape Copying t cs st i \<longleftrightarrow> st = Open \<and> t = concat cs @ i"
| "copy_shape (Writing b) t cs st i \<longleftrightarrow> st = Open \<and> t = concat cs @ b @ i"
| "copy_shape (Closing ok) t cs st i \<longleftrightarrow>
     (if ok then st = Open \<and> t = concat cs else \<exists>b. st = Broken b \<and> t = concat cs @ b @ i)"
| "copy_shape (Copied ok) t cs st i \<longleftrightarrow>
     (if ok then st = Ended \<and> t = concat cs else \<exists>b. st = Broken b \<and> t = concat cs @ b @ i)"

text \<open>One direction: from \<open>S\<close> into \<open>D\<close>.\<close>

locale copy = src: endpoint S input_s wrote_s + dst: endpoint D input_d wrote_d
  for S :: "'s endpoint_ops" and input_s wrote_s and D :: "'d endpoint_ops" and input_d wrote_d
begin

text \<open>Everything read so far was written, in order, but for what is in the buffer.\<close>

definition copied :: "'s \<Rightarrow> 'd \<Rightarrow> copy_state \<Rightarrow> 'd \<Rightarrow> 's \<Rightarrow> bool" where
  "copied s0 d0 c d s \<longleftrightarrow> (\<exists>cs st. copy_shape c (input_s s0) cs st (input_s s) \<and> wrote_d d0 d cs st)"

definition work :: "copy_state \<Rightarrow> 's \<Rightarrow> nat" where
  "work c s =
     (case c of Copying \<Rightarrow> 2 * length (input_s s) + 2 | Writing b \<Rightarrow> 2 * length (input_s s) + 3 | Closing _ \<Rightarrow> 1 | Copied _ \<Rightarrow> 0)"

lemma copiedI: "\<lbrakk>copy_shape c (input_s s0) cs st (input_s s); wrote_d d0 d cs st\<rbrakk> \<Longrightarrow> copied s0 d0 c d s"
  unfolding copied_def by blast

lemma copied_start: "copied s0 d0 Copying d0 s0"
  unfolding copied_def using dst.wrote_start by (intro exI [of _ "[]"] exI [of _ Open]) simp

lemma copied_step:
  assumes "copy_step D S (c, d, s) (c', d', s')" "copied s0 d0 c d s"
  shows "copied s0 d0 c' d' s' \<and> work c' s' < work c s"
  using assms
proof (cases rule: copy_step.cases)
  case (read_some b)
  then show ?thesis using assms(2) src.input_some [OF read_some(4)]
    by (cases b) (auto simp: copied_def work_def)
next
  case read_end
  then show ?thesis using assms(2) src.input_end [OF read_end(4)] by (auto simp: copied_def work_def)
next
  case (write_ok b)
  from assms(2) obtain cs where "wrote_d d0 d cs Open" "input_s s0 = concat cs @ b @ input_s s"
    by (auto simp: copied_def write_ok(1))
  then have "copy_shape Copying (input_s s0) (cs @ [b]) Open (input_s s) \<and> wrote_d d0 d' (cs @ [b]) Open"
    using dst.wrote_ok write_ok by simp
  then have "copied s0 d0 Copying d' s" unfolding copied_def by blast
  then show ?thesis using write_ok by (simp add: work_def)
next
  case (write_failed b)
  from assms(2) obtain cs where "wrote_d d0 d cs Open" "input_s s0 = concat cs @ b @ input_s s"
    by (auto simp: copied_def write_failed(1))
  then have "copy_shape (Closing False) (input_s s0) cs (Broken b) (input_s s) \<and> wrote_d d0 d' cs (Broken b)"
    using dst.wrote_failed write_failed by simp
  then show ?thesis using write_failed unfolding copied_def work_def by auto
next
  case (close ok)
  from assms(2) obtain cs st where h: "copy_shape (Closing ok) (input_s s0) cs st (input_s s)" "wrote_d d0 d cs st"
    by (auto simp: copied_def close(1))
  have "\<exists>st'. copy_shape (Copied ok) (input_s s0) cs st' (input_s s) \<and> wrote_d d0 d' cs st'"
    using h close dst.wrote_close dst.wrote_close_broken by (cases ok) auto
  then have "copied s0 d0 (Copied ok) d' s" by (blast intro: copiedI)
  then show ?thesis using close by (simp add: work_def)
qed

text \<open>A copy that has not signalled can move.\<close>

lemma copy_progress: "(\<nexists>x. c = Copied x) \<Longrightarrow> \<exists>y. copy_step D S (c, d, s) y"
  by (cases c) (auto simp: copy_step_simps intro: prod.exhaust, (metis option.exhaust surj_pair)+)

text \<open>The other copy reads what this one writes to, and writes to what it reads.\<close>

lemma copied_other:
  assumes "copy_step S D (x, s, d) (x', s', d')" "copied s0 d0 c d s"
  shows "copied s0 d0 c d' s' \<and> work c s' = work c s"
proof -
  have i: "input_s s' = input_s s"
    using assms(1) by (cases rule: copy_step.cases) (auto dest: src.input_write simp: src.input_close)
  have w: "wrote_d d0 d' cs st" if "wrote_d d0 d cs st" for cs st
    using assms(1) by (cases rule: copy_step.cases) (use that in \<open>auto intro: dst.wrote_read\<close>)
  from assms(2) obtain cs st where "copy_shape c (input_s s0) cs st (input_s s)" "wrote_d d0 d cs st"
    by (auto simp: copied_def)
  then have "copied s0 d0 c d' s'" using i w by (auto intro: copiedI)
  then show ?thesis using i by (simp add: work_def split: copy_state.split)
qed

end

text \<open>Both directions between two connections.\<close>

locale relay_pair = a: endpoint A input_a wrote_a + b: endpoint B input_b wrote_b
  for A :: "'a endpoint_ops" and input_a wrote_a and B :: "'b endpoint_ops" and input_b wrote_b
begin

sublocale ab: copy B input_b wrote_b A input_a wrote_a ..
sublocale ba: copy A input_a wrote_a B input_b wrote_b ..

definition relay_work :: "('a, 'b) relay \<Rightarrow> nat" where
  "relay_work r = ab.work (rl_ab r) (rl_b r) + ba.work (rl_ba r) (rl_a r)"

definition relayed :: "'a \<Rightarrow> 'b \<Rightarrow> ('a, 'b) relay \<Rightarrow> bool" where
  "relayed a b r \<longleftrightarrow> ab.copied b a (rl_ab r) (rl_a r) (rl_b r) \<and> ba.copied a b (rl_ba r) (rl_b r) (rl_a r)"

lemma relayed_start: "relayed a b (relay_start a b)"
  by (simp add: relayed_def relay_start_def ab.copied_start ba.copied_start)

lemma relayed_step:
  assumes "relay_step A B r r'" "relayed a b r"
  shows "relayed a b r' \<and> relay_work r' < relay_work r"
  using assms
proof cases
  case (step_ab c a' b')
  have h: "ab.copied b a (rl_ab r) (rl_a r) (rl_b r)" "ba.copied a b (rl_ba r) (rl_b r) (rl_a r)"
    using assms(2) by (simp_all add: relayed_def)
  show ?thesis
    using ab.copied_step [OF step_ab(2) h(1)] ba.copied_other [OF step_ab(2) h(2)]
    by (simp add: step_ab(1) relayed_def relay_work_def)
next
  case (step_ba c b' a')
  have h: "ab.copied b a (rl_ab r) (rl_a r) (rl_b r)" "ba.copied a b (rl_ba r) (rl_b r) (rl_a r)"
    using assms(2) by (simp_all add: relayed_def)
  show ?thesis
    using ba.copied_step [OF step_ba(2) h(2)] ab.copied_other [OF step_ba(2) h(1)]
    by (simp add: step_ba(1) relayed_def relay_work_def)
qed

lemma relayed_run: "(relay_step A B)\<^sup>*\<^sup>* (relay_start a b) r \<Longrightarrow> relayed a b r"
  by (induction rule: rtranclp_induct) (auto simp: relayed_start dest: relayed_step)

lemma relay_progress:
  assumes "\<not> relay_done r"
  shows "\<exists>r'. relay_step A B r r'"
proof (cases "\<exists>x. rl_ab r = Copied x")
  case True
  then have "\<nexists>x. rl_ba r = Copied x" using assms by (auto simp: relay_done_def)
  then obtain c b a where "copy_step B A (rl_ba r, rl_b r, rl_a r) (c, b, a)" using ba.copy_progress by (metis prod_cases3)
  then show ?thesis by (intro exI, rule relay_step.step_ba)
next
  case False
  then obtain c a b where "copy_step A B (rl_ab r, rl_a r, rl_b r) (c, a, b)" using ab.copy_progress by (metis prod_cases3)
  then show ?thesis by (intro exI, rule relay_step.step_ab)
qed

text \<open>Whatever the goroutines have done, they can go on to the end.\<close>

lemma relay_returns: "relayed a b r \<Longrightarrow> \<exists>n r'. (relay_step A B ^^ n) r r' \<and> relay_done r'"
proof (induction "relay_work r" arbitrary: r rule: less_induct)
  case less
  show ?case
  proof (cases "relay_done r")
    case True
    then show ?thesis by (intro exI [of _ 0] exI [of _ r]) simp
  next
    case False
    then obtain r1 where r1: "relay_step A B r r1" using relay_progress by blast
    from relayed_step [OF this less.prems] obtain n r' where "(relay_step A B ^^ n) r1 r'" "relay_done r'"
      using less.hyps by blast
    then show ?thesis using r1 relpowp_Suc_I2 [of "relay_step A B"] by blast
  qed
qed

text \<open>No run is longer than the work at its start.\<close>

lemma relay_run_bounded: "(relay_step A B ^^ n) r r' \<Longrightarrow> relayed a b r \<Longrightarrow> n + relay_work r' \<le> relay_work r"
proof (induction n arbitrary: r)
  case (Suc n)
  from Suc.prems(1) obtain r1 where "relay_step A B r r1" "(relay_step A B ^^ n) r1 r'"
    by (metis relpowp_Suc_E2)
  then show ?case using Suc.IH relayed_step Suc.prems(2) by fastforce
qed simp

end

end
