(* ===== verification/Relay_Props.thy ===== *)
theory Relay_Props
  imports Relay Session Tunnel_Props
begin

text \<open>
  The tunnel and the local TCP connection meet the contract of \<open>Relay\<close>; what follows for the relay of
  a sidecar between the two.
\<close>

section \<open>The tunnel as an endpoint\<close>

function tunnel_input :: "('s, 'd) crypto \<Rightarrow> conn \<Rightarrow> bytes" where
  "tunnel_input C k =
     (case Read C k copy_buffer of
        (Inl _, _) \<Rightarrow> []
      | (Inr b, k1) \<Rightarrow> b @ tunnel_input C k1)"
  by pat_completeness auto
termination
proof (relation "measures [\<lambda>(C, k). length (raw_in (k_raw k)), \<lambda>(C, k). length (k_buffer k)]")
  fix C :: "('s, 'd) crypto" and k x k1 b
  assume "(x, k1) = Read C k copy_buffer" "x = Inr b"
  then have r: "Read C k copy_buffer = (Inr b, k1)" by simp
  show "((C, k1), (C, k)) \<in> measures [\<lambda>(C, k). length (raw_in (k_raw k)), \<lambda>(C, k). length (k_buffer k)]"
  proof (cases "k_buffer k = []")
    case False
    then show ?thesis using r by (auto simp: Read_def copy_buffer_def)
  next
    case True
    then obtain plain k2 where "readRecord C k = (Inr plain, k2)" "raw_in (k_raw k1) = raw_in (k_raw k2)"
      using r by (auto simp: Read_def split: if_splits sum.splits prod.splits)
    moreover from this obtain rec rest where "readFrame (raw_in (k_raw k)) = (Inr rec, rest)" "raw_in (k_raw k2) = rest"
      by (auto simp: readRecord_def Let_def split: if_splits sum.splits prod.splits option.splits)
    ultimately show ?thesis using readFrame_bound by (fastforce simp: frame_bytes_def)
  qed
qed simp

declare tunnel_input.simps [simp del]

lemma tunnel_input_Read:
  "tunnel_input C k = (case Read C k copy_buffer of (Inl _, _) \<Rightarrow> [] | (Inr b, k1) \<Rightarrow> b @ tunnel_input C k1)"
  by (rule tunnel_input.simps)

text \<open>Reading depends on the reader only, writing on the writer only, and each keeps the other half.\<close>

lemma Read_writer_independent:
  assumes "beside_writer k = beside_writer k'"
  shows "fst (Read C k n) = fst (Read C k' n) \<and> beside_writer (snd (Read C k n)) = beside_writer (snd (Read C k' n))"
  using assms
  by (auto simp: Read_def readRecord_def beside_writer_def Let_def split: prod.splits sum.splits option.splits)

lemma tunnel_input_writer_independent: "beside_writer k = beside_writer k' \<Longrightarrow> tunnel_input C k = tunnel_input C k'"
proof (induction C k arbitrary: k' rule: tunnel_input.induct)
  case (1 C k)
  obtain x k1 where x: "Read C k copy_buffer = (x, k1)" by fastforce
  obtain x' k1' where x': "Read C k' copy_buffer = (x', k1')" by fastforce
  have e: "x' = x" "beside_writer k1 = beside_writer k1'"
    using Read_writer_independent [OF 1(2), of C copy_buffer] by (simp_all add: x x')
  show ?case
  proof (cases x)
    case (Inr b)
    show ?thesis using 1(1) [OF x [symmetric] Inr e(2)]
      by (simp add: tunnel_input_Read [of C k] tunnel_input_Read [of C k'] x x' e(1) Inr)
  qed (simp add: tunnel_input_Read [of C k] tunnel_input_Read [of C k'] x x' e(1))
qed

lemma k_writeFrame_beside: "k_writeFrame k r = (ok, k1) \<Longrightarrow> beside_writer k1 = beside_writer k"
  by (auto simp: k_writeFrame_def beside_writer_def split: prod.splits)

lemma k_writeFrame_reader_independent:
  assumes "beside_reader k = beside_reader k'"
  shows "fst (k_writeFrame k r) = fst (k_writeFrame k' r) \<and>
    beside_reader (snd (k_writeFrame k r)) = beside_reader (snd (k_writeFrame k' r))"
  using assms by (auto simp: k_writeFrame_def beside_reader_def split: prod.splits)

lemma write_loop_beside: "write_loop C k p n = (y, k1) \<Longrightarrow> beside_writer k1 = beside_writer k"
proof (induction C k p n rule: write_loop.induct)
  case (1 C k p n)
  let ?c = "take RecordSize p"
  obtain ok k2 where w: "k_writeFrame k (seal_record C (k_seal k) (k_wIV k) (k_wSeq k) ?c) = (ok, k2)" by fastforce
  have b: "beside_writer (k2\<lparr>k_wSeq := k_wSeq k2 + 1\<rparr>) = beside_writer k" "beside_writer k2 = beside_writer k"
    using k_writeFrame_beside [OF w] by (simp_all add: beside_writer_def)
  show ?case
  proof (cases "p = []")
    case False
    show ?thesis
      using 1(1) [OF False refl w [symmetric]] 1(2) b False w by (cases ok) (auto simp: write_loop.simps [of C k])
  qed (use 1(2) in \<open>simp add: write_loop.simps [of C k]\<close>)
qed

lemma write_loop_reader_independent:
  "beside_reader k = beside_reader k' \<Longrightarrow> fst (write_loop C k p n) = fst (write_loop C k' p n) \<and>
    beside_reader (snd (write_loop C k p n)) = beside_reader (snd (write_loop C k' p n))"
proof (induction C k p n arbitrary: k' rule: write_loop.induct)
  case (1 C k p n)
  let ?c = "take RecordSize p" and ?r = "\<lambda>k. seal_record C (k_seal k) (k_wIV k) (k_wSeq k) (take RecordSize p)"
  have r: "?r k' = ?r k" using 1(2) by (simp add: beside_reader_def)
  obtain ok k2 where w: "k_writeFrame k (?r k) = (ok, k2)" by fastforce
  obtain ok' k2' where w': "k_writeFrame k' (?r k) = (ok', k2')" by fastforce
  have e: "ok' = ok" "beside_reader k2 = beside_reader k2'"
    using k_writeFrame_reader_independent [OF 1(2), of "?r k"] by (simp_all add: w w')
  have "beside_reader (k2\<lparr>k_wSeq := k_wSeq k2 + 1\<rparr>) = beside_reader (k2'\<lparr>k_wSeq := k_wSeq k2' + 1\<rparr>)"
    using e(2) by (simp add: beside_reader_def)
  note IH = 1(1) [OF _ refl w [symmetric] _ this]
  show ?case
    using IH e w w' r 1(2)
    by (cases "p = []"; cases ok) (simp_all add: write_loop.simps [of C k] write_loop.simps [of C k'])
qed

lemma Write_beside: "Write C k p = (y, k1) \<Longrightarrow> beside_writer k1 = beside_writer k"
  by (auto simp: Write_def split: if_splits dest: write_loop_beside)

lemma Write_reader_independent:
  assumes "beside_reader k = beside_reader k'"
  shows "fst (Write C k p) = fst (Write C k' p) \<and> beside_reader (snd (Write C k p)) = beside_reader (snd (Write C k' p))"
  using write_loop_reader_independent [OF assms, of C p 0] assms by (simp add: Write_def beside_reader_def)

lemma CloseWrite_beside: "beside_writer (snd (CloseWrite C k)) = beside_writer k"
  using k_writeFrame_beside
  by (fastforce simp: CloseWrite_def Let_def beside_writer_def k_writeFrame_def split: prod.splits)

lemma CloseWrite_reader_independent:
  "beside_reader k = beside_reader k' \<Longrightarrow> beside_reader (snd (CloseWrite C k)) = beside_reader (snd (CloseWrite C k'))"
  by (auto simp: CloseWrite_def Let_def beside_reader_def k_writeFrame_def split: prod.splits)


text \<open>After its end a tunnel is not written to, nor ended again.\<close>

lemma CloseWrite_closed: "k_wClosed (snd (CloseWrite C k))"
  by (auto simp: CloseWrite_def Let_def k_writeFrame_def split: prod.splits)

lemma CloseWrite_twice: "k_wClosed k \<Longrightarrow> CloseWrite C k = (True, k)"
  by (simp add: CloseWrite_def)

lemma CloseWrite_again:
  assumes "beside_reader k = beside_reader (snd (CloseWrite C k2))"
  shows "beside_reader (snd (CloseWrite C k)) = beside_reader (snd (CloseWrite C k2))"
proof -
  have "k_wClosed k" using assms CloseWrite_closed [of C k2] by (simp add: beside_reader_def)
  then show ?thesis using assms by (simp add: CloseWrite_twice)
qed

lemma tunnel_ops_simps:
  "ep_read (tunnel_ops C) k = (Some b, k') \<longleftrightarrow> Read C k copy_buffer = (Inr b, k')"
  "ep_read (tunnel_ops C) k = (None, k') \<longleftrightarrow> (\<exists>e. Read C k copy_buffer = (Inl e, k'))"
  "ep_write (tunnel_ops C) k p = (ok, k') \<longleftrightarrow> (\<exists>m. Write C k p = ((m, ok), k'))"
  "ep_close (tunnel_ops C) k = snd (CloseWrite C k)"
  by (auto simp: tunnel_ops_def split: prod.splits sum.splits)

definition tunnel_wrote :: "('s, 'd) crypto \<Rightarrow> conn \<Rightarrow> conn \<Rightarrow> bytes list \<Rightarrow> write_status \<Rightarrow> bool" where
  "tunnel_wrote C k0 k cs st =
     (let k1 = write_run C (map Op_write cs) k0
      in case st of
           Open \<Rightarrow> beside_reader k = beside_reader k1
         | Ended \<Rightarrow> beside_reader k = beside_reader (snd (CloseWrite C k1))
         | Broken b \<Rightarrow>
             (case Write C k1 b of
                ((_, ok), k2) \<Rightarrow> \<not> ok \<and> (beside_reader k = beside_reader k2 \<or> beside_reader k = beside_reader (snd (CloseWrite C k2)))))"

lemma write_run_snoc: "write_run C (map Op_write (cs @ [b])) k = snd (Write C (write_run C (map Op_write cs) k) b)"
  by (simp add: write_run_def)

lemma Write_result:
  assumes "beside_reader k = beside_reader k1" "Write C k b = ((m, ok), k')"
  shows "\<exists>k2. Write C k1 b = ((m, ok), k2) \<and> beside_reader k' = beside_reader k2"
  using Write_reader_independent [OF assms(1), of C b] assms(2) by (cases "Write C k1 b") auto

interpretation tunnel_end: endpoint "tunnel_ops C" "tunnel_input C" "tunnel_wrote C" for C :: "('s, 'd) crypto"
proof unfold_locales
  show "b \<noteq> [] \<and> tunnel_input C e = b @ tunnel_input C e'" if "ep_read (tunnel_ops C) e = (Some b, e')" for e b e'
  proof -
    from that have r: "Read C e copy_buffer = (Inr b, e')" by (simp add: tunnel_ops_simps)
    have "b \<noteq> []" using r by (auto simp: Read_def copy_buffer_def split: if_splits prod.splits sum.splits)
    then show ?thesis by (simp add: tunnel_input_Read [of C e] r)
  qed
  show "tunnel_input C e = []" if "ep_read (tunnel_ops C) e = (None, e')" for e e'
    using that by (auto simp: tunnel_ops_simps tunnel_input_Read [of C e])
  show "tunnel_input C e' = tunnel_input C e" if "ep_write (tunnel_ops C) e b = (ok, e')" for e b ok e'
  proof -
    from that obtain m where "Write C e b = ((m, ok), e')" by (auto simp: tunnel_ops_simps)
    then show ?thesis by (rule tunnel_input_writer_independent [OF Write_beside])
  qed
  show "tunnel_input C (ep_close (tunnel_ops C) e) = tunnel_input C e" for e
    by (simp add: tunnel_ops_simps tunnel_input_writer_independent [OF CloseWrite_beside])
  show "tunnel_wrote C e e [] Open" for e by (simp add: tunnel_wrote_def write_run_def)
  show "tunnel_wrote C e0 e' cs st" if "tunnel_wrote C e0 e cs st" "ep_read (tunnel_ops C) e = (x, e')" for e0 e cs st x e'
  proof -
    have "beside_reader e' = beside_reader e"
      using that(2) by (cases x) (auto simp: tunnel_ops_simps dest: Read_beside)
    then show ?thesis using that(1) by (cases st) (auto simp: tunnel_wrote_def Let_def split_beta)
  qed
  show "tunnel_wrote C e0 e' (cs @ [b]) Open" if "tunnel_wrote C e0 e cs Open" "ep_write (tunnel_ops C) e b = (True, e')" for e0 e cs b e'
  proof -
    from that(2) obtain m where w: "Write C e b = ((m, True), e')" by (auto simp: tunnel_ops_simps)
    have "beside_reader e = beside_reader (write_run C (map Op_write cs) e0)" using that(1) by (simp add: tunnel_wrote_def)
    from Write_result [OF this w] show ?thesis
      by (auto simp: tunnel_wrote_def write_run_snoc simp del: map_append)
  qed
  show "tunnel_wrote C e0 e' cs (Broken b)" if "tunnel_wrote C e0 e cs Open" "ep_write (tunnel_ops C) e b = (False, e')" for e0 e cs b e'
  proof -
    from that(2) obtain m where w: "Write C e b = ((m, False), e')" by (auto simp: tunnel_ops_simps)
    have "beside_reader e = beside_reader (write_run C (map Op_write cs) e0)" using that(1) by (simp add: tunnel_wrote_def)
    from Write_result [OF this w] obtain k2 where
      "Write C (write_run C (map Op_write cs) e0) b = ((m, False), k2)" "beside_reader e' = beside_reader k2" by blast
    then show ?thesis by (simp add: tunnel_wrote_def)
  qed
  show "tunnel_wrote C e0 (ep_close (tunnel_ops C) e) cs Ended" if "tunnel_wrote C e0 e cs Open" for e0 e cs
  proof -
    have "beside_reader e = beside_reader (write_run C (map Op_write cs) e0)" using that by (simp add: tunnel_wrote_def)
    from CloseWrite_reader_independent [OF this, of C] show ?thesis by (simp add: tunnel_wrote_def tunnel_ops_simps)
  qed
  show "tunnel_wrote C e0 (ep_close (tunnel_ops C) e) cs (Broken b)" if "tunnel_wrote C e0 e cs (Broken b)" for e0 e cs b
  proof -
    let ?w = "Write C (write_run C (map Op_write cs) e0) b"
    have h: "\<not> snd (fst ?w)" "beside_reader e = beside_reader (snd ?w) \<or> beside_reader e = beside_reader (snd (CloseWrite C (snd ?w)))"
      using that by (simp_all add: tunnel_wrote_def Let_def split_beta)
    from h(2) have "beside_reader (snd (CloseWrite C e)) = beside_reader (snd (CloseWrite C (snd ?w)))"
      using CloseWrite_reader_independent CloseWrite_again by blast
    then show ?thesis using h(1) by (simp add: tunnel_wrote_def tunnel_ops_simps Let_def split_beta)
  qed
qed


section \<open>The local connection as an endpoint\<close>

definition tcp_input :: "tcp \<Rightarrow> bytes" where
  "tcp_input t = concat (takeWhile (\<lambda>c. c \<noteq> []) (tcp_segments t))"

definition tcp_wrote :: "tcp \<Rightarrow> tcp \<Rightarrow> bytes list \<Rightarrow> write_status \<Rightarrow> bool" where
  "tcp_wrote u t cs st =
     (let sent = w_out (tcp_w u) @ concat cs
      in case st of
           Open \<Rightarrow> w_out (tcp_w t) = sent \<and> tcp_closed t = tcp_closed u \<and> set (w_faults (tcp_w t)) \<subseteq> set (w_faults (tcp_w u))
         | Ended \<Rightarrow> w_out (tcp_w t) = sent \<and> tcp_closed t
         | Broken b \<Rightarrow> (\<exists>n. w_out (tcp_w t) = sent @ take n b \<and> Some n \<in> set (w_faults (tcp_w u))))"

interpretation tcp_end: endpoint tcp_ops tcp_input tcp_wrote
proof unfold_locales
  show "b \<noteq> [] \<and> tcp_input e = b @ tcp_input e'" if "ep_read tcp_ops e = (Some b, e')" for e b e'
    using that by (cases "tcp_segments e")
      (auto simp: tcp_ops_def tcp_read_def tcp_input_def copy_buffer_def not_le append_take_drop_id split: if_splits)
  show "tcp_input e = []" if "ep_read tcp_ops e = (None, e')" for e e'
    using that by (cases "tcp_segments e") (auto simp: tcp_ops_def tcp_read_def tcp_input_def split: if_splits)
  show "tcp_wrote e0 e' cs st" if "tcp_wrote e0 e cs st" "ep_read tcp_ops e = (x, e')" for e0 e cs st x e'
  proof -
    have "tcp_w e' = tcp_w e \<and> tcp_closed e' = tcp_closed e"
      using that(2) by (auto simp: tcp_ops_def tcp_read_def split: list.splits if_splits)
    then show ?thesis using that(1) by (simp add: tcp_wrote_def split: write_status.splits)
  qed
  show "tcp_wrote e0 e' (cs @ [b]) Open" if "tcp_wrote e0 e cs Open" "ep_write tcp_ops e b = (True, e')" for e0 e cs b e'
    using that by (auto simp: tcp_ops_def tcp_wrote_def wire_write_def split: prod.splits list.splits option.splits)
  show "tcp_wrote e0 e' cs (Broken b)" if "tcp_wrote e0 e cs Open" "ep_write tcp_ops e b = (False, e')" for e0 e cs b e'
    using that by (auto simp: tcp_ops_def tcp_wrote_def wire_write_def split: prod.splits list.splits option.splits)
qed (auto simp: tcp_ops_def tcp_wrote_def tcp_input_def Let_def split: prod.splits)

interpretation sidecar_relay: relay_pair "tunnel_ops C" "tunnel_input C" "tunnel_wrote C" tcp_ops tcp_input tcp_wrote
  for C :: "('s, 'd) crypto" ..


section \<open>Delivery\<close>

text \<open>On a network that takes every byte no copy ends with a failed write.\<close>

lemma tunnel_writes:
  assumes "gcm_correct C" "healthy k" "length (k_wIV k) = 4" "\<not> k_wClosed k"
  shows "\<not> k_wClosed (write_run C (map Op_write cs) k) \<and> snd (fst (Write C (write_run C (map Op_write cs) k) b))"
proof -
  have o: "\<not> k_wClosed (write_run C (map Op_write cs) k)" for cs
    using assms
  proof (induction cs arbitrary: k)
    case (Cons c cs)
    from Write_emits [OF Cons.prems] have "healthy (snd (Write C k c))" "length (k_wIV (snd (Write C k c))) = 4"
      "\<not> k_wClosed (snd (Write C k c))" using Cons.prems(2,3) by (auto simp: emits_def)
    from Cons.IH [OF Cons.prems(1) this] show ?case by (simp add: write_run_def)
  qed (simp add: write_run_def)
  let ?k = "write_run C (map Op_write cs) k"
  have "emits C k ?k (all_records (map Op_write cs))" by (rule write_run_emits [OF assms])
  then have "healthy ?k" "length (k_wIV ?k) = 4" using assms(2,3) by (simp_all add: emits_def)
  then show ?thesis using o by (simp add: Write_complete [OF assms(1)])
qed

lemma written_records: "all_records (map Op_write cs @ [Op_close]) = concat (map chunks cs) @ [[]]"
  by (induction cs) (auto simp: all_records_def)

lemma concat_concat_chunks: "concat (concat (map chunks cs)) = concat cs"
  by (induction cs) simp_all

lemma tunnel_ended:
  assumes "gcm_correct C" "healthy k0" "length (k_wIV k0) = 4" "\<not> k_wClosed k0" "tunnel_wrote C k0 k cs Ended"
  shows "w_out (raw_w (k_raw k)) = w_out (raw_w (k_raw k0)) @
    frames_from C (k_seal k0) (k_wIV k0) (k_wSeq k0) (concat (map chunks cs) @ [[]])"
proof -
  let ?k = "write_run C (map Op_write cs @ [Op_close]) k0"
  have "?k = snd (CloseWrite C (write_run C (map Op_write cs) k0))" by (simp add: write_run_def)
  then have "raw_w (k_raw k) = raw_w (k_raw ?k)" using assms(5) by (simp add: tunnel_wrote_def beside_reader_def Let_def)
  then show ?thesis using write_run_emits [OF assms(1-4), of "map Op_write cs @ [Op_close]"]
    by (simp only: emits_def written_records)
qed

text \<open>C25: \<open>relay\<close> between a tunnel and the local connection always returns: however the two copies interleave,
  a step is possible until both have signalled, and there are at most as many steps as the bytes to be
  read allow.  When the networks take every byte, the application has then been sent exactly what the
  tunnel delivered, before the half-close, and the peer is sent the application's bytes in order, in
  records closed by the end record.\<close>
theorem relay_completes:
  assumes run: "(relay_step (tunnel_ops C) tcp_ops ^^ n) (relay_start k t) r"
    and C: "gcm_correct C" and k: "healthy k" "length (k_wIV k) = 4" "\<not> k_wClosed k" and t: "w_faults (tcp_w t) = []"
  shows "n \<le> 2 * (length (tunnel_input C k) + length (tcp_input t)) + 4
    \<and> (relay_done r \<or> (\<exists>r'. relay_step (tunnel_ops C) tcp_ops r r'))
    \<and> (relay_done r \<longrightarrow> w_out (tcp_w (rl_b r)) = w_out (tcp_w t) @ tunnel_input C k \<and> tcp_closed (rl_b r)
        \<and> (\<exists>recs. concat recs = tcp_input t \<and> w_out (raw_w (k_raw (rl_a r))) =
             w_out (raw_w (k_raw k)) @ frames_from C (k_seal k) (k_wIV k) (k_wSeq k) (recs @ [[]])))"
proof (intro conjI impI)
  have "(relay_step (tunnel_ops C) tcp_ops)\<^sup>*\<^sup>* (relay_start k t) r" using run by (meson rtranclp_power)
  note rel = sidecar_relay.relayed_run [OF this]
  note sidecar_relay.relay_run_bounded [OF run sidecar_relay.relayed_start]
  then show "n \<le> 2 * (length (tunnel_input C k) + length (tcp_input t)) + 4"
    by (simp add: sidecar_relay.relay_work_def relay_start_def sidecar_relay.ab.work_def sidecar_relay.ba.work_def)
  show "relay_done r \<or> (\<exists>r'. relay_step (tunnel_ops C) tcp_ops r r')" using sidecar_relay.relay_progress by blast
  assume "relay_done r"
  then obtain x y where d: "rl_ab r = Copied x" "rl_ba r = Copied y" by (auto simp: relay_done_def)
  from rel d obtain cs st ds su where
    a: "copy_shape (Copied x) (tcp_input t) cs st (tcp_input (rl_b r))" "tunnel_wrote C k (rl_a r) cs st" and
    b: "copy_shape (Copied y) (tunnel_input C k) ds su (tunnel_input C (rl_a r))" "tcp_wrote t (rl_b r) ds su"
    by (auto simp: sidecar_relay.relayed_def sidecar_relay.ab.copied_def sidecar_relay.ba.copied_def)
  have y: "y" using b t by (cases y) (auto simp: tcp_wrote_def)
  then show "w_out (tcp_w (rl_b r)) = w_out (tcp_w t) @ tunnel_input C k" "tcp_closed (rl_b r)"
    using b by (auto simp: tcp_wrote_def)
  have x: "x" using a tunnel_writes [OF C k, of cs] by (cases x) (auto simp: tunnel_wrote_def Let_def split_beta)
  then have "tunnel_wrote C k (rl_a r) cs Ended" "tcp_input t = concat cs" using a by simp_all
  then show "\<exists>recs. concat recs = tcp_input t \<and> w_out (raw_w (k_raw (rl_a r))) =
      w_out (raw_w (k_raw k)) @ frames_from C (k_seal k) (k_wIV k) (k_wSeq k) (recs @ [[]])"
    using tunnel_ended [OF C k] by (intro exI [of _ "concat (map chunks cs)"]) (simp add: concat_concat_chunks)
qed

lemma sidecar_relay_returns: "\<exists>n r. (relay_step (tunnel_ops C) tcp_ops ^^ n) (relay_start k t) r \<and> relay_done r"
  by (rule sidecar_relay.relay_returns [OF sidecar_relay.relayed_start])

theorem relay_completes_witness:
  "\<exists>n r. n \<le> 10 \<and> relay_done r
     \<and> (relay_step (tunnel_ops sample_crypto) tcp_ops ^^ n)
         (relay_start (sample_conn []\<lparr>k_buffer := [7]\<rparr>) \<lparr>tcp_segments = [[1], [2]], tcp_w = \<lparr>w_out = [], w_faults = []\<rparr>, tcp_closed = False\<rparr>) r
     \<and> w_out (tcp_w (rl_b r)) = [7] \<and> tcp_closed (rl_b r)"
proof -
  let ?k = "sample_conn []\<lparr>k_buffer := [7]\<rparr>"
  let ?t = "\<lparr>tcp_segments = [[1], [2]], tcp_w = \<lparr>w_out = [], w_faults = []\<rparr>, tcp_closed = False\<rparr>"
  have i: "tcp_input ?t = [1, 2]" by (simp add: tcp_input_def)
  have r1: "Read sample_crypto ?k copy_buffer = (Inr [7], sample_conn []\<lparr>k_buffer := []\<rparr>)"
    by (simp add: Read_def copy_buffer_def)
  have "sample_conn []\<lparr>k_buffer := []\<rparr> = sample_conn []" by (simp add: sample_conn_def)
  then have j: "tunnel_input sample_crypto ?k = [7]"
    by (subst tunnel_input_Read, simp add: r1) (simp add: tunnel_input_Read Read_def readRecord_def readFrame_def read_full_def)
  have k: "healthy ?k" "length (k_wIV ?k) = 4" "\<not> k_wClosed ?k" by (simp_all add: sample_conn_def healthy_def sample_raw_def)
  have t: "w_faults (tcp_w ?t) = []" "w_out (tcp_w ?t) = []" by simp_all
  obtain n r where "(relay_step (tunnel_ops sample_crypto) tcp_ops ^^ n) (relay_start ?k ?t) r" "relay_done r"
    using sidecar_relay_returns by blast
  then show ?thesis using relay_completes [OF _ sample_crypto_correct(2) k t(1)] unfolding i j t(2)
    by (intro exI [of _ n] exI [of _ r]) fastforce
qed

end
