(* ===== verification/Supervise.thy ===== *)
theory Supervise
  imports Sidecar "HOL-Library.Multiset"
begin

text \<open>
  The supervision in \<open>Sidecar.Run\<close> of \<open>sidecar/sidecar.go\<close>: once the client has started, one goroutine
  per listener, each of which reports its error and cancels the others, and the main one, which waits
  for the context and then for all of them.  A step is a step of one goroutine; any number of connections may be
  served in between.
\<close>

section \<open>The tasks\<close>

text \<open>
  Where a task is: before \<open>Listen\<close>; in \<open>acceptLoop\<close>, or \<open>ListenAndServe\<close> of the health server, with its listener
  closed or not; returned with an error; past the test of \<open>ctx.Err()\<close>; past the send; ended, with the error
  it reported.
\<close>

datatype task_phase =
    Listening
  | Accepting bool
  | Task_failed string
  | Reporting string
  | Cancelling string
  | Ended "string option"

text \<open>What the tasks share: the context, the buffered channel \<open>errs\<close>, and how many connections were served.\<close>

record run_bus =
  rb_done :: bool
  rb_errs :: "(string \<times> string) list"
  rb_conns :: nat

inductive task_step :: "nat \<Rightarrow> string \<Rightarrow> task_phase \<times> run_bus \<Rightarrow> task_phase \<times> run_bus \<Rightarrow> bool"
  for cap name where
  listen_ok: "task_step cap name (Listening, b) (Accepting False, b)"
| listen_failed: "task_step cap name (Listening, b) (Task_failed e, b)"
| serve: "task_step cap name (Accepting False, b) (Accepting False, b\<lparr>rb_conns := rb_conns b + 1\<rparr>)"
| close_listener: "rb_done b \<Longrightarrow> task_step cap name (Accepting False, b) (Accepting True, b)"
| accept_failed: "\<not> rb_done b \<Longrightarrow> task_step cap name (Accepting c, b) (Task_failed e, b)"
| accept_ended: "rb_done b \<Longrightarrow> task_step cap name (Accepting c, b) (Ended None, b)"
| check_live: "\<not> rb_done b \<Longrightarrow> task_step cap name (Task_failed e, b) (Reporting e, b)"
| check_done: "rb_done b \<Longrightarrow> task_step cap name (Task_failed e, b) (Ended None, b)"
| send: "length (rb_errs b) < cap \<Longrightarrow>
    task_step cap name (Reporting e, b) (Cancelling e, b\<lparr>rb_errs := rb_errs b @ [(name, e)]\<rparr>)"
| cancel: "task_step cap name (Cancelling e, b) (Ended (Some e), b\<lparr>rb_done := True\<rparr>)"


section \<open>The process\<close>

datatype main_phase = Main_waiting | Main_joining | Main_returned "(string \<times> string) option"

record run_state =
  rn_tasks :: "(string \<times> task_phase) list"
  rn_bus :: run_bus
  rn_main :: main_phase

definition run_tasks :: "sidecar_config \<Rightarrow> string list" where
  "run_tasks cfg =
     (if sd_ingress_listen cfg \<noteq> [] then [''ingress''] else [])
       @ map (\<lambda>r. ''egress '' @ er_name r) (sd_egress_routes cfg)
       @ (if sd_health_listen cfg \<noteq> [] then [''health''] else [])"

definition errs_capacity :: "sidecar_config \<Rightarrow> nat" where
  "errs_capacity cfg = length (sd_egress_routes cfg) + 2"

definition run_start :: "sidecar_config \<Rightarrow> run_state" where
  "run_start cfg =
     \<lparr>rn_tasks = map (\<lambda>n. (n, Listening)) (run_tasks cfg),
      rn_bus = \<lparr>rb_done = False, rb_errs = [], rb_conns = 0\<rparr>, rn_main = Main_waiting\<rparr>"

text \<open>A step of a task, the end of the context \<open>Run\<close> was given, \<open><-ctx.Done()\<close>, \<open>wg.Wait()\<close> with the final \<open>select\<close>.\<close>

inductive run_step :: "nat \<Rightarrow> run_state \<Rightarrow> run_state \<Rightarrow> bool" for cap where
  task: "\<lbrakk>rn_tasks s = before @ (n, ph) # after; task_step cap n (ph, rn_bus s) (ph', b)\<rbrakk> \<Longrightarrow>
    run_step cap s (s\<lparr>rn_tasks := before @ (n, ph') # after, rn_bus := b\<rparr>)"
| parent_done: "\<lbrakk>rn_main s = Main_waiting; \<not> rb_done (rn_bus s)\<rbrakk> \<Longrightarrow>
    run_step cap s (s\<lparr>rn_bus := (rn_bus s)\<lparr>rb_done := True\<rparr>\<rparr>)"
| wake: "\<lbrakk>rn_main s = Main_waiting; rb_done (rn_bus s)\<rbrakk> \<Longrightarrow> run_step cap s (s\<lparr>rn_main := Main_joining\<rparr>)"
| join: "\<lbrakk>rn_main s = Main_joining; \<forall>(n, ph)\<in>set (rn_tasks s). \<exists>r. ph = Ended r\<rbrakk> \<Longrightarrow>
    run_step cap s (s\<lparr>rn_main := Main_returned (case rb_errs (rn_bus s) of [] \<Rightarrow> None | e # _ \<Rightarrow> Some e)\<rparr>)"

text \<open>\<open>/healthz\<close>: the status and the body of the answer; \<open>http.Error\<close> ends the line.\<close>

definition healthz :: "('s, 'k) sidecar \<Rightarrow> nat \<times> string" where
  "healthz s = (case xc_pq_id (sd_client s) of None \<Rightarrow> (503, ''no identity yet'' @ [CHR 0x0A]) | Some _ \<Rightarrow> (200, ''ok'' @ [CHR 0x0A]))"


section \<open>The invariant\<close>

text \<open>What a task has put into the channel.\<close>

fun reported :: "string \<times> task_phase \<Rightarrow> (string \<times> string) list" where
  "reported (n, Cancelling e) = [(n, e)]"
| "reported (n, Ended (Some e)) = [(n, e)]"
| "reported _ = []"

definition needs_done :: "task_phase \<Rightarrow> bool" where
  "needs_done ph \<longleftrightarrow> ph = Accepting True \<or> (\<exists>e. ph = Ended (Some e))"

definition supervised :: "nat \<Rightarrow> run_state \<Rightarrow> bool" where
  "supervised cap s \<longleftrightarrow> length (rn_tasks s) \<le> cap
     \<and> mset (rb_errs (rn_bus s)) = mset (concat (map reported (rn_tasks s)))
     \<and> (\<forall>(n, ph)\<in>set (rn_tasks s). needs_done ph \<longrightarrow> rb_done (rn_bus s))
     \<and> (rn_main s \<noteq> Main_waiting \<longrightarrow> rb_done (rn_bus s))
     \<and> (\<forall>res. rn_main s = Main_returned res \<longrightarrow> (\<forall>(n, ph)\<in>set (rn_tasks s). \<exists>r. ph = Ended r)
          \<and> res = (case rb_errs (rn_bus s) of [] \<Rightarrow> None | e # _ \<Rightarrow> Some e))"

lemma supervised_start: "supervised (errs_capacity cfg) (run_start cfg)"
  by (auto simp: supervised_def run_start_def errs_capacity_def run_tasks_def needs_done_def comp_def)

lemma task_step_keeps:
  assumes "task_step cap n (ph, b) (ph', b')"
  shows "(needs_done ph' \<longrightarrow> needs_done ph \<or> rb_done b') \<and> (rb_done b \<longrightarrow> rb_done b')
    \<and> mset (rb_errs b') + mset (reported (n, ph)) = mset (rb_errs b) + mset (reported (n, ph')) \<and> (\<nexists>r. ph = Ended r)"
  using assms by (cases rule: task_step.cases) (auto simp: needs_done_def)

lemma supervised_step:
  assumes "run_step cap s s'" "supervised cap s"
  shows "supervised cap s'"
  using assms(1)
proof cases
  case (task before n ph "after" ph' b)
  have k: "needs_done ph' \<longrightarrow> needs_done ph \<or> rb_done b" "rb_done (rn_bus s) \<longrightarrow> rb_done b"
    "mset (rb_errs b) + mset (reported (n, ph)) = mset (rb_errs (rn_bus s)) + mset (reported (n, ph'))" "\<nexists>r. ph = Ended r"
    using task_step_keeps [OF task(3)] by blast+
  have "\<nexists>res. rn_main s = Main_returned res" using assms(2) k(4) by (auto simp: supervised_def task(2))
  moreover have "mset (rb_errs b) = mset (concat (map reported (before @ (n, ph') # after)))"
    using assms(2) k(3) by (simp add: supervised_def task(2))
  ultimately show ?thesis using assms(2) k(1,2) by (auto simp: supervised_def task(1,2))
qed (use assms(2) in \<open>auto simp: supervised_def\<close>)

lemma supervised_run: "(run_step cap ^^ k) s s' \<Longrightarrow> supervised cap s \<Longrightarrow> supervised cap s'"
  by (induction k arbitrary: s') (auto dest: supervised_step)

lemma reported_Cons: "(n, e) \<in> set (reported x) \<longleftrightarrow> x = (n, Cancelling e) \<or> x = (n, Ended (Some e))"
  by (cases x rule: reported.cases) auto

lemma reported_iff:
  assumes "supervised cap s"
  shows "(n, e) \<in> set (rb_errs (rn_bus s)) \<longleftrightarrow> (n, Cancelling e) \<in> set (rn_tasks s) \<or> (n, Ended (Some e)) \<in> set (rn_tasks s)"
proof -
  have "set (rb_errs (rn_bus s)) = set (concat (map reported (rn_tasks s)))"
    using assms unfolding supervised_def by (metis set_mset_mset)
  then show ?thesis by (auto simp: reported_Cons)
qed

lemma returned_error:
  assumes s: "supervised cap s" and r: "rn_main s = Main_returned res"
  shows "case res of None \<Rightarrow> \<forall>n e. (n, Ended (Some e)) \<notin> set (rn_tasks s) | Some (n, e) \<Rightarrow> (n, Ended (Some e)) \<in> set (rn_tasks s)"
proof -
  have res: "res = (case rb_errs (rn_bus s) of [] \<Rightarrow> None | e # _ \<Rightarrow> Some e)"
    and e: "\<forall>(n, ph)\<in>set (rn_tasks s). \<exists>r. ph = Ended r" using s r by (auto simp: supervised_def)
  have i: "(n, e) \<in> set (rb_errs (rn_bus s)) \<longleftrightarrow> (n, Ended (Some e)) \<in> set (rn_tasks s)" for n e
    using reported_iff [OF s, of n e] e by fastforce
  show ?thesis
  proof (cases "rb_errs (rn_bus s)")
    case Nil
    then show ?thesis using i by (simp add: res)
  next
    case (Cons x xs)
    then show ?thesis using i [of "fst x" "snd x"] by (simp add: res split_beta)
  qed
qed

text \<open>The channel has room for every task: no task waits for the main goroutine to receive.\<close>

lemma room_to_report:
  assumes "supervised cap s" "(n, Reporting e) \<in> set (rn_tasks s)"
  shows "length (rb_errs (rn_bus s)) < cap"
proof -
  from assms(2) obtain before "after" where t: "rn_tasks s = before @ (n, Reporting e) # after" by (meson split_list)
  have r: "length (concat (map reported ts)) \<le> length ts" for ts :: "(string \<times> task_phase) list"
  proof (induction ts)
    case (Cons x ts)
    have "length (reported x) \<le> 1" by (cases x rule: reported.cases) simp_all
    then show ?case using Cons by simp
  qed simp
  have "length (rb_errs (rn_bus s)) = length (concat (map reported (rn_tasks s)))"
    using assms(1) unfolding supervised_def by (metis mset_eq_length)
  also have "\<dots> < length (rn_tasks s)" using r [of before] r [of "after"] by (simp add: t)
  finally show ?thesis using assms(1) by (simp add: supervised_def)
qed


section \<open>Termination\<close>

fun task_weight :: "task_phase \<Rightarrow> nat" where
  "task_weight Listening = 7"
| "task_weight (Accepting False) = 6"
| "task_weight (Accepting True) = 5"
| "task_weight (Task_failed _) = 4"
| "task_weight (Reporting _) = 3"
| "task_weight (Cancelling _) = 2"
| "task_weight (Ended _) = 0"

fun main_weight :: "main_phase \<Rightarrow> nat" where
  "main_weight Main_waiting = 2"
| "main_weight Main_joining = 1"
| "main_weight (Main_returned _) = 0"

definition run_weight :: "run_state \<Rightarrow> nat" where
  "run_weight s = sum_list (map (\<lambda>(n, ph). task_weight ph) (rn_tasks s))
     + (if rb_done (rn_bus s) then 0 else 1) + main_weight (rn_main s)"

lemma task_step_weight:
  "task_step cap n (ph, b) (ph', b') \<Longrightarrow>
     task_weight ph' + (if rb_done b' then 0 else 1) + 1 + rb_conns b \<le> task_weight ph + (if rb_done b then 0 else 1) + rb_conns b'"
  by (cases rule: task_step.cases, assumption) (auto, (case_tac c; simp)+)

text \<open>Every step but the serving of a connection brings the end nearer.\<close>

lemma run_step_weight:
  assumes "run_step cap s s'"
  shows "run_weight s' + 1 + rb_conns (rn_bus s) \<le> run_weight s + rb_conns (rn_bus s')"
  using assms
proof cases
  case (task before n ph "after" ph' b)
  show ?thesis using task_step_weight [OF task(3)] by (simp add: run_weight_def task(1,2))
qed (auto simp: run_weight_def)

lemma run_bounded: "(run_step cap ^^ k) s s' \<Longrightarrow> k + run_weight s' + rb_conns (rn_bus s) \<le> run_weight s + rb_conns (rn_bus s')"
proof (induction k arbitrary: s')
  case (Suc k)
  then obtain s1 where "(run_step cap ^^ k) s s1" "run_step cap s1 s'" by auto
  from Suc.IH [OF this(1)] run_step_weight [OF this(2)] show ?case by simp
qed simp

lemma run_weight_start: "run_weight (run_start cfg) = 7 * length (run_tasks cfg) + 3"
  by (simp add: run_weight_def run_start_def comp_def sum_list_triv)

text \<open>After the context has ended, until \<open>Run\<close> returns, some goroutine can go on without a further connection.\<close>

lemma task_moves:
  assumes "rb_done b" "\<nexists>r. ph = Ended r" "\<And>e. ph = Reporting e \<Longrightarrow> length (rb_errs b) < cap"
  shows "\<exists>ph' b'. task_step cap n (ph, b) (ph', b') \<and> rb_conns b' = rb_conns b"
proof (cases ph)
  case Listening
  then show ?thesis using listen_ok by blast
next
  case (Accepting c)
  then show ?thesis using accept_ended [OF assms(1)] by blast
next
  case (Task_failed e)
  then show ?thesis using check_done [OF assms(1)] by blast
next
  case (Reporting e)
  show ?thesis unfolding Reporting
    by (intro exI conjI, rule send, rule assms(3) [OF Reporting]) simp
next
  case (Cancelling e)
  show ?thesis unfolding Cancelling by (intro exI conjI, rule cancel) simp
qed (use assms(2) in blast)

lemma run_moves:
  assumes "supervised cap s" "rb_done (rn_bus s)" "\<nexists>res. rn_main s = Main_returned res"
  shows "\<exists>s'. run_step cap s s' \<and> rb_conns (rn_bus s') = rb_conns (rn_bus s)"
proof (cases "rn_main s = Main_waiting")
  case True
  show ?thesis by (intro exI conjI, rule wake [OF True assms(2)]) simp
next
  case False
  then have j: "rn_main s = Main_joining" using assms(3) by (cases "rn_main s") auto
  show ?thesis
  proof (cases "\<forall>(n, ph)\<in>set (rn_tasks s). \<exists>r. ph = Ended r")
    case True
    show ?thesis by (intro exI conjI, rule join [OF j True]) simp
  next
    case False
    then obtain n ph where t: "(n, ph) \<in> set (rn_tasks s)" "\<nexists>r. ph = Ended r" by auto
    from t(1) obtain before "after" where l: "rn_tasks s = before @ (n, ph) # after" by (meson split_list)
    have "\<And>e. ph = Reporting e \<Longrightarrow> length (rb_errs (rn_bus s)) < cap" using room_to_report [OF assms(1)] t(1) by blast
    from task_moves [OF assms(2) t(2) this] obtain ph' b' where
      "task_step cap n (ph, rn_bus s) (ph', b')" "rb_conns b' = rb_conns (rn_bus s)" by blast
    then show ?thesis using run_step.task [of s before n ph "after", OF l] by force
  qed
qed


section \<open>Supervision\<close>


text \<open>A sidecar whose ingress port is taken.\<close>

definition taken_cfg :: sidecar_config where
  "taken_cfg = \<lparr>sd_name = ''xapp-c'', sd_authority = ''h'', sd_ingress_listen = '':1'', sd_ingress_routes = [], sd_egress_routes = [],
     sd_handshake_timeout = 0, sd_auth_timeout = 0, sd_idle_timeout = 0, sd_dial_timeout = 0, sd_token_timeout = 0, sd_health_listen = []\<rparr>"

lemma first_task:
  "task_step cap n (ph, b) (ph', b') \<Longrightarrow>
     run_step cap \<lparr>rn_tasks = (n, ph) # ts, rn_bus = b, rn_main = m\<rparr> \<lparr>rn_tasks = (n, ph') # ts, rn_bus = b', rn_main = m\<rparr>"
  using task [of "\<lparr>rn_tasks = (n, ph) # ts, rn_bus = b, rn_main = m\<rparr>" "[]" n ph ts cap ph' b'] by simp

lemma six_steps: "\<lbrakk>R a b; R b c; R c d; R d e; R e f; R f g\<rbrakk> \<Longrightarrow> (R ^^ 6) a g"
  by (simp add: eval_nat_numeral relcompp_apply) blast


end
