(* ===== verification/Mux.thy ===== *)
theory Mux
  imports Ext
begin

text \<open>
  The routes of the servers: \<open>http.ServeMux\<close> of the Go library with the patterns the program registers, an
  optional method and a path without wildcards, which ends in a slash when it stands for a subtree.
\<close>

section \<open>Paths\<close>

text \<open>One segment of a path, on the reversed list of those before it; then \<open>cleanPath\<close> of a path that starts with a slash.\<close>

definition clean_segment :: "string list \<Rightarrow> string \<Rightarrow> string list" where
  "clean_segment acc seg = (if seg = [] \<or> seg = ''.'' then acc else if seg = ''..'' then tl acc else seg # acc)"

definition clean_segments :: "string \<Rightarrow> string list" where
  "clean_segments path = rev (foldl clean_segment [] (split_on CHR ''/'' path))"

definition clean_path :: "string \<Rightarrow> string" where
  "clean_path path =
     (let np = concat (map ((@) ''/'') (clean_segments path))
      in if np = [] then ''/'' else if path \<noteq> [] \<and> last path = CHR ''/'' then np @ ''/'' else np)"


section \<open>The multiplexer\<close>

text \<open>A pattern: its method, empty for any, its path and what is registered for it.\<close>

type_synonym 'h mux_pattern = "string \<times> string \<times> 'h"

datatype 'h mux_result = Mux_handler 'h | Mux_redirect string | Mux_not_allowed | Mux_not_found

definition path_matches :: "string \<Rightarrow> string \<Rightarrow> bool" where
  "path_matches pat path \<longleftrightarrow> path = pat \<or> pat \<noteq> [] \<and> last pat = CHR ''/'' \<and> has_prefix path pat"

definition method_matches :: "string \<Rightarrow> string \<Rightarrow> bool" where
  "method_matches pat meth \<longleftrightarrow> pat = [] \<or> pat = meth \<or> pat = ''GET'' \<and> meth = ''HEAD''"

text \<open>
  The patterns are listed so that of two that match one request the more specific one comes first.  A path
  without its final slash, and one that is not clean, are redirected.
\<close>

definition mux_find :: "'h mux_pattern list \<Rightarrow> string \<Rightarrow> string \<Rightarrow> 'h mux_result" where
  "mux_find pats meth path0 =
     (let path = (if meth = ''CONNECT'' then path0 else clean_path path0);
          found = filter (\<lambda>(m, p, _). path_matches p path \<and> method_matches m meth) pats
      in if found = [] \<and> list_ex (\<lambda>(m, p, _). p = path @ ''/'' \<and> method_matches m meth) pats
         then Mux_redirect (path @ ''/'')
         else if path \<noteq> path0 then Mux_redirect path
         else case found of
                (_, _, h) # _ \<Rightarrow> Mux_handler h
              | [] \<Rightarrow> if list_ex (\<lambda>(_, p, _). path_matches p path) pats then Mux_not_allowed else Mux_not_found)"

text \<open>An answer: status and body, or a redirection.  The body is not sent for \<open>HEAD\<close>.\<close>

datatype http_answer = Answer nat bytes | Redirected string

definition mux_serve ::
  "'h mux_pattern list \<Rightarrow> string \<Rightarrow> string \<Rightarrow> ('h \<Rightarrow> (nat \<times> bytes) \<times> 's) \<Rightarrow> 's \<Rightarrow> http_answer \<times> 's" where
  "mux_serve pats meth path run s =
     (let answer = (\<lambda>st body. Answer st (if meth = ''HEAD'' then [] else body))
      in case mux_find pats meth path of
           Mux_handler h \<Rightarrow> (case run h of ((st, body), s') \<Rightarrow> (answer st body, s'))
         | Mux_redirect p \<Rightarrow> (Redirected p, s)
         | Mux_not_allowed \<Rightarrow> (answer 405 (bytes_of (''Method Not Allowed'' @ [CHR 0x0A])), s)
         | Mux_not_found \<Rightarrow> (answer 404 (bytes_of (''404 page not found'' @ [CHR 0x0A])), s))"

text \<open>\<open>/healthz\<close> of every server.\<close>

definition health_ok :: "nat \<times> bytes" where
  "health_ok = (200, bytes_of (''ok'' @ [CHR 0x0A]))"

text \<open>A JSON object as \<open>json.NewEncoder(w).Encode\<close> writes it.\<close>

definition json_line :: "'k ext \<Rightarrow> gval \<Rightarrow> bytes" where
  "json_line E v = (case json_encode E v of None \<Rightarrow> [] | Some b \<Rightarrow> b @ [10])"

lemma mux_find_handler:
  "mux_find pats meth path = Mux_handler h \<Longrightarrow>
     \<exists>m p. (m, p, h) \<in> set pats \<and> path_matches p path \<and> method_matches m meth"
proof -
  assume a: "mux_find pats meth path = Mux_handler h"
  then obtain m p rest where "filter (\<lambda>(m, p, _). path_matches p path \<and> method_matches m meth) pats = (m, p, h) # rest"
    by (auto simp: mux_find_def Let_def split: if_splits list.splits)
  then have "(m, p, h) \<in> set (filter (\<lambda>(m, p, _). path_matches p path \<and> method_matches m meth) pats)" by simp
  then show ?thesis by auto
qed

lemma mux_serve_changed:
  assumes "mux_serve pats meth path run s = (a, s')" "s' \<noteq> s"
  obtains h m p where "(m, p, h) \<in> set pats" "path_matches p path" "method_matches m meth" "s' = snd (run h)"
  using assms mux_find_handler [of pats meth path]
  by (auto simp: mux_serve_def Let_def split: mux_result.splits prod.splits)

end
