(* ===== verification/Onboarding.thy ===== *)
theory Onboarding
  imports Enroll Client_Base Mux
begin

text \<open>
  Onboarding and enrollment together: \<open>internal/smo/bootstrap.go\<close> with the command \<open>ca/cmd/smo-sim\<close>, the HTTP
  side of \<open>ca/enroll/server.go\<close>, and the client's requests answered by that server.  The generated key, the
  serial number, the clock and \<open>x509.CreateCertificate\<close> are inputs.
\<close>

section \<open>The onboarding CA\<close>

record 's onboarding =
  ob_cert :: cert
  ob_key :: 's
  ob_org :: string
  ob_key_alg :: string

definition LoadOnboarding :: "'s pem_lib \<Rightarrow> 'k ext \<Rightarrow> files \<Rightarrow> string \<Rightarrow> string \<Rightarrow> string \<Rightarrow> 's onboarding option" where
  "LoadOnboarding L E fs certPath keyPath org =
     (case LoadCertsFile L E fs certPath of
        None \<Rightarrow> None
      | Some certs \<Rightarrow>
          (case LoadPrivateKeyFile L fs keyPath of
             None \<Rightarrow> None
           | Some key \<Rightarrow> Some \<lparr>ob_cert = hd certs, ob_key = key, ob_org = org, ob_key_alg = ''EC-P256''\<rparr>))"

record 's boot_io =
  bo_key :: "key_kind \<Rightarrow> 's option"
  bo_serial :: "nat option"
  bo_now :: time
  bo_created :: "template \<Rightarrow> cert \<Rightarrow> 's \<Rightarrow> bytes option"

text \<open>The template of a bootstrap certificate, which has no URI.\<close>

definition boot_template :: "('s, 'd) crypto \<Rightarrow> 's onboarding \<Rightarrow> string \<Rightarrow> string list \<Rightarrow> duration \<Rightarrow> time \<Rightarrow> nat \<Rightarrow> 's \<Rightarrow> template" where
  "boot_template C o1 identity dnsNames validity now serial key =
     \<lparr>tp_serial = serial, tp_cn = identity, tp_ou = ''bootstrap'', tp_org = ob_org o1,
      tp_not_before = time_add now (- 60 * second), tp_not_after = time_add now validity, tp_key_encipherment = False,
      tp_eku = [ClientAuth], tp_dns = dnsNames, tp_uri = [], tp_pub = signer_public C key\<rparr>"

definition IssueBootstrap ::
  "('s, 'd) crypto \<Rightarrow> 'k ext \<Rightarrow> 's onboarding \<Rightarrow> 's boot_io \<Rightarrow> string \<Rightarrow> string list \<Rightarrow> duration \<Rightarrow> 's identity option" where
  "IssueBootstrap C E o1 io identity dnsNames validity =
     (case GenerateKey (if ob_key_alg o1 = [] then ''EC-P256'' else ob_key_alg o1) of
        None \<Rightarrow> None
      | Some kind \<Rightarrow>
     (case bo_key io kind of
        None \<Rightarrow> None
      | Some key \<Rightarrow>
     (case bo_serial io of
        None \<Rightarrow> None
      | Some serial \<Rightarrow>
     (case bo_created io (boot_template C o1 identity dnsNames validity (bo_now io) serial key) (ob_cert o1) (ob_key o1) of
        None \<Rightarrow> None
      | Some der \<Rightarrow>
     (case x509_parse E der of
        None \<Rightarrow> None
      | Some leaf \<Rightarrow>
          Some \<lparr>cred_chain = [der, c_raw (ob_cert o1)], cred_key = Some key, cred_leaf = leaf\<rparr>)))))"

text \<open>\<open>os.WriteFile\<close>: the file is not opened, or truncated and written in part, or whole.\<close>

datatype file_outcome = File_whole | File_not_opened | File_partial nat

definition WriteFile :: "files \<Rightarrow> file_outcome \<Rightarrow> string \<Rightarrow> bytes \<Rightarrow> bool \<times> files" where
  "WriteFile fs out path b =
     (case out of
        File_whole \<Rightarrow> (True, fs(path \<mapsto> b))
      | File_not_opened \<Rightarrow> (False, fs)
      | File_partial n \<Rightarrow> (False, fs(path \<mapsto> take n b)))"

record write_io =
  wc_mkdir :: bool
  wc_crt :: file_outcome
  wc_key :: file_outcome

definition WriteCredential :: "'s pem_lib \<Rightarrow> 'k ext \<Rightarrow> files \<Rightarrow> write_io \<Rightarrow> string \<Rightarrow> 's credential \<Rightarrow> bool \<times> files" where
  "WriteCredential L E fs io dir c =
     (if \<not> wc_mkdir io then (False, fs)
      else case those (map (x509_parse E) (cred_chain c)) of
             None \<Rightarrow> (False, fs)
           | Some chain \<Rightarrow>
               (case (case cred_key c of None \<Rightarrow> None | Some k \<Rightarrow> EncodePrivateKeyPEM L k) of
                  None \<Rightarrow> (False, fs)
                | Some keyPEM \<Rightarrow>
                    (case WriteFile fs (wc_crt io) (path_join dir ''tls.crt'') (EncodeCertsPEM L chain) of
                       (False, fs1) \<Rightarrow> (False, fs1)
                     | (True, fs1) \<Rightarrow> WriteFile fs1 (wc_key io) (path_join dir ''tls.key'') keyPEM)))"

text \<open>\<open>smo-sim\<close>: the flags, and the exit status with the files afterwards.\<close>

record smo_flags =
  sf_cn :: string
  sf_dns :: string
  sf_out :: string
  sf_ca_cert :: string
  sf_ca_key :: string
  sf_org :: string
  sf_validity :: duration
  sf_key_alg :: string

definition granted_names :: "string \<Rightarrow> string list" where
  "granted_names dns = filter (\<lambda>n. n \<noteq> []) (map trim_space (split_on CHR '','' dns))"

definition smo_sim ::
  "('s, 'd) crypto \<Rightarrow> 's pem_lib \<Rightarrow> 'k ext \<Rightarrow> 's boot_io \<Rightarrow> write_io \<Rightarrow> smo_flags \<Rightarrow> files \<Rightarrow> nat \<times> files" where
  "smo_sim C L E bio wio a fs =
     (if sf_cn a = [] \<or> sf_out a = [] \<or> sf_ca_cert a = [] \<or> sf_ca_key a = [] then (2, fs)
      else case LoadOnboarding L E fs (sf_ca_cert a) (sf_ca_key a) (sf_org a) of
             None \<Rightarrow> (1, fs)
           | Some o1 \<Rightarrow>
               (case IssueBootstrap C E (o1\<lparr>ob_key_alg := sf_key_alg a\<rparr>) bio (sf_cn a) (granted_names (sf_dns a)) (sf_validity a) of
                  None \<Rightarrow> (1, fs)
                | Some c \<Rightarrow>
                    (case WriteCredential L E fs wio (sf_out a) (credential.truncate c) of
                       (False, fs1) \<Rightarrow> (1, fs1)
                     | (True, fs1) \<Rightarrow> (0, fs1))))"


section \<open>The HTTP side of the CA\<close>

text \<open>\<open>reject\<close>: the status and the encoded code and detail, whose wording is an input.\<close>

definition ca_reject :: "'k ext \<Rightarrow> (string \<Rightarrow> string) \<Rightarrow> nat \<Rightarrow> string \<Rightarrow> nat \<times> bytes" where
  "ca_reject E detail status code =
     (status, json_line E (VObj [(''error'', VStr code), (''reason'', VStr (detail code))]))"

datatype ca_route = Ca_issue profile | Ca_chain | Ca_health

definition enroll_routes :: "ca_route mux_pattern list" where
  "enroll_routes =
     [(''POST'', ''/v1/enroll'', Ca_issue profileBootstrap), (''POST'', ''/v1/renew'', Ca_issue profileRenew),
      (''GET'', ''/v1/ca-chain'', Ca_chain), (''GET'', ''/healthz'', Ca_health)]"

definition enroll_handler ::
  "'s pem_lib \<Rightarrow> 'k ext \<Rightarrow> (string \<Rightarrow> string) \<Rightarrow> enroll_server \<Rightarrow> enroll_io \<Rightarrow> string \<Rightarrow> string \<Rightarrow> enroll_request
     \<Rightarrow> http_answer \<times> enroll_server" where
  "enroll_handler L E detail s io meth path r =
     mux_serve enroll_routes meth path
       (\<lambda>h. case h of
          Ca_issue p \<Rightarrow>
            (case enroll_issue E s io p r of
               (Refused status code, s') \<Rightarrow> (ca_reject E detail status code, s')
             | (Issued t leaf issuer, s') \<Rightarrow> ((200, EncodeCertsPEM L [leaf, issuer]), s'))
        | Ca_chain \<Rightarrow> ((200, EncodeCertsPEM L (ca_chain s)), s)
        | Ca_health \<Rightarrow> (health_ok, s)) s"

lemma enroll_route:
  "mux_find enroll_routes ''POST'' (if renew then ''/v1/renew'' else ''/v1/enroll'')
     = Mux_handler (Ca_issue (if renew then profileRenew else profileBootstrap))"
  by (cases renew; simp; code_simp)


section \<open>The client's request at the CA\<close>

text \<open>
  What is between the two: the encoded request \<open>x509.CreateCertificateRequest\<close> makes, the text of a duration,
  and the wording of a refusal.
\<close>

record 's ca_network =
  cn_csr :: "'s ca_request \<Rightarrow> bytes"
  cn_duration :: "duration \<Rightarrow> string"
  cn_detail :: "string \<Rightarrow> string"

text \<open>The TLS session shows the server the parsed chain of the client's credential.\<close>

definition ca_serves ::
  "'s pem_lib \<Rightarrow> 'k ext \<Rightarrow> 's ca_network \<Rightarrow> enroll_server \<Rightarrow> enroll_io \<Rightarrow> 's ca_request \<Rightarrow> http_result \<times> enroll_server" where
  "ca_serves L E net s io q =
     (case those (map (x509_parse E) (cred_chain (ca_auth q))) of
        None \<Rightarrow> (Http_error, s)
      | Some chain \<Rightarrow>
          (case enroll_handler L E (cn_detail net) s io ''POST'' (ca_path q)
                  \<lparr>er_tls = Some chain, er_lifetime = cn_duration net (ca_lifetime q), er_body = Some (cn_csr net q)\<rparr> of
             (Answer status body, s') \<Rightarrow> (Http_response status body, s')
           | (Redirected _, s') \<Rightarrow> (Http_error, s')))"

text \<open>What is relied on of one request: the CA parses what was built, and reads the duration back.\<close>

definition request_travels :: "('s, 'd) crypto \<Rightarrow> 'k ext \<Rightarrow> 's ca_network \<Rightarrow> 's ca_request \<Rightarrow> bool" where
  "request_travels C E net q \<longleftrightarrow>
     (\<exists>der. pem_decode E (limit_read 65536 (cn_csr net q)) = Some (''CERTIFICATE REQUEST'', der)
        \<and> csr_parse E der = Some \<lparr>csr_dns = ca_dns q, csr_pub = signer_public C (ca_key q), csr_signed = True\<rparr>)
     \<and> cn_duration net (ca_lifetime q) \<noteq> [] \<and> parse_duration E (cn_duration net (ca_lifetime q)) = Some (ca_lifetime q)"

text \<open>The request \<open>Enroll\<close> sends.\<close>

definition enroll_call :: "'s client_config \<Rightarrow> 's identity \<Rightarrow> 's \<Rightarrow> duration \<Rightarrow> bool \<Rightarrow> 's ca_request" where
  "enroll_call cfg auth key lifetime renew =
     \<lparr>ca_path = (if renew then ''/v1/renew'' else ''/v1/enroll''), ca_lifetime = lifetime, ca_auth = auth,
      ca_cn = c_cn (cred_leaf auth), ca_dns = cc_dns_names cfg, ca_key = key\<rparr>"

lemma enroll_call_sel [simp]:
  "ca_lifetime (enroll_call cfg auth key lifetime renew) = lifetime"
  "ca_dns (enroll_call cfg auth key lifetime renew) = cc_dns_names cfg"
  "ca_key (enroll_call cfg auth key lifetime renew) = key"
  "ca_auth (enroll_call cfg auth key lifetime renew) = auth"
  "ca_path (enroll_call cfg auth key lifetime renew) = (if renew then ''/v1/renew'' else ''/v1/enroll'')"
  by (simp_all add: enroll_call_def)

text \<open>A created certificate has the fields of its template, its times cut to the second.\<close>

definition created_from :: "'k ext \<Rightarrow> template \<Rightarrow> cert \<Rightarrow> bool" where
  "created_from E t c \<longleftrightarrow> c_cn c = tp_cn t \<and> c_dns c = tp_dns t \<and> c_pub c = tp_pub t \<and> c_serial c = tp_serial t
     \<and> c_not_before c = (tp_not_before t div second) * second \<and> c_not_after c = (tp_not_after t div second) * second
     \<and> x509_parse E (c_raw c) = Some c"

text \<open>Every key the client can be configured to generate is one the CA allows.\<close>

lemma generated_allowed:
  "\<lbrakk>GenerateKey alg = Some kind; kind_of pub = Some kind\<rbrakk> \<Longrightarrow> key_allowed pub"
  by (cases pub) (auto simp: GenerateKey_def split: if_splits)


section \<open>A willing CA answers\<close>

text \<open>The template of the certificate for a caller.\<close>

definition leaf_template :: "enroll_server \<Rightarrow> enroll_io \<Rightarrow> string \<Rightarrow> string list \<Rightarrow> pubkey \<Rightarrow> duration \<Rightarrow> nat \<Rightarrow> template" where
  "leaf_template s io cn dns pub lifetime serial =
     \<lparr>tp_serial = serial, tp_cn = cn, tp_ou = ec_organizational_unit (es_cfg s), tp_org = ec_organization (es_cfg s),
      tp_not_before = time_add (eo_now io) (wrap64 (- ec_backdate (es_cfg s))), tp_not_after = time_add (eo_now io) lifetime,
      tp_key_encipherment = is_rsa pub, tp_eku = [ClientAuth, ServerAuth], tp_dns = dns,
      tp_uri = ''urn:oran:ric:xapp:'' @ cn, tp_pub = pub\<rparr>"

text \<open>What the CA needs beside the caller: a working ledger and signer, and a request within its policy.\<close>

definition ca_willing ::
  "'s pem_lib \<Rightarrow> 'k ext \<Rightarrow> enroll_server \<Rightarrow> enroll_io \<Rightarrow> branch \<Rightarrow> string \<Rightarrow> string list \<Rightarrow> pubkey \<Rightarrow> duration \<Rightarrow> bool" where
  "ca_willing L E s io br cn dns pub lifetime \<longleftrightarrow>
     eo_append io = Appended
     \<and> (\<exists>serial leaf. eo_serial io = Some serial
          \<and> eo_created io (leaf_template s io cn dns pub lifetime serial) (br_cert br) = Some leaf
          \<and> created_from E (leaf_template s io cn dns pub lifetime serial) leaf
          \<and> length (EncodeCertsPEM L [leaf, br_cert br]) \<le> 1048576)
     \<and> branchFor s pub = Some br \<and> x509_parse E (c_raw (br_cert br)) = Some (br_cert br)
     \<and> ec_min_lifetime (es_cfg s) \<le> lifetime \<and> lifetime \<le> ec_max_lifetime (es_cfg s)
     \<and> time_add (eo_now io) lifetime \<le> c_not_after (br_cert br) \<and> (\<forall>n\<in>set dns. dnsSuffixAllowed s n)"

definition profile_pool :: "enroll_server \<Rightarrow> profile \<Rightarrow> cert list" where
  "profile_pool s p = (case p of profileBootstrap \<Rightarrow> es_boot_pool s | profileRenew \<Rightarrow> es_op_pool s)"

lemma enroll_issue_complete:
  assumes w: "ca_willing L E s io br (c_cn caller) (csr_dns csr) (csr_pub csr) lifetime"
    and v: "VerifyChain E (caller # rest) (profile_pool s p) (eo_now io) ClientAuth = Inr ()" "identityPattern (c_cn caller)"
    and l: "er_lifetime r \<noteq> []" "parse_duration E (er_lifetime r) = Some lifetime"
    and c: "parseCSR E (er_body r) = Inr csr" "set (csr_dns csr) \<subseteq> set (c_dns caller)"
    and t: "er_tls r = Some (caller # rest)"
    and u: "p = profileBootstrap \<Longrightarrow> credentialKey caller \<notin> set (lg_used (es_used s))"
  shows "\<exists>serial leaf s'. enroll_issue E s io p r =
      (Issued (leaf_template s io (c_cn caller) (csr_dns csr) (csr_pub csr) lifetime serial) leaf (br_cert br), s')
    \<and> created_from E (leaf_template s io (c_cn caller) (csr_dns csr) (csr_pub csr) lifetime serial) leaf
    \<and> length (EncodeCertsPEM L [leaf, br_cert br]) \<le> 1048576"
proof -
  have a: "authenticate_caller E s p (eo_now io) (er_tls r) = Inr caller"
    using v t by (simp add: authenticate_caller_def profile_pool_def)
  have rl: "requested_lifetime E (es_cfg s) (er_lifetime r) = Inr lifetime"
    using l w by (simp add: requested_lifetime_def ca_willing_def)
  have cr: "check_request E s caller (time_add (eo_now io) lifetime) (er_body r) = Inr (csr, br)"
    using c w by (auto simp: check_request_def list_ex_iff ca_willing_def)
  obtain usd where cons: "(case p of profileBootstrap \<Rightarrow> Consume (es_used s) caller (eo_stamp io) (eo_append io)
      | profileRenew \<Rightarrow> (Inr (), es_used s)) = (Inr (), usd)"
    using u w by (cases p) (auto simp: Consume_def Let_def ca_willing_def)
  from w obtain serial leaf where n: "eo_serial io = Some serial" and leaf:
    "eo_created io (leaf_template s io (c_cn caller) (csr_dns csr) (csr_pub csr) lifetime serial) (br_cert br) = Some leaf"
    "created_from E (leaf_template s io (c_cn caller) (csr_dns csr) (csr_pub csr) lifetime serial) leaf"
    "length (EncodeCertsPEM L [leaf, br_cert br]) \<le> 1048576"
    by (auto simp: ca_willing_def)
  have "enroll_issue E s io p r =
      (Issued (leaf_template s io (c_cn caller) (csr_dns csr) (csr_pub csr) lifetime serial) leaf (br_cert br), s\<lparr>es_used := usd\<rparr>)"
    unfolding leaf_template_def
    by (simp only: enroll_issue_def a rl cr cons n leaf(1) [unfolded leaf_template_def] Let_def sum.case prod.case option.case)
  then show ?thesis using leaf(2,3) by blast
qed

lemma EncodeCertsPEM_parses:
  assumes "pem_correct L" "\<forall>c\<in>set cs. x509_parse E (c_raw c) = Some c" "cs \<noteq> []"
  shows "ParseCertsPEM L E (EncodeCertsPEM L cs) = Some cs"
proof -
  have "cert_ders L (EncodeCertsPEM L cs) = map c_raw cs"
    using cert_ders_encoded [OF assms(1), of "map c_raw cs"] by (simp add: EncodeCertsPEM_def o_def)
  moreover have "those (map (x509_parse E) (map c_raw cs)) = Some cs"
    using assms(2) by (induction cs) auto
  ultimately show ?thesis using assms(3) by (simp add: ParseCertsPEM_def)
qed

text \<open>What \<open>Enroll\<close> then returns: a credential for the caller's identity, the names asked for and the new key.\<close>

definition enrolled_as :: "('s, 'd) crypto \<Rightarrow> string \<Rightarrow> string list \<Rightarrow> 's \<Rightarrow> time \<Rightarrow> branch \<Rightarrow> 's identity \<Rightarrow> bool" where
  "enrolled_as C cn dns key notAfter br c \<longleftrightarrow> cred_key c = Some key
     \<and> cred_chain c = [c_raw (cred_leaf c), c_raw (br_cert br)] \<and> c_cn (cred_leaf c) = cn \<and> c_dns (cred_leaf c) = dns
     \<and> c_pub (cred_leaf c) = signer_public C key \<and> c_not_after (cred_leaf c) = (notAfter div second) * second"

lemma Enroll_at_ca:
  assumes L: "pem_correct L" and net: "request_travels C E net (enroll_call cfg auth key lifetime renew)"
    and auth: "those (map (x509_parse E) (cred_chain auth)) = Some (caller # rest)"
    and v: "VerifyChain E (caller # rest) (profile_pool s (if renew then profileRenew else profileBootstrap)) (eo_now cio) ClientAuth = Inr ()"
      "identityPattern (c_cn caller)"
    and w: "ca_willing L E s cio br (c_cn caller) (cc_dns_names cfg) (signer_public C key) lifetime"
    and k: "key_allowed (signer_public C key)"
    and n: "set (cc_dns_names cfg) \<subseteq> set (c_dns caller)"
    and u: "\<not> renew \<Longrightarrow> credentialKey caller \<notin> set (lg_used (es_used s))"
    and io: "co_csr io" "co_answer io = (\<lambda>q. fst (ca_serves L E net s cio q))"
  shows "\<exists>c tm r s1. Enroll C L E cfg io auth key lifetime renew = Inr c
    \<and> enrolled_as C (c_cn caller) (cc_dns_names cfg) key (time_add (eo_now cio) lifetime) br c
    \<and> snd (ca_serves L E net s cio (enroll_call cfg auth key lifetime renew)) = s1 \<and> er_tls r = Some (caller # rest)
    \<and> enroll_issue E s cio (if renew then profileRenew else profileBootstrap) r = (Issued tm (cred_leaf c) (br_cert br), s1)"
proof -
  let ?p = "if renew then profileRenew else profileBootstrap"
  let ?q = "enroll_call cfg auth key lifetime renew"
  let ?r = "\<lparr>er_tls = Some (caller # rest), er_lifetime = cn_duration net lifetime, er_body = Some (cn_csr net ?q)\<rparr>"
  let ?csr = "\<lparr>csr_dns = cc_dns_names cfg, csr_pub = signer_public C key, csr_signed = True\<rparr>"
  have c: "parseCSR E (er_body ?r) = Inr ?csr" using net k by (auto simp: request_travels_def parseCSR_def)
  have d: "er_lifetime ?r \<noteq> []" "parse_duration E (er_lifetime ?r) = Some lifetime" using net by (auto simp: request_travels_def)
  have used: "?p = profileBootstrap \<Longrightarrow> credentialKey caller \<notin> set (lg_used (es_used s))" using u by (cases renew) auto
  have w': "ca_willing L E s cio br (c_cn caller) (csr_dns ?csr) (csr_pub ?csr) lifetime" using w by simp
  from enroll_issue_complete [OF w' v d c] n used obtain serial leaf s1 where
    i: "enroll_issue E s cio ?p ?r =
        (Issued (leaf_template s cio (c_cn caller) (cc_dns_names cfg) (signer_public C key) lifetime serial) leaf (br_cert br), s1)"
      "created_from E (leaf_template s cio (c_cn caller) (cc_dns_names cfg) (signer_public C key) lifetime serial) leaf"
      "length (EncodeCertsPEM L [leaf, br_cert br]) \<le> 1048576"
    by fastforce
  have served: "ca_serves L E net s cio ?q = (Http_response 200 (EncodeCertsPEM L [leaf, br_cert br]), s1)"
    using i(1) auth by (simp add: ca_serves_def enroll_handler_def mux_serve_def enroll_route Let_def)
  have parsed: "ParseCertsPEM L E (limit_read 1048576 (EncodeCertsPEM L [leaf, br_cert br])) = Some [leaf, br_cert br]"
    using EncodeCertsPEM_parses [OF L, of "[leaf, br_cert br]" E] i(2,3) w by (simp add: limit_read_def created_from_def ca_willing_def)
  have "key_equal (signer_public C key) (signer_public C key)" using k by (cases "signer_public C key") simp_all
  moreover have "c_pub leaf = signer_public C key" using i(2) by (simp add: created_from_def leaf_template_def)
  ultimately have e: "Enroll C L E cfg io auth key lifetime renew =
      Inr \<lparr>cred_chain = [c_raw leaf, c_raw (br_cert br)], cred_key = Some key, cred_leaf = leaf\<rparr>"
    using io served [unfolded enroll_call_def] parsed by (simp add: Enroll_def)
  have "enrolled_as C (c_cn caller) (cc_dns_names cfg) key (time_add (eo_now cio) lifetime) br
      \<lparr>cred_chain = [c_raw leaf, c_raw (br_cert br)], cred_key = Some key, cred_leaf = leaf\<rparr>"
    using i(2) by (simp add: enrolled_as_def created_from_def leaf_template_def)
  then show ?thesis unfolding e using i(1) served
    by (intro exI [of _ "\<lparr>cred_chain = [c_raw leaf, c_raw (br_cert br)], cred_key = Some key, cred_leaf = leaf\<rparr>"]
        exI [of _ "leaf_template s cio (c_cn caller) (cc_dns_names cfg) (signer_public C key) lifetime serial"]
        exI [of _ ?r] exI [of _ s1]) simp
qed


section \<open>The bootstrap credential at the CA\<close>

lemma startIdentity_bootstrap:
  assumes "pc_id (planeConfig x p) = None" "pc_dir (planeConfig x p) = [] \<or> load_identity L E (xc_files x) (pc_dir (planeConfig x p)) = None"
    and "pc_bootstrap (planeConfig x p) = Some boot"
    and "GenerateKey (pc_key_alg (planeConfig x p)) = Some kind" "co_key (pi_ca io) kind = Some key"
    and "Enroll C L E (xc_cfg x) (pi_ca io) boot key (pc_lifetime (planeConfig x p)) False = Inr c"
  shows "\<exists>y. startIdentity C L E io x p = (Inr (), y) \<and> pc_id (planeConfig y p) = Some c"
proof -
  let ?pc = "planeConfig x p"
  have "\<exists>st y. enrollLocked C L E (pi_ca io) x p boot False True = (Inr st, y) \<and> pc_id (planeConfig y p) = Some c"
    using assms(4-6) by (auto simp: enrollLocked_def Let_def set_identity_def planeConfig_def)
  then obtain st y where e: "enrollLocked C L E (pi_ca io) x p boot False True = (Inr st, y)" "pc_id (planeConfig y p) = Some c"
    by blast
  then show ?thesis using assms(1-3) by (auto simp: startIdentity_def Let_def)
qed

lemma IssueBootstrap_Some:
  "IssueBootstrap C E o1 io identity names validity = Some boot \<Longrightarrow>
     \<exists>serial key der. cred_chain boot = [der, c_raw (ob_cert o1)] \<and> x509_parse E der = Some (cred_leaf boot)
       \<and> cred_key boot = Some key \<and> bo_serial io = Some serial
       \<and> bo_created io (boot_template C o1 identity names validity (bo_now io) serial key) (ob_cert o1) (ob_key o1) = Some der"
  by (auto simp: IssueBootstrap_def split: option.splits)

end
