(* ===== verification/Lockout.thy ===== *)
theory Lockout
  imports Onboarding Sidecar
begin

text \<open>
  A bootstrap credential that the CA has consumed is lost, whether or not the certificate reached the client: the
  CA consumes it before it signs.  What \<open>Sidecar.Run\<close> then does with its attempts to start.
\<close>

section \<open>The CA's answers\<close>

lemma enroll_refusal_status:
  "fst (enroll_issue E s io p r) = Refused status code \<Longrightarrow> status \<in> {400, 401, 403, 500}"
  by (auto simp: enroll_issue_def authenticate_caller_def requested_lifetime_def check_request_def parseCSR_def Let_def
      split: option.splits list.splits sum.splits prod.splits if_splits profile.splits)

lemma used_refused:
  assumes "credentialKey caller \<in> set (lg_used (es_used s))" "er_tls r = Some (caller # rest)"
  shows "\<exists>status code. fst (enroll_issue E s io profileBootstrap r) = Refused status code"
proof (cases "fst (enroll_issue E s io profileBootstrap r)")
  case (Issued t leaf issuer)
  then obtain s' where "enroll_issue E s io profileBootstrap r = (Issued t leaf issuer, s')" by (metis prod.collapse)
  from bootstrap_Issued(1) [OF this assms(2)] show ?thesis using assms(1) by (simp add: Consume_accepted)
qed blast

text \<open>A credential is consumed also when the certificate then cannot be made.\<close>

lemma consumed_before_signing:
  assumes "authenticate_caller E s profileBootstrap (eo_now io) (er_tls r) = Inr caller"
    and "requested_lifetime E (es_cfg s) (er_lifetime r) = Inr lifetime"
    and "check_request E s caller (time_add (eo_now io) lifetime) (er_body r) = Inr (csr, br)"
    and "credentialKey caller \<notin> set (lg_used (es_used s))" "eo_append io = Appended" "eo_serial io = None"
  shows "fst (enroll_issue E s io profileBootstrap r) = Refused 500 ''internal''"
    and "credentialKey caller \<in> set (lg_used (es_used (snd (enroll_issue E s io profileBootstrap r))))"
  using assms by (auto simp: enroll_issue_def Consume_def Let_def)

lemma ca_serves_used:
  assumes "credentialKey caller \<in> set (lg_used (es_used s))" "those (map (x509_parse E) (cred_chain (ca_auth q))) = Some (caller # rest)"
    and "ca_path q = ''/v1/enroll''"
  shows "\<exists>status body. fst (ca_serves L E net s io q) = Http_response status body \<and> status \<noteq> 200"
proof -
  let ?r = "\<lparr>er_tls = Some (caller # rest), er_lifetime = cn_duration net (ca_lifetime q), er_body = Some (cn_csr net q)\<rparr>"
  obtain status code where r: "fst (enroll_issue E s io profileBootstrap ?r) = Refused status code"
    using used_refused [OF assms(1), of ?r rest E io] by auto
  then have "status \<noteq> 200" using enroll_refusal_status by fastforce
  moreover obtain s' where "enroll_issue E s io profileBootstrap ?r = (Refused status code, s')"
    using r by (metis prod.collapse)
  ultimately show ?thesis
    using assms(2,3) enroll_route [of False] by (simp add: ca_serves_def enroll_handler_def mux_serve_def ca_reject_def Let_def)
qed

lemma Enroll_refused:
  assumes "\<exists>status body. co_answer io (enroll_call cfg auth key lifetime False) = Http_response status body \<and> status \<noteq> 200"
  shows "\<exists>e. Enroll C L E cfg io auth key lifetime False = Inl e"
  using assms by (auto simp: Enroll_def enroll_call_def)


section \<open>The attempts\<close>

text \<open>An attempt on a plane without an identity, whose bootstrap credential is used up, leaves the client as it was.\<close>

lemma startIdentity_used:
  assumes "pc_id (planeConfig x p) = None" "pc_dir (planeConfig x p) = [] \<or> load_identity L E (xc_files x) (pc_dir (planeConfig x p)) = None"
    and "pc_bootstrap (planeConfig x p) = Some boot" "those (map (x509_parse E) (cred_chain boot)) = Some (caller # rest)"
    and "credentialKey caller \<in> set (lg_used (es_used s))" "co_answer (pi_ca io) = (\<lambda>q. fst (ca_serves L E net s cio q))"
  shows "\<exists>e. startIdentity C L E io x p = (Inl e, x)"
proof -
  have "\<exists>e. Enroll C L E (xc_cfg x) (pi_ca io) boot key (pc_lifetime (planeConfig x p)) False = Inl e" for key
    by (rule Enroll_refused) (use ca_serves_used [OF assms(5), of E "enroll_call (xc_cfg x) boot key (pc_lifetime (planeConfig x p)) False" rest L net cio] assms(4,6) in simp)
  then have "\<exists>e. enrollLocked C L E (pi_ca io) x p boot False True = (Inl e, x)"
    by (simp add: enrollLocked_def Let_def split: option.split sum.split) (metis sum.distinct(1))
  then show ?thesis using assms(1-3) by (auto simp: startIdentity_def Let_def)
qed

lemma start_attempts_stuck:
  assumes "\<And>n. \<exists>e. Start C L E (so_start (io n)) x = (Inl e, x)" and "attempt \<le> start_attempts_max"
  shows "\<exists>n out. start_attempts C L E io attempt x = ((n, out), x) \<and> out \<noteq> Started"
  using assms(2)
proof (induction "start_attempts_max - attempt" arbitrary: attempt)
  case 0
  obtain e where "Start C L E (so_start (io attempt)) x = (Inl e, x)" using assms(1) by blast
  with 0 show ?case by (subst start_attempts.simps) simp
next
  case (Suc k)
  obtain e where e: "Start C L E (so_start (io attempt)) x = (Inl e, x)" using assms(1) by blast
  from Suc have "k = start_attempts_max - (attempt + 1)" "attempt + 1 \<le> start_attempts_max" by simp_all
  from Suc.hyps(1) [OF this] e show ?case by (subst start_attempts.simps) auto
qed

end
