(* ===== verification/Servers.thy ===== *)
theory Servers
  imports Shim Supervise Onboarding
begin

text \<open>
  The servers and the processes around the packages: TLS settings, routes with the answers of the handlers, the
  demo xApp, and the exit status of each command until it serves.  Log lines, signals and the shutdown are not
  modelled.
\<close>

section \<open>TLS settings\<close>

text \<open>
  A \<open>tls.Config\<close>: the anchors for the peer's certificate (none for a server), the certificate shown, whether
  a client's is asked for, and the groups.  The callbacks that look up the identity at each handshake are the
  identity at that moment.
\<close>

record 's tls_setup =
  ts_roots :: "cert list option"
  ts_certificate :: "'s identity option"
  ts_request_client :: bool
  ts_groups :: "curve list option"

definition clientTLS :: "'s identity option \<Rightarrow> cert list \<Rightarrow> bool \<Rightarrow> 's tls_setup" where
  "clientTLS idn roots pqKexOnly =
     \<lparr>ts_roots = Some roots, ts_certificate = idn, ts_request_client = False, ts_groups = CurvePreferences pqKexOnly\<rparr>"

definition classical_client :: "('s, 'k) xclient \<Rightarrow> 's tls_setup" where
  "classical_client x = clientTLS (xc_id x) (xc_roots x) False"

definition pq_client :: "('s, 'k) xclient \<Rightarrow> 's tls_setup" where
  "pq_client x = clientTLS (xc_pq_id x) (xc_roots x) (cc_pq_kex_only (xc_cfg x))"

definition HTTPClient :: "('s, 'k) xclient \<Rightarrow> 's tls_setup" where
  "HTTPClient x = (if cc_pq_enabled (xc_cfg x) then pq_client x else classical_client x)"

definition asClient :: "('s, 'k) xclient \<Rightarrow> 's tls_setup" where
  "asClient x = (if pqDirect x then pq_client x else classical_client x)"

definition enroll_client :: "('s, 'k) xclient \<Rightarrow> 's identity \<Rightarrow> 's tls_setup" where
  "enroll_client x auth =
     \<lparr>ts_roots = Some (xc_roots x), ts_certificate = Some auth, ts_request_client = False,
      ts_groups = CurvePreferences (cc_pq_kex_only (xc_cfg x))\<rparr>"

text \<open>A server without an identity fails the handshake.\<close>

definition ServerTLSConfig :: "('s, 'k) xclient \<Rightarrow> 's tls_setup" where
  "ServerTLSConfig x =
     \<lparr>ts_roots = None, ts_certificate = activeIdentity x, ts_request_client = True,
      ts_groups = CurvePreferences (cc_pq_kex_only (xc_cfg x))\<rparr>"

definition server_tls :: "'s pem_lib \<Rightarrow> 'k ext \<Rightarrow> files \<Rightarrow> string \<Rightarrow> string \<Rightarrow> bool \<Rightarrow> 's tls_setup option" where
  "server_tls L E fs cert key pqKexOnly =
     map_option (\<lambda>c. \<lparr>ts_roots = None, ts_certificate = Some c, ts_request_client = True, ts_groups = CurvePreferences pqKexOnly\<rparr>)
       (loadCredential L E fs cert key)"

definition enroll_TLSConfig :: "'s pem_lib \<Rightarrow> 'k ext \<Rightarrow> files \<Rightarrow> enroll_server \<Rightarrow> 's tls_setup option" where
  "enroll_TLSConfig L E fs s = server_tls L E fs (ec_server_cert (es_cfg s)) (ec_server_key (es_cfg s)) (ec_pq_kex_only (es_cfg s))"

definition shim_TLSConfig :: "'s pem_lib \<Rightarrow> 'k ext \<Rightarrow> files \<Rightarrow> 'k shim \<Rightarrow> 's tls_setup option" where
  "shim_TLSConfig L E fs s = server_tls L E fs (sc_server_cert (sh_cfg s)) (sc_server_key (sh_cfg s)) (sc_pq_kex_only (sh_cfg s))"

text \<open>The group a TLS handshake agrees on is one both ends allow.\<close>

definition group_agreed :: "'s tls_setup \<Rightarrow> 's tls_setup \<Rightarrow> curve \<Rightarrow> bool" where
  "group_agreed a b g \<longleftrightarrow> (\<forall>cs. ts_groups a = Some cs \<longrightarrow> g \<in> set cs) \<and> (\<forall>cs. ts_groups b = Some cs \<longrightarrow> g \<in> set cs)"


section \<open>Descriptions\<close>

text \<open>\<open>sig\<close> names the signature algorithm of a certificate.\<close>

definition DescribeCert :: "'k ext \<Rightarrow> (cert \<Rightarrow> string) \<Rightarrow> cert \<Rightarrow> string" where
  "DescribeCert E sig c =
     ''CN='' @ c_cn c @ '' key='' @ KeyAlgName (c_pub c) @ '' sig='' @ sig c @ '' serial='' @ show_hex (c_serial c)
       @ '' expires='' @ rfc3339 E (c_not_after c) @ '' ('' @ show_nat (length (c_raw c)) @ '' bytes)''"

record description =
  ds_method :: string
  ds_client_id :: string
  ds_pq_enabled :: bool
  ds_classical_cert :: string
  ds_classical_alg :: string
  ds_pq_cert :: string
  ds_pq_alg :: string
  ds_pq_issuer :: string
  ds_dpop_alg :: string
  ds_pq_dpop_alg :: string
  ds_token_issuer :: string
  ds_cert_lifetime :: duration
  ds_pq_cert_lifetime :: duration

definition Describe :: "'k ext \<Rightarrow> (cert \<Rightarrow> string) \<Rightarrow> ('s, 'k) xclient \<Rightarrow> description" where
  "Describe E sig x =
     (let c = xc_cfg x;
          cert_of = (\<lambda>i. case i of None \<Rightarrow> [] | Some d \<Rightarrow> DescribeCert E sig (cred_leaf d));
          alg_of = (\<lambda>i. case i of None \<Rightarrow> [] | Some d \<Rightarrow> KeyAlgName (c_pub (cred_leaf d)))
      in \<lparr>ds_method = cc_method c, ds_client_id = cc_client_id c, ds_pq_enabled = cc_pq_enabled c,
          ds_classical_cert = cert_of (xc_id x), ds_classical_alg = alg_of (xc_id x),
          ds_pq_cert = (if cc_pq_enabled c then cert_of (xc_pq_id x) else []),
          ds_pq_alg = (if cc_pq_enabled c then alg_of (xc_pq_id x) else []),
          ds_pq_issuer = (if cc_pq_enabled c then cc_pq_issuer c else []), ds_dpop_alg = cc_dpop_alg c,
          ds_pq_dpop_alg = (if cc_pq_enabled c then cc_pq_dpop_alg c else []), ds_token_issuer = cc_token_url c,
          ds_cert_lifetime = cc_cert_lifetime c, ds_pq_cert_lifetime = pqCertLifetime c\<rparr>)"


section \<open>The routes of the shim\<close>

definition shim_fail :: "'k ext \<Rightarrow> (string \<Rightarrow> string) \<Rightarrow> nat \<Rightarrow> string \<Rightarrow> nat \<times> bytes" where
  "shim_fail E detail status code = (status, json_line E (VObj [(''error'', VStr code), (''reason'', VStr (detail code))]))"

definition upgrade_json :: "upgrade_response \<Rightarrow> gval" where
  "upgrade_json u =
     VObj [(''access_token'', VStr (ur_access_token u)), (''token_type'', VStr (ur_token_type u)),
           (''expires_in'', VInt (ur_expires_in u)), (''alg'', VStr (ur_alg u)), (''cnf'', VObj (ur_cnf u))]"

datatype shim_route = Shim_upgrade | Shim_jwks | Shim_introspect | Shim_health

definition shim_routes :: "shim_route mux_pattern list" where
  "shim_routes =
     [(''POST'', ''/v1/upgrade'', Shim_upgrade), (''GET'', ''/v1/jwks'', Shim_jwks),
      (''POST'', ''/v1/introspect'', Shim_introspect), (''GET'', ''/healthz'', Shim_health)]"

text \<open>\<open>form\<close> is the \<open>token\<close> of the posted form, if it parses.\<close>

definition shim_handler ::
  "'k ext \<Rightarrow> (string \<Rightarrow> string) \<Rightarrow> 'k shim \<Rightarrow> shim_io \<Rightarrow> time \<Rightarrow> string option \<Rightarrow> request \<Rightarrow> http_answer \<times> 'k shim" where
  "shim_handler E detail s io now form r =
     mux_serve shim_routes (rq_method r) (rq_path r)
       (\<lambda>h. case h of
          Shim_upgrade \<Rightarrow>
            (case handleUpgrade E s io r of
               (Shim_fail status code, s') \<Rightarrow> (shim_fail E detail status code, s')
             | (Shim_upgraded u, s') \<Rightarrow> ((200, json_line E (upgrade_json u)), s'))
        | Shim_jwks \<Rightarrow> ((200, json_line E (VObj (handleJWKS s))), s)
        | Shim_introspect \<Rightarrow>
            (case handleIntrospect E s now form of
               Introspect_fail status code \<Rightarrow> (shim_fail E detail status code, s)
             | Introspect_inactive \<Rightarrow> ((200, json_line E (VObj [(''active'', VBool False)])), s)
             | Introspect_active claims \<Rightarrow> ((200, json_line E (VObj claims)), s))
        | Shim_health \<Rightarrow> (health_ok, s)) s"


section \<open>The health server of the sidecar\<close>

datatype sidecar_route = Sidecar_health | Sidecar_stats

definition sidecar_routes :: "sidecar_route mux_pattern list" where
  "sidecar_routes = [([], ''/healthz'', Sidecar_health), ([], ''/stats'', Sidecar_stats)]"

definition sidecar_stats :: "'k ext \<Rightarrow> (cert \<Rightarrow> string) \<Rightarrow> ('s, 'k) sidecar \<Rightarrow> gval" where
  "sidecar_stats E sig s =
     (let d = Describe E sig (sd_client s)
      in VObj [(''client_id'', VStr (ds_client_id d)),
               (''counters'', VObj (map (\<lambda>(n, c). (n, VInt (int c))) (sd_counter s))),
               (''method'', VStr (ds_method d)), (''pq_alg'', VStr (ds_pq_alg d)), (''pq_cert'', VStr (ds_pq_cert d)),
               (''sidecar'', VStr (sd_name (sd_cfg s)))])"

definition sidecar_health ::
  "'k ext \<Rightarrow> (cert \<Rightarrow> string) \<Rightarrow> ('s, 'k) sidecar \<Rightarrow> string \<Rightarrow> string \<Rightarrow> http_answer \<times> ('s, 'k) sidecar" where
  "sidecar_health E sig s meth path =
     mux_serve sidecar_routes meth path
       (\<lambda>h. case h of
          Sidecar_health \<Rightarrow> (apsnd bytes_of (healthz s), s)
        | Sidecar_stats \<Rightarrow> ((200, json_line E (sidecar_stats E sig s)), s)) s"

end
