(* ===== verification/Processes.thy ===== *)
theory Processes
  imports Servers "HOL-Library.While_Combinator"
begin

text \<open>
  The commands: what each does with its configuration until it serves, with its exit status, and the demo xApp of
  \<open>demo-xapp/cmd/xapp/main.go\<close>.  Log lines, signals and the shutdown are not modelled.
\<close>

section \<open>Exit statuses\<close>

text \<open>A process that serves exits with 0 when its server was closed and with 1 on another error.\<close>

datatype serve_end = Server_closed | Serve_error

definition serve_exit :: "serve_end \<Rightarrow> nat" where
  "serve_exit e = (case e of Server_closed \<Rightarrow> 0 | Serve_error \<Rightarrow> 1)"

definition or_exit :: "nat \<Rightarrow> 'a option \<Rightarrow> nat + 'a" where
  "or_exit status r = (case r of None \<Rightarrow> Inl status | Some a \<Rightarrow> Inr a)"

definition config_or_exit :: "env_error list + 'a \<Rightarrow> nat + 'a" where
  "config_or_exit r = (case r of Inl _ \<Rightarrow> Inl 2 | Inr a \<Rightarrow> Inr a)"

text \<open>\<open>ric-ca\<close>: the material the configuration names is loaded from the files.\<close>

definition load_enroll_server :: "'s pem_lib \<Rightarrow> 'k ext \<Rightarrow> files \<Rightarrow> enroll_config \<Rightarrow> enroll_server option" where
  "load_enroll_server L E fs cfg =
     enroll_NewServer cfg
       (LoadCertsFile L E fs (ec_issuer_cert cfg), LoadPrivateKeyFile L fs (ec_issuer_key cfg) \<noteq> None)
       (LoadCertsFile L E fs (ec_issuer_cert_pq cfg), LoadPrivateKeyFile L fs (ec_issuer_key_pq cfg) \<noteq> None)
       (LoadCertPool L E fs (ec_bootstrap_trust cfg)) (LoadCertPool L E fs (ec_operational_trust cfg))
       (map_option string_of (fs (path_join (ec_state_dir cfg) ''used-bootstrap-credentials.log'')))"

definition ric_ca ::
  "'s pem_lib \<Rightarrow> 'k ext \<Rightarrow> (string \<Rightarrow> string option) \<Rightarrow> files \<Rightarrow> nat + enroll_server \<times> 's tls_setup" where
  "ric_ca L E g fs =
     and_then (config_or_exit (enroll_ConfigFromEnv E g)) (\<lambda>cfg.
     and_then (or_exit 1 (load_enroll_server L E fs cfg)) (\<lambda>srv.
     and_then (or_exit 1 (enroll_TLSConfig L E fs srv)) (\<lambda>conf. Inr (srv, conf))))"

text \<open>\<open>pq-shim\<close>: the pools are loaded twice, for the process's HTTP client and inside \<open>NewServer\<close>.\<close>

definition pq_shim ::
  "'s pem_lib \<Rightarrow> 'k ext \<Rightarrow> (string \<Rightarrow> string option) \<Rightarrow> files \<Rightarrow> 'k anykey option \<Rightarrow> nat + 'k shim \<times> 's tls_setup" where
  "pq_shim L E g fs generated =
     and_then (config_or_exit (shim_ConfigFromEnv E g)) (\<lambda>cfg.
     and_then (config_or_exit (ConfigFromEnv E g)) (\<lambda>rcfg.
     and_then (or_exit 2 (ParseDialOverrides (case env_lookup g ''DIAL_OVERRIDES'' of Some v \<Rightarrow> v | None \<Rightarrow> []))) (\<lambda>_.
     and_then (or_exit 1 (LoadCertPool L E fs (vc_trust_bundle rcfg))) (\<lambda>roots.
     and_then (or_exit 1 (NewServer E cfg rcfg (LoadCertPool L E fs (vc_trust_bundle rcfg)) generated
                            (LoadCertPool L E fs (sc_pq_bundle cfg)))) (\<lambda>srv.
     and_then (or_exit 1 (shim_TLSConfig L E fs srv)) (\<lambda>conf. Inr (srv, conf)))))))"

text \<open>\<open>/healthz\<close> over plain HTTP, of the shim and of the demo xApp.\<close>

definition health_server :: "string \<Rightarrow> string \<Rightarrow> http_answer" where
  "health_server meth path = fst (mux_serve [(''GET'', ''/healthz'', ())] meth path (\<lambda>_. (health_ok, ())) ())"

text \<open>\<open>xapp-sidecar\<close>: until \<open>Run\<close>, and the exit status of what \<open>Run\<close> ends with before its listeners start and after.\<close>

definition xapp_sidecar ::
  "'s pem_lib \<Rightarrow> 'k ext \<Rightarrow> (string \<Rightarrow> string option) \<Rightarrow> (string \<Rightarrow> 'k anykey option) \<Rightarrow> files \<Rightarrow> nat + ('s, 'k) sidecar" where
  "xapp_sidecar L E g gen fs =
     and_then (config_or_exit (sidecar_ConfigFromEnv E g)) (\<lambda>cfg.
     and_then (config_or_exit (client_ConfigFromEnv E g)) (\<lambda>ccfg.
     and_then (config_or_exit (ConfigFromEnv E g)) (\<lambda>rcfg.
       case sidecar_New L E gen fs cfg ccfg rcfg of Inl _ \<Rightarrow> Inl 1 | Inr s \<Rightarrow> Inr s)))"

definition sidecar_start_exit :: "start_outcome \<Rightarrow> nat option" where
  "sidecar_start_exit out = (case out of Started \<Rightarrow> None | Start_cancelled \<Rightarrow> Some 1 | Start_failed _ \<Rightarrow> Some 1)"

definition sidecar_run_exit :: "(string \<times> string) option \<Rightarrow> nat" where
  "sidecar_run_exit res = (case res of None \<Rightarrow> 0 | Some _ \<Rightarrow> 1)"


section \<open>The demo xApp\<close>

record xapp_config =
  xp_name :: string
  xp_listen :: string
  xp_peer_url :: string
  xp_peer_interval :: duration
  xp_health_addr :: string

definition xapp_ConfigFromEnv :: "'k ext \<Rightarrow> (string \<Rightarrow> string option) \<Rightarrow> env_error list + xapp_config" where
  "xapp_ConfigFromEnv E g = env_result (do {
     name \<leftarrow> env_req g ''XAPP_NAME'';
     listen \<leftarrow> env_str g ''LISTEN_ADDR'' '':8443'';
     peer \<leftarrow> env_str g ''PEER_URL'' [];
     interval \<leftarrow> env_dur E g ''PEER_INTERVAL'' (30 * second);
     health \<leftarrow> env_str g ''HEALTH_ADDR'' '':8081'';
     State_Monad.return \<lparr>xp_name = name, xp_listen = listen, xp_peer_url = peer, xp_peer_interval = interval,
       xp_health_addr = health\<rparr>
   })"

definition xapp_setup ::
  "'s pem_lib \<Rightarrow> 'k ext \<Rightarrow> (string \<Rightarrow> string option) \<Rightarrow> (string \<Rightarrow> 'k anykey option) \<Rightarrow> files
     \<Rightarrow> nat + xapp_config \<times> vconfig \<times> ('s, 'k) xclient" where
  "xapp_setup L E g gen fs =
     and_then (config_or_exit (xapp_ConfigFromEnv E g)) (\<lambda>cfg.
     and_then (config_or_exit (client_ConfigFromEnv E g)) (\<lambda>ccfg.
     and_then (config_or_exit (ConfigFromEnv E g)) (\<lambda>rcfg.
       case New L E gen fs ccfg of Inl _ \<Rightarrow> Inl 1 | Inr x \<Rightarrow> Inr (cfg, rcfg, x))))"

text \<open>
  The attempts to start, without a limit: \<open>None\<close> is a loop that goes on for ever.  The state is the number of
  the attempt, whether the loop has ended and with success, and the client.
\<close>

definition xapp_pause :: "nat \<Rightarrow> duration" where
  "xapp_pause attempt = min (wrap64 (wrap64 (int attempt * 2) * second)) (30 * second)"

definition xapp_attempt ::
  "('s, 'd) crypto \<Rightarrow> 's pem_lib \<Rightarrow> 'k ext \<Rightarrow> (nat \<Rightarrow> 's start_io) \<Rightarrow> nat \<times> bool option \<times> ('s, 'k) xclient
     \<Rightarrow> nat \<times> bool option \<times> ('s, 'k) xclient" where
  "xapp_attempt C L E io st =
     (case st of (attempt, _, x) \<Rightarrow>
        (case Start C L E (so_start (io attempt)) x of
           (Inr _, x1) \<Rightarrow> (attempt, Some True, x1)
         | (Inl _, x1) \<Rightarrow> if so_done_in_pause (io attempt) then (attempt, Some False, x1) else (attempt + 1, None, x1)))"

definition xapp_attempts ::
  "('s, 'd) crypto \<Rightarrow> 's pem_lib \<Rightarrow> 'k ext \<Rightarrow> (nat \<Rightarrow> 's start_io) \<Rightarrow> ('s, 'k) xclient
     \<Rightarrow> (nat \<times> bool option \<times> ('s, 'k) xclient) option" where
  "xapp_attempts C L E io x = while_option (\<lambda>st. fst (snd st) = None) (xapp_attempt C L E io) (1, None, x)"

text \<open>The application's interface: \<open>decoded\<close> is the path of the request without escapes.\<close>

datatype xapp_route = Xapp_health | Xapp_sdl mode

definition xapp_routes :: "xapp_route mux_pattern list" where
  "xapp_routes =
     [(''GET'', ''/healthz'', Xapp_health), ([], ''/api/v1/sdl/'', Xapp_sdl ModeLocal),
      ([], ''/api/v1/introspect/sdl/'', Xapp_sdl ModeIntrospection)]"

definition sdl_key :: "string \<Rightarrow> string" where
  "sdl_key decoded = rev (takeWhile (\<lambda>c. c \<noteq> CHR ''/'') (rev decoded))"

definition mode_text :: "mode \<Rightarrow> string" where
  "mode_text m = (case m of ModeLocal \<Rightarrow> ''local'' | ModeIntrospection \<Rightarrow> ''introspection'' | Mode_other t \<Rightarrow> t)"

definition sdl_answer :: "string \<Rightarrow> string \<Rightarrow> principal \<Rightarrow> gval" where
  "sdl_answer name decoded p =
     VObj [(''binding'', VStr (p_binding p)), (''caller'', VStr (p_client_id p)), (''cnf'', VStr (p_thumbprint p)),
           (''key'', VStr (sdl_key decoded)), (''validated'', VStr (mode_text (p_mode p))),
           (''value'', VStr ''demo-sdl-value''), (''xapp'', VStr name)]"

datatype xapp_answer = Xapp_ok bytes | Xapp_data gval | Xapp_rejected response | Xapp_mux "xapp_route mux_result"

definition xapp_handler ::
  "'k ext \<Rightarrow> string \<Rightarrow> 'k validator \<Rightarrow> auth_io \<Rightarrow> request \<Rightarrow> string \<Rightarrow> xapp_answer \<times> 'k validator" where
  "xapp_handler E name v io r decoded =
     (case mux_find xapp_routes (rq_method r) (rq_path r) of
        Mux_handler Xapp_health \<Rightarrow> (Xapp_ok (snd health_ok), v)
      | Mux_handler (Xapp_sdl mode) \<Rightarrow>
          (case Middleware E v io mode r of
             (Answered rsp, v') \<Rightarrow> (Xapp_rejected rsp, v')
           | (Served p, v') \<Rightarrow> (Xapp_data (sdl_answer name decoded p), v'))
      | other \<Rightarrow> (Xapp_mux other, v))"

text \<open>One round of \<open>peerLoop\<close>: a request with the client, whose answer is only logged; and its rounds until the end.\<close>

definition peer_call ::
  "('s, 'd) crypto \<Rightarrow> 's pem_lib \<Rightarrow> 'k ext \<Rightarrow> ('s \<Rightarrow> 'k option) \<Rightarrow> xapp_config \<Rightarrow> bool \<Rightarrow> 's call_io \<Rightarrow> resource_io
     \<Rightarrow> ('s, 'k) xclient \<Rightarrow> ('s, 'k) xclient" where
  "peer_call C L E imp cfg well_formed io rio x =
     (if well_formed then snd (client_Do C L E imp io rio \<lparr>oq_method = ''GET'', oq_url = xp_peer_url cfg, oq_headers = []\<rparr> x) else x)"


definition peerLoop ::
  "('s, 'd) crypto \<Rightarrow> 's pem_lib \<Rightarrow> 'k ext \<Rightarrow> ('s \<Rightarrow> 'k option) \<Rightarrow> xapp_config \<Rightarrow> (bool \<times> 's call_io \<times> resource_io) list
     \<Rightarrow> ('s, 'k) xclient \<Rightarrow> ('s, 'k) xclient" where
  "peerLoop C L E imp cfg rounds x = fold (\<lambda>(well_formed, io, rio). peer_call C L E imp cfg well_formed io rio) rounds x"

text \<open>
  The whole process.  It serves with what \<open>xapp_ready\<close> has put together, or has ended before, with its status;
  \<open>None\<close> is a process that tries to start for ever.  \<open>serve\<close> is how its server ends.
\<close>

definition xapp_ready ::
  "('s, 'd) crypto \<Rightarrow> 's pem_lib \<Rightarrow> 'k ext \<Rightarrow> (string \<Rightarrow> string option) \<Rightarrow> (string \<Rightarrow> 'k anykey option) \<Rightarrow> files
     \<Rightarrow> (nat \<Rightarrow> 's start_io) \<Rightarrow> (nat + xapp_config \<times> ('s, 'k) xclient \<times> 'k validator) option" where
  "xapp_ready C L E g gen fs io =
     (case xapp_setup L E g gen fs of
        Inl status \<Rightarrow> Some (Inl status)
      | Inr (cfg, rcfg, x) \<Rightarrow>
          (case xapp_attempts C L E io x of
             None \<Rightarrow> None
           | Some (_, started, y) \<Rightarrow>
               if started \<noteq> Some True then Some (Inl 0)
               else (case NewValidator rcfg (LoadCertPool L E (xc_files y) (vc_trust_bundle rcfg)) of
                       None \<Rightarrow> Some (Inl 1)
                     | Some v \<Rightarrow> Some (Inr (cfg, y, v)))))"

definition xapp_main ::
  "('s, 'd) crypto \<Rightarrow> 's pem_lib \<Rightarrow> 'k ext \<Rightarrow> (string \<Rightarrow> string option) \<Rightarrow> (string \<Rightarrow> 'k anykey option) \<Rightarrow> files
     \<Rightarrow> (nat \<Rightarrow> 's start_io) \<Rightarrow> (xapp_config \<Rightarrow> 's tls_setup \<Rightarrow> 'k validator \<Rightarrow> serve_end) \<Rightarrow> nat option" where
  "xapp_main C L E g gen fs io serve =
     (case xapp_ready C L E g gen fs io of
        None \<Rightarrow> None
      | Some (Inl status) \<Rightarrow> Some status
      | Some (Inr (cfg, x, v)) \<Rightarrow> Some (serve_exit (serve cfg (ServerTLSConfig x) v)))"


section \<open>Facts\<close>

lemma xapp_pause_bounds:
  assumes "1 \<le> attempt" "attempt \<le> 4000000000"
  shows "2 * second \<le> xapp_pause attempt \<and> xapp_pause attempt \<le> 30 * second"
proof -
  have "wrap64 (int attempt * 2) = int attempt * 2" using assms by (intro wrap64_id) auto
  moreover have "wrap64 (int attempt * 2 * second) = int attempt * 2 * second" using assms by (intro wrap64_id) auto
  ultimately show ?thesis using assms by (simp add: xapp_pause_def)
qed

text \<open>While no attempt can succeed the loop ends only when the process is told to stop.\<close>

lemma xapp_attempts_stuck:
  assumes "xapp_attempts C L E io x = Some (n, ended, y)" "\<forall>n. \<exists>e. Start C L E (so_start (io n)) x = (Inl e, x)"
  shows "ended = Some False \<and> so_done_in_pause (io n) \<and> y = x"
proof -
  let ?P = "\<lambda>st. snd (snd st) = x \<and> fst (snd st) \<noteq> Some True \<and> (fst (snd st) = Some False \<longrightarrow> so_done_in_pause (io (fst st)))"
  have "?P (xapp_attempt C L E io st)" if "?P st" for st
  proof -
    obtain e where "Start C L E (so_start (io (fst st))) x = (Inl e, x)" using assms(2) by blast
    then show ?thesis using that by (auto simp: xapp_attempt_def split: prod.splits)
  qed
  then have "?P (n, ended, y)"
    using while_option_rule [OF _ assms(1) [unfolded xapp_attempts_def], of ?P] by simp
  moreover have "ended \<noteq> None"
    using while_option_stop [OF assms(1) [unfolded xapp_attempts_def]] by simp
  ultimately show ?thesis by (cases ended) auto
qed

text \<open>The data of the interface is given out only to a request the validator accepts in the mode of its route.\<close>

lemma xapp_data_authorized:
  assumes "xapp_handler E name v io r decoded = (Xapp_data d, v')"
  shows "\<exists>mode p. Authorize E v io mode r = (Inr p, v') \<and> d = sdl_answer name decoded p
    \<and> (mode = ModeLocal \<and> has_prefix (rq_path r) ''/api/v1/sdl/'' \<or> mode = ModeIntrospection \<and> has_prefix (rq_path r) ''/api/v1/introspect/sdl/'')"
proof -
  obtain mode where m: "mux_find xapp_routes (rq_method r) (rq_path r) = Mux_handler (Xapp_sdl mode)"
    using assms by (auto simp: xapp_handler_def split: mux_result.splits xapp_route.splits)
  then have "mode = ModeLocal \<and> has_prefix (rq_path r) ''/api/v1/sdl/'' \<or> mode = ModeIntrospection \<and> has_prefix (rq_path r) ''/api/v1/introspect/sdl/''"
    using mux_find_handler [OF m] by (auto simp: xapp_routes_def path_matches_def has_prefix_def)
  then show ?thesis
    using assms m by (fastforce simp: xapp_handler_def Middleware_def split: prod.splits sum.splits)
qed

end
