(* ===== verification/Onboard_Props.thy ===== *)
theory Onboard_Props
  imports Lockout Processes Client_Props Enroll_Props
begin

text \<open>
  From onboarding to enrollment, across the three programs: what \<open>smo-sim\<close> issued starts the xApp, and starts
  it once.
\<close>

section \<open>Samples\<close>

definition onboard_leaf :: cert where
  "onboard_leaf = sample_leaf\<lparr>c_raw := [201], c_serial := 7, c_not_before := t0 - 2 * second\<rparr>"

definition onboard_ext :: "nat ext" where
  "onboard_ext = xapp_ext\<lparr>x509_parse := (\<lambda>b. if b = [200] then Some sample_leaf else if b = [201] then Some onboard_leaf
     else if b = [100] then Some sample_root else None)\<rparr>"

definition sample_onboarding :: "bytes onboarding" where
  "sample_onboarding = \<lparr>ob_cert = sample_root, ob_key = [1], ob_org = ''RIC'', ob_key_alg = ''EC-P256''\<rparr>"

definition sample_boot_io :: "bytes boot_io" where
  "sample_boot_io = \<lparr>bo_key = (\<lambda>_. Some [2]), bo_serial = Some 42, bo_now = t0, bo_created = (\<lambda>_ _ _. Some [200])\<rparr>"

definition onboard_boot :: "bytes identity" where
  "onboard_boot = \<lparr>cred_chain = [[200], [100]], cred_key = Some [2], cred_leaf = sample_leaf\<rparr>"

definition onboard_client :: "(bytes, nat) xclient" where
  "onboard_client = xapp_client\<lparr>xc_cfg := xapp_cfg\<lparr>cc_bootstrap := Some onboard_boot, cc_dns_names := [''xapp-a.ric'']\<rparr>\<rparr>"

definition onboard_net :: "bytes ca_network" where
  "onboard_net = \<lparr>cn_csr = (\<lambda>_. []), cn_duration = (\<lambda>_. ''15m''), cn_detail = (\<lambda>_. [])\<rparr>"

definition onboard_cio :: enroll_io where
  "onboard_cio = sample_enroll_io\<lparr>eo_created := (\<lambda>_ _. Some onboard_leaf)\<rparr>"

definition onboard_io :: "bytes plane_io" where
  "onboard_io = xapp_plane_io\<lparr>pi_ca := xapp_ca\<lparr>co_answer :=
     (\<lambda>q. fst (ca_serves disk_pem onboard_ext onboard_net sample_enroll onboard_cio q))\<rparr>\<rparr>"


section \<open>The property\<close>

lemma identityPattern_plain: "identityPattern cn \<Longrightarrow> CHR 0x0A \<notin> set cn"
  by (auto simp: identityPattern_def lower_alnum_def is_digit_def list_all_iff)

text \<open>C10: An xApp onboarded with a bootstrap credential starts: at a willing CA that trusts the onboarding CA it comes
  to hold a certificate for the identity and a subset of the names it was onboarded with and for a key it generated
  itself, and from then on the CA refuses that bootstrap credential, whatever whole steps it makes.\<close>
theorem onboarded_xapp_enrolls:
  assumes pc_def: "pc = planeConfig x p" and names_def: "names = cc_dns_names (xc_cfg x)"
    and boot: "IssueBootstrap C E o1 bio cn granted validity = Some boot" "bo_serial bio = Some n" "cred_key boot = Some bkey"
    and made: "created_from E (boot_template C o1 cn granted validity (bo_now bio) n bkey) (cred_leaf boot)"
    and root: "x509_parse E (c_raw (ob_cert o1)) = Some (ob_cert o1)"
    and cn: "identityPattern cn" "set names \<subseteq> set granted"
    and chain: "VerifyChain E [cred_leaf boot, ob_cert o1] (es_boot_pool s) (eo_now cio) ClientAuth = Inr ()"
    and ledger: "ledger_ok (es_used s)" "credentialKey (cred_leaf boot) \<notin> set (lg_used (es_used s))"
      "CHR 0x0A \<notin> set (eo_stamp cio)" "length (ledger_line (cred_leaf boot) (eo_stamp cio)) \<le> 65536"
    and plane: "pc_id pc = None" "pc_dir pc = [] \<or> load_identity L E (xc_files x) (pc_dir pc) = None" "pc_bootstrap pc = Some boot"
    and key: "GenerateKey (pc_key_alg pc) = Some kind" "co_key (pi_ca pio) kind = Some key" "kind_of (signer_public C key) = Some kind"
    and ca: "ca_willing L E s cio br cn names (signer_public C key) (pc_lifetime pc)"
    and net: "pem_correct L" "request_travels C E net (enroll_call (xc_cfg x) boot key (pc_lifetime pc) False)"
      "co_csr (pi_ca pio)" "co_answer (pi_ca pio) = (\<lambda>q. fst (ca_serves L E net s cio q))"
  shows "\<exists>y c. startIdentity C L E pio x p = (Inr (), y) \<and> pc_id (planeConfig y p) = Some c
    \<and> enrolled_as C cn names key (time_add (eo_now cio) (pc_lifetime pc)) br c
    \<and> (\<forall>ds io' r' c' rest'.
         (\<forall>d\<in>set ds. whole_call d) \<and> whole_call (Enroll_call io' profileBootstrap r') \<and> er_tls r' = Some (c' # rest')
           \<and> c_issuer c' = c_issuer (cred_leaf boot) \<and> c_serial c' = c_serial (cred_leaf boot)
         \<longrightarrow> (\<exists>status code. fst (enroll_issue E
                (foldl (enroll_advance E) (snd (ca_serves L E net s cio (enroll_call (xc_cfg x) boot key (pc_lifetime pc) False))) ds)
                io' profileBootstrap r') = Refused status code))"
proof -
  from IssueBootstrap_Some [OF boot(1)] obtain der where
    b: "cred_chain boot = [der, c_raw (ob_cert o1)]" "x509_parse E der = Some (cred_leaf boot)"
    by blast
  have auth: "those (map (x509_parse E) (cred_chain boot)) = Some [cred_leaf boot, ob_cert o1]" using b root by simp
  have leaf: "c_cn (cred_leaf boot) = cn" "c_dns (cred_leaf boot) = granted" using made by (simp_all add: created_from_def boot_template_def)
  obtain c tm r s1 where e: "Enroll C L E (xc_cfg x) (pi_ca pio) boot key (pc_lifetime pc) False = Inr c"
    "enrolled_as C cn names key (time_add (eo_now cio) (pc_lifetime pc)) br c"
    "snd (ca_serves L E net s cio (enroll_call (xc_cfg x) boot key (pc_lifetime pc) False)) = s1"
    "er_tls r = Some [cred_leaf boot, ob_cert o1]" "enroll_issue E s cio profileBootstrap r = (Issued tm (cred_leaf c) (br_cert br), s1)"
    using Enroll_at_ca [OF net(1,2) auth _ _ _ generated_allowed [OF key(1,3)] _ _ net(3,4), of br] chain cn ca ledger(2) leaf
    by (auto simp: profile_pool_def names_def)
  have whole: "whole_call (Enroll_call cio profileBootstrap r)"
    using ledger(3,4) ca identityPattern_plain [OF cn(1)] leaf by (simp add: whole_call_def e(4) ca_willing_def)
  obtain y where y: "startIdentity C L E pio x p = (Inr (), y)" "pc_id (planeConfig y p) = Some c"
    using startIdentity_bootstrap [of x p L E boot kind pio key C c] plane key e(1) by (auto simp: pc_def)
  have "\<exists>status code. fst (enroll_issue E (foldl (enroll_advance E) s1 ds) io' profileBootstrap r') = Refused status code"
    if "\<forall>d\<in>set ds. whole_call d" "whole_call (Enroll_call io' profileBootstrap r')" "er_tls r' = Some (c' # rest')"
      "c_issuer c' = c_issuer (cred_leaf boot)" "c_serial c' = c_serial (cred_leaf boot)" for ds io' r' c' rest'
    by (rule bootstrap_refused [OF ledger(1) e(5,4) that(3,4,5) whole that(2,1)])
  then show ?thesis using y e(2,3) by blast
qed


lemma sample_issued_boot:
  "IssueBootstrap xapp_crypto onboard_ext sample_onboarding sample_boot_io ''xapp-a'' [''xapp-a.ric''] (900 * second) = Some onboard_boot"
proof -
  have "GenerateKey ''EC-P256'' = Some (Gen_EC ''P-256'')" by code_simp
  then show ?thesis
    by (simp add: IssueBootstrap_def sample_onboarding_def sample_boot_io_def)
      (simp add: onboard_boot_def onboard_ext_def sample_root_def)
qed


lemma onboard_times:
  "time_add t0 (- 60 * second) = t0 - 60 * second" "time_add t0 (900 * second) = t0 + 900 * second"
  "time_add t0 (wrap64 (- (2 * second))) = t0 - 2 * second"
  by (simp_all add: time_add_sane is_duration_def wrap64_id)

lemma onboard_made:
  "created_from onboard_ext (boot_template xapp_crypto sample_onboarding ''xapp-a'' [''xapp-a.ric''] (900 * second) t0 42 [2]) sample_leaf"
  using onboard_times
  by (simp add: created_from_def boot_template_def sample_leaf_def xapp_crypto_def onboard_ext_def t0_def unix_offset_def)

lemma onboard_branch: "branchFor sample_enroll (EC_key ''P-256'' [2]) = Some \<lparr>br_name = ''classical'', br_cert = sample_root\<rparr>"
  by (simp add: branchFor_def sample_enroll_def)

lemma onboard_willing:
  "ca_willing disk_pem onboard_ext sample_enroll onboard_cio \<lparr>br_name = ''classical'', br_cert = sample_root\<rparr> ''xapp-a'' [''xapp-a.ric'']
     (signer_public xapp_crypto [2]) (900 * second)"
proof -
  have k: "signer_public xapp_crypto [2] = EC_key ''P-256'' [2]" by (simp add: xapp_crypto_def)
  have i: "eo_append onboard_cio = Appended" "eo_serial onboard_cio = Some 7" "eo_created onboard_cio = (\<lambda>_ _. Some onboard_leaf)"
    "eo_now onboard_cio = t0"
    by (simp_all add: onboard_cio_def sample_enroll_io_def)
  have c: "created_from onboard_ext (leaf_template sample_enroll onboard_cio ''xapp-a'' [''xapp-a.ric''] (EC_key ''P-256'' [2]) (900 * second) 7)
      onboard_leaf"
    using onboard_times
    by (simp add: created_from_def leaf_template_def onboard_leaf_def sample_leaf_def onboard_ext_def i sample_enroll_def t0_def unix_offset_def)
  have l: "length (EncodeCertsPEM disk_pem [onboard_leaf, sample_root]) \<le> 1048576"
    by (simp add: EncodeCertsPEM_def disk_pem_def unary_def onboard_leaf_def sample_root_def bytes_of_def)
  have s: "ec_min_lifetime (es_cfg sample_enroll) \<le> 900 * second" "900 * second \<le> ec_max_lifetime (es_cfg sample_enroll)"
    "dnsSuffixAllowed sample_enroll ''xapp-a.ric''"
    by (simp_all add: sample_enroll_def dnsSuffixAllowed_def has_suffix_def)
  have r: "x509_parse onboard_ext (c_raw sample_root) = Some sample_root" "c_not_after sample_root = t0 + 10000 * second"
    by (simp_all add: onboard_ext_def sample_root_def)
  show ?thesis
    unfolding ca_willing_def k onboard_branch
    using c l s r onboard_times(2) i by simp
qed

lemma onboard_travels:
  "request_travels xapp_crypto onboard_ext onboard_net (enroll_call (xc_cfg onboard_client) onboard_boot [2] (900 * second) False)"
  by (simp add: request_travels_def onboard_net_def)
    (simp add: onboard_ext_def xapp_ext_def sample_ext_def onboard_client_def xapp_crypto_def)

lemma onboard_chain:
  "VerifyChain onboard_ext [sample_leaf, sample_root] (es_boot_pool sample_enroll) (eo_now onboard_cio) ClientAuth = Inr ()"
  by (simp add: VerifyChain_def sample_leaf_def sample_root_def onboard_ext_def xapp_ext_def sample_ext_def sample_enroll_def onboard_cio_def sample_enroll_io_def)

theorem onboarded_xapp_enrolls_witness:
  "\<exists>y c. startIdentity xapp_crypto disk_pem onboard_ext onboard_io onboard_client ClassicalPlane = (Inr (), y)
     \<and> xc_id y = Some c \<and> c_cn (cred_leaf c) = ''xapp-a'' \<and> cred_key c = Some [2]"
proof -
  have g: "GenerateKey ''EC-P256'' = Some (Gen_EC ''P-256'')" by code_simp
  have p: "planeConfig onboard_client ClassicalPlane =
      \<lparr>pc_id = None, pc_key_alg = ''EC-P256'', pc_lifetime = 900 * second, pc_dir = [], pc_boot_cert = [], pc_boot_key = [],
       pc_bootstrap = Some onboard_boot\<rparr>"
    by (simp add: planeConfig_def onboard_client_def) (simp add: xapp_cfg_def)
  have b: "bo_serial sample_boot_io = Some 42" "bo_now sample_boot_io = t0" "cred_key onboard_boot = Some [2]" "cred_leaf onboard_boot = sample_leaf"
    "ob_cert sample_onboarding = sample_root" "x509_parse onboard_ext (c_raw sample_root) = Some sample_root"
    by (simp_all add: sample_boot_io_def onboard_boot_def sample_onboarding_def onboard_ext_def sample_root_def)
  have o1: "ledger_ok (es_used sample_enroll)" "credentialKey sample_leaf \<notin> set (lg_used (es_used sample_enroll))"
    by (simp_all add: ledger_ok_def)
  have l: "CHR 0x0A \<notin> set (eo_stamp onboard_cio)" "length (ledger_line sample_leaf (eo_stamp onboard_cio)) \<le> 65536"
    by (simp_all add: onboard_cio_def ledger_line_def sample_key_text) (simp add: sample_leaf_def)
  have io: "co_csr (pi_ca onboard_io)" "co_key (pi_ca onboard_io) (Gen_EC ''P-256'') = Some [2]"
    "co_answer (pi_ca onboard_io) = (\<lambda>q. fst (ca_serves disk_pem onboard_ext onboard_net sample_enroll onboard_cio q))"
    by (simp_all add: onboard_io_def)
  have n: "cc_dns_names (xc_cfg onboard_client) = [''xapp-a.ric'']" by (simp add: onboard_client_def)
  show ?thesis
    using onboarded_xapp_enrolls [where pc = "planeConfig onboard_client ClassicalPlane" and x = onboard_client and p = ClassicalPlane
        and pio = onboard_io and net = onboard_net and E = onboard_ext and L = disk_pem and s = sample_enroll and cio = onboard_cio and key = "[2]"
        and kind = "Gen_EC ''P-256''" and br = "\<lparr>br_name = ''classical'', br_cert = sample_root\<rparr>",
      OF refl refl sample_issued_boot, of 42 "[2]"]
      p b o1 l io n g onboard_made sample_identity onboard_chain onboard_willing onboard_travels disk_pem_correct
    by (auto simp: enrolled_as_def planeConfig_def xapp_crypto_def Let_def)
qed


section \<open>What cannot be repeated\<close>

lemma consume_kept:
  assumes "authenticate_caller E s profileBootstrap (eo_now io) (er_tls r) = Inr caller"
    and "requested_lifetime E (es_cfg s) (er_lifetime r) = Inr lifetime"
    and "check_request E s caller (time_add (eo_now io) lifetime) (er_body r) = Inr (csr, br)"
    and "ledger_ok (es_used s)" "eo_append io = Appended" "whole_call (Enroll_call io profileBootstrap r)"
  shows "credentialKey caller \<in> set (lg_used (es_used (snd (enroll_issue E s io profileBootstrap r))))
    \<and> ledger_ok (es_used (snd (enroll_issue E s io profileBootstrap r)))"
proof -
  have u: "es_used (snd (enroll_issue E s io profileBootstrap r)) = snd (Consume (es_used s) caller (eo_stamp io) (eo_append io))"
    using assms(1-3) by (auto simp: enroll_issue_def Let_def split: prod.split sum.split option.split)
  obtain rest where t: "er_tls r = Some (caller # rest)" using assms(1) by (rule authenticate_caller_Inr)
  have w: "whole_append (Consume_call caller (eo_stamp io) (eo_append io))" using assms(6) t by (simp add: whole_call_def)
  show ?thesis
    using Consume_keeps_ok [OF assms(4) w] assms(5) unfolding u by (auto simp: Consume_def Let_def)
qed

text \<open>C13: An enrollment whose answer is lost cannot be repeated: once a request with the bootstrap credential has passed
  the checks of the CA -- whether the certificate was then made, and whether it arrived -- no attempt of the sidecar's
  start with that credential succeeds, whatever whole steps the CA makes in between, and the client is left as it was;
  the demo xApp goes on trying until it is told to stop.\<close>
theorem lost_enrollment_not_repeated:
  assumes "ledger_ok (es_used s0)"
    and "authenticate_caller E s0 profileBootstrap (eo_now io0) (er_tls r0) = Inr caller"
    and "requested_lifetime E (es_cfg s0) (er_lifetime r0) = Inr lifetime"
    and "check_request E s0 caller (time_add (eo_now io0) lifetime) (er_body r0) = Inr (csr, br)"
    and "eo_append io0 = Appended" "whole_call (Enroll_call io0 profileBootstrap r0)"
    and "pc_id (planeConfig x ClassicalPlane) = None"
    and "pc_dir (planeConfig x ClassicalPlane) = []
      \<or> load_identity L E (xc_files x) (pc_dir (planeConfig x ClassicalPlane)) = None"
    and "pc_bootstrap (planeConfig x ClassicalPlane) = Some boot"
    and "those (map (x509_parse E) (cred_chain boot)) = Some (caller # rest)"
    and "\<forall>n. \<forall>d\<in>set (ds n). whole_call d"
    and "\<forall>n. co_answer (pi_ca (fst (so_start (io n)))) = (\<lambda>q. fst (ca_serves L E net
          (foldl (enroll_advance E) (snd (enroll_issue E s0 io0 profileBootstrap r0)) (ds n)) (cio n) q))"
  shows "(\<exists>n out. start_attempts C L E io 1 x = ((n, out), x) \<and> out \<noteq> Started)
    \<and> (\<forall>n ended y. xapp_attempts C L E io x = Some (n, ended, y) \<longrightarrow> ended = Some False \<and> so_done_in_pause (io n) \<and> y = x)"
proof -
  let ?s1 = "snd (enroll_issue E s0 io0 profileBootstrap r0)"
  note k = consume_kept [OF assms(2-4,1,5,6)]
  have stuck: "\<exists>e. Start C L E (so_start (io n)) x = (Inl e, x)" for n
  proof -
    have "credentialKey caller \<in> set (lg_used (es_used (foldl (enroll_advance E) ?s1 (ds n))))
        \<and> ledger_ok (es_used (foldl (enroll_advance E) ?s1 (ds n)))"
      by (rule enroll_use.client_held_run) (use k assms(11) in \<open>fastforce simp: whole_call_def\<close>)+
    then have "\<exists>e. startIdentity C L E (fst (so_start (io n))) x ClassicalPlane = (Inl e, x)"
      by (intro startIdentity_used [OF assms(7-10)]) (use assms(12) in auto)
    then show ?thesis by (auto simp: Start_def)
  qed
  then have "\<exists>n out. start_attempts C L E io 1 x = ((n, out), x) \<and> out \<noteq> Started"
    by (intro start_attempts_stuck) (simp_all add: start_attempts_max_def)
  with stuck show ?thesis using xapp_attempts_stuck [of C L E io x] by blast
qed


definition lost_request :: enroll_request where
  "lost_request = \<lparr>er_tls = Some [sample_leaf, sample_root], er_lifetime = ''15m'', er_body = Some []\<rparr>"

definition lost_start_io :: "bytes start_io" where
  "lost_start_io =
     \<lparr>so_start = (xapp_plane_io\<lparr>pi_ca := xapp_ca\<lparr>co_answer := (\<lambda>q. fst (ca_serves disk_pem onboard_ext onboard_net
          (snd (enroll_issue onboard_ext sample_enroll onboard_cio profileBootstrap lost_request)) onboard_cio q))\<rparr>\<rparr>, onboard_io),
      so_done = False, so_done_in_pause = False\<rparr>"

theorem lost_enrollment_not_repeated_witness:
  "\<exists>n out. start_attempts xapp_crypto disk_pem onboard_ext (\<lambda>_. lost_start_io) 1 onboard_client = ((n, out), onboard_client) \<and> out \<noteq> Started"
proof -
  have i: "eo_now onboard_cio = t0" "eo_append onboard_cio = Appended" "eo_stamp onboard_cio = ''T''" "er_tls lost_request = Some [sample_leaf, sample_root]"
    by (simp_all add: onboard_cio_def lost_request_def)
  have p: "planeConfig onboard_client ClassicalPlane =
      \<lparr>pc_id = None, pc_key_alg = ''EC-P256'', pc_lifetime = 900 * second, pc_dir = [], pc_boot_cert = [], pc_boot_key = [],
       pc_bootstrap = Some onboard_boot\<rparr>"
    by (simp add: planeConfig_def onboard_client_def) (simp add: xapp_cfg_def)
  have a: "authenticate_caller onboard_ext sample_enroll profileBootstrap (eo_now onboard_cio) (er_tls lost_request) = Inr sample_leaf"
    using onboard_chain sample_identity by (simp add: authenticate_caller_def i) (simp add: sample_leaf_def)
  have l: "requested_lifetime onboard_ext (es_cfg sample_enroll) (er_lifetime lost_request) = Inr (900 * second)"
    by (simp add: requested_lifetime_def sample_enroll_def lost_request_def onboard_ext_def xapp_ext_def sample_ext_def)
  have c: "check_request onboard_ext sample_enroll sample_leaf (time_add (eo_now onboard_cio) (900 * second)) (er_body lost_request) =
      Inr (\<lparr>csr_dns = [''xapp-a.ric''], csr_pub = EC_key ''P-256'' [2], csr_signed = True\<rparr>, \<lparr>br_name = ''classical'', br_cert = sample_root\<rparr>)"
    using onboard_times(2)
    by (simp add: check_request_def parseCSR_def onboard_ext_def xapp_ext_def sample_ext_def lost_request_def onboard_branch i)
      (simp add: sample_root_def sample_leaf_def dnsSuffixAllowed_def sample_enroll_def has_suffix_def)
  have w: "whole_call (Enroll_call onboard_cio profileBootstrap lost_request)"
    by (simp add: whole_call_def i ledger_line_def sample_key_text) (simp add: sample_leaf_def)
  have h: "those (map (x509_parse onboard_ext) (cred_chain onboard_boot)) = Some [sample_leaf, sample_root]"
    by (simp add: onboard_boot_def onboard_ext_def)
  have s: "co_answer (pi_ca (fst (so_start lost_start_io))) = (\<lambda>q. fst (ca_serves disk_pem onboard_ext onboard_net
      (snd (enroll_issue onboard_ext sample_enroll onboard_cio profileBootstrap lost_request)) onboard_cio q))"
    by (simp add: lost_start_io_def)
  have o1: "ledger_ok (es_used sample_enroll)" by (simp add: ledger_ok_def)
  show ?thesis
    using lost_enrollment_not_repeated [OF o1 a l c i(2) w, where x = onboard_client and boot = onboard_boot and rest = "[sample_root]"
        and ds = "\<lambda>_. []" and io = "\<lambda>_. lost_start_io" and L = disk_pem and net = onboard_net and cio = "\<lambda>_. onboard_cio" and C = xapp_crypto]
      p h s by simp
qed

end
