(* ===== verification/Pki_Gen.thy ===== *)
theory Pki_Gen
  imports Onboarding Client_Restart
begin

text \<open>
  \<open>ca/cmd/pki-gen/main.go\<close>: the post-quantum branch of the PKI, written as files.  Keys, serial numbers, the
  clock, the calendar and \<open>x509.CreateCertificate\<close> are inputs, one record of them for each certificate in the
  order they are made: the root, the onboarding CA, the intermediate CA, then the servers.
\<close>

section \<open>Certificates\<close>

datatype key_usage = CertSign | CRLSign | DigitalSignature

record gen_template =
  gt_serial :: nat
  gt_org :: string
  gt_ou :: string
  gt_cn :: string
  gt_not_before :: time
  gt_not_after :: time
  gt_ca :: bool
  gt_path_zero :: bool
  gt_usage :: "key_usage list"
  gt_eku :: "eku list"
  gt_dns :: "string list"
  gt_ips :: "string list"

record 's gen_io =
  gi_key :: "key_kind \<Rightarrow> 's option"
  gi_serial :: "nat option"
  gi_before :: time
  gi_after :: time
  gi_add_days :: "time \<Rightarrow> int \<Rightarrow> time" \<comment> \<open>\<open>AddDate(0, 0, days)\<close> in the local time zone\<close>
  gi_created :: "gen_template \<Rightarrow> cert option \<Rightarrow> pubkey \<Rightarrow> 's \<Rightarrow> bytes option" \<comment> \<open>no parent: self-signed\<close>
  gi_crt_file :: file_outcome
  gi_key_file :: file_outcome
  gi_chain_file :: file_outcome

type_synonym 's issuer = "cert \<times> 's"

definition pg_write ::
  "'s pem_lib \<Rightarrow> 's gen_io \<Rightarrow> files \<Rightarrow> string \<Rightarrow> string \<Rightarrow> cert \<Rightarrow> 's \<Rightarrow> cert list \<Rightarrow> bool \<times> files" where
  "pg_write L io fs out name cert key chain =
     (case WriteFile fs (gi_crt_file io) (path_join out (name @ ''.crt'')) (EncodeCertsPEM L [cert]) of
        (False, fs1) \<Rightarrow> (False, fs1)
      | (True, fs1) \<Rightarrow>
          (case EncodePrivateKeyPEM L key of
             None \<Rightarrow> (False, fs1)
           | Some keyPEM \<Rightarrow>
               (case WriteFile fs1 (gi_key_file io) (path_join out (name @ ''.key'')) keyPEM of
                  (False, fs2) \<Rightarrow> (False, fs2)
                | (True, fs2) \<Rightarrow>
                    if chain = [] then (True, fs2)
                    else WriteFile fs2 (gi_chain_file io) (path_join out (name @ ''-chain.crt''))
                           (EncodeCertsPEM L [cert] @ EncodeCertsPEM L chain))))"

text \<open>The key, the serial number and the certificate, which the three functions below make alike.\<close>

definition pg_certificate ::
  "('s, 'd) crypto \<Rightarrow> 'k ext \<Rightarrow> 's gen_io \<Rightarrow> string \<Rightarrow> (nat \<Rightarrow> gen_template) \<Rightarrow> 's issuer option \<Rightarrow> 's issuer option" where
  "pg_certificate C E io alg tmpl parent =
     (case GenerateKey alg of
        None \<Rightarrow> None
      | Some kind \<Rightarrow>
     (case gi_key io kind of
        None \<Rightarrow> None
      | Some key \<Rightarrow>
     (case gi_serial io of
        None \<Rightarrow> None
      | Some sn \<Rightarrow>
     (case gi_created io (tmpl sn) (map_option fst parent) (signer_public C key)
             (case parent of Some (_, pkey) \<Rightarrow> pkey | None \<Rightarrow> key) of
        None \<Rightarrow> None
      | Some der \<Rightarrow> map_option (\<lambda>cert. (cert, key)) (x509_parse E der)))))"

definition ca_template :: "'s gen_io \<Rightarrow> string \<times> string \<times> string \<Rightarrow> int \<Rightarrow> bool \<Rightarrow> nat \<Rightarrow> gen_template" where
  "ca_template io subject days path_zero sn =
     (case subject of (org, ou, cn) \<Rightarrow>
        \<lparr>gt_serial = sn, gt_org = org, gt_ou = ou, gt_cn = cn, gt_not_before = time_add (gi_before io) (- 3600 * second),
         gt_not_after = gi_add_days io (gi_after io) days, gt_ca = True, gt_path_zero = path_zero,
         gt_usage = [CertSign, CRLSign], gt_eku = [], gt_dns = [], gt_ips = []\<rparr>)"

definition selfSignedCA ::
  "('s, 'd) crypto \<Rightarrow> 's pem_lib \<Rightarrow> 'k ext \<Rightarrow> 's gen_io \<Rightarrow> files \<Rightarrow> string \<Rightarrow> string \<Rightarrow> string
     \<Rightarrow> string \<times> string \<times> string \<Rightarrow> int \<Rightarrow> 's issuer option \<times> files" where
  "selfSignedCA C L E io fs out name alg subject days =
     (case pg_certificate C E io alg (ca_template io subject days False) None of
        None \<Rightarrow> (None, fs)
      | Some (cert, key) \<Rightarrow>
          (case pg_write L io fs out name cert key [] of
             (False, fs1) \<Rightarrow> (None, fs1)
           | (True, fs1) \<Rightarrow> (Some (cert, key), fs1)))"

definition subCA ::
  "('s, 'd) crypto \<Rightarrow> 's pem_lib \<Rightarrow> 'k ext \<Rightarrow> 's gen_io \<Rightarrow> files \<Rightarrow> string \<Rightarrow> string \<Rightarrow> string
     \<Rightarrow> string \<times> string \<times> string \<Rightarrow> int \<Rightarrow> 's issuer \<Rightarrow> 's issuer option \<times> files" where
  "subCA C L E io fs out name alg subject days parent =
     (case pg_certificate C E io alg (ca_template io subject days True) (Some parent) of
        None \<Rightarrow> (None, fs)
      | Some (cert, key) \<Rightarrow>
          (case pg_write L io fs out name cert key [fst parent] of
             (False, fs1) \<Rightarrow> (None, fs1)
           | (True, fs1) \<Rightarrow> (Some (cert, key), fs1)))"

definition server_template :: "'s gen_io \<Rightarrow> string \<times> string \<times> string \<Rightarrow> string list \<Rightarrow> int \<Rightarrow> nat \<Rightarrow> gen_template" where
  "server_template io subject dnsNames days sn =
     (case subject of (org, ou, cn) \<Rightarrow>
        \<lparr>gt_serial = sn, gt_org = org, gt_ou = ou, gt_cn = cn, gt_not_before = time_add (gi_before io) (- 3600 * second),
         gt_not_after = gi_add_days io (gi_after io) days, gt_ca = False, gt_path_zero = False,
         gt_usage = [DigitalSignature], gt_eku = [ServerAuth], gt_dns = dnsNames, gt_ips = [''127.0.0.1'']\<rparr>)"

definition serverCert ::
  "('s, 'd) crypto \<Rightarrow> 's pem_lib \<Rightarrow> 'k ext \<Rightarrow> 's gen_io \<Rightarrow> files \<Rightarrow> string \<Rightarrow> string \<Rightarrow> string
     \<Rightarrow> string \<times> string \<times> string \<Rightarrow> string list \<Rightarrow> int \<Rightarrow> 's issuer \<Rightarrow> bool \<times> files" where
  "serverCert C L E io fs out name alg subject dnsNames days parent =
     (case pg_certificate C E io alg (server_template io subject dnsNames days) (Some parent) of
        None \<Rightarrow> (False, fs)
      | Some (cert, key) \<Rightarrow> pg_write L io fs out name cert key [fst parent])"


section \<open>The command\<close>

record pg_flags =
  pf_out :: string
  pf_org :: string
  pf_domain :: string
  pf_root_alg :: string
  pf_ca_alg :: string
  pf_server_alg :: string
  pf_root_days :: int
  pf_ca_days :: int
  pf_server_days :: int
  pf_services :: "string list"

record 's pg_io =
  pg_mkdir :: bool
  pg_cert :: "nat \<Rightarrow> 's gen_io"
  pg_bundle :: file_outcome

datatype pg_result = Already_present | Pki_written | Pki_failed

definition service_dns :: "string \<Rightarrow> string \<Rightarrow> string \<Rightarrow> string list" where
  "service_dns domain name ns =
     [name @ ''.'' @ ns @ ''.svc.'' @ domain, name @ ''.'' @ ns @ ''.svc'', name @ ''.'' @ ns, name, ''localhost'']"

fun pg_services ::
  "('s, 'd) crypto \<Rightarrow> 's pem_lib \<Rightarrow> 'k ext \<Rightarrow> (nat \<Rightarrow> 's gen_io) \<Rightarrow> pg_flags \<Rightarrow> 's issuer \<Rightarrow> nat \<Rightarrow> string list \<Rightarrow> files
     \<Rightarrow> bool \<times> files" where
  "pg_services C L E io a parent i [] fs = (True, fs)"
| "pg_services C L E io a parent i (svc # svcs) fs =
     (case cut CHR '':'' svc of
        None \<Rightarrow> (False, fs)
      | Some (name, ns) \<Rightarrow>
          (case serverCert C L E (io i) fs (pf_out a) (name @ ''-server-pq'') (pf_server_alg a)
                  (pf_org a, ''Near-RT RIC'', hd (service_dns (pf_domain a) name ns)) (service_dns (pf_domain a) name ns)
                  (pf_server_days a) parent of
             (False, fs1) \<Rightarrow> (False, fs1)
           | (True, fs1) \<Rightarrow> pg_services C L E io a parent (i + 1) svcs fs1))"

definition pki_gen_run ::
  "('s, 'd) crypto \<Rightarrow> 's pem_lib \<Rightarrow> 'k ext \<Rightarrow> 's pg_io \<Rightarrow> pg_flags \<Rightarrow> files \<Rightarrow> pg_result \<times> files" where
  "pki_gen_run C L E io a fs =
     (let out = pf_out a
      in if \<not> pg_mkdir io then (Pki_failed, fs)
         else if fs (path_join out ''ric-intermediate-ca-pq.crt'') \<noteq> None then (Already_present, fs)
         else case selfSignedCA C L E (pg_cert io 0) fs out ''smo-root-ca-pq'' (pf_root_alg a)
                     (pf_org a, ''SMO'', ''SMO Root CA PQ (simulated)'') (pf_root_days a) of
                (None, fs1) \<Rightarrow> (Pki_failed, fs1)
              | (Some root, fs1) \<Rightarrow>
             (case subCA C L E (pg_cert io 1) fs1 out ''smo-onboarding-ca-pq'' (pf_ca_alg a)
                     (pf_org a, ''SMO'', ''SMO Onboarding CA PQ (simulated)'') (pf_ca_days a) root of
                (None, fs2) \<Rightarrow> (Pki_failed, fs2)
              | (Some _, fs2) \<Rightarrow>
             (case subCA C L E (pg_cert io 2) fs2 out ''ric-intermediate-ca-pq'' (pf_ca_alg a)
                     (pf_org a, ''Near-RT RIC'', ''RIC Intermediate CA PQ'') (pf_ca_days a) root of
                (None, fs3) \<Rightarrow> (Pki_failed, fs3)
              | (Some ica, fs3) \<Rightarrow>
             (case pg_services C L E (pg_cert io) a ica 3 (pf_services a) fs3 of
                (False, fs4) \<Rightarrow> (Pki_failed, fs4)
              | (True, fs4) \<Rightarrow>
             (case WriteFile fs4 (pg_bundle io) (path_join out ''ric-ca-bundle-pq.crt'')
                     (EncodeCertsPEM L [fst ica] @ EncodeCertsPEM L [fst root]) of
                (False, fs5) \<Rightarrow> (Pki_failed, fs5)
              | (True, fs5) \<Rightarrow> (Pki_written, fs5))))))"

text \<open>The exit status.\<close>

definition pki_gen_exit :: "pg_result \<Rightarrow> nat" where
  "pki_gen_exit r = (if r = Pki_failed then 1 else 0)"



section \<open>What a run leaves\<close>

definition pg_paths :: "string \<Rightarrow> string \<Rightarrow> string set" where
  "pg_paths out name = {path_join out (name @ ''.crt''), path_join out (name @ ''.key''), path_join out (name @ ''-chain.crt'')}"

definition server_paths :: "string \<Rightarrow> string set" where
  "server_paths out = (\<Union>name. pg_paths out (name @ ''-server-pq''))"

lemma WriteFile_outside: "q \<noteq> path \<Longrightarrow> snd (WriteFile fs out path b) q = fs q"
  by (simp add: WriteFile_def split: file_outcome.split)

lemma WriteFile_True: "WriteFile fs out path b = (True, fs') \<Longrightarrow> fs' = fs(path \<mapsto> b)"
  by (simp add: WriteFile_def split: file_outcome.splits)

lemma WriteFile_other: "\<lbrakk>WriteFile fs out path b = (r, fs'); q \<noteq> path\<rbrakk> \<Longrightarrow> fs' q = fs q"
  using WriteFile_outside [of q path fs out b] by simp

lemma pg_write_outside: "q \<notin> pg_paths out name \<Longrightarrow> snd (pg_write L io fs out name cert key chain) q = fs q"
  by (auto simp: pg_write_def pg_paths_def WriteFile_outside WriteFile_other split: prod.split bool.split option.split)

lemma pg_write_other: "\<lbrakk>pg_write L io fs out name cert key chain = (r, fs'); q \<notin> pg_paths out name\<rbrakk> \<Longrightarrow> fs' q = fs q"
  using pg_write_outside [of q out name L io fs cert key chain] by simp

text \<open>A certificate written whole is read back, with its chain and its key.\<close>

definition pg_served :: "'s pem_lib \<Rightarrow> 'k ext \<Rightarrow> files \<Rightarrow> string \<Rightarrow> string \<Rightarrow> cert list \<Rightarrow> 's \<Rightarrow> bool" where
  "pg_served L E fs out name chain key \<longleftrightarrow>
     LoadCertsFile L E fs (path_join out (name @ ''-chain.crt'')) = Some chain
     \<and> LoadCertsFile L E fs (path_join out (name @ ''.crt'')) = Some [hd chain]
     \<and> LoadPrivateKeyFile L fs (path_join out (name @ ''.key'')) = Some key"

lemma pg_served_kept: "\<lbrakk>pg_served L E fs out name chain key; \<forall>q\<in>pg_paths out name. fs' q = fs q\<rbrakk> \<Longrightarrow> pg_served L E fs' out name chain key"
  by (simp add: pg_served_def pg_paths_def LoadCertsFile_def LoadPrivateKeyFile_def)

lemma key_pem_read:
  assumes "pem_correct L" "EncodePrivateKeyPEM L key = Some b"
  shows "ParsePrivateKeyPEM L b = Some key"
proof -
  from assms(2) obtain der where d: "marshal_pkcs8 L key = Some der" "b = pem_encode L ''PRIVATE KEY'' der"
    by (auto simp: EncodePrivateKeyPEM_def)
  have "pem_next L (pem_encode L ''PRIVATE KEY'' der @ []) = Some ((''PRIVATE KEY'', der), [])" "parse_pkcs8 L der = Some key"
    using assms(1) d(1) unfolding pem_correct_def by blast+
  then show ?thesis by (simp add: ParsePrivateKeyPEM_def d(2))
qed

lemma pg_write_served:
  assumes "pem_correct L" "pg_write L io fs out name cert key [parent] = (True, fs')"
    and "x509_parse E (c_raw cert) = Some cert" "x509_parse E (c_raw parent) = Some parent"
  shows "pg_served L E fs' out name [cert, parent] key"
proof -
  from assms(2) obtain keyPEM where k: "EncodePrivateKeyPEM L key = Some keyPEM"
    and f: "fs' = fs(path_join out (name @ ''.crt'') \<mapsto> EncodeCertsPEM L [cert], path_join out (name @ ''.key'') \<mapsto> keyPEM,
        path_join out (name @ ''-chain.crt'') \<mapsto> EncodeCertsPEM L [cert] @ EncodeCertsPEM L [parent])"
    by (auto simp: pg_write_def split: prod.splits bool.splits option.splits dest!: WriteFile_True)
  have a: "EncodeCertsPEM L [cert] @ EncodeCertsPEM L [parent] = EncodeCertsPEM L [cert, parent]" by (simp add: EncodeCertsPEM_def)
  show ?thesis
    using EncodeCertsPEM_parses [OF assms(1), of "[cert]" E] EncodeCertsPEM_parses [OF assms(1), of "[cert, parent]" E]
      key_pem_read [OF assms(1) k] assms(3,4)
    by (simp add: pg_served_def f a LoadCertsFile_def LoadPrivateKeyFile_def path_join_inj)
qed

lemma serverCert_outside:
  "q \<notin> pg_paths out name \<Longrightarrow> snd (serverCert C L E io fs out name alg subject dns days parent) q = fs q"
  by (auto simp: serverCert_def pg_write_outside split: option.split prod.split)

lemma pg_services_outside:
  "\<forall>svc\<in>set svcs. \<forall>name ns. cut CHR '':'' svc = Some (name, ns) \<longrightarrow> q \<notin> pg_paths (pf_out a) (name @ ''-server-pq'') \<Longrightarrow>
     snd (pg_services C L E io a parent i svcs fs) q = fs q"
proof (induction svcs arbitrary: i fs)
  case Nil
  then show ?case by simp
next
  case (Cons svc svcs)
  show ?case
  proof (cases "cut CHR '':'' svc")
    case None
    then show ?thesis by simp
  next
    case (Some nn)
    obtain name ns where nn: "nn = (name, ns)" by (cases nn)
    let ?s = "serverCert C L E (io i) fs (pf_out a) (name @ ''-server-pq'') (pf_server_alg a)
      (pf_org a, ''Near-RT RIC'', hd (service_dns (pf_domain a) name ns)) (service_dns (pf_domain a) name ns) (pf_server_days a) parent"
    obtain b fs1 where s: "?s = (b, fs1)" by (cases ?s)
    have "fs1 q = fs q"
      using serverCert_outside [of q "pf_out a" "name @ ''-server-pq''"] Cons.prems Some nn s
      by (metis list.set_intros(1) snd_conv)
    then show ?thesis using Cons Some nn s by (cases b) simp_all
  qed
qed

lemma pg_services_bad:
  "\<lbrakk>svc \<in> set svcs; CHR '':'' \<notin> set svc\<rbrakk> \<Longrightarrow> \<not> fst (pg_services C L E io a parent i svcs fs)"
  by (induction svcs arbitrary: i fs) (auto simp: cut_Some_iff split: option.split prod.split bool.split)


text \<open>Which files are whose: the names end differently.\<close>

lemma server_paths_disjoint:
  "n \<noteq> m \<Longrightarrow> pg_paths out (n @ ''-server-pq'') \<inter> pg_paths out (m @ ''-server-pq'') = {}"
  by (auto simp: pg_paths_def path_join_def dest!: arg_cong [where f = rev])

lemma server_paths_fixed:
  "pg_paths out (n @ ''-server-pq'') \<inter> pg_paths out ''smo-onboarding-ca-pq'' = {}"
  "pg_paths out (n @ ''-server-pq'') \<inter> pg_paths out ''ric-intermediate-ca-pq'' = {}"
  "path_join out ''ric-ca-bundle-pq.crt'' \<notin> pg_paths out (n @ ''-server-pq'')"
  by (auto simp: pg_paths_def path_join_def dest!: arg_cong [where f = rev])

lemma fixed_paths:
  "pg_paths out ''smo-onboarding-ca-pq'' \<inter> pg_paths out ''ric-intermediate-ca-pq'' = {}"
  "path_join out ''ric-ca-bundle-pq.crt'' \<notin> pg_paths out ''smo-root-ca-pq''"
  "path_join out ''ric-ca-bundle-pq.crt'' \<notin> pg_paths out ''smo-onboarding-ca-pq''"
  "path_join out ''ric-ca-bundle-pq.crt'' \<notin> pg_paths out ''ric-intermediate-ca-pq''"
  by (auto simp: pg_paths_def path_join_def)

lemma pg_certificate_parsed:
  "\<lbrakk>pg_certificate C E io alg tmpl parent = Some (cert, key); x509_keeps_raw E\<rbrakk> \<Longrightarrow> x509_parse E (c_raw cert) = Some cert"
  by (auto simp: pg_certificate_def x509_keeps_raw_def split: option.splits)

text \<open>The certificate of one service, as it was made.\<close>

definition server_made :: "('s, 'd) crypto \<Rightarrow> 'k ext \<Rightarrow> 's gen_io \<Rightarrow> pg_flags \<Rightarrow> 's issuer \<Rightarrow> string \<Rightarrow> string \<Rightarrow> cert \<Rightarrow> 's \<Rightarrow> bool" where
  "server_made C E io a parent name ns leaf key \<longleftrightarrow>
     pg_certificate C E io (pf_server_alg a)
       (server_template io (pf_org a, ''Near-RT RIC'', name @ ''.'' @ ns @ ''.svc.'' @ pf_domain a)
          (service_dns (pf_domain a) name ns) (pf_server_days a)) (Some parent) = Some (leaf, key)"

lemma pg_services_served:
  assumes "pem_correct L" "x509_keeps_raw E" "x509_parse E (c_raw (fst parent)) = Some (fst parent)"
  shows "\<lbrakk>pg_services C L E io a parent i svcs fs = (True, fs'); distinct (map (fst \<circ> the \<circ> cut CHR '':'') svcs);
      svc \<in> set svcs\<rbrakk> \<Longrightarrow>
    \<exists>name ns leaf key j. cut CHR '':'' svc = Some (name, ns) \<and> server_made C E (io j) a parent name ns leaf key
      \<and> pg_served L E fs' (pf_out a) (name @ ''-server-pq'') [leaf, fst parent] key"
proof (induction svcs arbitrary: i fs)
  case Nil
  then show ?case by simp
next
  case (Cons s svcs)
  obtain name ns fs1 where s: "cut CHR '':'' s = Some (name, ns)"
    and f: "serverCert C L E (io i) fs (pf_out a) (name @ ''-server-pq'') (pf_server_alg a)
      (pf_org a, ''Near-RT RIC'', hd (service_dns (pf_domain a) name ns)) (service_dns (pf_domain a) name ns) (pf_server_days a) parent
      = (True, fs1)"
    and r: "pg_services C L E io a parent (i + 1) svcs fs1 = (True, fs')"
    using Cons.prems(1) by (auto split: option.splits prod.splits bool.splits)
  show ?case
  proof (cases "svc \<in> set svcs")
    case True
    then show ?thesis using Cons.IH [OF r] Cons.prems(2) by simp
  next
    case False
    then have svc: "svc = s" using Cons.prems(3) by simp
    from f obtain leaf key where m: "server_made C E (io i) a parent name ns leaf key"
      and w: "pg_write L (io i) fs (pf_out a) (name @ ''-server-pq'') leaf key [fst parent] = (True, fs1)"
      by (auto simp: serverCert_def server_made_def service_dns_def split: option.splits)
    have v: "pg_served L E fs1 (pf_out a) (name @ ''-server-pq'') [leaf, fst parent] key"
      by (rule pg_write_served [OF assms(1) w pg_certificate_parsed [OF m [unfolded server_made_def] assms(2)] assms(3)])
    have "fs' q = fs1 q" if q: "q \<in> pg_paths (pf_out a) (name @ ''-server-pq'')" for q
    proof -
      have "\<forall>t\<in>set svcs. \<forall>n' ns'. cut CHR '':'' t = Some (n', ns') \<longrightarrow> q \<notin> pg_paths (pf_out a) (n' @ ''-server-pq'')"
      proof (intro ballI allI impI)
        fix t n' ns'
        assume t: "t \<in> set svcs" "cut CHR '':'' t = Some (n', ns')"
        then have "n' \<in> set (map (fst \<circ> the \<circ> cut CHR '':'') svcs)" by force
        then have "n' \<noteq> name" using Cons.prems(2) s by auto
        then show "q \<notin> pg_paths (pf_out a) (n' @ ''-server-pq'')" using server_paths_disjoint q by blast
      qed
      from pg_services_outside [OF this, of C L E io parent "i + 1" fs1] r show ?thesis by simp
    qed
    with v m s show ?thesis unfolding svc by (blast intro: pg_served_kept)
  qed
qed


lemma pki_gen_written:
  assumes "pki_gen_run C L E io a fs = (Pki_written, fs')"
  obtains root onb ica fs1 fs2 fs3 fs4 where
    "selfSignedCA C L E (pg_cert io 0) fs (pf_out a) ''smo-root-ca-pq'' (pf_root_alg a)
       (pf_org a, ''SMO'', ''SMO Root CA PQ (simulated)'') (pf_root_days a) = (Some root, fs1)"
    "subCA C L E (pg_cert io 1) fs1 (pf_out a) ''smo-onboarding-ca-pq'' (pf_ca_alg a)
       (pf_org a, ''SMO'', ''SMO Onboarding CA PQ (simulated)'') (pf_ca_days a) root = (Some onb, fs2)"
    "subCA C L E (pg_cert io 2) fs2 (pf_out a) ''ric-intermediate-ca-pq'' (pf_ca_alg a)
       (pf_org a, ''Near-RT RIC'', ''RIC Intermediate CA PQ'') (pf_ca_days a) root = (Some ica, fs3)"
    "pg_services C L E (pg_cert io) a ica 3 (pf_services a) fs3 = (True, fs4)"
    "fs' = fs4(path_join (pf_out a) ''ric-ca-bundle-pq.crt'' \<mapsto> EncodeCertsPEM L [fst ica] @ EncodeCertsPEM L [fst root])"
  using assms
  by (auto simp: pki_gen_run_def Let_def split: if_splits option.splits prod.splits bool.splits dest!: WriteFile_True intro!: that)

lemma subCA_Some:
  assumes "subCA C L E io fs out name alg subject days parent = (Some (cert, key), fs')" "pem_correct L" "x509_keeps_raw E"
    and "x509_parse E (c_raw (fst parent)) = Some (fst parent)"
  shows "pg_certificate C E io alg (ca_template io subject days True) (Some parent) = Some (cert, key)"
    and "pg_served L E fs' out name [cert, fst parent] key" and "x509_parse E (c_raw cert) = Some cert"
    and "\<And>q. q \<notin> pg_paths out name \<Longrightarrow> fs' q = fs q"
proof -
  from assms(1) show c: "pg_certificate C E io alg (ca_template io subject days True) (Some parent) = Some (cert, key)"
    by (auto simp: subCA_def split: option.splits prod.splits bool.splits)
  from pg_certificate_parsed [OF c assms(3)] show p: "x509_parse E (c_raw cert) = Some cert" .
  have w: "pg_write L io fs out name cert key [fst parent] = (True, fs')"
    using assms(1) c by (auto simp: subCA_def split: prod.splits bool.splits)
  from pg_write_served [OF assms(2) w p assms(4)] show "pg_served L E fs' out name [cert, fst parent] key" .
  show "fs' q = fs q" if "q \<notin> pg_paths out name" for q
    using pg_write_outside [OF that, of L io fs cert key "[fst parent]"] w by simp
qed

text \<open>A service that is not a pair of names makes the run fail, and the bundle is not written.\<close>

lemma pki_gen_bad_service:
  assumes "svc \<in> set (pf_services a)" "CHR '':'' \<notin> set svc" "pg_mkdir io"
    and "fs (path_join (pf_out a) ''ric-intermediate-ca-pq.crt'') = None"
  shows "\<exists>fs1. pki_gen_run C L E io a fs = (Pki_failed, fs1)
    \<and> fs1 (path_join (pf_out a) ''ric-ca-bundle-pq.crt'') = fs (path_join (pf_out a) ''ric-ca-bundle-pq.crt'')"
proof -
  let ?q = "path_join (pf_out a) ''ric-ca-bundle-pq.crt''"
  have s: "\<exists>fs4. pg_services C L E (pg_cert io) a ica 3 (pf_services a) fs3 = (False, fs4) \<and> fs4 ?q = fs3 ?q" for ica fs3
    using pg_services_bad [OF assms(1,2), of C L E "pg_cert io" a ica 3 fs3]
      pg_services_outside [of "pf_services a" ?q a C L E "pg_cert io" ica 3 fs3] server_paths_fixed(3) [of "pf_out a"]
    by (cases "pg_services C L E (pg_cert io) a ica 3 (pf_services a) fs3") auto
  have o1: "f' ?q = f ?q" if "selfSignedCA C L E i f (pf_out a) ''smo-root-ca-pq'' alg subj d = (r, f')" for i f alg subj d r f'
    using that by (auto simp: selfSignedCA_def split: option.splits prod.splits bool.splits dest: pg_write_other [OF _ fixed_paths(2)])
  have o2: "f' ?q = f ?q" if "subCA C L E i f (pf_out a) n alg subj d p = (r, f')" "?q \<notin> pg_paths (pf_out a) n" for i f n alg subj d p r f'
    using that by (auto simp: subCA_def split: option.splits prod.splits bool.splits dest: pg_write_other)
  obtain r1 fs1 where r1: "selfSignedCA C L E (pg_cert io 0) fs (pf_out a) ''smo-root-ca-pq'' (pf_root_alg a)
       (pf_org a, ''SMO'', ''SMO Root CA PQ (simulated)'') (pf_root_days a) = (r1, fs1)" by fastforce
  show ?thesis
  proof (cases r1)
    case None
    then show ?thesis using assms(3,4) r1 o1 [OF r1] by (simp add: pki_gen_run_def)
  next
    case (Some root)
    obtain r2 fs2 where r2: "subCA C L E (pg_cert io 1) fs1 (pf_out a) ''smo-onboarding-ca-pq'' (pf_ca_alg a)
       (pf_org a, ''SMO'', ''SMO Onboarding CA PQ (simulated)'') (pf_ca_days a) root = (r2, fs2)" by fastforce
    obtain r3 fs3 where r3: "subCA C L E (pg_cert io 2) fs2 (pf_out a) ''ric-intermediate-ca-pq'' (pf_ca_alg a)
       (pf_org a, ''Near-RT RIC'', ''RIC Intermediate CA PQ'') (pf_ca_days a) root = (r3, fs3)" by fastforce
    note e = assms(3,4) r1 o1 [OF r1] Some r2 o2 [OF r2 fixed_paths(3)] r3 o2 [OF r3 fixed_paths(4)]
    show ?thesis
    proof (cases "r2 = None \<or> r3 = None")
      case True
      then show ?thesis using e by (cases r2) (auto simp: pki_gen_run_def Let_def)
    next
      case False
      then obtain onb ica where i: "r2 = Some onb" "r3 = Some ica" by (cases r2; cases r3) auto
      from s [of ica fs3] obtain fs4 where "pg_services C L E (pg_cert io) a ica 3 (pf_services a) fs3 = (False, fs4)" "fs4 ?q = fs3 ?q"
        by blast
      with e i show ?thesis by (simp add: pki_gen_run_def Let_def)
    qed
  qed
qed

text \<open>From then on the command takes the PKI for present.\<close>

lemma pki_gen_already:
  "\<lbrakk>pg_mkdir io; fs (path_join (pf_out a) ''ric-intermediate-ca-pq.crt'') \<noteq> None\<rbrakk> \<Longrightarrow> pki_gen_run C L E io a fs = (Already_present, fs)"
  by (simp add: pki_gen_run_def)

end
