(* ===== verification/Pki_Gen_Props.thy ===== *)
theory Pki_Gen_Props
  imports Pki_Gen Client_Props
begin

text \<open>
  The property of \<open>pki-gen\<close>, with a sample run in which every certificate is one byte.
\<close>

section \<open>Samples\<close>

definition gen_ext :: "nat ext" where
  "gen_ext = sample_ext\<lparr>x509_parse := (\<lambda>b. if length b = 1 then Some (sample_root\<lparr>c_raw := b\<rparr>) else None)\<rparr>"

definition sample_gen_io :: "nat \<Rightarrow> bytes gen_io" where
  "sample_gen_io i = \<lparr>gi_key = (\<lambda>_. Some [of_nat i]), gi_serial = Some i, gi_before = t0, gi_after = t0, gi_add_days = (\<lambda>t _. t),
     gi_created = (\<lambda>_ _ _ _. Some [of_nat i]), gi_crt_file = File_whole, gi_key_file = File_whole, gi_chain_file = File_whole\<rparr>"

definition sample_pg_io :: "bytes pg_io" where
  "sample_pg_io = \<lparr>pg_mkdir = True, pg_cert = sample_gen_io, pg_bundle = File_whole\<rparr>"

definition sample_pg_flags :: "string list \<Rightarrow> pg_flags" where
  "sample_pg_flags svcs = \<lparr>pf_out = ''out'', pf_org = ''RIC'', pf_domain = ''local'', pf_root_alg = ''ML-DSA-87'', pf_ca_alg = ''ML-DSA-65'',
     pf_server_alg = ''ML-DSA-65'', pf_root_days = 3650, pf_ca_days = 1825, pf_server_days = 365, pf_services = svcs\<rparr>"


section \<open>The property\<close>

text \<open>C16: A run of \<open>pki-gen\<close> that reports success has written a PKI that its users can load: the bundle gives
  relying parties the intermediate CA and the root, \<open>smo-sim\<close> loads the onboarding CA with its key, the intermediate
  CA and every server load with their chains and keys, each server certificate made by the intermediate for the
  names of its service.\<close>
theorem pki_gen_complete:
  assumes "pki_gen_run C L E io a fs = (Pki_written, fs')" "pem_correct L" "x509_keeps_raw E"
    and "distinct (map (fst \<circ> the \<circ> cut CHR '':'') (pf_services a))"
  shows "\<exists>root rkey onb okey ica ikey.
    pg_certificate C E (pg_cert io 0) (pf_root_alg a)
      (ca_template (pg_cert io 0) (pf_org a, ''SMO'', ''SMO Root CA PQ (simulated)'') (pf_root_days a) False) None = Some (root, rkey)
    \<and> pg_certificate C E (pg_cert io 1) (pf_ca_alg a)
      (ca_template (pg_cert io 1) (pf_org a, ''SMO'', ''SMO Onboarding CA PQ (simulated)'') (pf_ca_days a) True) (Some (root, rkey)) = Some (onb, okey)
    \<and> pg_certificate C E (pg_cert io 2) (pf_ca_alg a)
      (ca_template (pg_cert io 2) (pf_org a, ''Near-RT RIC'', ''RIC Intermediate CA PQ'') (pf_ca_days a) True) (Some (root, rkey)) = Some (ica, ikey)
    \<and> LoadCertPool L E fs' [path_join (pf_out a) ''ric-ca-bundle-pq.crt''] = Some [ica, root]
    \<and> (\<forall>org. LoadOnboarding L E fs' (path_join (pf_out a) ''smo-onboarding-ca-pq.crt'') (path_join (pf_out a) ''smo-onboarding-ca-pq.key'') org
         = Some \<lparr>ob_cert = onb, ob_key = okey, ob_org = org, ob_key_alg = ''EC-P256''\<rparr>)
    \<and> pg_served L E fs' (pf_out a) ''ric-intermediate-ca-pq'' [ica, root] ikey
    \<and> (\<forall>svc\<in>set (pf_services a). \<exists>name ns leaf key j. cut CHR '':'' svc = Some (name, ns)
         \<and> server_made C E (pg_cert io j) a (ica, ikey) name ns leaf key
         \<and> pg_served L E fs' (pf_out a) (name @ ''-server-pq'') [leaf, ica] key)"
  using assms(1)
proof (rule pki_gen_written)
  fix r1 r2 r3 fs1 fs2 fs3 fs4
  let ?bnd = "path_join (pf_out a) ''ric-ca-bundle-pq.crt''"
  assume r1: "selfSignedCA C L E (pg_cert io 0) fs (pf_out a) ''smo-root-ca-pq'' (pf_root_alg a)
       (pf_org a, ''SMO'', ''SMO Root CA PQ (simulated)'') (pf_root_days a) = (Some r1, fs1)"
    and r2: "subCA C L E (pg_cert io 1) fs1 (pf_out a) ''smo-onboarding-ca-pq'' (pf_ca_alg a)
       (pf_org a, ''SMO'', ''SMO Onboarding CA PQ (simulated)'') (pf_ca_days a) r1 = (Some r2, fs2)"
    and r3: "subCA C L E (pg_cert io 2) fs2 (pf_out a) ''ric-intermediate-ca-pq'' (pf_ca_alg a)
       (pf_org a, ''Near-RT RIC'', ''RIC Intermediate CA PQ'') (pf_ca_days a) r1 = (Some r3, fs3)"
    and s: "pg_services C L E (pg_cert io) a r3 3 (pf_services a) fs3 = (True, fs4)"
    and f: "fs' = fs4(?bnd \<mapsto> EncodeCertsPEM L [fst r3] @ EncodeCertsPEM L [fst r1])"
  obtain root rkey onb okey ica ikey where i: "r1 = (root, rkey)" "r2 = (onb, okey)" "r3 = (ica, ikey)"
    by (metis surj_pair)
  have c1: "pg_certificate C E (pg_cert io 0) (pf_root_alg a)
      (ca_template (pg_cert io 0) (pf_org a, ''SMO'', ''SMO Root CA PQ (simulated)'') (pf_root_days a) False) None = Some (root, rkey)"
    using r1 i by (auto simp: selfSignedCA_def split: option.splits prod.splits bool.splits)
  have p1: "x509_parse E (c_raw (fst r1)) = Some (fst r1)" using pg_certificate_parsed [OF c1 assms(3)] i by simp
  note s2 = subCA_Some [OF r2 [unfolded i(2)] assms(2,3) p1, unfolded i(1) fst_conv]
  note s3 = subCA_Some [OF r3 [unfolded i(3)] assms(2,3) p1, unfolded i(1) fst_conv]
  have kept: "fs' q = fs3 q" if "q \<noteq> ?bnd" "\<forall>n. q \<notin> pg_paths (pf_out a) (n @ ''-server-pq'')" for q
    using pg_services_outside [of "pf_services a" q a C L E "pg_cert io" r3 3 fs3] that s by (simp add: f)
  have v3: "pg_served L E fs' (pf_out a) ''ric-intermediate-ca-pq'' [ica, root] ikey"
  proof (rule pg_served_kept [OF s3(2)], intro ballI)
    fix q
    assume "q \<in> pg_paths (pf_out a) ''ric-intermediate-ca-pq''"
    then have "q \<noteq> ?bnd" "\<forall>n. q \<notin> pg_paths (pf_out a) (n @ ''-server-pq'')"
      using fixed_paths(4) server_paths_fixed(2) by blast+
    then show "fs' q = fs3 q" by (rule kept)
  qed
  have v2: "pg_served L E fs' (pf_out a) ''smo-onboarding-ca-pq'' [onb, root] okey"
  proof (rule pg_served_kept [OF s2(2)], intro ballI)
    fix q
    assume q: "q \<in> pg_paths (pf_out a) ''smo-onboarding-ca-pq''"
    then have "q \<notin> pg_paths (pf_out a) ''ric-intermediate-ca-pq''" "q \<noteq> ?bnd" "\<forall>n. q \<notin> pg_paths (pf_out a) (n @ ''-server-pq'')"
      using fixed_paths(1,3) server_paths_fixed(1) by blast+
    then show "fs' q = fs2 q" using kept [of q] s3(4) [of q] by simp
  qed
  have v4: "\<exists>name ns leaf key j. cut CHR '':'' svc = Some (name, ns) \<and> server_made C E (pg_cert io j) a (ica, ikey) name ns leaf key
      \<and> pg_served L E fs' (pf_out a) (name @ ''-server-pq'') [leaf, ica] key" if svc: "svc \<in> set (pf_services a)" for svc
  proof -
    from pg_services_served [OF assms(2,3) _ s assms(4) svc] s3(3) i(3) obtain name ns leaf key j where
      n: "cut CHR '':'' svc = Some (name, ns)" "server_made C E (pg_cert io j) a (ica, ikey) name ns leaf key"
        "pg_served L E fs4 (pf_out a) (name @ ''-server-pq'') [leaf, ica] key" by auto
    have "pg_served L E fs' (pf_out a) (name @ ''-server-pq'') [leaf, ica] key"
      using n(3) by (rule pg_served_kept) (use server_paths_fixed(3) f in fastforce)
    with n(1,2) show ?thesis by blast
  qed
  have b: "EncodeCertsPEM L [ica] @ EncodeCertsPEM L [root] = EncodeCertsPEM L [ica, root]" by (simp add: EncodeCertsPEM_def)
  have "cert_ders L (EncodeCertsPEM L [ica, root]) = [c_raw ica, c_raw root]"
    using cert_ders_encoded [OF assms(2), of "[c_raw ica, c_raw root]"] by (simp add: EncodeCertsPEM_def)
  then have v5: "LoadCertPool L E fs' [?bnd] = Some [ica, root]"
    using s3(3) p1 i by (simp add: f b pool_certs_def map_filter_simps)
  have "LoadOnboarding L E fs' (path_join (pf_out a) ''smo-onboarding-ca-pq.crt'') (path_join (pf_out a) ''smo-onboarding-ca-pq.key'') org
      = Some \<lparr>ob_cert = onb, ob_key = okey, ob_org = org, ob_key_alg = ''EC-P256''\<rparr>" for org
    using v2 by (simp add: pg_served_def LoadOnboarding_def)
  then show ?thesis
    using c1 s2(1) s3(1) v3 v4 v5 by blast
qed

theorem pki_gen_complete_witness:
  "\<exists>fs' ica root. pki_gen_run xapp_crypto disk_pem gen_ext sample_pg_io (sample_pg_flags [''kc:ric'']) (\<lambda>_. None) = (Pki_written, fs')
     \<and> LoadCertPool disk_pem gen_ext fs' [path_join ''out'' ''ric-ca-bundle-pq.crt''] = Some [ica, root]"
proof -
  have g: "GenerateKey ''ML-DSA-87'' = Some (Gen_MLDSA MLDSA87)" "GenerateKey ''ML-DSA-65'' = Some (Gen_MLDSA MLDSA65)" by code_simp+
  have c: "cut CHR '':'' ''kc:ric'' = Some (''kc'', ''ric'')" by code_simp
  have k: "x509_keeps_raw gen_ext" by (simp add: x509_keeps_raw_def gen_ext_def)
  have w: "\<exists>fs1. pg_write disk_pem (sample_gen_io i) fs out name cert key chain = (True, fs1)" for i fs out name cert key chain
  proof -
    have "marshal_pkcs8 disk_pem key = Some key" by (simp add: disk_pem_def xapp_pem_def)
    then show ?thesis by (simp add: pg_write_def WriteFile_def sample_gen_io_def EncodePrivateKeyPEM_def)
  qed
  have p: "pg_certificate xapp_crypto gen_ext (sample_gen_io i) alg tmpl parent = Some (sample_root\<lparr>c_raw := [of_nat i]\<rparr>, [of_nat i])"
    if "GenerateKey alg = Some kind" for i alg tmpl parent kind
    using that by (simp add: pg_certificate_def sample_gen_io_def gen_ext_def split: option.split prod.split)
  have m: "pg_cert sample_pg_io = sample_gen_io" "pg_mkdir sample_pg_io" "pg_bundle sample_pg_io = File_whole" by (simp_all add: sample_pg_io_def)
  have s0: "\<exists>fs1. selfSignedCA xapp_crypto disk_pem gen_ext (sample_gen_io i) fs out n ''ML-DSA-87'' subj d = (Some (sample_root\<lparr>c_raw := [of_nat i]\<rparr>, [of_nat i]), fs1)"
    for i fs out n subj d
  proof -
    obtain fs1 where "pg_write disk_pem (sample_gen_io i) fs out n (sample_root\<lparr>c_raw := [of_nat i]\<rparr>) [of_nat i] [] = (True, fs1)" using w by blast
    then show ?thesis by (simp add: selfSignedCA_def p [OF g(1)])
  qed
  have s1: "\<exists>fs1. subCA xapp_crypto disk_pem gen_ext (sample_gen_io i) fs out n ''ML-DSA-65'' subj d q = (Some (sample_root\<lparr>c_raw := [of_nat i]\<rparr>, [of_nat i]), fs1)"
    for i fs out n subj d q
  proof -
    obtain fs1 where "pg_write disk_pem (sample_gen_io i) fs out n (sample_root\<lparr>c_raw := [of_nat i]\<rparr>) [of_nat i] [fst q] = (True, fs1)" using w by blast
    then show ?thesis by (simp add: subCA_def p [OF g(2)])
  qed
  have s2: "\<exists>fs1. serverCert xapp_crypto disk_pem gen_ext (sample_gen_io i) fs out n ''ML-DSA-65'' subj dns d q = (True, fs1)" for i fs out n subj dns d q
    using w by (simp add: serverCert_def p [OF g(2)])
  let ?a = "sample_pg_flags [''kc:ric'']"
  obtain fs1 where f1: "selfSignedCA xapp_crypto disk_pem gen_ext (sample_gen_io 0) (\<lambda>_. None) ''out'' ''smo-root-ca-pq'' ''ML-DSA-87''
      (''RIC'', ''SMO'', ''SMO Root CA PQ (simulated)'') 3650 = (Some (sample_root\<lparr>c_raw := [of_nat 0]\<rparr>, [of_nat 0]), fs1)" using s0 by blast
  obtain fs2 where f2: "subCA xapp_crypto disk_pem gen_ext (sample_gen_io 1) fs1 ''out'' ''smo-onboarding-ca-pq'' ''ML-DSA-65''
      (''RIC'', ''SMO'', ''SMO Onboarding CA PQ (simulated)'') 1825 (sample_root\<lparr>c_raw := [of_nat 0]\<rparr>, [of_nat 0])
      = (Some (sample_root\<lparr>c_raw := [of_nat 1]\<rparr>, [of_nat 1]), fs2)" using s1 by blast
  obtain fs3 where f3: "subCA xapp_crypto disk_pem gen_ext (sample_gen_io 2) fs2 ''out'' ''ric-intermediate-ca-pq'' ''ML-DSA-65''
      (''RIC'', ''Near-RT RIC'', ''RIC Intermediate CA PQ'') 1825 (sample_root\<lparr>c_raw := [of_nat 0]\<rparr>, [of_nat 0])
      = (Some (sample_root\<lparr>c_raw := [of_nat 2]\<rparr>, [of_nat 2]), fs3)" using s1 by blast
  have a: "pf_out ?a = ''out''" "pf_org ?a = ''RIC''" "pf_root_alg ?a = ''ML-DSA-87''" "pf_ca_alg ?a = ''ML-DSA-65''" "pf_server_alg ?a = ''ML-DSA-65''"
    "pf_root_days ?a = 3650" "pf_ca_days ?a = 1825" "pf_services ?a = [''kc:ric'']" by (simp_all add: sample_pg_flags_def)
  obtain fs4 where f4: "pg_services xapp_crypto disk_pem gen_ext sample_gen_io ?a (sample_root\<lparr>c_raw := [of_nat 2]\<rparr>, [of_nat 2]) 3 [''kc:ric''] fs3 = (True, fs4)"
  proof -
    obtain fs4 where "serverCert xapp_crypto disk_pem gen_ext (sample_gen_io 3) fs3 ''out'' (''kc'' @ ''-server-pq'') ''ML-DSA-65''
        (''RIC'', ''Near-RT RIC'', hd (service_dns (pf_domain ?a) ''kc'' ''ric'')) (service_dns (pf_domain ?a) ''kc'' ''ric'') (pf_server_days ?a)
        (sample_root\<lparr>c_raw := [of_nat 2]\<rparr>, [of_nat 2]) = (True, fs4)" using s2 by blast
    then show thesis using that by (simp add: a c)
  qed
  obtain fs' where r: "pki_gen_run xapp_crypto disk_pem gen_ext sample_pg_io ?a (\<lambda>_. None) = (Pki_written, fs')"
    unfolding pki_gen_run_def Let_def a m f1 f2 f3 f4 prod.case option.case if_True bool.case by (simp add: WriteFile_def sample_pg_io_def)
  have "distinct (map (fst \<circ> the \<circ> cut CHR '':'') (pf_services (sample_pg_flags [''kc:ric''])))" by (simp add: sample_pg_flags_def)
  from pki_gen_complete [OF r disk_pem_correct k this] r show ?thesis by (auto simp: sample_pg_flags_def)
qed

end
