(* ===== verification/Walkthrough.thy ===== *)
theory Walkthrough
  imports Processes
begin

text \<open>
  \<open>cmd/methodrun/main.go\<close>: the walkthrough of one binding method, from onboarding to the negative tests, with
  its count of failed checks.  What it prints and measures is not modelled.
\<close>

section \<open>The runner\<close>

record 's runner =
  wk_cfg :: "'s client_config"
  wk_onboarding :: "'s onboarding"
  wk_pq_onboarding :: "'s onboarding option"
  wk_roots :: "cert list"
  wk_resource :: string
  wk_pq :: bool
  wk_failures :: nat

text \<open>The environment of \<open>newRunner\<close>: the client's configuration, the resource and the onboarding files.\<close>

record 's walk_env =
  we_cfg :: "'s client_config"
  we_resource :: string
  we_onboarding :: "string \<times> string \<times> string"
  we_pq_onboarding :: "string \<times> string"

definition walk_ConfigFromEnv ::
  "'k ext \<Rightarrow> (string \<Rightarrow> string option) \<Rightarrow> string \<Rightarrow> bool \<Rightarrow> env_error list + 's walk_env" where
  "walk_ConfigFromEnv E g m pq = env_result (do {
     resource \<leftarrow> env_req g ''RESOURCE_URL'';
     longterm \<leftarrow> env_req g ''LONGTERM_CLIENT_ID'';
     ephemeral \<leftarrow> env_req g ''EPHEMERAL_CLIENT_ID'';
     dpop \<leftarrow> env_req g ''DPOP_CLIENT_ID'';
     lifetime0 \<leftarrow> env_dur E g ''LONGTERM_CERT_LIFETIME'' (168 * 3600 * second);
     lifetime \<leftarrow> (if m = MethodEphemeral then env_dur E g ''EPHEMERAL_CERT_LIFETIME'' (15 * 60 * second)
                  else State_Monad.return lifetime0);
     token_url \<leftarrow> env_req g ''KEYCLOAK_TOKEN_URL'';
     scope \<leftarrow> env_str g ''TOKEN_SCOPE'' [];
     anchors \<leftarrow> env_list g ''RIC_TRUST_BUNDLE'' [];
     ca \<leftarrow> env_req g ''RIC_CA_URL'';
     key_alg \<leftarrow> env_str g ''IDENTITY_KEY_ALG'' ''EC-P256'';
     dpop_alg \<leftarrow> env_str g ''DPOP_ALG'' ''ES256'';
     issuer \<leftarrow> env_str g ''PQ_ISSUER'' PQIssuerShim;
     shim \<leftarrow> env_str g ''PQ_SHIM_URL'' [];
     pq_key \<leftarrow> env_str g ''PQ_IDENTITY_KEY_ALG'' ''ML-DSA-65'';
     pq_dpop \<leftarrow> env_str g ''PQ_DPOP_ALG'' ''ML-DSA-44'';
     kex \<leftarrow> env_bool g ''PQ_KEX_ONLY'' True;
     onb_cert \<leftarrow> env_req g ''SMO_ONBOARDING_CERT'';
     onb_key \<leftarrow> env_req g ''SMO_ONBOARDING_KEY'';
     org \<leftarrow> env_req g ''ORG'';
     pq_onb_cert \<leftarrow> env_str g ''SMO_ONBOARDING_CERT_PQ'' [];
     pq_onb_key \<leftarrow> env_str g ''SMO_ONBOARDING_KEY_PQ'' [];
     overrides \<leftarrow> env_str g ''DIAL_OVERRIDES'' [];
     env_fail_if (ParseDialOverrides overrides = None) ''DIAL_OVERRIDES'';
     State_Monad.return
       \<lparr>we_cfg =
          \<lparr>cc_method = m,
           cc_client_id = (if m = MethodLongTerm then longterm else if m = MethodEphemeral then ephemeral
                           else if m = MethodDPoP then dpop else []),
           cc_token_url = token_url, cc_scope = scope, cc_trust_bundle = anchors, cc_ca_url = ca,
           cc_bootstrap_cert = [], cc_bootstrap_key = [], cc_bootstrap = None, cc_identity_dir = [],
           cc_key_alg = key_alg, cc_cert_lifetime = lifetime, cc_renew_before = 0, cc_rotation = RotateOnCertExpiry,
           cc_dns_names = [], cc_dpop_alg = dpop_alg, cc_pq_enabled = pq, cc_pq_issuer = issuer, cc_pq_shim_url = shim,
           cc_pq_key_alg = pq_key, cc_pq_dpop_alg = pq_dpop, cc_pq_cert_lifetime = 0, cc_pq_bootstrap_cert = [],
           cc_pq_bootstrap_key = [], cc_pq_bootstrap = None, cc_pq_identity_dir = [], cc_pq_kex_only = kex,
           cc_pq_proof_validity = 0, cc_pq_upgrade_timeout = 60 * second,
           cc_dial_overrides = (case ParseDialOverrides overrides of Some os \<Rightarrow> os | None \<Rightarrow> []),
           cc_http_timeout = 30 * second\<rparr>,
        we_resource = trim_right CHR ''/'' resource, we_onboarding = (onb_cert, onb_key, org),
        we_pq_onboarding = (pq_onb_cert, pq_onb_key)\<rparr>
   })"

definition newRunner ::
  "'s pem_lib \<Rightarrow> 'k ext \<Rightarrow> (string \<Rightarrow> string option) \<Rightarrow> files \<Rightarrow> string \<Rightarrow> bool \<Rightarrow> 's runner option" where
  "newRunner L E g fs m pq =
     (case walk_ConfigFromEnv E g m pq of
        Inl _ \<Rightarrow> None
      | Inr w \<Rightarrow>
     (case LoadCertPool L E fs (cc_trust_bundle (we_cfg w)) of
        None \<Rightarrow> None
      | Some roots \<Rightarrow>
     (case (case we_onboarding w of (cert, key, org) \<Rightarrow> LoadOnboarding L E fs cert key org) of
        None \<Rightarrow> None
      | Some onboard \<Rightarrow>
          let r = \<lparr>wk_cfg = we_cfg w, wk_onboarding = onboard, wk_pq_onboarding = None, wk_roots = roots,
                   wk_resource = we_resource w, wk_pq = pq, wk_failures = 0\<rparr>
          in if \<not> pq then Some r
             else (case we_pq_onboarding w of (cert, key) \<Rightarrow>
                     if cert = [] \<or> key = [] then None
                     else map_option (\<lambda>o1. r\<lparr>wk_pq_onboarding := Some (o1\<lparr>ob_key_alg := cc_pq_key_alg (we_cfg w)\<rparr>)\<rparr>)
                            (LoadOnboarding L E fs cert key (snd (snd (we_onboarding w))))))))"

text \<open>A fresh identity, onboarded and started.\<close>

record ('s, 'k) new_io =
  ni_boot :: "'s boot_io"
  ni_pq_boot :: "'s boot_io"
  ni_gen :: "string \<Rightarrow> 'k anykey option"
  ni_files :: files
  ni_start :: "'s plane_io \<times> 's plane_io"

definition walk_bootstrap ::
  "('s, 'd) crypto \<Rightarrow> 'k ext \<Rightarrow> 's runner \<Rightarrow> ('s, 'k) new_io \<Rightarrow> 's client_config option" where
  "walk_bootstrap C E r io =
     (let cfg = wk_cfg r
      in case IssueBootstrap C E (wk_onboarding r) (ni_boot io) (cc_client_id cfg) [] (600 * second) of
           None \<Rightarrow> None
         | Some boot \<Rightarrow>
             if \<not> wk_pq r then Some (cfg\<lparr>cc_bootstrap := Some boot\<rparr>)
             else (case wk_pq_onboarding r of
                     None \<Rightarrow> None
                   | Some o1 \<Rightarrow>
                       map_option (\<lambda>pqBoot. cfg\<lparr>cc_bootstrap := Some boot, cc_pq_bootstrap := Some pqBoot\<rparr>)
                         (IssueBootstrap C E o1 (ni_pq_boot io) (cc_client_id cfg) [] (600 * second))))"

definition newClient ::
  "('s, 'd) crypto \<Rightarrow> 's pem_lib \<Rightarrow> 'k ext \<Rightarrow> 's runner \<Rightarrow> ('s, 'k) new_io \<Rightarrow> ('s, 'k) xclient option" where
  "newClient C L E r io =
     (case walk_bootstrap C E r io of
        None \<Rightarrow> None
      | Some cfg \<Rightarrow>
          (case New L E (ni_gen io) (ni_files io) cfg of
             Inl _ \<Rightarrow> None
           | Inr c \<Rightarrow> (case Start C L E (ni_start io) c of (Inl _, _) \<Rightarrow> None | (Inr _, c1) \<Rightarrow> Some c1)))"

definition walk_path :: "'s runner \<Rightarrow> mode \<Rightarrow> string" where
  "walk_path r m = wk_resource r @ (if m = ModeIntrospection then ''/api/v1/introspect/sdl/demo'' else ''/api/v1/sdl/demo'')"

definition methodDescription :: "string \<Rightarrow> string" where
  "methodDescription m =
     (if m = MethodLongTerm then ''RFC 8705 certificate-bound, long-term identity key''
      else if m = MethodEphemeral then ''RFC 8705 certificate-bound, ephemeral identity key''
      else if m = MethodDPoP then ''RFC 9449 DPoP'' else m)"

definition walk_check :: "bool \<Rightarrow> 's runner \<Rightarrow> 's runner" where
  "walk_check c r = (if c then r else r\<lparr>wk_failures := wk_failures r + 1\<rparr>)"



section \<open>Requests\<close>

text \<open>
  What the outside gives a run: the answers to the client's own requests, and those of the resource server to
  the crafted ones, by their number, the credential shown and the headers.
\<close>

record ('s, 'k) walk_io =
  wi_first :: "('s, 'k) new_io"
  wi_other :: "('s, 'k) new_io"
  wi_token :: "'s call_io"
  wi_token_rotated :: "'s call_io"
  wi_token_fresh :: "'s call_io"
  wi_local :: "'s call_io \<times> resource_io"
  wi_introspect :: "'s call_io \<times> resource_io"
  wi_rotated :: "'s call_io \<times> resource_io"
  wi_curve :: "curve option" \<comment> \<open>the group of the first call's TLS session\<close>
  wi_rotate :: "'s plane_io \<times> 's plane_io"
  wi_proof :: "nat \<Rightarrow> time \<times> bytes option"
  wi_send :: "nat \<Rightarrow> 's identity option \<Rightarrow> (string \<times> string) list \<Rightarrow> http_result"

definition walk_call ::
  "('s, 'd) crypto \<Rightarrow> 's pem_lib \<Rightarrow> 'k ext \<Rightarrow> ('s \<Rightarrow> 'k option) \<Rightarrow> 's call_io \<times> resource_io \<Rightarrow> string \<Rightarrow> ('s, 'k) xclient
     \<Rightarrow> nat option \<times> ('s, 'k) xclient" where
  "walk_call C L E imp io url x =
     (if url_parse E url = None then (None, x)
      else case client_Do C L E imp (fst io) (snd io) \<lparr>oq_method = ''GET'', oq_url = url, oq_headers = []\<rparr> x of
        (Inr (_, Some a), x1) \<Rightarrow> (Some (ra_status a), x1)
      | (_, x1) \<Rightarrow> (None, x1))"

text \<open>The status and the reason code of a crafted request's answer.\<close>

definition walk_send :: "'k ext \<Rightarrow> http_result \<Rightarrow> (nat \<times> string) option" where
  "walk_send E answer =
     (case answer of
        Http_error \<Rightarrow> None
      | Http_unreadable st \<Rightarrow> Some (st, [])
      | Http_response st body \<Rightarrow>
          Some (st, if st = 200 then []
                    else case json_struct E (limit_read 65536 body) of
                           None \<Rightarrow> []
                         | Some m \<Rightarrow> (case json_str m ''reason_code'' of Some c \<Rightarrow> c | None \<Rightarrow> [])))"

definition activeCert :: "'s runner \<Rightarrow> ('s, 'k) xclient \<Rightarrow> 's identity option" where
  "activeCert r x = (if wk_pq r \<and> cc_pq_enabled (xc_cfg x) then xc_pq_id x else xc_id x)"

definition walk_bearer :: "token \<Rightarrow> (string \<times> string) list" where
  "walk_bearer tok = [(''Authorization'', ''Bearer '' @ tk_value tok)]"

definition dpopHeaders :: "token \<Rightarrow> string \<Rightarrow> (string \<times> string) list" where
  "dpopHeaders tok pf = [(''Authorization'', ''DPoP '' @ tk_value tok), (''DPoP'', pf)]"

text \<open>The proof key of a client for a token; a client that is not a DPoP client has none.\<close>

definition walk_signer :: "('s, 'k) xclient \<Rightarrow> token \<Rightarrow> 'k signer option" where
  "walk_signer x tok =
     (case xc_kind x of
        Cert_bound \<Rightarrow> None
      | Dpop_bound s _ pq \<Rightarrow> if tk_post_quantum tok then map_option fst pq else Some s)"

definition walk_proof ::
  "'k ext \<Rightarrow> 's runner \<Rightarrow> time \<times> bytes option \<Rightarrow> ('s, 'k) xclient \<Rightarrow> token \<Rightarrow> string option" where
  "walk_proof E r io x tok =
     (case walk_signer x tok of
        None \<Rightarrow> None
      | Some s \<Rightarrow> BuildDPoPProof E s ''GET'' (walk_path r ModeLocal) (tk_value tok) [] (fst io) (snd io))"


section \<open>The steps\<close>

text \<open>A step answers whether it ran to its end, with the count of failed checks so far.\<close>

definition expect_status :: "nat \<Rightarrow> (nat \<times> string) option \<Rightarrow> 's runner \<Rightarrow> bool \<times> 's runner" where
  "expect_status want answer r =
     (case answer of None \<Rightarrow> (False, r) | Some (st, _) \<Rightarrow> (True, walk_check (st = want) r))"

definition expect_reason :: "reason \<Rightarrow> (nat \<times> string) option \<Rightarrow> 's runner \<Rightarrow> bool \<times> 's runner" where
  "expect_reason want answer r =
     (case answer of None \<Rightarrow> (False, r) | Some (st, code) \<Rightarrow> (True, walk_check (st = 401 \<and> code = reason_code want) r))"

definition walk_rotation ::
  "('s, 'd) crypto \<Rightarrow> 's pem_lib \<Rightarrow> 'k ext \<Rightarrow> ('s \<Rightarrow> 'k option) \<Rightarrow> ('s, 'k) walk_io \<Rightarrow> token \<Rightarrow> ('s, 'k) xclient \<Rightarrow> 's runner
     \<Rightarrow> bool \<times> 's runner \<times> ('s, 'k) xclient" where
  "walk_rotation C L E imp io tok x r =
     (case rotateLocked C L E (wi_rotate io) x of
        (Inl _, x1) \<Rightarrow> (False, r, x1)
      | (Inr _, x1) \<Rightarrow>
     (case expect_reason ReasonX5tMismatch (walk_send E (wi_send io 0 (activeCert r x1) (walk_bearer tok))) r of
        (False, r1) \<Rightarrow> (False, r1, x1)
      | (True, r1) \<Rightarrow>
     (case Token C L E imp (wi_token_rotated io) x1 of
        (Inl _, x2) \<Rightarrow> (False, r1, x2)
      | (Inr _, x2) \<Rightarrow>
     (case walk_call C L E imp (wi_rotated io) (walk_path r ModeLocal) x2 of
        (None, x3) \<Rightarrow> (False, r1, x3)
      | (Some st, x3) \<Rightarrow> (True, walk_check (st = 200) r1, x3)))))"

definition walk_replay ::
  "'k ext \<Rightarrow> ('s, 'k) walk_io \<Rightarrow> token \<Rightarrow> ('s, 'k) xclient \<Rightarrow> 's runner \<Rightarrow> bool \<times> 's runner" where
  "walk_replay E io tok x r =
     (case walk_proof E r (wi_proof io 0) x tok of
        None \<Rightarrow> (False, r)
      | Some pf \<Rightarrow>
     (case ParseCompact E pf of
        Inl _ \<Rightarrow> (False, r)
      | Inr _ \<Rightarrow>
     (case expect_status 200 (walk_send E (wi_send io 0 (activeCert r x) (dpopHeaders tok pf))) r of
        (False, r1) \<Rightarrow> (False, r1)
      | (True, r1) \<Rightarrow> expect_reason ReasonDPoPReplayed (walk_send E (wi_send io 1 (activeCert r x) (dpopHeaders tok pf))) r1)))"

definition methodSpecific ::
  "('s, 'd) crypto \<Rightarrow> 's pem_lib \<Rightarrow> 'k ext \<Rightarrow> ('s \<Rightarrow> 'k option) \<Rightarrow> ('s, 'k) walk_io \<Rightarrow> token \<Rightarrow> ('s, 'k) xclient \<Rightarrow> 's runner
     \<Rightarrow> bool \<times> 's runner \<times> ('s, 'k) xclient" where
  "methodSpecific C L E imp io tok x r =
     (if cc_method (wk_cfg r) = MethodEphemeral then walk_rotation C L E imp io tok x r
      else if cc_method (wk_cfg r) = MethodDPoP
      then (case walk_replay E io tok x r of (fin, r1) \<Rightarrow> (fin, r1, x))
      else (True, r, x))"

definition walk_negative ::
  "('s, 'd) crypto \<Rightarrow> 's pem_lib \<Rightarrow> 'k ext \<Rightarrow> ('s \<Rightarrow> 'k option) \<Rightarrow> ('s, 'k) walk_io \<Rightarrow> ('s, 'k) xclient \<Rightarrow> 's runner
     \<Rightarrow> bool \<times> 's runner" where
  "walk_negative C L E imp io x r =
     (case newClient C L E r (wi_other io) of
        None \<Rightarrow> (False, r)
      | Some other \<Rightarrow>
     (case Token C L E imp (wi_token_fresh io) x of
        (Inl _, _) \<Rightarrow> (False, r)
      | (Inr fresh, _) \<Rightarrow>
          if cc_method (wk_cfg r) = MethodDPoP
          then (case walk_proof E r (wi_proof io 1) other fresh of
                  None \<Rightarrow> (False, r)
                | Some pf \<Rightarrow>
                    expect_reason ReasonDPoPJktMismatch (walk_send E (wi_send io 2 (activeCert r other) (dpopHeaders fresh pf))) r)
          else (case expect_reason ReasonX5tMismatch (walk_send E (wi_send io 2 (activeCert r other) (walk_bearer fresh))) r of
                  (False, r1) \<Rightarrow> (False, r1)
                | (True, r1) \<Rightarrow> expect_reason ReasonClientCertMissing (walk_send E (wi_send io 3 None (walk_bearer fresh))) r1)))"


text \<open>The whole run; \<open>sig\<close> is the naming of signature algorithms in \<open>Describe\<close>.\<close>

definition walk_run ::
  "('s, 'd) crypto \<Rightarrow> 's pem_lib \<Rightarrow> 'k ext \<Rightarrow> ('s \<Rightarrow> 'k option) \<Rightarrow> (cert \<Rightarrow> string) \<Rightarrow> ('s, 'k) walk_io \<Rightarrow> 's runner \<Rightarrow> bool \<times> 's runner" where
  "walk_run C L E imp sig io r =
     (case newClient C L E r (wi_first io) of
        None \<Rightarrow> (False, r)
      | Some x \<Rightarrow>
     (let r1 = (if wk_pq r then walk_check (has_prefix (ds_pq_alg (Describe E sig x)) ''ML-DSA'') r else r)
      in case Token C L E imp (wi_token io) x of
           (Inl _, _) \<Rightarrow> (False, r1)
         | (Inr tok, x1) \<Rightarrow>
     (let r2 = (if tk_classical tok \<noteq> None then walk_check (has_prefix (tk_alg tok) ''ML-DSA'') r1 else r1)
      in case walk_call C L E imp (wi_local io) (walk_path r ModeLocal) x1 of
           (None, _) \<Rightarrow> (False, r2)
         | (Some st, x2) \<Rightarrow>
     (let r3 = walk_check (st = 200) r2;
          r4 = (case wi_curve io of Some g \<Rightarrow> if wk_pq r then walk_check (IsPQKex g) r3 else r3 | None \<Rightarrow> r3)
      in case walk_call C L E imp (wi_introspect io) (walk_path r ModeIntrospection) x2 of
           (None, _) \<Rightarrow> (False, r4)
         | (Some st', x3) \<Rightarrow>
     (case methodSpecific C L E imp io tok x3 (walk_check (st' = 200) r4) of
        (False, r5, _) \<Rightarrow> (False, r5)
      | (True, r5, x4) \<Rightarrow> walk_negative C L E imp io x4 r5)))))"

definition methodrun ::
  "('s, 'd) crypto \<Rightarrow> 's pem_lib \<Rightarrow> 'k ext \<Rightarrow> (string \<Rightarrow> string option) \<Rightarrow> files \<Rightarrow> ('s \<Rightarrow> 'k option) \<Rightarrow> (cert \<Rightarrow> string)
     \<Rightarrow> ('s, 'k) walk_io \<Rightarrow> string \<Rightarrow> bool \<Rightarrow> nat" where
  "methodrun C L E g fs imp sig io meth pq =
     (case newRunner L E g fs (to_upper meth) pq of
        None \<Rightarrow> 2
      | Some r \<Rightarrow> (case walk_run C L E imp sig io r of
                     (False, _) \<Rightarrow> 1
                   | (True, r1) \<Rightarrow> if 0 < wk_failures r1 then 1 else 0))"

end
