(* ===== verification/Walkthrough_Props.thy ===== *)
theory Walkthrough_Props
  imports Walkthrough Client_Props
begin

text \<open>
  The walkthrough against the demo xApp it is run against: its crafted requests reach the model of that server.
\<close>

section \<open>The server behind the requests\<close>

definition rejection_json :: "(string \<Rightarrow> string) \<Rightarrow> response \<Rightarrow> gval" where
  "rejection_json detail rsp =
     VObj [(''error'', VStr (fst (rs_body rsp))), (''reason_code'', VStr (snd (rs_body rsp))), (''reason'', VStr (detail (snd (rs_body rsp))))]"

text \<open>The request as it arrives at the URL \<open>u\<close>: over TLS, with the parsed chain of the credential, if one is shown.\<close>

definition crafted :: "url \<Rightarrow> cert list \<Rightarrow> (string \<times> string) list \<Rightarrow> request" where
  "crafted u chain hs = \<lparr>rq_method = ''GET'', rq_host = u_host u, rq_path = u_path u, rq_tls = Some chain, rq_headers = hs\<rparr>"

definition shown_chain :: "'k ext \<Rightarrow> 's identity option \<Rightarrow> cert list option" where
  "shown_chain E c = (case c of None \<Rightarrow> Some [] | Some c \<Rightarrow> those (map (x509_parse E) (cred_chain c)))"

definition resource_reply ::
  "'k ext \<Rightarrow> (string \<Rightarrow> string) \<Rightarrow> string \<Rightarrow> 'k validator \<Rightarrow> auth_io \<Rightarrow> url \<Rightarrow> string \<Rightarrow> 's identity option
     \<Rightarrow> (string \<times> string) list \<Rightarrow> http_result" where
  "resource_reply E detail name v io u decoded c hs =
     (case shown_chain E c of
        None \<Rightarrow> Http_error
      | Some chain \<Rightarrow>
          (case fst (xapp_handler E name v io (crafted u chain hs) decoded) of
             Xapp_ok b \<Rightarrow> Http_response 200 b
           | Xapp_data d \<Rightarrow> Http_response 200 (json_line E d)
           | Xapp_rejected rsp \<Rightarrow> Http_response (rs_status rsp) (json_line E (rejection_json detail rsp))
           | Xapp_mux Mux_not_allowed \<Rightarrow> Http_response 405 []
           | Xapp_mux _ \<Rightarrow> Http_response 404 []))"

text \<open>What \<open>json.NewEncoder\<close> writes of a rejection is encoded, short enough, and read back by \<open>json.Unmarshal\<close>.\<close>

definition rejections_read :: "'k ext \<Rightarrow> (string \<Rightarrow> string) \<Rightarrow> bool" where
  "rejections_read E detail \<longleftrightarrow>
     (\<forall>rej. let v = rejection_json detail (writeRejection (reject rej))
            in length (json_line E v) \<le> 65536 \<and> json_whole E (json_line E v) = Some v)"

lemma walk_send_rejected:
  assumes "shown_chain E c = Some chain" "rejections_read E detail"
    and "clean_path (u_path u) = u_path u" "has_prefix (u_path u) ''/api/v1/sdl/''"
    and "fst (Authorize E v io ModeLocal (crafted u chain hs)) = Inl rej" "rej \<noteq> ReasonInsufficientScope"
  shows "walk_send E (resource_reply E detail name v io u decoded c hs) = Some (401, reason_code rej)"
proof -
  have p: "path_matches ''/api/v1/sdl/'' (u_path u)" "u_path u \<noteq> ''/healthz''"
    using assms(4) by (auto simp: path_matches_def has_prefix_def)
  have h: "fst (xapp_handler E name v io (crafted u chain hs) decoded) = Xapp_rejected (writeRejection (reject rej))"
  proof -
    have "mux_find xapp_routes ''GET'' (u_path u) = Mux_handler (Xapp_sdl ModeLocal)"
      using p by (simp add: mux_find_def assms(3) Let_def xapp_routes_def method_matches_def) (simp add: path_matches_def)
    then show ?thesis
      using assms(5) by (auto simp: xapp_handler_def crafted_def Middleware_def split: prod.splits)
  qed
  let ?rsp = "writeRejection (reject rej)"
  have r: "rs_status ?rsp = 401" "snd (rs_body ?rsp) = reason_code rej"
    using assms(6) by (simp_all add: writeRejection_def reject_def Let_def)
  have "length (json_line E (rejection_json detail ?rsp)) \<le> 65536"
    "json_whole E (json_line E (rejection_json detail ?rsp)) = Some (rejection_json detail ?rsp)"
    using assms(2) by (simp_all add: rejections_read_def Let_def)
  then have "json_struct E (limit_read 65536 (json_line E (rejection_json detail ?rsp))) =
      Some [(''error'', VStr (fst (rs_body ?rsp))), (''reason_code'', VStr (reason_code rej)), (''reason'', VStr (detail (reason_code rej)))]"
    using r(2) by (simp add: limit_read_def json_struct_def) (simp add: rejection_json_def)
  moreover have "json_str [(''error'', VStr a), (''reason_code'', VStr (reason_code rej)), (''reason'', VStr b)] ''reason_code''
      = Some (reason_code rej)" for a b
  proof -
    have "\<not> equal_fold ''error'' ''reason_code''" "equal_fold ''reason_code'' ''reason_code''" by code_simp+
    then show ?thesis by (simp add: json_str_def json_member_def)
  qed
  ultimately show ?thesis
    using assms(1) h r(1) by (simp add: resource_reply_def walk_send_def)
qed



section \<open>The refusals\<close>

lemma crafted_bearer:
  assumes "tk_value t \<noteq> []" "list_all (\<lambda>c. \<not> is_space c) (tk_value t)"
  shows "parseAuthorization (crafted u chain (walk_bearer t)) = Inr (''bearer'', tk_value t)"
proof -
  have v: "\<not> is_space (last (tk_value t))" "\<not> is_space (hd (tk_value t))" using assms by (auto simp: list_all_iff)
  have "trim_space (''Bearer '' @ tk_value t) = ''Bearer '' @ tk_value t"
    by (rule trim_space_id) (use v assms(1) in \<open>simp add: is_space_def\<close>)
  moreover have "cut CHR '' '' (''Bearer'' @ CHR '' '' # tk_value t) = Some (''Bearer'', tk_value t)" by (rule cut_append) simp
  moreover have "trim_space (tk_value t) = tk_value t" by (rule trim_space_id) (use v in simp)
  moreover have "to_lower ''Bearer'' = ''bearer''" by code_simp
  ultimately show ?thesis
    using assms(1) by (simp add: parseAuthorization_def crafted_def header_values_def walk_bearer_def Let_def)
qed

lemma crafted_dpop:
  assumes "tk_value t \<noteq> []" "list_all (\<lambda>c. \<not> is_space c) (tk_value t)"
  shows "parseAuthorization (crafted u chain (dpopHeaders t pf)) = Inr (''dpop'', tk_value t)"
    and "header_values (crafted u chain (dpopHeaders t pf)) ''DPoP'' = [pf]"
proof -
  have v: "\<not> is_space (last (tk_value t))" "\<not> is_space (hd (tk_value t))" using assms by (auto simp: list_all_iff)
  have "trim_space (''DPoP '' @ tk_value t) = ''DPoP '' @ tk_value t"
    by (rule trim_space_id) (use v assms(1) in \<open>simp add: is_space_def\<close>)
  moreover have "cut CHR '' '' (''DPoP'' @ CHR '' '' # tk_value t) = Some (''DPoP'', tk_value t)" by (rule cut_append) simp
  moreover have "trim_space (tk_value t) = tk_value t" by (rule trim_space_id) (use v in simp)
  moreover have "to_lower ''DPoP'' = ''dpop''" by code_simp
  ultimately show "parseAuthorization (crafted u chain (dpopHeaders t pf)) = Inr (''dpop'', tk_value t)"
    using assms(1) by (simp add: parseAuthorization_def crafted_def header_values_def dpopHeaders_def Let_def)
  show "header_values (crafted u chain (dpopHeaders t pf)) ''DPoP'' = [pf]"
    by (simp add: crafted_def header_values_def dpopHeaders_def)
qed

text \<open>A validator that accepts the token but for its binding.\<close>

definition token_admitted :: "'k ext \<Rightarrow> 'k validator \<Rightarrow> auth_io \<Rightarrow> string \<Rightarrow> string option \<times> string option \<Rightarrow> bool" where
  "token_admitted E v io token methods \<longleftrightarrow>
     (\<exists>claims. fst (token_claims E v io ModeLocal token) = Inr claims \<and> checkAuthorization (v_cfg v) claims = None
        \<and> confirmation claims = Inr methods)"

lemma Authorize_binding:
  assumes "token_admitted E v io token methods" "parseAuthorization r = Inr (scheme, token)"
    and "\<And>p. fst (check_binding E v io r scheme token methods p) = Inl rej"
  shows "fst (Authorize E v io ModeLocal r) = Inl rej"
proof -
  from assms(1) obtain claims ks where "token_claims E v io ModeLocal token = (Inr claims, ks)"
    "checkAuthorization (v_cfg v) claims = None" "confirmation claims = Inr methods"
    unfolding token_admitted_def by (metis prod.collapse)
  then show ?thesis
    using assms(2) assms(3) [of "base_principal ModeLocal claims"] by (auto simp: Authorize_def split: prod.split)
qed

lemma other_certificate_refused:
  assumes "token_admitted E v io token (Some x5t, jkt)" "parseAuthorization r = Inr (''bearer'', token)" "rq_tls r = Some (leaf # rest)"
    and "VerifyChain E (leaf # rest) (v_roots v) (ai_now_cert io) ClientAuth = Inr ()" "ThumbprintS256 E leaf \<noteq> x5t"
  shows "fst (Authorize E v io ModeLocal r) = Inl ReasonX5tMismatch"
  by (rule Authorize_binding [OF assms(1,2)]) (use assms(3-5) in \<open>simp add: check_binding_def checkCertificateBinding_def ct_equal_def\<close>)

lemma no_certificate_refused:
  assumes "token_admitted E v io token (Some x5t, jkt)" "parseAuthorization r = Inr (''bearer'', token)" "rq_tls r = Some []"
  shows "fst (Authorize E v io ModeLocal r) = Inl ReasonClientCertMissing"
  by (rule Authorize_binding [OF assms(1,2)]) (use assms(3) in \<open>simp add: check_binding_def checkCertificateBinding_def\<close>)

lemma other_key_refused:
  assumes "token_admitted E v io token (None, Some jkt)" "parseAuthorization r = Inr (''dpop'', token)" "header_values r ''DPoP'' = [pf]"
    and "BuildDPoPProof E s method url tok nc now (Some jti) = Some pf" "signer_sound E s" "json_inverse E"
    and "vc_algs (v_cfg v) = [] \<or> sg_alg s \<in> set (vc_algs (v_cfg v))" "jwk_Thumbprint E (sg_jwk s) = Some thumb" "thumb \<noteq> jkt"
  shows "fst (Authorize E v io ModeLocal r) = Inl ReasonDPoPJktMismatch"
proof (rule Authorize_binding [OF assms(1,2)])
  from BuildDPoPProof_Some [OF assms(4-6)] obtain j where j: "ParseCompact E pf = Inr j" "jws_alg j = sg_alg s" "jws_typ j = ''dpop+jwt''"
    "map_of (j_header j) ''jwk'' = Some (VObj (sg_jwk s))" "VerifySignature E j (Jwk_key (sg_pubkey s)) = Inr ()" by blast
  have "check_proof_key E (v_cfg v) r jkt = Inl ReasonDPoPJktMismatch"
    using assms(3,5,7-9) j by (auto simp: check_proof_key_def signer_sound_def ct_equal_def)
  then show "fst (check_binding E v io r ''dpop'' token (None, Some jkt) p) = Inl ReasonDPoPJktMismatch" for p
    by (simp add: check_binding_def checkDPoPBinding_def)
qed



section \<open>Samples\<close>

text \<open>The second client's certificate is \<open>walk_leaf\<close>; the JSON of a rejection is its reason code.\<close>

definition walk_leaf :: cert where
  "walk_leaf = sample_leaf\<lparr>c_raw := [201]\<rparr>"

definition walk_json :: "gval \<Rightarrow> bytes option" where
  "walk_json v = (case v of VObj [_, (_, VStr c), _] \<Rightarrow> Some (bytes_of c) | _ \<Rightarrow> None)"

definition walk_unjson :: "bytes \<Rightarrow> gval option" where
  "walk_unjson b = (let c = string_of (butlast b)
     in Some (VObj [(''error'', VStr (oauth_error c)), (''reason_code'', VStr c), (''reason'', VStr [])]))"

definition walk_ext :: "nat ext" where
  "walk_ext = sample_ext\<lparr>x509_parse := (\<lambda>b. if b = [201] then Some walk_leaf else None),
     json_encode := walk_json, json_whole := walk_unjson\<rparr>"

lemma walk_ext_sel [simp]:
  "json_decode walk_ext = json_decode sample_ext" "num_float64 walk_ext = num_float64 sample_ext" "url_parse walk_ext = url_parse sample_ext"
  "jwa_known walk_ext = jwa_known sample_ext" "jwk_import walk_ext = jwk_import sample_ext" "jwk_use walk_ext = jwk_use sample_ext"
  "jwk_alg walk_ext = jwk_alg sample_ext" "jws_verify walk_ext = jws_verify sample_ext" "jwks_parse walk_ext = jwks_parse sample_ext"
  "x509_verify walk_ext = x509_verify sample_ext" "sha256 walk_ext = sha256 sample_ext"
  by (simp_all add: walk_ext_def)

lemma walk_ext_jose [simp]:
  "decodeObject walk_ext = decodeObject sample_ext" "LookupAlg walk_ext = LookupAlg sample_ext" "asKey walk_ext = asKey sample_ext"
  "numericClaim walk_ext = numericClaim sample_ext"
proof -
  show "asKey walk_ext = asKey sample_ext"
  proof
    show "asKey walk_ext k = asKey sample_ext k" for k by (cases k) simp_all
  qed
qed (unfold decodeObject_def LookupAlg_def numericClaim_def walk_ext_sel, (rule refl)+)

lemma walk_ext_validator [simp]:
  "ParseCompact walk_ext = ParseCompact sample_ext" "VerifySignature walk_ext = VerifySignature sample_ext"
  "jws_claims walk_ext = jws_claims sample_ext" "ks_key walk_ext = ks_key sample_ext" "check_times walk_ext = check_times sample_ext"
  by (unfold ParseCompact_def VerifySignature_def jws_claims_def ks_key_def ks_refresh_def check_key_def check_times_def
      walk_ext_sel walk_ext_jose, (rule refl)+)

lemma validateLocally_walk: "validateLocally walk_ext = validateLocally sample_ext"
  by (intro ext) (unfold validateLocally_def walk_ext_validator, rule refl)

lemma walk_rejections: "rejections_read walk_ext (\<lambda>_. [])"
proof -
  have l: "length (reason_code rej) \<le> 60" for rej by (cases rej) simp_all
  have b: "snd (rs_body (writeRejection (reject rej))) = reason_code rej"
    "fst (rs_body (writeRejection (reject rej))) = oauth_error (reason_code rej)" for rej
    by (simp_all add: writeRejection_def reject_def Let_def)
  have e: "json_encode walk_ext = walk_json" "json_whole walk_ext = walk_unjson" by (simp_all add: walk_ext_def)
  have j: "json_line walk_ext (rejection_json (\<lambda>_. []) (writeRejection (reject rej))) = bytes_of (reason_code rej) @ [10]" for rej
    by (simp add: json_line_def e rejection_json_def b walk_json_def)
  have "length (bytes_of (reason_code rej) @ [10]) \<le> 65536" for rej using l [of rej] by (simp add: bytes_of_def)
  moreover have "walk_unjson (bytes_of (reason_code rej) @ [10]) = Some (rejection_json (\<lambda>_. []) (writeRejection (reject rej)))" for rej
    by (simp add: walk_unjson_def rejection_json_def b Let_def)
  ultimately show ?thesis unfolding rejections_read_def Let_def j e by blast
qed

lemma walk_admitted: "token_admitted walk_ext sample_validator (sample_io t0) ''AQ.Ag.AA'' (Some ''yA'', None)"
proof -
  have "token_claims walk_ext sample_validator (sample_io t0) ModeLocal ''AQ.Ag.AA'' = (Inr (sample_claims (sample_cnf ''x5t#S256'' ''yA'')), sample_keys)"
    by (simp add: token_claims_def validateLocally_walk sample_local [OF sample_parse(1)])
  then show ?thesis
    using sample_scope [of "sample_cnf ''x5t#S256'' ''yA''"] by (simp add: token_admitted_def confirmation_def cnfString_def)
qed

definition walk_boot_io :: "bytes boot_io" where
  "walk_boot_io = \<lparr>bo_key = (\<lambda>_. Some [2]), bo_serial = Some 43, bo_now = t0, bo_created = (\<lambda>_ _ _. Some [201])\<rparr>"

definition walk_ca :: "bytes plane_io" where
  "walk_ca = xapp_plane_io\<lparr>pi_ca := xapp_ca\<lparr>co_answer := (\<lambda>_. Http_response 200 (pem_encode disk_pem ''CERTIFICATE'' [201]))\<rparr>\<rparr>"

definition walk_new_io :: "(bytes, nat) new_io" where
  "walk_new_io = \<lparr>ni_boot = walk_boot_io, ni_pq_boot = walk_boot_io, ni_gen = (\<lambda>_. None), ni_files = (\<lambda>_. None), ni_start = (walk_ca, walk_ca)\<rparr>"

definition walk_runner :: "bytes runner" where
  "walk_runner = \<lparr>wk_cfg = xapp_cfg\<lparr>cc_method := ''A'', cc_bootstrap := None\<rparr>, wk_onboarding =
     \<lparr>ob_cert = sample_root, ob_key = [1], ob_org = ''RIC'', ob_key_alg = ''EC-P256''\<rparr>, wk_pq_onboarding = None, wk_roots = [],
     wk_resource = ''https://r'', wk_pq = False, wk_failures = 0\<rparr>"

definition walk_id :: "bytes identity" where
  "walk_id = \<lparr>cred_chain = [[201]], cred_key = Some [2], cred_leaf = walk_leaf\<rparr>"

lemma walk_newClient:
  "\<exists>c. newClient xapp_crypto disk_pem walk_ext walk_runner walk_new_io = Some c \<and> xc_id c = Some walk_id"
proof -
  have g: "GenerateKey ''EC-P256'' = Some (Gen_EC ''P-256'')" by code_simp
  let ?boot = "\<lparr>cred_chain = [[201], [100]], cred_key = Some [2], cred_leaf = walk_leaf\<rparr> :: bytes identity"
  let ?cfg = "xapp_cfg\<lparr>cc_method := ''A'', cc_bootstrap := Some ?boot\<rparr>"
  have p: "x509_parse walk_ext [201] = Some walk_leaf" by (simp add: walk_ext_def)
  have b: "walk_bootstrap xapp_crypto walk_ext walk_runner walk_new_io = Some ?cfg"
    by (simp add: walk_bootstrap_def IssueBootstrap_def walk_runner_def walk_new_io_def walk_boot_io_def g p) (simp add: sample_root_def)
  let ?x = "\<lparr>xc_cfg = ?cfg, xc_roots = [], xc_rotate_keys = False, xc_kind = Cert_bound, xc_id = None,
     xc_pq_id = None, xc_cached = None, xc_tokens_on_cert = 0, xc_nonces = [], xc_files = (\<lambda>_. None)\<rparr> :: (bytes, nat) xclient"
  have v: "Validate ?cfg = None" by code_simp
  have n: "New disk_pem walk_ext (\<lambda>_. None) (\<lambda>_. None) ?cfg = Inr ?x"
    by (simp add: New_def newBase_def v MethodLongTerm_def)
  have "limit_read 1048576 (pem_encode disk_pem ''CERTIFICATE'' [201]) = pem_encode disk_pem ''CERTIFICATE'' [201]"
    by (simp add: limit_read_def disk_pem_def unary_def bytes_of_def)
  moreover have "ParseCertsPEM disk_pem walk_ext (pem_encode disk_pem ''CERTIFICATE'' [201]) = Some [walk_leaf]"
    using cert_ders_encoded [OF disk_pem_correct, of "[[201]]"] p by (simp add: ParseCertsPEM_def)
  ultimately have "Enroll xapp_crypto disk_pem walk_ext ?cfg (pi_ca walk_ca) ?boot [2] (900 * second) False = Inr walk_id"
    by (simp add: Enroll_def walk_ca_def walk_id_def) (simp add: walk_leaf_def sample_leaf_def xapp_crypto_def)
  then have "\<exists>y. startIdentity xapp_crypto disk_pem walk_ext walk_ca ?x ClassicalPlane = (Inr (), y) \<and> pc_id (planeConfig y ClassicalPlane) = Some walk_id"
    by (intro startIdentity_bootstrap) (simp_all add: planeConfig_def g walk_ca_def)
  moreover have "ni_gen walk_new_io = (\<lambda>_. None)" "ni_files walk_new_io = (\<lambda>_. None)" "ni_start walk_new_io = (walk_ca, walk_ca)"
    by (simp_all add: walk_new_io_def)
  ultimately show ?thesis
    by (auto simp: newClient_def b n Start_def planeConfig_def Let_def)
qed



section \<open>The property\<close>

text \<open>What the second client shows: another certificate than the token's, or a proof by another key.\<close>

definition foreign_certificate :: "'k ext \<Rightarrow> 'k validator \<Rightarrow> auth_io \<Rightarrow> 's identity option \<Rightarrow> string \<Rightarrow> bool" where
  "foreign_certificate E v io c x5t \<longleftrightarrow>
     (\<exists>leaf rest. shown_chain E c = Some (leaf # rest) \<and> ThumbprintS256 E leaf \<noteq> x5t
        \<and> VerifyChain E (leaf # rest) (v_roots v) (ai_now_cert io) ClientAuth = Inr ())"

definition foreign_key :: "'k ext \<Rightarrow> 'k validator \<Rightarrow> 'k signer option \<Rightarrow> string \<Rightarrow> bool" where
  "foreign_key E v s jkt \<longleftrightarrow>
     (\<exists>k thumb. s = Some k \<and> signer_sound E k \<and> (vc_algs (v_cfg v) = [] \<or> sg_alg k \<in> set (vc_algs (v_cfg v)))
        \<and> jwk_Thumbprint E (sg_jwk k) = Some thumb \<and> thumb \<noteq> jkt)"

text \<open>C12: The negative tests of the walkthrough pass against the resource server: a token the server admits but for its
  binding, presented by a second client over its own valid certificate, with no certificate at all, or with a
  proof by its own key, is refused each time with 401 and exactly the reason the walkthrough expects.\<close>
theorem walkthrough_negative_passes:
  fixes r :: "'s runner"
  assumes "newClient C L E r (wi_other io) = Some other" "Token C L E imp (wi_token_fresh io) x = (Inr fresh, x1)"
    and "tk_value fresh \<noteq> []" "list_all (\<lambda>c. \<not> is_space c) (tk_value fresh)"
    and "clean_path (u_path u) = u_path u" "has_prefix (u_path u) ''/api/v1/sdl/''" "rejections_read E detail"
    and "\<forall>n c hs. wi_send io n c hs = resource_reply E detail name (v n) (ai n) u decoded c hs"
    and "cc_method (wk_cfg r) \<noteq> MethodDPoP \<Longrightarrow>
      (\<forall>n. token_admitted E (v n) (ai n) (tk_value fresh) (Some x5t, None)) \<and> foreign_certificate E (v 2) (ai 2) (activeCert r other) x5t"
    and "cc_method (wk_cfg r) = MethodDPoP \<Longrightarrow>
      token_admitted E (v 2) (ai 2) (tk_value fresh) (None, Some jkt) \<and> foreign_key E (v 2) (walk_signer other fresh) jkt
      \<and> json_inverse E \<and> shown_chain E (activeCert r other) \<noteq> None \<and> snd (wi_proof io 1) \<noteq> None
      \<and> walk_proof E r (wi_proof io 1) other fresh \<noteq> None"
  shows "walk_negative C L E imp io x r = (True, r)"
proof (cases "cc_method (wk_cfg r) = MethodDPoP")
  case True
  note d = assms(10) [OF True]
  then obtain k thumb chain jti pf where k: "walk_signer other fresh = Some k" "signer_sound E k"
    "vc_algs (v_cfg (v 2)) = [] \<or> sg_alg k \<in> set (vc_algs (v_cfg (v 2)))" "jwk_Thumbprint E (sg_jwk k) = Some thumb" "thumb \<noteq> jkt"
    and c: "shown_chain E (activeCert r other) = Some chain" "snd (wi_proof io 1) = Some jti"
    and pf: "walk_proof E r (wi_proof io 1) other fresh = Some pf" unfolding foreign_key_def by blast
  have b: "BuildDPoPProof E k ''GET'' (walk_path r ModeLocal) (tk_value fresh) [] (fst (wi_proof io 1)) (Some jti) = Some pf"
    using pf k(1) c(2) by (simp add: walk_proof_def)
  have "fst (Authorize E (v 2) (ai 2) ModeLocal (crafted u chain (dpopHeaders fresh pf))) = Inl ReasonDPoPJktMismatch"
    by (rule other_key_refused [OF _ crafted_dpop [OF assms(3,4)] b k(2) _ k(3-5)]) (use d in auto)
  from walk_send_rejected [OF c(1) assms(7,5,6) this] have
    "walk_send E (resource_reply E detail name (v 2) (ai 2) u decoded (activeCert r other) (dpopHeaders fresh pf))
       = Some (401, reason_code ReasonDPoPJktMismatch)" by simp
  then show ?thesis
    using assms(1,2,8) True pf by (simp add: walk_negative_def expect_reason_def walk_check_def)
next
  case False
  note d = assms(9) [OF False]
  then obtain leaf rest where c: "shown_chain E (activeCert r other) = Some (leaf # rest)" "ThumbprintS256 E leaf \<noteq> x5t"
    "VerifyChain E (leaf # rest) (v_roots (v 2)) (ai_now_cert (ai 2)) ClientAuth = Inr ()" unfolding foreign_certificate_def by blast
  have n: "shown_chain E (None :: 's identity option) = Some []" by (simp add: shown_chain_def)
  have "fst (Authorize E (v 2) (ai 2) ModeLocal (crafted u (leaf # rest) (walk_bearer fresh))) = Inl ReasonX5tMismatch"
    by (rule other_certificate_refused [OF _ crafted_bearer [OF assms(3,4)] _ c(3,2)]) (use d in \<open>auto simp: crafted_def\<close>)
  from walk_send_rejected [OF c(1) assms(7,5,6) this] have a:
    "walk_send E (resource_reply E detail name (v 2) (ai 2) u decoded (activeCert r other) (walk_bearer fresh))
       = Some (401, reason_code ReasonX5tMismatch)" by simp
  have "fst (Authorize E (v 3) (ai 3) ModeLocal (crafted u [] (walk_bearer fresh))) = Inl ReasonClientCertMissing"
    by (rule no_certificate_refused [OF _ crafted_bearer [OF assms(3,4)]]) (use d in \<open>auto simp: crafted_def\<close>)
  from walk_send_rejected [OF n assms(7,5,6) this] have
    "walk_send E (resource_reply E detail name (v 3) (ai 3) u decoded (None :: 's identity option) (walk_bearer fresh))
       = Some (401, reason_code ReasonClientCertMissing)" by simp
  with a show ?thesis
    using assms(1,2,8) False by (simp add: walk_negative_def expect_reason_def walk_check_def)
qed


definition walk_token :: token where
  "walk_token = xapp_token\<lparr>tk_value := ''AQ.Ag.AA'', tk_binding := ''x5t#S256'', tk_thumbprint := ''yA''\<rparr>"

definition walk_victim :: "(bytes, nat) xclient" where
  "walk_victim = xapp_client\<lparr>xc_kind := Cert_bound, xc_id := Some xapp_id, xc_cached := Some walk_token\<rparr>"

definition walk_url :: url where
  "walk_url = \<lparr>u_scheme = ''https'', u_host = ''r'', u_path = ''/api/v1/sdl/demo''\<rparr>"

definition xapp_resource_io :: resource_io where
  "xapp_resource_io = \<lparr>ro_proof = (\<lambda>_. (t0, None)), ro_send = (\<lambda>_ _. None), ro_replayable = True, ro_body_again = True\<rparr>"

definition sample_walk_io :: "(bytes, nat) walk_io" where
  "sample_walk_io = \<lparr>wi_first = walk_new_io, wi_other = walk_new_io, wi_token = xapp_call_io, wi_token_rotated = xapp_call_io,
     wi_token_fresh = xapp_call_io, wi_local = (xapp_call_io, xapp_resource_io), wi_introspect = (xapp_call_io, xapp_resource_io),
     wi_rotated = (xapp_call_io, xapp_resource_io), wi_curve = None, wi_rotate = (xapp_plane_io, xapp_plane_io), wi_proof = (\<lambda>_. (t0, None)),
     wi_send = (\<lambda>_ c hs. resource_reply walk_ext (\<lambda>_. []) ''demo'' sample_validator (sample_io t0) walk_url [] c hs)\<rparr>"

theorem walkthrough_negative_passes_witness:
  "walk_negative xapp_crypto disk_pem walk_ext (\<lambda>_. None) sample_walk_io walk_victim walk_runner = (True, walk_runner)"
proof -
  obtain c where c: "newClient xapp_crypto disk_pem walk_ext walk_runner (wi_other sample_walk_io) = Some c" "xc_id c = Some walk_id"
    using walk_newClient by (auto simp: sample_walk_io_def)
  have n: "needsRenewal walk_victim t0 t0 = False"
    by (simp add: needsRenewal_def needsRenewalPlane_def planeConfig_def renewBeforeFor_def walk_victim_def)
      (simp add: sample_leaf_def time_sub_def t0_def unix_offset_def)
  have u: "usable walk_token t0"
    by (simp add: usable_def walk_token_def xapp_token_def expirySkew_def time_add_sane is_duration_def)
  have t: "Token xapp_crypto disk_pem walk_ext (\<lambda>_. None) (wi_token_fresh sample_walk_io) walk_victim = (Inr walk_token, walk_victim)"
    using n u by (simp add: Token_def renew_if_due_def sample_walk_io_def) (simp add: walk_victim_def)
  have v: "tk_value walk_token = ''AQ.Ag.AA''" by (simp add: walk_token_def)
  have p: "clean_path (u_path walk_url) = u_path walk_url" "has_prefix (u_path walk_url) ''/api/v1/sdl/''"
    unfolding walk_url_def by code_simp+
  have th: "ThumbprintS256 walk_ext walk_leaf \<noteq> ''yA''"
    by (simp add: ThumbprintS256_def walk_leaf_def) (simp add: sample_ext_def b64_char_def b64_alphabet_def)
  have "foreign_certificate walk_ext sample_validator (sample_io t0) (activeCert walk_runner c) ''yA''"
    using th c(2) by (simp add: foreign_certificate_def activeCert_def walk_runner_def shown_chain_def)
      (simp add: walk_id_def walk_ext_def VerifyChain_def, simp add: walk_leaf_def sample_leaf_def sample_root_def sample_ext_def)
  then have f: "foreign_certificate walk_ext sample_validator (sample_io t0) (activeCert walk_runner c) ''yA''" .
  have m: "cc_method (wk_cfg walk_runner) \<noteq> MethodDPoP" by (simp add: walk_runner_def MethodDPoP_def)
  show ?thesis
    by (rule walkthrough_negative_passes [OF c(1) t _ _ p walk_rejections, where name = "''demo''" and v = "\<lambda>_. sample_validator"
        and ai = "\<lambda>_. sample_io t0" and decoded = "[]" and x5t = "''yA''"])
      (use v f m walk_admitted in \<open>auto simp: sample_walk_io_def is_space_def\<close>)
qed

end
