(* ===== verification/Lineage.thy ===== *)
theory Lineage
  imports Onboarding Enroll_Props
begin

text \<open>
  The certificates the CA of \<open>ca/enroll/server.go\<close> gives out over a run, with renewals and restarts, and where
  each comes from.
\<close>

section \<open>Issuances\<close>

text \<open>What a step issues: the endpoint, the credential it was asked with, and the certificate.\<close>

type_synonym issuance = "profile \<times> cert \<times> cert"

fun issued_at :: "'k ext \<Rightarrow> enroll_server \<Rightarrow> enroll_step \<Rightarrow> issuance list" where
  "issued_at E s (Enroll_call io p r) =
     (case (fst (enroll_issue E s io p r), er_tls r) of
        (Issued t leaf issuer, Some (c # rest)) \<Rightarrow> [(p, c, leaf)]
      | _ \<Rightarrow> [])"
| "issued_at E s Enroll_restart = []"

fun issuances :: "'k ext \<Rightarrow> enroll_server \<Rightarrow> enroll_step list \<Rightarrow> issuance list" where
  "issuances E s [] = []"
| "issuances E s (d # ds) = issued_at E s d @ issuances E (enroll_advance E s d) ds"

definition bootstraps :: "issuance list \<Rightarrow> cert list" where
  "bootstraps log = map (fst \<circ> snd) (filter (\<lambda>i. fst i = profileBootstrap) log)"

text \<open>A certificate descends from the bootstrap credential that enrolled it, or that of the certificate it renewed.\<close>

inductive descends :: "issuance list \<Rightarrow> cert \<Rightarrow> cert \<Rightarrow> bool" for log where
  enrolled: "(profileBootstrap, b, leaf) \<in> set log \<Longrightarrow> descends log b leaf"
| renewed: "\<lbrakk>(profileRenew, c, leaf) \<in> set log; descends log b c\<rbrakk> \<Longrightarrow> descends log b leaf"

text \<open>
  What is relied on: a created certificate has the names of its template, and the pool of the renewal endpoint
  verifies only certificates this CA has issued.
\<close>

fun signs_names :: "enroll_step \<Rightarrow> bool" where
  "signs_names (Enroll_call io p r) \<longleftrightarrow>
     (\<forall>t issuer leaf. eo_created io t issuer = Some leaf \<longrightarrow> c_cn leaf = tp_cn t \<and> c_dns leaf = tp_dns t)"
| "signs_names Enroll_restart \<longleftrightarrow> True"

fun renewal_genuine :: "'k ext \<Rightarrow> enroll_server \<Rightarrow> issuance list \<Rightarrow> enroll_step \<Rightarrow> bool" where
  "renewal_genuine E s log (Enroll_call io profileRenew r) \<longleftrightarrow>
     (\<forall>c rest. er_tls r = Some (c # rest) \<and> VerifyChain E (c # rest) (es_op_pool s) (eo_now io) ClientAuth = Inr ()
        \<longrightarrow> c \<in> (snd \<circ> snd) ` set log)"
| "renewal_genuine E s log _ \<longleftrightarrow> True"

fun renewals_genuine :: "'k ext \<Rightarrow> enroll_server \<Rightarrow> issuance list \<Rightarrow> enroll_step list \<Rightarrow> bool" where
  "renewals_genuine E s log [] \<longleftrightarrow> True"
| "renewals_genuine E s log (d # ds) \<longleftrightarrow>
     renewal_genuine E s log d \<and> renewals_genuine E (enroll_advance E s d) (log @ issued_at E s d) ds"


section \<open>One step\<close>

lemma issued_at_mem:
  assumes "(p, c, leaf) \<in> set (issued_at E s d)"
  obtains io r rest t issuer s' where "d = Enroll_call io p r" "er_tls r = Some (c # rest)"
    "enroll_issue E s io p r = (Issued t leaf issuer, s')"
proof (cases d)
  case (Enroll_call io q r)
  obtain reply s' where e: "enroll_issue E s io q r = (reply, s')" by fastforce
  from assms Enroll_call e obtain t issuer rest where "reply = Issued t leaf issuer" "er_tls r = Some (c # rest)" "q = p"
    by (cases reply; cases "er_tls r"; cases "the (er_tls r)") auto
  then show ?thesis using that Enroll_call e by blast
qed (use assms in simp)

lemma issued_names:
  assumes "(p, c, leaf) \<in> set (issued_at E s d)" "signs_names d"
  shows "c_cn leaf = c_cn c \<and> set (c_dns leaf) \<subseteq> set (c_dns c) \<and> identityPattern (c_cn c)
    \<and> (\<exists>rest now. VerifyChain E (c # rest) (case p of profileBootstrap \<Rightarrow> es_boot_pool s | profileRenew \<Rightarrow> es_op_pool s)
         now ClientAuth = Inr ())"
proof -
  obtain io r rest t issuer s' where d: "d = Enroll_call io p r" "er_tls r = Some (c # rest)"
    and i: "enroll_issue E s io p r = (Issued t leaf issuer, s')"
    using issued_at_mem [OF assms(1)] .
  from i obtain caller lifetime csr br where a: "authenticate_caller E s p (eo_now io) (er_tls r) = Inr caller"
    "check_request E s caller (time_add (eo_now io) lifetime) (er_body r) = Inr (csr, br)"
    "tp_cn t = c_cn caller" "tp_dns t = csr_dns csr" "eo_created io t issuer = Some leaf"
    by (rule enroll_issue_Issued)
  from a(1) d(2) have "caller = c" "identityPattern (c_cn c)"
    "VerifyChain E (c # rest) (case p of profileBootstrap \<Rightarrow> es_boot_pool s | profileRenew \<Rightarrow> es_op_pool s) (eo_now io) ClientAuth = Inr ()"
    by (auto elim!: authenticate_caller_Inr)
  then show ?thesis
    using assms(2) a(3-5) check_request_Inr(4) [OF a(2)] by (auto simp: d(1))
qed

lemma renewed_known:
  assumes "(profileRenew, c, leaf) \<in> set (issued_at E s d)" "renewal_genuine E s log d"
  shows "c \<in> (snd \<circ> snd) ` set log"
proof -
  obtain io r rest t issuer s' where d: "d = Enroll_call io profileRenew r" "er_tls r = Some (c # rest)"
    and i: "enroll_issue E s io profileRenew r = (Issued t leaf issuer, s')"
    using issued_at_mem [OF assms(1)] .
  from i obtain caller where "authenticate_caller E s profileRenew (eo_now io) (er_tls r) = Inr caller"
    by (rule enroll_issue_Issued)
  then show ?thesis
    using assms(2) d by (auto elim!: authenticate_caller_Inr)
qed

lemma advance_pools:
  "es_boot_pool (enroll_advance E s d) = es_boot_pool s" "es_op_pool (enroll_advance E s d) = es_op_pool s"
proof -
  have "es_boot_pool (snd (enroll_issue E s io p r)) = es_boot_pool s \<and> es_op_pool (snd (enroll_issue E s io p r)) = es_op_pool s" for io p r
    by (auto simp: enroll_issue_def Let_def split: sum.splits prod.splits option.splits)
  then show "es_boot_pool (enroll_advance E s d) = es_boot_pool s" "es_op_pool (enroll_advance E s d) = es_op_pool s"
    by (cases d; simp)+
qed

lemma advance_ledger_ok:
  assumes "ledger_ok (es_used s)" "whole_call d"
  shows "ledger_ok (es_used (enroll_advance E s d))"
proof -
  consider "es_used (enroll_advance E s d) = es_used s"
    | c where "ledger_call d = Some c" "es_used (enroll_advance E s d) = ledger_advance (es_used s) c"
    using enroll_use.step_store [of E s d] by blast
  then show ?thesis
    using assms run_keeps_ok [of "es_used s" "[_]"] by cases (auto simp: whole_call_def)
qed

lemma descends_mono: "\<lbrakk>descends log b c; set log \<subseteq> set log'\<rbrakk> \<Longrightarrow> descends log' b c"
  by (induction rule: descends.induct) (auto intro: descends.intros)


section \<open>A run\<close>

definition lineage :: "'k ext \<Rightarrow> cert list \<Rightarrow> issuance list \<Rightarrow> cert \<Rightarrow> bool" where
  "lineage E pool log leaf \<longleftrightarrow>
     (\<exists>b rest now. descends log b leaf \<and> c_cn leaf = c_cn b \<and> set (c_dns leaf) \<subseteq> set (c_dns b) \<and> identityPattern (c_cn b)
        \<and> VerifyChain E (b # rest) pool now ClientAuth = Inr ())"

lemma lineage_step:
  assumes "\<forall>i\<in>set log. lineage E (es_boot_pool s) log (snd (snd i))" "signs_names d" "renewal_genuine E s log d"
  shows "\<forall>i\<in>set (log @ issued_at E s d). lineage E (es_boot_pool s) (log @ issued_at E s d) (snd (snd i))"
proof
  fix i
  assume i: "i \<in> set (log @ issued_at E s d)"
  let ?log = "log @ issued_at E s d"
  have old: "lineage E (es_boot_pool s) ?log leaf" if "lineage E (es_boot_pool s) log leaf" for leaf
    using that descends_mono [of log _ leaf ?log] unfolding lineage_def by (metis Un_upper1 set_append)
  obtain p c leaf where e: "i = (p, c, leaf)" using prod_cases3 by blast
  show "lineage E (es_boot_pool s) ?log (snd (snd i))"
  proof (cases "i \<in> set log")
    case True
    then show ?thesis using assms(1) old by blast
  next
    case False
    then have new: "(p, c, leaf) \<in> set (issued_at E s d)" using i e by simp
    note n = issued_names [OF new assms(2)]
    show ?thesis
    proof (cases p)
      case profileBootstrap
      then have "descends ?log c leaf" using new by (auto intro: descends.enrolled)
      then show ?thesis using n profileBootstrap e by (auto simp: lineage_def)
    next
      case profileRenew
      then have "c \<in> (snd \<circ> snd) ` set log" using renewed_known [OF _ assms(3)] new by simp
      then have "lineage E (es_boot_pool s) ?log c" using assms(1) old by auto
      then obtain b rest now where b: "descends ?log b c" "c_cn c = c_cn b" "set (c_dns c) \<subseteq> set (c_dns b)" "identityPattern (c_cn b)"
        "VerifyChain E (b # rest) (es_boot_pool s) now ClientAuth = Inr ()" by (auto simp: lineage_def)
      moreover have "descends ?log b leaf"
        using new profileRenew b(1) by (auto intro: descends.renewed)
      ultimately show ?thesis using n e by (fastforce simp: lineage_def)
    qed
  qed
qed

lemma lineage_run:
  assumes "\<forall>i\<in>set log. lineage E (es_boot_pool s) log (snd (snd i))" "\<forall>d\<in>set ds. signs_names d" "renewals_genuine E s log ds"
  shows "\<forall>i\<in>set (log @ issuances E s ds). lineage E (es_boot_pool s) (log @ issuances E s ds) (snd (snd i))"
  using assms
proof (induction ds arbitrary: s log)
  case (Cons d ds)
  have "\<forall>i\<in>set (log @ issued_at E s d). lineage E (es_boot_pool s) (log @ issued_at E s d) (snd (snd i))"
    using Cons.prems by (intro lineage_step) auto
  with Cons.IH [of "log @ issued_at E s d" "enroll_advance E s d"] Cons.prems show ?case
    by (simp add: advance_pools)
qed simp

text \<open>A bootstrap credential that has enrolled does not enroll again.\<close>

lemma issuances_mem:
  assumes "(p, c, leaf) \<in> set (issuances E s ds)"
  shows "\<exists>ds1 d ds2. ds = ds1 @ d # ds2 \<and> (p, c, leaf) \<in> set (issued_at E (foldl (enroll_advance E) s ds1) d)"
  using assms
proof (induction ds arbitrary: s)
  case (Cons d ds)
  then consider "(p, c, leaf) \<in> set (issued_at E s d)" | "(p, c, leaf) \<in> set (issuances E (enroll_advance E s d) ds)" by auto
  then show ?case
  proof cases
    case 1
    then show ?thesis by (intro exI [of _ "[]"]) auto
  next
    case 2
    from Cons.IH [OF this] obtain ds1 d' ds2 where "ds = ds1 @ d' # ds2"
      "(p, c, leaf) \<in> set (issued_at E (foldl (enroll_advance E) (enroll_advance E s d) ds1) d')" by blast
    then show ?thesis by (intro exI [of _ "d # ds1"] exI [of _ d'] exI [of _ ds2]) simp
  qed
qed simp

lemma bootstraps_distinct:
  assumes "ledger_ok (es_used s)" "\<forall>d\<in>set ds. whole_call d"
  shows "distinct (map credentialKey (bootstraps (issuances E s ds)))"
  using assms
proof (induction ds arbitrary: s)
  case (Cons d ds)
  let ?s1 = "enroll_advance E s d"
  have rest: "distinct (map credentialKey (bootstraps (issuances E ?s1 ds)))"
    using Cons.IH [of ?s1] Cons.prems advance_ledger_ok [of s d E] by simp
  have one: "length (issued_at E s d) \<le> 1"
    by (cases "(E, s, d)" rule: issued_at.cases) (auto split: enroll_reply.splits option.splits list.splits)
  have fresh: "credentialKey c' \<noteq> credentialKey c"
    if "(profileBootstrap, c, leaf) \<in> set (issued_at E s d)" "(profileBootstrap, c', leaf') \<in> set (issuances E ?s1 ds)" for c leaf c' leaf'
  proof
    assume k: "credentialKey c' = credentialKey c"
    note mem = that
    obtain io r rest t issuer s' where d: "d = Enroll_call io profileBootstrap r" "er_tls r = Some (c # rest)"
      and i: "enroll_issue E s io profileBootstrap r = (Issued t leaf issuer, s')"
      using issued_at_mem [OF mem(1)] .
    have s': "s' = ?s1" using d(1) i by simp
    from issuances_mem [OF mem(2)] obtain ds1 d' ds2 where sp: "ds = ds1 @ d' # ds2"
      "(profileBootstrap, c', leaf') \<in> set (issued_at E (foldl (enroll_advance E) ?s1 ds1) d')" by blast
    obtain io' r' rest' t' issuer' s'' where d': "d' = Enroll_call io' profileBootstrap r'" "er_tls r' = Some (c' # rest')"
      and i': "enroll_issue E (foldl (enroll_advance E) ?s1 ds1) io' profileBootstrap r' = (Issued t' leaf' issuer', s'')"
      using issued_at_mem [OF sp(2)] .
    have w: "whole_call (Enroll_call io profileBootstrap r)" "whole_call (Enroll_call io' profileBootstrap r')" "\<forall>d\<in>set ds1. whole_call d"
      using Cons.prems(2) d d' sp(1) by auto
    have "c_issuer c' = c_issuer c" "c_serial c' = c_serial c" using k credentials_distinguished by blast+
    from bootstrap_refused [OF Cons.prems(1) i [unfolded s'] d(2) d'(2) this w] i' show False by auto
  qed
  show ?case
  proof (cases "issued_at E s d")
    case Nil
    then show ?thesis using rest by (simp add: bootstraps_def)
  next
    case (Cons i more)
    then have [simp]: "more = []" using one by simp
    obtain p c leaf where i: "i = (p, c, leaf)" using prod_cases3 by blast
    have "credentialKey c \<notin> credentialKey ` set (bootstraps (issuances E ?s1 ds))" if "p = profileBootstrap"
      using fresh [of c leaf] Cons i that by (fastforce simp: bootstraps_def)
    then show ?thesis using rest Cons i by (auto simp: bootstraps_def)
  qed
qed (simp add: bootstraps_def)


section \<open>The property\<close>

text \<open>C26: Every certificate the CA gives out goes back to a one-time bootstrap credential: over any run with renewals and
  restarts it descends, by renewals of certificates issued before, from a bootstrap credential its onboarding
  anchors verified, with the same identity and no name that credential did not carry, and no two enrollments
  used the same credential.\<close>
theorem certificates_descend:
  assumes "ledger_ok (es_used s)" "\<forall>d\<in>set ds. whole_call d \<and> signs_names d" "renewals_genuine E s [] ds"
    and "log = issuances E s ds"
  shows "distinct (map credentialKey (bootstraps log))
    \<and> (\<forall>p c leaf. (p, c, leaf) \<in> set log \<longrightarrow>
         (\<exists>b rest now. descends log b leaf \<and> b \<in> set (bootstraps log)
            \<and> c_cn leaf = c_cn b \<and> set (c_dns leaf) \<subseteq> set (c_dns b) \<and> identityPattern (c_cn b)
            \<and> VerifyChain E (b # rest) (es_boot_pool s) now ClientAuth = Inr ()))"
proof -
  have root: "b \<in> set (bootstraps log)" if "descends log b leaf" for b leaf
    using that by (induction rule: descends.induct) (force simp: bootstraps_def)+
  have "\<forall>i\<in>set log. lineage E (es_boot_pool s) log (snd (snd i))"
    using lineage_run [of "[]" E s ds] assms by simp
  then show ?thesis
    using bootstraps_distinct [OF assms(1), of ds E] assms(2,4) root unfolding lineage_def by (metis snd_conv)
qed


text \<open>An enrollment, a restart, and a renewal of the certificate it gave.\<close>

definition line_leaf :: "nat \<Rightarrow> cert" where
  "line_leaf n = sample_leaf\<lparr>c_raw := [of_nat n], c_serial := n\<rparr>"

definition line_io :: "nat \<Rightarrow> enroll_io" where
  "line_io n = sample_enroll_io\<lparr>eo_serial := Some n,
     eo_created := (\<lambda>t _. Some (line_leaf (tp_serial t)\<lparr>c_cn := tp_cn t, c_dns := tp_dns t\<rparr>))\<rparr>"

definition line_request :: "cert \<Rightarrow> enroll_request" where
  "line_request c = \<lparr>er_tls = Some [c], er_lifetime = [], er_body = Some []\<rparr>"

definition line_run :: "enroll_step list" where
  "line_run = [Enroll_call (line_io 7) profileBootstrap (line_request sample_leaf), Enroll_restart,
     Enroll_call (line_io 8) profileRenew (line_request (line_leaf 7))]"

lemma line_issue:
  assumes "caller \<in> {sample_leaf, line_leaf 7}"
    and "case p of profileBootstrap \<Rightarrow> Consume u caller ''T'' Appended = (Inr (), u') | profileRenew \<Rightarrow> u' = u"
  shows "\<exists>t. enroll_issue sample_ext (sample_enroll\<lparr>es_used := u\<rparr>) (line_io n) p (line_request caller)
    = (Issued t (line_leaf n) sample_root, sample_enroll\<lparr>es_used := u'\<rparr>)"
proof -
  let ?s = "sample_enroll\<lparr>es_used := u\<rparr>"
  have f: "c_cn caller = ''xapp-a''" "c_dns caller = [''xapp-a.ric'']" using assms(1) by (auto simp: line_leaf_def sample_leaf_def)
  have v: "VerifyChain sample_ext [caller] [sample_root] t0 ClientAuth = Inr ()"
    using assms(1) sample_chain by (auto simp: VerifyChain_Inr line_leaf_def) (simp add: sample_ext_def)
  have a: "authenticate_caller sample_ext ?s p t0 (Some [caller]) = Inr caller"
    using v f sample_identity by (simp add: authenticate_caller_def sample_enroll_def split: profile.split)
  have l: "requested_lifetime sample_ext (es_cfg sample_enroll) [] = Inr (600 * second)"
    by (simp add: requested_lifetime_def sample_enroll_def)
  have n: "time_add t0 (600 * second) = t0 + 600 * second" by (rule time_add_sane) (simp_all add: is_duration_def)
  have c: "check_request sample_ext ?s caller (t0 + 600 * second) (Some []) =
      Inr (\<lparr>csr_dns = [''xapp-a.ric''], csr_pub = EC_key ''P-256'' [2], csr_signed = True\<rparr>,
        \<lparr>br_name = ''classical'', br_cert = sample_root\<rparr>)"
    using f by (simp add: check_request_def parseCSR_def sample_ext_def branchFor_def sample_enroll_def sample_root_def
        dnsSuffixAllowed_def has_suffix_def)
  have u: "(case p of profileBootstrap \<Rightarrow> Consume u caller ''T'' Appended | profileRenew \<Rightarrow> (Inr (), u)) = (Inr (), u')"
    using assms(2) by (cases p) auto
  have leaf: "line_leaf n\<lparr>c_cn := ''xapp-a'', c_dns := [''xapp-a.ric'']\<rparr> = line_leaf n"
    by (simp add: line_leaf_def sample_leaf_def)
  show ?thesis
    using a l c n f u leaf by (cases p) (simp_all add: enroll_issue_def line_io_def line_request_def Let_def)
qed

lemma line_issuances:
  "issuances sample_ext sample_enroll line_run =
     [(profileBootstrap, sample_leaf, line_leaf 7), (profileRenew, line_leaf 7, line_leaf 8)]"
  "renewals_genuine sample_ext sample_enroll [] line_run"
proof -
  let ?u = "\<lparr>lg_file = Some (ledger_line sample_leaf ''T''), lg_used = [''64:2a'']\<rparr>"
  have "Consume \<lparr>lg_file = None, lg_used = []\<rparr> sample_leaf ''T'' Appended = (Inr (), ?u)"
    by (simp add: Consume_def append_to_def sample_key_text)
  moreover have e: "sample_enroll\<lparr>es_used := \<lparr>lg_file = None, lg_used = []\<rparr>\<rparr> = sample_enroll" by (simp add: sample_enroll_def)
  ultimately obtain t where 1: "enroll_issue sample_ext sample_enroll (line_io 7) profileBootstrap (line_request sample_leaf)
      = (Issued t (line_leaf 7) sample_root, sample_enroll\<lparr>es_used := ?u\<rparr>)"
    using line_issue [where caller = sample_leaf and p = profileBootstrap and u = "es_used sample_enroll" and n = 7] e by auto
  obtain t' where 2: "enroll_issue sample_ext (sample_enroll\<lparr>es_used := ledger_advance ?u Restart\<rparr>) (line_io 8) profileRenew
      (line_request (line_leaf 7)) = (Issued t' (line_leaf 8) sample_root, sample_enroll\<lparr>es_used := ledger_advance ?u Restart\<rparr>)"
    using line_issue [where caller = "line_leaf 7" and p = profileRenew and u = "ledger_advance ?u Restart" and n = 8] by auto
  have r: "er_tls (line_request c) = Some [c]" for c by (simp add: line_request_def)
  show "issuances sample_ext sample_enroll line_run =
      [(profileBootstrap, sample_leaf, line_leaf 7), (profileRenew, line_leaf 7, line_leaf 8)]"
    "renewals_genuine sample_ext sample_enroll [] line_run"
    using 1 2 by (simp_all add: line_run_def r del: ledger_advance.simps)
qed

theorem certificates_descend_witness:
  "descends (issuances sample_ext sample_enroll line_run) sample_leaf (line_leaf 8) \<and> c_cn (line_leaf 8) = c_cn sample_leaf"
proof -
  have w: "\<forall>d\<in>set line_run. whole_call d \<and> signs_names d"
    by (simp add: line_run_def whole_call_def line_request_def line_io_def ledger_line_def sample_key_text) (simp add: sample_leaf_def)
  have o: "ledger_ok (es_used sample_enroll)" by (simp add: ledger_ok_def)
  have b: "bootstraps (issuances sample_ext sample_enroll line_run) = [sample_leaf]"
    by (simp add: line_issuances bootstraps_def)
  have "(profileRenew, line_leaf 7, line_leaf 8) \<in> set (issuances sample_ext sample_enroll line_run)"
    by (simp add: line_issuances)
  with certificates_descend [OF o w line_issuances(2) refl] b show ?thesis by fastforce
qed

end
