(* ===== verification/Upgrade.thy ===== *)
theory Upgrade
  imports Shim_Props Client_Proof Servers
begin

text \<open>
  The two ends of an upgrade: what the client library sends to the shim (\<open>xapp-client/pq.go\<close>, \<open>certbound.go\<close> and
  \<open>dpop.go\<close>) is what the shim asks for (\<open>pqshim/shim.go\<close>), and its answer is what the client asks of it.
\<close>

section \<open>What is sent\<close>

text \<open>The headers of the decorator of either client type, its proof, and the call they are sent in.\<close>

definition upgrade_headers :: "'k ext \<Rightarrow> ('s, 'k) xclient \<Rightarrow> 's issue_io \<Rightarrow> token \<Rightarrow> (string \<times> string) list option" where
  "upgrade_headers E x io classical =
     (case xc_kind x of
        Cert_bound \<Rightarrow> Some [(''Authorization'', ''Bearer '' @ tk_value classical)]
      | Dpop_bound s _ _ \<Rightarrow>
          (let u = upgradeURL (xc_cfg x)
           in case BuildDPoPProof E s ''POST'' u (tk_value classical) (server_nonce E x u)
                     (fst (ii_upgrade_proof io)) (snd (ii_upgrade_proof io)) of
                None \<Rightarrow> None
              | Some pf \<Rightarrow> Some [(''Authorization'', ''DPoP '' @ tk_value classical), (''DPoP'', pf)]))"

definition upgrade_proof :: "'k ext \<Rightarrow> ('s \<Rightarrow> 'k option) \<Rightarrow> ('s, 'k) xclient \<Rightarrow> 's issue_io \<Rightarrow> token \<Rightarrow> string option" where
  "upgrade_proof E imp x io classical =
     (case xc_kind x of
        Cert_bound \<Rightarrow> pqCertProof E imp (xc_pq_id x) (upgradeURL (xc_cfg x)) (tk_value classical)
                        (fst (ii_pq_proof io)) (snd (ii_pq_proof io))
      | Dpop_bound _ _ pq \<Rightarrow> pqJWKProof E pq (upgradeURL (xc_cfg x)) (tk_value classical)
                        (fst (ii_pq_proof io)) (snd (ii_pq_proof io)))"

definition upgrade_call :: "('s, 'k) xclient \<Rightarrow> (string \<times> string) list \<Rightarrow> string \<Rightarrow> 's http_call" where
  "upgrade_call x hs pf =
     \<lparr>hq_method = ''POST'', hq_url = upgradeURL (xc_cfg x), hq_headers = hs @ [(''X-PQ-Proof'', pf)], hq_form = [],
      hq_identity = xc_id x\<rparr>"

definition client_upgrade ::
  "'k ext \<Rightarrow> ('s \<Rightarrow> 'k option) \<Rightarrow> ('s, 'k) xclient \<Rightarrow> 's issue_io \<Rightarrow> token \<Rightarrow> client_error + token" where
  "client_upgrade E imp x io classical =
     (case xc_kind x of
        Cert_bound \<Rightarrow> upgradeCertBound E imp x io classical
      | Dpop_bound s _ pq \<Rightarrow> upgradeDPoP E x s pq io classical)"

text \<open>
  The post-quantum credential of the client: its signer \<open>k\<close>, the confirmation method and the thumbprint.  For a
  certificate, one that the shim's anchors verify, of this client, and whose key is the signer's; for a key, an AKP key.
\<close>

definition pq_holder ::
  "'k ext \<Rightarrow> ('s \<Rightarrow> 'k option) \<Rightarrow> ('s, 'k) xclient \<Rightarrow> cert list \<Rightarrow> time \<Rightarrow> string \<Rightarrow> 'k signer \<Rightarrow> string \<Rightarrow> string \<Rightarrow> bool" where
  "pq_holder E imp x roots now cid k name thumb \<longleftrightarrow>
     (case xc_kind x of
        Cert_bound \<Rightarrow>
          (\<exists>c key secret rest. xc_pq_id x = Some c \<and> cred_key c = Some key \<and> imp key = Some secret
             \<and> SignerFromKey E (KeyAlgName (c_pub (cred_leaf c))) (Jwk_key secret) = Some k
             \<and> those (map (x509_parse E) (cred_chain c)) = Some (cred_leaf c # rest)
             \<and> VerifyChain E (cred_leaf c # rest) roots now ClientAuth = Inr ()
             \<and> IsPostQuantum (c_pub (cred_leaf c)) \<and> (cid = [] \<or> c_cn (cred_leaf c) = cid)
             \<and> jwk_import E (c_pub (cred_leaf c)) = Some (sg_pubkey k)
             \<and> name = ''x5t#S256'' \<and> thumb = ThumbprintS256 E (cred_leaf c))
      | Dpop_bound _ _ pq \<Rightarrow>
          pq = Some (k, thumb) \<and> jwk_Thumbprint E (sg_jwk k) = Some thumb \<and> get_str (sg_jwk k) ''kty'' = ''AKP''
             \<and> jwk_PublicKey E (sg_jwk k) = Some (sg_pubkey k) \<and> json_view (VObj (sg_jwk k)) = VObj (sg_jwk k)
             \<and> name = ''jkt'')"

text \<open>The request arrives at the shim, whose issuer is the URL it is reached at.\<close>

definition upgrade_arrives :: "'k ext \<Rightarrow> 'k shim \<Rightarrow> 's http_call \<Rightarrow> request \<Rightarrow> bool" where
  "upgrade_arrives E s q r \<longleftrightarrow> rq_method r = hq_method q \<and> rq_path r = ''/v1/upgrade'' \<and> url_parse E (hq_url q) \<noteq> None
     \<and> (\<forall>h\<in>{''Authorization'', ''DPoP'', ''X-PQ-Proof''}. header_values r h = map snd (filter (\<lambda>e. fst e = h) (hq_headers q)))
     \<and> (\<exists>n. NormalizeHTU E (hq_url q) = Some n \<and> NormalizeHTU E n = Some n
          \<and> NormalizeHTU E (sc_issuer (sh_cfg s) @ rq_path r) = Some n)"

text \<open>A JSON value that comes back as it was written, below the client's limit.\<close>

definition line_travels :: "'k ext \<Rightarrow> gval \<Rightarrow> bool" where
  "line_travels E v \<longleftrightarrow> (\<exists>b. json_encode E v = Some b \<and> json_whole E (b @ [10]) = Some (json_view v) \<and> length b < 1048576)"


section \<open>The proof is accepted\<close>

lemma x5c_items_encoded: "x5c_items E (map (\<lambda>der. VStr (b64_std_encode der)) ders) = those (map (x509_parse E) ders)"
  by (induction ders) (auto split: option.splits)

lemma upgrade_proof_parses:
  assumes "upgrade_proof E imp x io classical = Some pf" "pq_holder E imp x roots now cid k name thumb"
    and "signs_with E k" "json_inverse E" "snd (ii_pq_proof io) = Some jti"
  obtains j where "ParseCompact E pf = Inr j" "j_compact j = pf" "jws_alg j = sg_alg k" "jws_typ j = ''pq-binding+jwt''"
    "jws_claims E j = Some (map (\<lambda>(n, v). (n, json_view v))
       (pqProofClaims E (upgradeURL (xc_cfg x)) (tk_value classical) (fst (ii_pq_proof io)) (Some jti)))"
    "jws_verify E pf (sg_alg k) (sg_pubkey k)"
    "xc_kind x = Cert_bound \<Longrightarrow> \<exists>c. xc_pq_id x = Some c
       \<and> map_of (j_header j) ''x5c'' = Some (VArr (map (\<lambda>der. VStr (b64_std_encode der)) (cred_chain c)))"
    "xc_kind x \<noteq> Cert_bound \<Longrightarrow> map_of (j_header j) ''x5c'' = None \<and> map_of (j_header j) ''jwk'' = Some (VObj (sg_jwk k))"
proof -
  let ?cl = "pqProofClaims E (upgradeURL (xc_cfg x)) (tk_value classical) (fst (ii_pq_proof io)) (Some jti)"
  show thesis
  proof (cases "xc_kind x")
    case Cert_bound
    then obtain c where c: "xc_pq_id x = Some c"
      and s: "SignCompact E k [(''typ'', VStr ''pq-binding+jwt''), (''x5c'', VArr (map (\<lambda>der. VStr (b64_std_encode der)) (cred_chain c)))]
        ?cl = Some pf"
      using assms(1,2,5) by (auto simp: upgrade_proof_def pq_holder_def pqCertProof_def)
    from SignCompact_parse [OF s assms(3,4)] obtain j where j: "ParseCompact E pf = Inr j" "j_compact j = pf" "jws_alg j = sg_alg k"
      "\<forall>n. n \<noteq> ''alg'' \<longrightarrow> map_of (j_header j) n = map_option json_view
         (map_of [(''typ'', VStr ''pq-binding+jwt''), (''x5c'', VArr (map (\<lambda>der. VStr (b64_std_encode der)) (cred_chain c)))] n)"
      "jws_claims E j = Some (map (\<lambda>(n, v). (n, json_view v)) ?cl)" "jws_verify E pf (sg_alg k) (sg_pubkey k)" by blast
    have t: "jws_typ j = ''pq-binding+jwt''" using j(4) by (simp add: jws_typ_def get_str_def)
    have x: "map_of (j_header j) ''x5c'' = Some (VArr (map (\<lambda>der. VStr (b64_std_encode der)) (cred_chain c)))"
      using j(4) by (simp add: comp_def)
    show thesis by (rule that [OF j(1-3) t j(5,6)]) (use Cert_bound c x in simp_all)
  next
    case (Dpop_bound a b pq)
    then have s: "SignCompact E k [(''typ'', VStr ''pq-binding+jwt''), (''jwk'', VObj (sg_jwk k))] ?cl = Some pf"
      and v: "json_view (VObj (sg_jwk k)) = VObj (sg_jwk k)"
      using assms(1,2,5) by (auto simp: upgrade_proof_def pq_holder_def pqJWKProof_def)
    from SignCompact_parse [OF s assms(3,4)] obtain j where j: "ParseCompact E pf = Inr j" "j_compact j = pf" "jws_alg j = sg_alg k"
      "\<forall>n. n \<noteq> ''alg'' \<longrightarrow> map_of (j_header j) n = map_option json_view
         (map_of [(''typ'', VStr ''pq-binding+jwt''), (''jwk'', VObj (sg_jwk k))] n)"
      "jws_claims E j = Some (map (\<lambda>(n, v). (n, json_view v)) ?cl)" "jws_verify E pf (sg_alg k) (sg_pubkey k)" by blast
    have t: "jws_typ j = ''pq-binding+jwt''" using j(4) by (simp add: jws_typ_def get_str_def)
    have x: "map_of (j_header j) ''x5c'' = None" "map_of (j_header j) ''jwk'' = Some (VObj (sg_jwk k))"
      using j(4) v by simp_all
    show thesis by (rule that [OF j(1-3) t j(5,6)]) (use Dpop_bound x in simp_all)
  qed
qed

lemma credential_passes:
  assumes "pq_holder E imp x (sh_pq_roots s) now cid k name thumb" "LookupAlg E (sg_alg k) = Inr (sg_alg k)"
    and "jws_alg j = sg_alg k" "jws_verify E (j_compact j) (sg_alg k) (sg_pubkey k)"
    and "xc_kind x = Cert_bound \<Longrightarrow> \<exists>c. xc_pq_id x = Some c
       \<and> map_of (j_header j) ''x5c'' = Some (VArr (map (\<lambda>der. VStr (b64_std_encode der)) (cred_chain c)))"
    and "xc_kind x \<noteq> Cert_bound \<Longrightarrow> map_of (j_header j) ''x5c'' = None \<and> map_of (j_header j) ''jwk'' = Some (VObj (sg_jwk k))"
  shows "check_pq_credential E s now j cid = Inr (name, thumb)"
proof (cases "xc_kind x")
  case Cert_bound
  from assms(1) Cert_bound obtain c rest where c: "xc_pq_id x = Some c"
    "those (map (x509_parse E) (cred_chain c)) = Some (cred_leaf c # rest)"
    "VerifyChain E (cred_leaf c # rest) (sh_pq_roots s) now ClientAuth = Inr ()"
    "IsPostQuantum (c_pub (cred_leaf c))" "cid = [] \<or> c_cn (cred_leaf c) = cid"
    "jwk_import E (c_pub (cred_leaf c)) = Some (sg_pubkey k)" "name = ''x5t#S256''" "thumb = ThumbprintS256 E (cred_leaf c)"
    by (auto simp: pq_holder_def)
  have h: "map_of (j_header j) ''x5c'' = Some (VArr (map (\<lambda>der. VStr (b64_std_encode der)) (cred_chain c)))"
    using assms(5) [OF Cert_bound] c(1) by auto
  obtain d ds where d: "cred_chain c = d # ds" using c(2) by (cases "cred_chain c") auto
  have "chainFromProof E j = Inr (cred_leaf c # rest)"
    using c(2) x5c_items_encoded [of E "cred_chain c"] by (simp add: chainFromProof_def h d)
  moreover have "VerifySignature E j (Raw_key (c_pub (cred_leaf c))) = Inr ()"
    using assms(2-4) c(6) by (simp add: VerifySignature_Inr)
  ultimately have "check_pq_certificate E s now j cid = Inr thumb" using c by (auto simp: check_pq_certificate_def)
  then show ?thesis using h c(7) by (simp add: check_pq_credential_def header_member_def)
next
  case (Dpop_bound a b pq)
  then have k: "jwk_Thumbprint E (sg_jwk k) = Some thumb" "get_str (sg_jwk k) ''kty'' = ''AKP''"
    "jwk_PublicKey E (sg_jwk k) = Some (sg_pubkey k)" "name = ''jkt''"
    using assms(1) by (auto simp: pq_holder_def)
  have h: "map_of (j_header j) ''x5c'' = None" "map_of (j_header j) ''jwk'' = Some (VObj (sg_jwk k))"
    using assms(6) Dpop_bound by auto
  have "VerifySignature E j (Jwk_key (sg_pubkey k)) = Inr ()" using assms(2-4) by (simp add: VerifySignature_Inr)
  then show ?thesis using k h by (simp add: check_pq_credential_def header_member_def check_pq_key_def jwk_str_def)
qed

lemma claims_pass:
  assumes "jws_claims E j = Some (map (\<lambda>(n, v). (n, json_view v)) (pqProofClaims E url token made (Some jti)))"
    and "sha256 E (bytes_of token) \<noteq> []" "jti \<noteq> []" "rq_method r = ''POST''"
    and "NormalizeHTU E url = Some n" "NormalizeHTU E n = Some n" "NormalizeHTU E (sc_issuer (sh_cfg s) @ rq_path r) = Some n"
    and "\<not> iat_out_of_window (sc_window (sh_cfg s)) (sc_skew (sh_cfg s)) (unix_time (time_unix made)) now"
    and "CheckAndStore (sh_replay s) (replay_key thumb (B64 jti))
      (proof_expiry (sc_window (sh_cfg s)) (sc_skew (sh_cfg s)) (unix_time (time_unix made))) now = (ReplayFresh, rc)"
  shows "checkProofClaims E s now r j token thumb = (None, rc)"
proof -
  let ?c = "map (\<lambda>(n, v). (n, json_view v)) (pqProofClaims E url token made (Some jti))"
  have c: "get_str ?c ''ath'' = token_hash E token" "get_str ?c ''htm'' = ''POST''" "get_str ?c ''htu'' = n"
    "get_str ?c ''jti'' = B64 jti" "map_of ?c ''iat'' = Some (VNum (show_int (time_unix made)))"
    using assms(5) by (simp_all add: get_str_def pqProofClaims_def token_hash_def)
  have i: "shim_numericClaim ?c ''iat'' = Some (time_unix made)"
    using parse_show_int time_unix_range by (simp add: shim_numericClaim_def c(5))
  have "token_hash E token \<noteq> []" "B64 jti \<noteq> []" using assms(2,3) by (simp_all add: token_hash_def B64_def)
  then show ?thesis
    unfolding checkProofClaims_def assms(1) option.case Let_def c i
    using assms(4,6-9) by (simp add: ct_equal_def)
qed

lemma bearer_of_header:
  assumes "header_values r ''Authorization'' = [scheme @ '' '' @ token]" "scheme \<in> {''Bearer'', ''DPoP''}"
    and "token \<noteq> []" "list_all (\<lambda>c. \<not> is_space c) token"
  shows "bearerToken r = Some token"
proof -
  have v: "\<not> is_space (hd token)" "\<not> is_space (last token)" using assms(3,4) by (cases token; auto simp: list_all_iff)+
  have "trim_space (scheme @ '' '' @ token) = scheme @ '' '' @ token"
    by (rule trim_space_id) (use v assms(2,3) in \<open>auto simp: is_space_def\<close>)
  moreover have "trim_space token = token" by (rule trim_space_id) (use v in simp)
  moreover have "cut CHR '' '' (scheme @ '' '' @ token) = Some (scheme, token)"
    using assms(2) by (auto simp: cut_def)
  ultimately show ?thesis using assms(1,3) by (simp add: bearerToken_def)
qed

section \<open>The upgrade completes\<close>

lemma whole_seconds_range:
  assumes "is_duration d"
  shows "min_int64 \<le> whole_seconds d \<and> whole_seconds d \<le> max_int64"
proof -
  obtain a where a: "seconds d = Finite a" "\<bar>a\<bar> \<le> 2 ^ 40" using seconds_bounded [OF assms] by blast
  have "- (2 ^ 41) \<le> d_trunc_int (Finite a) \<and> d_trunc_int (Finite a) \<le> 2 ^ 41"
    using a(2) by (auto simp: ceiling_le_iff le_floor_iff)
  then show ?thesis by (simp add: whole_seconds_def a(1))
qed

definition upgrade_answer :: "'k shim \<Rightarrow> shim_io \<Rightarrow> string \<Rightarrow> string \<Rightarrow> string \<Rightarrow> time \<Rightarrow> upgrade_response" where
  "upgrade_answer s io name thumb t expires =
     \<lparr>ur_access_token = t, ur_token_type = (if name = ''jkt'' then ''DPoP'' else ''Bearer''),
      ur_expires_in = whole_seconds (time_sub expires (si_now_reply io)), ur_alg = sg_alg (sh_signer s),
      ur_cnf = [(name, VStr thumb)]\<rparr>"

lemma shim_upgrades:
  assumes sent: "upgrade_headers E x io classical = Some hs" "upgrade_proof E imp x io classical = Some pf"
    "upgrade_arrives E s (upgrade_call x hs pf) r"
    and holder: "pq_holder E imp x (sh_pq_roots s) (si_now_chain sio) (p_client_id p) k name thumb" "signs_with E k"
      "LookupAlg E (sg_alg k) = Inr (sg_alg k)" "has_prefix (sg_alg k) ''ML-DSA-''" "json_inverse E"
    and token: "Authorize E (sh_validator s) (si_auth sio) ModeLocal r = (Inr p, v)" "tk_value classical \<noteq> []"
      "list_all (\<lambda>c. \<not> is_space c) (tk_value classical)" "sha256 E (bytes_of (tk_value classical)) \<noteq> []"
    and fresh: "snd (ii_pq_proof io) = Some jti" "jti \<noteq> []"
      "\<not> iat_out_of_window (sc_window (sh_cfg s)) (sc_skew (sh_cfg s)) (unix_time (time_unix (fst (ii_pq_proof io)))) (si_now_proof sio)"
      "CheckAndStore (sh_replay s) (replay_key thumb (B64 jti))
         (proof_expiry (sc_window (sh_cfg s)) (sc_skew (sh_cfg s)) (unix_time (time_unix (fst (ii_pq_proof io)))))
         (si_now_proof sio) = (ReplayFresh, rc)"
    and issued: "issue E (s\<lparr>sh_validator := v\<rparr>) sio p (name, thumb) = Some (t, expires)"
  shows "handleUpgrade E s sio r = (Shim_upgraded (upgrade_answer s sio name thumb t expires), s\<lparr>sh_validator := v, sh_replay := rc\<rparr>)"
proof -
  from upgrade_proof_parses [OF sent(2) holder(1,2,5) fresh(1)] obtain j where j: "ParseCompact E pf = Inr j" "j_compact j = pf"
    "jws_alg j = sg_alg k" "jws_typ j = ''pq-binding+jwt''"
    "jws_claims E j = Some (map (\<lambda>(n, v). (n, json_view v))
       (pqProofClaims E (upgradeURL (xc_cfg x)) (tk_value classical) (fst (ii_pq_proof io)) (Some jti)))"
    "jws_verify E pf (sg_alg k) (sg_pubkey k)"
    "xc_kind x = Cert_bound \<Longrightarrow> \<exists>c. xc_pq_id x = Some c
       \<and> map_of (j_header j) ''x5c'' = Some (VArr (map (\<lambda>der. VStr (b64_std_encode der)) (cred_chain c)))"
    "xc_kind x \<noteq> Cert_bound \<Longrightarrow> map_of (j_header j) ''x5c'' = None \<and> map_of (j_header j) ''jwk'' = Some (VObj (sg_jwk k))"
    by blast
  let ?s = "s\<lparr>sh_validator := v\<rparr>"
  obtain scheme rest where hs: "hs = (''Authorization'', scheme @ '' '' @ tk_value classical) # rest" "scheme \<in> {''Bearer'', ''DPoP''}"
    "\<forall>e\<in>set rest. fst e = ''DPoP''"
    using sent(1) by (auto simp: upgrade_headers_def Let_def split: client_kind.splits option.splits)
  have f: "filter (\<lambda>e. fst e = h) rest = []" if "h \<noteq> ''DPoP''" for h using hs(3) that by (auto simp: filter_empty_conv)
  have r: "rq_method r = ''POST''" "header_values r ''Authorization'' = [scheme @ '' '' @ tk_value classical]"
    "header_values r ''X-PQ-Proof'' = [pf]"
    using sent(3) hs(1) f by (auto simp: upgrade_arrives_def upgrade_call_def)
  obtain n where n: "NormalizeHTU E (upgradeURL (xc_cfg x)) = Some n" "NormalizeHTU E n = Some n"
    "NormalizeHTU E (sc_issuer (sh_cfg s) @ rq_path r) = Some n"
    using sent(3) by (auto simp: upgrade_arrives_def upgrade_call_def)
  have b: "bearerToken r = Some (tk_value classical)" by (rule bearer_of_header [OF r(2) hs(2) token(2,3)])
  have c: "check_pq_credential E ?s (si_now_chain sio) j (p_client_id p) = Inr (name, thumb)"
    by (rule credential_passes [OF _ holder(3) j(3)]) (use holder(1) j(2,6-8) in simp_all)
  have p: "checkProofClaims E ?s (si_now_proof sio) r j (tk_value classical) thumb = (None, rc)"
    by (rule claims_pass [OF j(5) token(4) fresh(2) r(1) n(1,2)]) (use n(3) fresh(3,4) in simp_all)
  have "verifyPQProof E ?s sio r (tk_value classical) (p_client_id p) = (Inr (name, thumb), rc)"
    using j(1,3,4) c p holder(4) r(3) by (simp add: verifyPQProof_def ProofHeader_def ProofType_def)
  then show ?thesis
    using token(1) b issued by (simp add: handleUpgrade_def Let_def upgrade_answer_def)
qed

lemma shim_route_upgrade: "mux_find shim_routes ''POST'' ''/v1/upgrade'' = Mux_handler Shim_upgrade"
  by code_simp

lemma shim_serves_upgrade:
  assumes "handleUpgrade E s sio r = (Shim_upgraded u, s')" "rq_method r = ''POST''" "rq_path r = ''/v1/upgrade''"
  shows "fst (shim_handler E detail s sio later form r) = Answer 200 (json_line E (upgrade_json u))"
  using assms by (simp add: shim_handler_def mux_serve_def shim_route_upgrade Let_def)

text \<open>What the client makes of the answer: the token, bound to the credential it holds.\<close>

lemma answer_accepted:
  assumes "SignCompact E (sh_signer s) [(''typ'', VStr ''at+jwt''), (''kid'', VStr (sh_kid s))]
      (issue_claims E s0 now rnd p (name, thumb)) = Some t"
    and "signs_with E (sh_signer s)" "json_inverse E" "has_prefix (sg_alg (sh_signer s)) ''ML-DSA-''"
    and "upgrade_headers E x io classical = Some hs" "upgrade_proof E imp x io classical = Some pf"
    and "url_parse E (upgradeURL (xc_cfg x)) \<noteq> None"
    and "ii_upgrade io (upgrade_call x hs pf) = Http_response 200 (json_line E (upgrade_json (upgrade_answer s sio name thumb t expires)))"
    and "line_travels E (upgrade_json (upgrade_answer s sio name thumb t expires))"
  shows "\<exists>tok. upgradeToPQ E x io classical (Some hs) (Some pf) = Inr tok \<and> tk_value tok = t \<and> tk_post_quantum tok
    \<and> tk_alg tok = sg_alg (sh_signer s) \<and> tk_classical tok = Some (tk_value classical)
    \<and> tk_claims tok = map (\<lambda>(n, v). (n, json_view v)) (issue_claims E s0 now rnd p (name, thumb))"
proof -
  let ?u = "upgrade_answer s sio name thumb t expires"
  from SignCompact_parse [OF assms(1-3)] obtain j where j: "ParseCompact E t = Inr j" "jws_alg j = sg_alg (sh_signer s)"
    "jws_claims E j = Some (map (\<lambda>(n, v). (n, json_view v)) (issue_claims E s0 now rnd p (name, thumb)))" by blast
  from assms(9) obtain b where b: "json_line E (upgrade_json ?u) = b @ [10]" "json_whole E (b @ [10]) = Some (json_view (upgrade_json ?u))"
    "length b < 1048576" by (auto simp: line_travels_def json_line_def)
  have l: "limit_read 1048576 (b @ [10]) = b @ [10]" using b(3) by (simp add: limit_read_def)
  obtain m where m: "json_struct E (b @ [10]) = Some m" "m = map (\<lambda>(n, v). (n, json_view v)) [(''access_token'', VStr (ur_access_token ?u)), (''token_type'', VStr (ur_token_type ?u)),
           (''expires_in'', VInt (ur_expires_in ?u)), (''alg'', VStr (ur_alg ?u)), (''cnf'', VObj (ur_cnf ?u))]"
    using b(2) by (simp add: json_struct_def upgrade_json_def)
  have x: "json_str m ''access_token'' = Some t" "json_str m ''token_type'' = Some (ur_token_type ?u)" "json_str m ''alg'' = Some (ur_alg ?u)"
    "json_int m ''expires_in'' = Some (ur_expires_in ?u)" "\<exists>c. json_member m ''cnf'' = VObj c"
    unfolding m(2) using whole_seconds_range [of "time_sub expires (si_now_reply sio)"]
    by (simp_all add: json_str_def json_int_def json_member_def equal_fold_def to_lower_def to_lower_char_def parse_show_int
        upgrade_answer_def is_duration_def time_sub_def)
  then obtain c where c: "json_member m ''cnf'' = VObj c" by blast
  obtain tok where tok: "newToken E \<lparr>tr_access_token = t, tr_token_type = ur_token_type ?u, tr_expires_in = ur_expires_in ?u,
      tr_scope = [], tr_received_at = ii_received io\<rparr> = Inr tok" "tk_value tok = t" "tk_alg tok = sg_alg (sh_signer s)"
    "tk_claims tok = map (\<lambda>(n, v). (n, json_view v)) (issue_claims E s0 now rnd p (name, thumb))"
    using j by (simp add: newToken_def Let_def)
  have "upgradeToPQ E x io classical (Some hs) (Some pf) =
      Inr (tok\<lparr>tk_post_quantum := True, tk_classical := Some (tk_value classical)\<rparr>)"
    using assms(4,7,8) l m(1) x c tok by (simp add: upgradeToPQ_def Let_def upgrade_call_def b(1))
  then show ?thesis using tok by simp
qed

lemma issued_cnf:
  "cnfMember (map (\<lambda>(n, v). (n, json_view v)) (issue_claims E s now rnd p (name, thumb))) name =
     (if thumb = [] then Inl CE_binding_missing else Inr thumb)"
  by (simp add: cnfMember_def map_of_json_view issue_claims_def)

end
