(* ===== verification/Upgrade_Props.thy ===== *)
theory Upgrade_Props
  imports Upgrade Client_Props
begin

text \<open>
  An upgrade completes, over the client library and the shim; and the example of a client that holds a certificate of the
  CA and one with an ML-DSA key, and upgrades a token at the sample shim.
\<close>

section \<open>The upgrade completes\<close>

text \<open>C6: An upgrade completes.  A client, of either kind, that holds a post-quantum credential the shim can trust sends the
  shim a request that it upgrades, when the shim accepts the classical token: the proof the client builds passes every
  check of the shim, and the token of the answer passes every check of the client.  It is the one the shim issued, signed
  with ML-DSA, bound to the client's credential, and carries the claims of the classical token's authorization.\<close>
theorem upgrade_completes:
  assumes sent: "upgrade_headers E x io classical = Some hs" "upgrade_proof E imp x io classical = Some pf"
    "upgrade_arrives E s (upgrade_call x hs pf) r"
    and holder: "pq_holder E imp x (sh_pq_roots s) (si_now_chain sio) (p_client_id p) k name thumb" "signs_with E k"
      "LookupAlg E (sg_alg k) = Inr (sg_alg k)" "has_prefix (sg_alg k) ''ML-DSA-''" "thumb \<noteq> []" "json_inverse E"
    and token: "Authorize E (sh_validator s) (si_auth sio) ModeLocal r = (Inr p, v)" "tk_value classical \<noteq> []"
      "list_all (\<lambda>c. \<not> is_space c) (tk_value classical)" "sha256 E (bytes_of (tk_value classical)) \<noteq> []"
    and fresh: "snd (ii_pq_proof io) = Some jti" "jti \<noteq> []"
      "\<not> iat_out_of_window (sc_window (sh_cfg s)) (sc_skew (sh_cfg s)) (unix_time (time_unix (fst (ii_pq_proof io)))) (si_now_proof sio)"
      "CheckAndStore (sh_replay s) (replay_key thumb (B64 jti))
         (proof_expiry (sc_window (sh_cfg s)) (sc_skew (sh_cfg s)) (unix_time (time_unix (fst (ii_pq_proof io)))))
         (si_now_proof sio) = (ReplayFresh, rc)"
    and issued: "issue E (s\<lparr>sh_validator := v\<rparr>) sio p (name, thumb) = Some (t, expires)" "signs_with E (sh_signer s)"
      "has_prefix (sg_alg (sh_signer s)) ''ML-DSA-''"
    and answered: "\<forall>st b. fst (shim_handler E detail s sio later form r) = Answer st b
        \<longrightarrow> ii_upgrade io (upgrade_call x hs pf) = Http_response st b"
      "line_travels E (upgrade_json (upgrade_answer s sio name thumb t expires))"
  shows "\<exists>tok. client_upgrade E imp x io classical = Inr tok \<and> tk_value tok = t \<and> tk_binding tok = name \<and> tk_thumbprint tok = thumb
    \<and> tk_post_quantum tok \<and> has_prefix (tk_alg tok) ''ML-DSA-''
    \<and> (\<forall>n\<in>set carried_claims. map_of (tk_claims tok) n = map_option json_view (map_of (p_claims p) n))"
proof -
  have h: "handleUpgrade E s sio r = (Shim_upgraded (upgrade_answer s sio name thumb t expires), s\<lparr>sh_validator := v, sh_replay := rc\<rparr>)"
    by (rule shim_upgrades [OF sent holder(1-4,6) token fresh issued(1)])
  have r: "rq_method r = ''POST''" "rq_path r = ''/v1/upgrade''" "url_parse E (upgradeURL (xc_cfg x)) \<noteq> None"
    using sent(3) by (simp_all add: upgrade_arrives_def upgrade_call_def)
  note shim_serves_upgrade [OF h r(1,2), of detail later form]
  then have a: "ii_upgrade io (upgrade_call x hs pf) =
      Http_response 200 (json_line E (upgrade_json (upgrade_answer s sio name thumb t expires)))"
    using answered(1) by blast
  let ?s = "s\<lparr>sh_validator := v\<rparr>"
  obtain rnd where i: "SignCompact E (sh_signer s) [(''typ'', VStr ''at+jwt''), (''kid'', VStr (sh_kid s))]
      (issue_claims E ?s (si_now_issue sio) rnd p (name, thumb)) = Some t"
    using issued(1) by (auto elim: issue_Some)
  let ?c = "issue_claims E ?s (si_now_issue sio) rnd p (name, thumb)"
  obtain tok where tok: "upgradeToPQ E x io classical (Some hs) (Some pf) = Inr tok" "tk_value tok = t" "tk_post_quantum tok"
    "tk_alg tok = sg_alg (sh_signer s)" "tk_claims tok = map (\<lambda>(n, v). (n, json_view v)) ?c"
    using answer_accepted [OF i issued(2) holder(6) issued(3) sent(1,2) r(3) a answered(2)] by blast
  have c: "cnfMember (tk_claims tok) name = Inr thumb" using holder(5) by (simp add: tok(5) issued_cnf)
  have "\<exists>out. client_upgrade E imp x io classical = Inr out \<and> tk_value out = tk_value tok \<and> tk_binding out = name
      \<and> tk_thumbprint out = thumb \<and> tk_post_quantum out = tk_post_quantum tok \<and> tk_alg out = tk_alg tok \<and> tk_claims out = tk_claims tok"
    using tok(1) c sent(1,2) holder(1)
    by (auto simp: client_upgrade_def upgradeCertBound_def upgradeDPoP_def upgrade_headers_def upgrade_proof_def pq_holder_def
        verifyPQBinding_def Let_def split: client_kind.splits option.splits)
  then show ?thesis using tok issued(3) by (auto simp: map_of_json_view issue_claims_carried)
qed


section \<open>The sample client\<close>

definition pq_leaf :: cert where
  "pq_leaf = sample_leaf\<lparr>c_raw := [50], c_pub := MLDSA_key MLDSA65 [2]\<rparr>"

definition pq_identity :: "bytes identity" where
  "pq_identity = \<lparr>cred_chain = [[50]], cred_key = Some [2], cred_leaf = pq_leaf\<rparr>"

definition tooled :: "'k ext \<Rightarrow> (gval \<Rightarrow> bytes option) \<Rightarrow> (string \<Rightarrow> 'k \<Rightarrow> jobj \<Rightarrow> bytes \<Rightarrow> string option) \<Rightarrow> (bytes \<Rightarrow> cert option) \<Rightarrow> 'k ext" where
  "tooled E enc sig prs = E\<lparr>json_encode := enc, jws_sign := sig, x509_parse := prs\<rparr>"

abbreviation "pq_header \<equiv> [(''typ'', VStr ''pq-binding+jwt''), (''x5c'', VArr [VStr (b64_std_encode [50])])]"
abbreviation "at_header \<equiv> [(''typ'', VStr ''at+jwt''), (''kid'', VStr ''CQ'')]"

definition pq_encode :: "gval \<Rightarrow> bytes option" where
  "pq_encode v =
     (if v = VObj sample_upgrade_claims then Some [21] else if v = VObj sample_cert_issued then Some [22]
      else if v = VObj sample_answer then Some [30] else None)"

definition pq_sign :: "string \<Rightarrow> nat \<Rightarrow> jobj \<Rightarrow> bytes \<Rightarrow> string option" where
  "pq_sign alg key header payload =
     (if header = pq_header \<and> payload = [21] then Some ''FA.FQ.AA''
      else if header = at_header \<and> payload = [22] then Some ''Cw.Fg.AA'' else None)"

definition pq_ext :: "nat ext" where
  "pq_ext = tooled sample_ext pq_encode pq_sign (\<lambda>b. if b = [50] then Some pq_leaf else None)"

text \<open>The resource server's check uses none of the three.\<close>

lemma tooled_sel [simp]:
  "sha256 (tooled E a b c) = sha256 E" "json_decode (tooled E a b c) = json_decode E" "num_float64 (tooled E a b c) = num_float64 E"
  "url_parse (tooled E a b c) = url_parse E" "x509_verify (tooled E a b c) = x509_verify E" "jwa_known (tooled E a b c) = jwa_known E"
  "jwk_parse (tooled E a b c) = jwk_parse E" "jwk_public (tooled E a b c) = jwk_public E" "jwk_thumb (tooled E a b c) = jwk_thumb E"
  "jwk_import (tooled E a b c) = jwk_import E" "jwk_use (tooled E a b c) = jwk_use E" "jwk_alg (tooled E a b c) = jwk_alg E"
  "jws_verify (tooled E a b c) = jws_verify E" "jwks_parse (tooled E a b c) = jwks_parse E" "jwk_object (tooled E a b c) = jwk_object E"
  "rfc3339 (tooled E a b c) = rfc3339 E" "json_whole (tooled E a b c) = json_whole E"
  "json_encode (tooled E a b c) = a" "jws_sign (tooled E a b c) = b" "x509_parse (tooled E a b c) = c"
  by (simp_all add: tooled_def)

lemmas under_cases = option.case_cong sum.case_cong list.case_cong prod.case_cong gval.case_cong claim_num.case_cong http_result.case_cong if_cong let_cong

lemma tooled_jose [simp]:
  "decodeObject (tooled E a b c) d = decodeObject E d" "LookupAlg (tooled E a b c) x = LookupAlg E x"
  "ThumbprintS256 (tooled E a b c) l = ThumbprintS256 E l" "token_hash (tooled E a b c) tok = token_hash E tok"
  "NormalizeHTU (tooled E a b c) u = NormalizeHTU E u" "jwk_PublicKey (tooled E a b c) m = jwk_PublicKey E m"
  "jwk_Thumbprint (tooled E a b c) m = jwk_Thumbprint E m" "numericClaim (tooled E a b c) m n = numericClaim E m n"
  "VerifyChain (tooled E a b c) ch roots now use = VerifyChain E ch roots now use"
  by (simp_all add: decodeObject_def LookupAlg_def ThumbprintS256_def token_hash_def NormalizeHTU_def jwk_PublicKey_def
      jwk_Thumbprint_def numericClaim_def VerifyChain_def cong: under_cases)

lemma tooled_parse [simp]:
  "ParseCompact (tooled E a b c) tok = ParseCompact E tok" "jws_claims (tooled E a b c) j = jws_claims E j"
  "asKey (tooled E a b c) k = asKey E k"
  by (simp_all add: ParseCompact_def jws_claims_def cong: under_cases) (cases k; simp)

lemma tooled_verify [simp]:
  "VerifySignature (tooled E a b c) j ak = VerifySignature E j ak" "check_times (tooled E a b c) cfg now m = check_times E cfg now m"
  "check_key (tooled E a b c) al k = check_key E al k" "ks_refresh (tooled E a b c) s io' = ks_refresh E s io'"
  by (simp_all add: VerifySignature_def check_times_def check_key_def ks_refresh_def cong: under_cases)

lemma tooled_validate [simp]: "validateLocally (tooled E a b c) v ai tok = validateLocally E v ai tok"
  by (simp add: validateLocally_def ks_key_def cong: under_cases)

lemma tooled_binding [simp]: "check_binding (tooled E a b c) v ai r s tok m p = check_binding E v ai r s tok m p"
  by (simp add: check_binding_def checkCertificateBinding_def checkDPoPBinding_def check_proof_key_def check_proof_claims_def
      requestHTU_def cong: under_cases)

lemma tooled_Authorize: "Authorize (tooled E a b c) v ai ModeLocal r = Authorize E v ai ModeLocal r"
  by (simp add: Authorize_def token_claims_def cong: under_cases)


section \<open>The exchange\<close>

definition pq_client :: "(bytes, nat) xclient" where
  "pq_client = xapp_client\<lparr>xc_cfg := xapp_cfg\<lparr>cc_method := ''B'', cc_pq_enabled := True, cc_pq_shim_url := ''https://s''\<rparr>,
     xc_kind := Cert_bound, xc_id := Some xapp_id, xc_pq_id := Some pq_identity\<rparr>"

definition pq_classical :: token where
  "pq_classical = \<lparr>tk_value = ''AQ.Ag.AA'', tk_type = ''Bearer'', tk_issued_at = t0, tk_expires_at = t0 + 300 * second, tk_claims = [],
     tk_binding = ''x5t#S256'', tk_thumbprint = ''yA'', tk_cert_not_after = 0, tk_alg = ''ES256'', tk_post_quantum = False,
     tk_classical = None\<rparr>"

definition pq_io :: "bytes issue_io" where
  "pq_io = xapp_issue_io\<lparr>ii_upgrade := (\<lambda>_. Http_response 200 [30, 10]), ii_pq_proof := (t0, Some [1])\<rparr>"

definition pq_request :: request where
  "pq_request =
     \<lparr>rq_method = ''POST'', rq_host = ''s'', rq_path = ''/v1/upgrade'', rq_tls = Some [sample_leaf],
      rq_headers = [(''Authorization'', ''Bearer AQ.Ag.AA''), (''X-PQ-Proof'', ''FA.FQ.AA'')]\<rparr>"

abbreviation "pq_signer \<equiv> sh_signer sample_shim"

lemma pq_ext_sel [simp]:
  "json_encode pq_ext = pq_encode" "jws_sign pq_ext = pq_sign" "x509_parse pq_ext = (\<lambda>b. if b = [50] then Some pq_leaf else None)"
  "sha256 pq_ext = take 2" "jwk_import pq_ext = (\<lambda>_. Some 7)" "jwk_public pq_ext = Some" "rfc3339 pq_ext = (\<lambda>_. ''1970'')"
  "jwk_object pq_ext = (\<lambda>_. Some [(''kty'', VStr ''AKP'')])" "json_decode pq_ext = map_of sample_json" "json_whole pq_ext = map_of sample_json"
  "url_parse pq_ext = sample_url" "LookupAlg pq_ext alg = LookupAlg sample_ext alg" "token_hash pq_ext tok = token_hash sample_ext tok"
  "NormalizeHTU pq_ext u = NormalizeHTU sample_ext u" "ParseCompact pq_ext tok = ParseCompact sample_ext tok"
  "VerifyChain pq_ext ch roots now use = VerifyChain sample_ext ch roots now use" "ThumbprintS256 pq_ext l = ThumbprintS256 sample_ext l"
  "jws_verify pq_ext tok alg 7"
  by (simp_all add: pq_ext_def) (simp_all add: sample_ext_def)

lemma pq_client_sel [simp]:
  "xc_kind pq_client = Cert_bound" "xc_pq_id pq_client = Some pq_identity" "xc_id pq_client = Some xapp_id"
  "upgradeURL (xc_cfg pq_client) = ''https://s/v1/upgrade''" "ii_pq_proof pq_io = (t0, Some [1])" "tk_value pq_classical = ''AQ.Ag.AA''"
  by (simp_all add: pq_client_def upgradeURL_def xapp_client_def pq_io_def pq_classical_def trim_right_def)

lemma pq_htu: "NormalizeHTU sample_ext ''https://s/v1/upgrade'' = Some ''https://s/v1/upgrade''"
  by (simp add: NormalizeHTU_def sample_ext_def sample_url_def norm_authority_def url_hostname_def
      url_port_def split_host_port_def last_colon_def cut_def strip_brackets_def has_prefix_def to_lower_def to_lower_char_def)

lemma pq_b64: "B64 [1] = ''AQ''" "B64 [50] = ''Mg''"
  by (simp_all add: B64_def b64_char_def b64_alphabet_def)

lemma pq_decode: "b64_decode ''FA'' = Some [20]" "b64_decode ''FQ'' = Some [21]" "b64_decode ''Fg'' = Some [22]"
proof -
  have "b64_val CHR ''F'' = Some 5" using b64_val_char [of 5] by (simp add: b64_char_def b64_alphabet_def)
  then show "b64_decode ''FA'' = Some [20]" "b64_decode ''FQ'' = Some [21]" "b64_decode ''Fg'' = Some [22]"
    by (simp_all add: b64_decode_def sample_b64_val)
qed

lemma pq_parse:
  "ParseCompact sample_ext ''FA.FQ.AA'' = Inr \<lparr>j_compact = ''FA.FQ.AA'', j_header = [(''typ'', VStr ''pq-binding+jwt''),
     (''alg'', VStr ''ML-DSA-65''), (''x5c'', VArr [VStr (b64_std_encode [50])])], j_payload = [21]\<rparr>"
  "ParseCompact sample_ext ''Cw.Fg.AA'' = Inr \<lparr>j_compact = ''Cw.Fg.AA'', j_header = [(''alg'', VStr ''ML-DSA-65''),
     (''typ'', VStr ''at+jwt''), (''kid'', VStr ''CQ'')], j_payload = [22]\<rparr>"
  by (simp_all add: ParseCompact_def decodeObject_def sample_ext_def sample_json_def pq_decode)

lemma pq_signs: "signs_with pq_ext pq_signer"
  by (auto simp: signs_with_def pq_sign_def pq_parse split: if_splits)

lemma pq_inverse: "json_inverse pq_ext"
  by (auto simp: json_inverse_def pq_encode_def sample_json_def split: if_splits)

lemma pq_SignerFromKey: "SignerFromKey pq_ext ''ML-DSA-65'' (Jwk_key 7) = Some pq_signer"
  by (simp add: SignerFromKey_def JWKFromKey_def) (simp add: sample_shim_def)

lemma pq_hash: "token_hash sample_ext ''AQ.Ag.AA'' = ''QVE''"
  by (simp add: token_hash_def sample_ext_def B64_def b64_char_def b64_alphabet_def bytes_of_def)

lemma pq_claims: "pqProofClaims pq_ext ''https://s/v1/upgrade'' ''AQ.Ag.AA'' t0 (Some [1]) = sample_upgrade_claims"
proof -
  have "B64 (take 2 (bytes_of ''AQ.Ag.AA'')) = ''QVE''" using pq_hash by (simp add: token_hash_def sample_ext_def)
  then show ?thesis by (simp add: pqProofClaims_def pq_htu pq_b64 sample_unix sample_upgrade_claims_def)
qed

lemma pq_thumb: "ThumbprintS256 sample_ext pq_leaf = ''Mg''"
  using pq_b64 by (simp add: ThumbprintS256_def pq_leaf_def sample_ext_def B64_def)

lemma pq_chain: "VerifyChain sample_ext [pq_leaf] [sample_root] t0 ClientAuth = Inr ()"
  by (simp add: VerifyChain_def pq_leaf_def sample_leaf_def sample_root_def sample_ext_def)

lemma pq_holds:
  "pq_holder pq_ext (\<lambda>_. Some 7) pq_client (sh_pq_roots sample_shim) t0 ''xapp-a'' pq_signer ''x5t#S256'' ''Mg''"
proof -
  have l: "c_pub pq_leaf = MLDSA_key MLDSA65 [2]" "c_cn pq_leaf = ''xapp-a''" by (simp_all add: pq_leaf_def sample_leaf_def)
  have r: "sh_pq_roots sample_shim = [sample_root]" by (simp add: sample_shim_def)
  show ?thesis
    by (simp add: pq_holder_def pq_identity_def l r pq_SignerFromKey pq_chain pq_thumb)
qed


lemma pq_authorized:
  "Authorize pq_ext (sh_validator sample_shim) (si_auth sample_shim_io) ModeLocal pq_request =
     (Inr sample_principal, sample_validator\<lparr>v_keys := sample_keys\<rparr>)"
proof -
  have "Authorize sample_ext sample_validator (sample_io t0) ModeLocal pq_request =
     (Inr sample_principal, sample_validator\<lparr>v_keys := sample_keys\<rparr>)"
    by (rule sample_authorized) (simp_all add: parseAuthorization_def header_values_def pq_request_def trim_space_def cut_def
        is_space_def Let_def)
  then show ?thesis by (simp add: pq_ext_def tooled_Authorize)
qed

lemma pq_sent:
  "upgrade_headers pq_ext pq_client pq_io pq_classical = Some [(''Authorization'', ''Bearer AQ.Ag.AA'')]"
  "upgrade_proof pq_ext (\<lambda>_. Some 7) pq_client pq_io pq_classical = Some ''FA.FQ.AA''"
proof -
  have l: "c_pub pq_leaf = MLDSA_key MLDSA65 [2]" by (simp add: pq_leaf_def)
  have i: "cred_key pq_identity = Some [2]" "cred_leaf pq_identity = pq_leaf" "cred_chain pq_identity = [[50]]"
    by (simp_all add: pq_identity_def)
  show "upgrade_headers pq_ext pq_client pq_io pq_classical = Some [(''Authorization'', ''Bearer AQ.Ag.AA'')]"
    by (simp add: upgrade_headers_def)
  show "upgrade_proof pq_ext (\<lambda>_. Some 7) pq_client pq_io pq_classical = Some ''FA.FQ.AA''"
    by (simp add: upgrade_proof_def pqCertProof_def i l pq_SignerFromKey pq_claims SignCompact_def pq_encode_def pq_sign_def)
qed

lemma pq_arrives: "upgrade_arrives pq_ext sample_shim (upgrade_call pq_client [(''Authorization'', ''Bearer AQ.Ag.AA'')] ''FA.FQ.AA'') pq_request"
  by (simp add: upgrade_arrives_def upgrade_call_def pq_request_def header_values_def pq_htu sample_url_def)

lemma pq_fresh:
  "\<not> iat_out_of_window (sc_window (sh_cfg sample_shim)) (sc_skew (sh_cfg sample_shim)) (unix_time (time_unix (fst (ii_pq_proof pq_io))))
     (si_now_proof sample_shim_io)"
  "CheckAndStore (sh_replay sample_shim) (replay_key ''Mg'' (B64 [1]))
     (proof_expiry (sc_window (sh_cfg sample_shim)) (sc_skew (sh_cfg sample_shim)) (unix_time (time_unix (fst (ii_pq_proof pq_io)))))
     (si_now_proof sample_shim_io) = (ReplayFresh, \<lparr>rc_entries = [(''Mg:AQ'', t0 + 120 * second)], rc_max = 2, rc_last_sweep = t0\<rparr>)"
proof -
  have w: "\<not> iat_out_of_window (60 * second) (30 * second) t0 t0"
    using sample_time_bounds by (simp add: iat_out_of_window_def wrap64_id)
  have e: "proof_expiry (60 * second) (30 * second) t0 = t0 + 120 * second"
    using sample_time_bounds by (simp add: proof_expiry_def wrap64_id)
  show "\<not> iat_out_of_window (sc_window (sh_cfg sample_shim)) (sc_skew (sh_cfg sample_shim)) (unix_time (time_unix (fst (ii_pq_proof pq_io))))
     (si_now_proof sample_shim_io)"
    using w by (simp add: sample_unix)
  show "CheckAndStore (sh_replay sample_shim) (replay_key ''Mg'' (B64 [1]))
     (proof_expiry (sc_window (sh_cfg sample_shim)) (sc_skew (sh_cfg sample_shim)) (unix_time (time_unix (fst (ii_pq_proof pq_io)))))
     (si_now_proof sample_shim_io) = (ReplayFresh, \<lparr>rc_entries = [(''Mg:AQ'', t0 + 120 * second)], rc_max = 2, rc_last_sweep = t0\<rparr>)"
    using e by (simp add: sample_unix sample_cache replay_key_def pq_b64)
qed

lemma pq_issued:
  "issue pq_ext (sample_shim\<lparr>sh_validator := v\<rparr>) sample_shim_io sample_principal (''x5t#S256'', ''Mg'') = Some (''Cw.Fg.AA'', t0 + 300 * second)"
proof -
  have "issue_expiry (sh_cfg sample_shim) t0 (sample_claims xs) = t0 + 300 * second" for xs by (rule sample_expiry)
  from this [of "sample_cnf ''x5t#S256'' ''yA''"]
  have x: "issue_expiry (sh_cfg sample_shim) t0 (p_claims sample_principal) = t0 + 300 * second" by simp
  have "issue_claims pq_ext (sample_shim\<lparr>sh_validator := v\<rparr>) t0 [1] sample_principal (''x5t#S256'', ''Mg'') = sample_cert_issued"
    using x sample_unix by (simp add: issue_claims_def carried_claims_def map_filter_simps pq_b64 sample_cert_issued_def)
  moreover have "sample_cert_issued \<noteq> sample_upgrade_claims" by (simp add: sample_cert_issued_def sample_upgrade_claims_def)
  ultimately show ?thesis using x by (simp add: issue_def SignCompact_def pq_encode_def pq_sign_def)
qed

lemma pq_answer: "upgrade_json (upgrade_answer sample_shim sample_shim_io ''x5t#S256'' ''Mg'' ''Cw.Fg.AA'' (t0 + 300 * second)) = VObj sample_answer"
proof -
  have n: "si_now_reply sample_shim_io = t0" by (simp add: sample_shim_io_def)
  have w: "whole_seconds 300000000000 = 300" using seconds_whole [of 300] by (simp add: whole_seconds_def)
  show ?thesis by (simp add: upgrade_json_def upgrade_answer_def n w time_sub_def sample_answer_def)
qed

lemma pq_line: "json_encode pq_ext (VObj sample_answer) = Some [30]"
  by (simp add: pq_encode_def sample_answer_def sample_upgrade_claims_def sample_cert_issued_def)

lemma pq_mldsa: "LookupAlg pq_ext (sg_alg pq_signer) = Inr (sg_alg pq_signer)" "has_prefix (sg_alg pq_signer) ''ML-DSA-''"
  by (simp_all add: has_prefix_def)

lemma pq_handled:
  "fst (shim_handler pq_ext detail sample_shim sample_shim_io later form pq_request) = Answer 200 [30, 10]"
proof -
  have h: "handleUpgrade pq_ext sample_shim sample_shim_io pq_request =
     (Shim_upgraded (upgrade_answer sample_shim sample_shim_io ''x5t#S256'' ''Mg'' ''Cw.Fg.AA'' (t0 + 300 * second)),
      sample_shim\<lparr>sh_validator := sample_validator\<lparr>v_keys := sample_keys\<rparr>,
        sh_replay := \<lparr>rc_entries = [(''Mg:AQ'', t0 + 120 * second)], rc_max = 2, rc_last_sweep = t0\<rparr>\<rparr>)"
    by (rule shim_upgrades [OF pq_sent pq_arrives _ pq_signs pq_mldsa pq_inverse pq_authorized _ _ _ _ _ pq_fresh pq_issued])
      (use pq_holds in \<open>simp_all add: is_space_def bytes_of_def sample_principal_def base_principal_def get_str_def\<close>)
  have "rq_method pq_request = ''POST''" "rq_path pq_request = ''/v1/upgrade''" by (simp_all add: pq_request_def)
  from shim_serves_upgrade [OF h this, of detail later form] show ?thesis
    unfolding pq_answer by (simp add: json_line_def pq_line del: pq_ext_sel)
qed

theorem upgrade_completes_witness:
  "\<exists>tok. client_upgrade pq_ext (\<lambda>_. Some 7) pq_client pq_io pq_classical = Inr tok \<and> tk_value tok = ''Cw.Fg.AA''
     \<and> tk_thumbprint tok = ''Mg'' \<and> tk_post_quantum tok"
proof -
  have h: "p_client_id sample_principal = ''xapp-a''"
    by (simp add: sample_principal_def base_principal_def get_str_def)
  have l: "line_travels pq_ext (upgrade_json (upgrade_answer sample_shim sample_shim_io ''x5t#S256'' ''Mg'' ''Cw.Fg.AA'' (t0 + 300 * second)))"
    unfolding pq_answer line_travels_def by (rule exI [of _ "[30]"]) (use pq_line in \<open>simp add: sample_json_def\<close>)
  have u: "\<forall>st b. fst (shim_handler pq_ext (\<lambda>_. []) sample_shim sample_shim_io t0 None pq_request) = Answer st b
     \<longrightarrow> ii_upgrade pq_io (upgrade_call pq_client [(''Authorization'', ''Bearer AQ.Ag.AA'')] ''FA.FQ.AA'') = Http_response st b"
    by (simp add: pq_handled) (simp add: pq_io_def)
  have "\<exists>tok. client_upgrade pq_ext (\<lambda>_. Some 7) pq_client pq_io pq_classical = Inr tok \<and> tk_value tok = ''Cw.Fg.AA''
      \<and> tk_binding tok = ''x5t#S256'' \<and> tk_thumbprint tok = ''Mg'' \<and> tk_post_quantum tok \<and> has_prefix (tk_alg tok) ''ML-DSA-''
      \<and> (\<forall>n\<in>set carried_claims. map_of (tk_claims tok) n = map_option json_view (map_of (p_claims sample_principal) n))"
    by (rule upgrade_completes [OF pq_sent pq_arrives _ pq_signs pq_mldsa _ pq_inverse pq_authorized _ _ _ _ _ pq_fresh
          pq_issued pq_signs pq_mldsa(2) u l])
      (use pq_holds h in \<open>simp_all add: is_space_def bytes_of_def\<close>)
  then show ?thesis by blast
qed

end
