(* ===== verification/Bench.thy ===== *)
theory Bench
  imports Walkthrough
begin

text \<open>
  \<open>bench/cmd/bench/main.go\<close>: the measurements of the three methods and the table they are written to.  Clock
  readings enter as the durations they give; the lines printed on the way are not modelled, but for the percentile
  they show, which a series without samples does not have.
\<close>

section \<open>Rows\<close>

record row =
  rw_method :: string
  rw_metric :: string
  rw_variant :: string
  rw_unit :: string
  rw_samples :: "double list"
  rw_value :: "double option"

definition bench_header :: "string list" where
  "bench_header = [''method'', ''metric'', ''variant'', ''unit'', ''samples'', ''p50'', ''p95'', ''p99'', ''mean'', ''min'', ''max'', ''value'']"

text \<open>The nearest rank; on no samples the index is out of range.\<close>

definition percentile_rank :: "nat \<Rightarrow> double \<Rightarrow> int" where
  "percentile_rank n p = d_ceil_int (d_mul (d_div p (d_of_int 100)) (d_of_int (int n)))"

definition pct :: "double list \<Rightarrow> double \<Rightarrow> double option" where
  "pct s p = (if s = [] then None else Some (s ! nat (max 0 (min (percentile_rank (length s) p - 1) (int (length s) - 1)))))"

definition d_sum :: "double list \<Rightarrow> double" where
  "d_sum s = foldl d_add (Finite 0) s"

definition row_record :: "row \<Rightarrow> string list" where
  "row_record r =
     [rw_method r, rw_metric r, rw_variant r, rw_unit r] @
     (case rw_value r of
        Some v \<Rightarrow> [''1'', [], [], [], [], [], [], format_f3 v]
      | None \<Rightarrow>
          (let s = sort (rw_samples r);
               p = (\<lambda>k. format_f3 (case pct s (d_of_int k) of Some v \<Rightarrow> v | None \<Rightarrow> Finite 0))
           in if s = [] then [''0'', [], [], [], [], [], [], []]
              else [show_nat (length s), p 50, p 95, p 99, format_f3 (d_div (d_sum s) (d_of_int (int (length s)))),
                    format_f3 (hd s), format_f3 (last s), []]))"

definition series :: "string \<Rightarrow> string \<Rightarrow> string \<Rightarrow> duration list \<Rightarrow> row" where
  "series meth metric variant ns =
     \<lparr>rw_method = meth, rw_metric = metric, rw_variant = variant, rw_unit = ''ms'',
      rw_samples = map (\<lambda>d. d_div (d_of_int d) (d_of_int 1000000)) ns, rw_value = None\<rparr>"

definition scalar :: "string \<Rightarrow> string \<Rightarrow> string \<Rightarrow> string \<Rightarrow> double \<Rightarrow> row" where
  "scalar meth metric variant unit v =
     \<lparr>rw_method = meth, rw_metric = metric, rw_variant = variant, rw_unit = unit, rw_samples = [], rw_value = Some v\<rparr>"

definition meanOf :: "double list \<Rightarrow> double" where
  "meanOf v = (if v = [] then Finite 0 else d_div (d_sum v) (d_of_int (int (length v))))"

text \<open>\<open>encoding/csv\<close>: a field is quoted when it needs it.\<close>

definition csv_needs_quotes :: "string \<Rightarrow> bool" where
  "csv_needs_quotes f \<longleftrightarrow> f \<noteq> [] \<and>
     (f = [char_of (92::nat), CHR ''.''] \<or> list_ex (\<lambda>c. c \<in> {CHR '','', CHR 0x22, CHR 0x0D, CHR 0x0A}) f \<or> is_space (hd f))"

definition csv_field :: "string \<Rightarrow> string" where
  "csv_field f =
     (if csv_needs_quotes f
      then CHR 0x22 # concat (map (\<lambda>c. if c = CHR 0x22 then [c, c] else [c]) f) @ [CHR 0x22] else f)"

fun csv_record :: "string list \<Rightarrow> string" where
  "csv_record [] = [CHR 0x0A]"
| "csv_record [f] = csv_field f @ [CHR 0x0A]"
| "csv_record (f # fs) = csv_field f @ '','' @ csv_record fs"

definition bench_writeCSV :: "files \<Rightarrow> file_outcome \<Rightarrow> string \<Rightarrow> row list \<Rightarrow> bool \<times> files" where
  "bench_writeCSV fs out path rows =
     WriteFile fs out path (bytes_of (concat (map csv_record (bench_header # map row_record rows))))"


section \<open>Configuration\<close>

record bench_params =
  bp_tokens :: int
  bp_resources :: int
  bp_rotations :: int
  bp_warmup :: int
  bp_concurrency :: int
  bp_rps_duration :: duration
  bp_lifetimes :: "duration list"
  bp_methods :: "string list"

record 's bench =
  bn_cfg :: "'s client_config"
  bn_onboarding :: "'s onboarding"
  bn_resource :: string
  bn_client_id :: "string \<Rightarrow> string"
  bn_lifetime :: "string \<Rightarrow> duration"
  bn_params :: bench_params

text \<open>A lifetime that does not parse is an error and left out.\<close>

fun bench_lifetimes :: "'k ext \<Rightarrow> string list \<Rightarrow> duration list env_reader" where
  "bench_lifetimes E [] = State_Monad.return []"
| "bench_lifetimes E (l # ls) = do {
     d \<leftarrow> (case parse_duration E l of
            None \<Rightarrow> env_err (Env_failed ''BENCH_ROTATION_LIFETIMES'') []
          | Some d \<Rightarrow> State_Monad.return [d]);
     ds \<leftarrow> bench_lifetimes E ls;
     State_Monad.return (d @ ds)
   }"

definition by_method :: "'a \<Rightarrow> 'a \<Rightarrow> 'a \<Rightarrow> 'a \<Rightarrow> string \<Rightarrow> 'a" where
  "by_method a b c zero m = (if m = MethodLongTerm then a else if m = MethodEphemeral then b else if m = MethodDPoP then c else zero)"

definition bench_ConfigFromEnv ::
  "'k ext \<Rightarrow> (string \<Rightarrow> string option) \<Rightarrow>
     env_error list + 's client_config \<times> string \<times> (string \<Rightarrow> string) \<times> (string \<Rightarrow> duration) \<times> bench_params \<times> string \<times> string \<times> string" where
  "bench_ConfigFromEnv E g = env_result (do {
     tokens \<leftarrow> env_int g ''BENCH_TOKEN_N'' 100;
     resources \<leftarrow> env_int g ''BENCH_RESOURCE_N'' 300;
     rotations \<leftarrow> env_int g ''BENCH_ROTATION_N'' 30;
     warmup \<leftarrow> env_int g ''BENCH_WARMUP'' 10;
     concurrency \<leftarrow> env_int g ''BENCH_CONCURRENCY'' 4;
     rps \<leftarrow> env_dur E g ''BENCH_RPS_DURATION'' (10 * second);
     methods \<leftarrow> env_list g ''BENCH_METHODS'' [''A'', ''B'', ''C''];
     texts \<leftarrow> env_list g ''BENCH_ROTATION_LIFETIMES'' [''5m'', ''15m'', ''1h'', ''24h''];
     lifetimes \<leftarrow> bench_lifetimes E texts;
     resource \<leftarrow> env_req g ''RESOURCE_URL'';
     longterm \<leftarrow> env_req g ''LONGTERM_CLIENT_ID'';
     ephemeral \<leftarrow> env_req g ''EPHEMERAL_CLIENT_ID'';
     dpop \<leftarrow> env_req g ''DPOP_CLIENT_ID'';
     lta \<leftarrow> env_dur E g ''LONGTERM_CERT_LIFETIME'' (168 * 3600 * second);
     ltb \<leftarrow> env_dur E g ''EPHEMERAL_CERT_LIFETIME'' (15 * 60 * second);
     ltc \<leftarrow> env_dur E g ''LONGTERM_CERT_LIFETIME'' (168 * 3600 * second);
     token_url \<leftarrow> env_req g ''KEYCLOAK_TOKEN_URL'';
     scope \<leftarrow> env_str g ''TOKEN_SCOPE'' [];
     anchors \<leftarrow> env_list g ''RIC_TRUST_BUNDLE'' [];
     ca \<leftarrow> env_req g ''RIC_CA_URL'';
     dpop_alg \<leftarrow> env_str g ''DPOP_ALG'' ''ES256'';
     onb_cert \<leftarrow> env_req g ''SMO_ONBOARDING_CERT'';
     onb_key \<leftarrow> env_req g ''SMO_ONBOARDING_KEY'';
     org \<leftarrow> env_req g ''ORG'';
     overrides \<leftarrow> env_str g ''DIAL_OVERRIDES'' [];
     env_fail_if (ParseDialOverrides overrides = None) ''DIAL_OVERRIDES'';
     State_Monad.return
       (\<lparr>cc_method = [], cc_client_id = [], cc_token_url = token_url, cc_scope = scope, cc_trust_bundle = anchors, cc_ca_url = ca,
         cc_bootstrap_cert = [], cc_bootstrap_key = [], cc_bootstrap = None, cc_identity_dir = [],
         cc_key_alg = ''EC-P256'', cc_cert_lifetime = 0, cc_renew_before = 0, cc_rotation = RotateOnCertExpiry,
         cc_dns_names = [], cc_dpop_alg = dpop_alg, cc_pq_enabled = False, cc_pq_issuer = [], cc_pq_shim_url = [],
         cc_pq_key_alg = [], cc_pq_dpop_alg = [], cc_pq_cert_lifetime = 0, cc_pq_bootstrap_cert = [],
         cc_pq_bootstrap_key = [], cc_pq_bootstrap = None, cc_pq_identity_dir = [], cc_pq_kex_only = False,
         cc_pq_proof_validity = 0, cc_pq_upgrade_timeout = 0,
         cc_dial_overrides = (case ParseDialOverrides overrides of Some os \<Rightarrow> os | None \<Rightarrow> []),
         cc_http_timeout = 30 * second\<rparr>,
        trim_right CHR ''/'' resource, by_method longterm ephemeral dpop [], by_method lta ltb ltc 0,
        \<lparr>bp_tokens = tokens, bp_resources = resources, bp_rotations = rotations, bp_warmup = warmup, bp_concurrency = concurrency,
         bp_rps_duration = rps, bp_lifetimes = lifetimes, bp_methods = methods\<rparr>,
        onb_cert, onb_key, org)
   })"

definition bench_setup :: "'s pem_lib \<Rightarrow> 'k ext \<Rightarrow> (string \<Rightarrow> string option) \<Rightarrow> files \<Rightarrow> 's bench option" where
  "bench_setup L E g fs =
     (case bench_ConfigFromEnv E g of
        Inl _ \<Rightarrow> None
      | Inr (cfg, resource, ids, lifetime, params, cert, key, org) \<Rightarrow>
          map_option (\<lambda>o1. \<lparr>bn_cfg = cfg, bn_onboarding = o1, bn_resource = resource, bn_client_id = ids, bn_lifetime = lifetime, bn_params = params\<rparr>)
            (LoadOnboarding L E fs cert key org))"


section \<open>The measurements\<close>

text \<open>A run ends early with an error or with a panic.\<close>

datatype bench_stop = Stop_error | Stop_panic

type_synonym ('x, 'a) measured = "'x \<Rightarrow> (bench_stop + 'a) \<times> 'x"

definition bench_then :: "('x, 'a) measured \<Rightarrow> ('a \<Rightarrow> ('x, 'b) measured) \<Rightarrow> ('x, 'b) measured" where
  "bench_then f k x = (case f x of (Inl e, x1) \<Rightarrow> (Inl e, x1) | (Inr a, x1) \<Rightarrow> k a x1)"

fun bench_loop :: "(nat \<Rightarrow> ('x, 'a) measured) \<Rightarrow> nat \<Rightarrow> nat \<Rightarrow> ('x, 'a list) measured" where
  "bench_loop f i 0 x = (Inr [], x)"
| "bench_loop f i (Suc n) x = bench_then (f i) (\<lambda>a. bench_then (bench_loop f (i + 1) n) (\<lambda>as y. (Inr (a # as), y))) x"

text \<open>What the outside gives the measurement of a method; a duration is one measured around a call.\<close>

record ('s, 'k) bench_io =
  bi_new :: "('s, 'k) new_io"
  bi_warm_token :: "nat \<Rightarrow> 's call_io"
  bi_warm_call :: "nat \<Rightarrow> 's call_io \<times> resource_io"
  bi_token :: "nat \<Rightarrow> 's call_io \<times> duration"
  bi_rotate :: "nat \<Rightarrow> ('s plane_io \<times> 's plane_io) \<times> 's call_io \<times> duration"
  bi_stats :: "nat \<Rightarrow> duration \<times> duration \<times> duration" \<comment> \<open>\<open>KeyGen\<close>, \<open>RoundTrip\<close>, \<open>Total\<close> of a rotation\<close>
  bi_token_again :: "'s call_io"
  bi_proof :: "nat \<Rightarrow> time \<times> bytes option"
  bi_call :: "mode \<Rightarrow> nat \<Rightarrow> ('s call_io \<times> resource_io) \<times> duration"
  bi_load :: "mode \<Rightarrow> ('s call_io \<times> resource_io) list \<times> duration" \<comment> \<open>the calls of all workers, and the time they took\<close>

definition bench_newClient ::
  "('s, 'd) crypto \<Rightarrow> 's pem_lib \<Rightarrow> 'k ext \<Rightarrow> 's bench \<Rightarrow> ('s, 'k) new_io \<Rightarrow> string \<Rightarrow> ('s, 'k) xclient option" where
  "bench_newClient C L E b io m =
     (let cfg = (bn_cfg b)\<lparr>cc_method := m, cc_client_id := bn_client_id b m, cc_cert_lifetime := bn_lifetime b m\<rparr>
      in case IssueBootstrap C E (bn_onboarding b) (ni_boot io) (cc_client_id cfg) [] (600 * second) of
           None \<Rightarrow> None
         | Some boot \<Rightarrow>
             (case New L E (ni_gen io) (ni_files io) (cfg\<lparr>cc_bootstrap := Some boot\<rparr>) of
                Inl _ \<Rightarrow> None
              | Inr c \<Rightarrow> (case Start C L E (ni_start io) c of (Inl _, _) \<Rightarrow> None | (Inr _, c1) \<Rightarrow> Some c1)))"

definition bench_path :: "'s bench \<Rightarrow> mode \<Rightarrow> string" where
  "bench_path b m = bn_resource b @ (if m = ModeIntrospection then ''/api/v1/introspect/sdl/bench'' else ''/api/v1/sdl/bench'')"

definition or_error :: "('e + 'a) \<times> 'x \<Rightarrow> (bench_stop + 'a) \<times> 'x" where
  "or_error r = (case r of (Inl _, x) \<Rightarrow> (Inl Stop_error, x) | (Inr a, x) \<Rightarrow> (Inr a, x))"

definition bench_call ::
  "('s, 'd) crypto \<Rightarrow> 's pem_lib \<Rightarrow> 'k ext \<Rightarrow> ('s \<Rightarrow> 'k option) \<Rightarrow> 's call_io \<times> resource_io \<Rightarrow> string \<Rightarrow> (('s, 'k) xclient, unit) measured" where
  "bench_call C L E imp io url x =
     (case walk_call C L E imp io url x of
        (Some st, x1) \<Rightarrow> (if st = 200 then Inr () else Inl Stop_error, x1)
      | (None, x1) \<Rightarrow> (Inl Stop_error, x1))"

text \<open>A percentile that is printed: there must be a sample.\<close>

definition shown_percentile :: "'a list \<Rightarrow> ('x, unit) measured" where
  "shown_percentile samples x = (if samples = [] then Inl Stop_panic else Inr (), x)"

fun bench_throughput ::
  "('s, 'd) crypto \<Rightarrow> 's pem_lib \<Rightarrow> 'k ext \<Rightarrow> ('s \<Rightarrow> 'k option) \<Rightarrow> string \<Rightarrow> ('s call_io \<times> resource_io) list
     \<Rightarrow> nat \<times> nat \<Rightarrow> ('s, 'k) xclient \<Rightarrow> (nat \<times> nat) \<times> ('s, 'k) xclient" where
  "bench_throughput C L E imp url [] counts x = (counts, x)"
| "bench_throughput C L E imp url (io # ios) (succeeded, failed) x =
     (case bench_call C L E imp io url x of
        (Inr _, x1) \<Rightarrow> bench_throughput C L E imp url ios (succeeded + 1, failed) x1
      | (Inl _, x1) \<Rightarrow> bench_throughput C L E imp url ios (succeeded, failed + 1) x1)"


definition bench_issue ::
  "('s, 'd) crypto \<Rightarrow> 's pem_lib \<Rightarrow> 'k ext \<Rightarrow> ('s \<Rightarrow> 'k option) \<Rightarrow> 's call_io \<Rightarrow> (('s, 'k) xclient, token) measured" where
  "bench_issue C L E imp io x = or_error (IssueToken C L E imp io x)"

text \<open>Warm-up, and the latency of token requests with the last token.\<close>

definition bench_warmup ::
  "('s, 'd) crypto \<Rightarrow> 's pem_lib \<Rightarrow> 'k ext \<Rightarrow> ('s \<Rightarrow> 'k option) \<Rightarrow> 's bench \<Rightarrow> ('s, 'k) bench_io \<Rightarrow> (('s, 'k) xclient, unit list) measured" where
  "bench_warmup C L E imp b io =
     bench_loop (\<lambda>i. bench_then (bench_issue C L E imp (bi_warm_token io i))
                       (\<lambda>_. bench_call C L E imp (bi_warm_call io i) (bench_path b ModeLocal))) 0 (nat (bp_warmup (bn_params b)))"

definition bench_tokens ::
  "('s, 'd) crypto \<Rightarrow> 's pem_lib \<Rightarrow> 'k ext \<Rightarrow> ('s \<Rightarrow> 'k option) \<Rightarrow> 's bench \<Rightarrow> ('s, 'k) bench_io \<Rightarrow> string
     \<Rightarrow> (('s, 'k) xclient, row list \<times> token) measured" where
  "bench_tokens C L E imp b io m =
     bench_then (bench_loop (\<lambda>i. bench_then (bench_issue C L E imp (fst (bi_token io i)))
                                   (\<lambda>t y. (Inr (t, snd (bi_token io i)), y))) 0 (nat (bp_tokens (bn_params b))))
       (\<lambda>measured. bench_then (shown_percentile measured)
          (\<lambda>_ y. (Inr ([series m ''token_request_latency'' ''issue_only'' (map snd measured)], fst (last measured)), y)))"

text \<open>Method B: rotations, and what they cost an hour for each lifetime.\<close>

definition rotation_rows :: "(duration \<Rightarrow> string) \<Rightarrow> string \<Rightarrow> double \<Rightarrow> duration \<Rightarrow> row list" where
  "rotation_rows dur m mean l =
     (let perHour = d_div (d_of_int (3600 * second)) (d_of_int (l - l sdiv 5))
      in [scalar m ''rotations_per_hour'' (''cert_lifetime='' @ dur l) ''count'' perHour,
          scalar m ''rotation_ca_cost_per_hour'' (''cert_lifetime='' @ dur l) ''ms'' (d_mul perHour mean)])"

definition bench_rotations ::
  "('s, 'd) crypto \<Rightarrow> 's pem_lib \<Rightarrow> 'k ext \<Rightarrow> ('s \<Rightarrow> 'k option) \<Rightarrow> (duration \<Rightarrow> string) \<Rightarrow> 's bench \<Rightarrow> ('s, 'k) bench_io \<Rightarrow> string
     \<Rightarrow> token \<Rightarrow> (('s, 'k) xclient, row list \<times> token) measured" where
  "bench_rotations C L E imp dur b io m tok =
     (if m \<noteq> MethodEphemeral then (\<lambda>x. (Inr ([], tok), x))
      else bench_then
        (bench_loop (\<lambda>i. bench_then (\<lambda>x. or_error (rotateLocked C L E (fst (bi_rotate io i)) x))
                           (\<lambda>_. bench_then (bench_issue C L E imp (fst (snd (bi_rotate io i))))
                              (\<lambda>_ y. (Inr (snd (snd (bi_rotate io i)), bi_stats io i), y)))) 0 (nat (bp_rotations (bn_params b))))
        (\<lambda>rot.
           let total = series m ''rotation_total_latency'' ''keygen_plus_ca'' (map (\<lambda>(_, _, _, t). t) rot);
               rows = [series m ''token_request_latency'' ''rotate_then_issue'' (map fst rot),
                       series m ''rotation_keygen_latency'' ''EC-P256'' (map (\<lambda>(_, k, _, _). k) rot),
                       series m ''rotation_ca_roundtrip_latency'' ''csr_to_certificate'' (map (\<lambda>(_, _, c, _). c) rot), total]
                      @ concat (map (rotation_rows dur m (meanOf (rw_samples total))) (bp_lifetimes (bn_params b)))
           in bench_then (shown_percentile rot)
                (\<lambda>_. bench_then (\<lambda>x. or_error (Token C L E imp (bi_token_again io) x)) (\<lambda>t y. (Inr (rows, t), y)))))"

definition bench_sizes ::
  "'k ext \<Rightarrow> 's bench \<Rightarrow> ('s, 'k) bench_io \<Rightarrow> string \<Rightarrow> token \<Rightarrow> (('s, 'k) xclient, row list) measured" where
  "bench_sizes E b io m tok x =
     (let size = (\<lambda>metric variant v. scalar m metric variant ''bytes'' (d_of_int (int (length v))));
          url = cc_token_url (bn_cfg b); path = bench_path b ModeLocal;
          token_row = size ''access_token_size'' (tk_binding tok) (tk_value tok)
      in case xc_kind x of
           Cert_bound \<Rightarrow> (Inr [token_row], x)
         | Dpop_bound s _ _ \<Rightarrow>
             (case dpop_Proof E x s ''POST'' url [] (bi_proof io 0) of
                None \<Rightarrow> (Inl Stop_error, x)
              | Some tp \<Rightarrow>
             (case dpop_Proof E x s ''GET'' path (tk_value tok) (bi_proof io 1) of
                None \<Rightarrow> (Inl Stop_error, x)
              | Some rp \<Rightarrow>
                  (Inr [token_row, size ''dpop_proof_size'' ''token_request'' tp,
                        size ''dpop_proof_size'' ''resource_request_with_ath'' rp], x))))"

definition bench_mode ::
  "('s, 'd) crypto \<Rightarrow> 's pem_lib \<Rightarrow> 'k ext \<Rightarrow> ('s \<Rightarrow> 'k option) \<Rightarrow> 's bench \<Rightarrow> ('s, 'k) bench_io \<Rightarrow> string \<Rightarrow> mode
     \<Rightarrow> (('s, 'k) xclient, row list) measured" where
  "bench_mode C L E imp b io m mode =
     bench_then (bench_loop (\<lambda>i. bench_then (bench_call C L E imp (fst (bi_call io mode i)) (bench_path b mode))
                                   (\<lambda>_ y. (Inr (snd (bi_call io mode i)), y))) 0 (nat (bp_resources (bn_params b))))
       (\<lambda>ns y. case bench_throughput C L E imp (bench_path b mode) (fst (bi_load io mode)) (0, 0) y of
                 ((succeeded, failed), y1) \<Rightarrow>
                   bench_then (shown_percentile ns)
                     (\<lambda>_ z. (Inr [series m ''resource_request_latency'' (mode_text mode) ns,
                                  scalar m ''resource_throughput'' (mode_text mode) ''req/s''
                                    (d_div (d_of_int (int succeeded)) (seconds (snd (bi_load io mode)))),
                                  scalar m ''resource_errors_during_throughput'' (mode_text mode) ''count'' (d_of_int (int failed))], z)) y1)"

definition bench_run ::
  "('s, 'd) crypto \<Rightarrow> 's pem_lib \<Rightarrow> 'k ext \<Rightarrow> ('s \<Rightarrow> 'k option) \<Rightarrow> (duration \<Rightarrow> string) \<Rightarrow> 's bench \<Rightarrow> ('s, 'k) bench_io \<Rightarrow> string
     \<Rightarrow> bench_stop + row list" where
  "bench_run C L E imp dur b io m =
     (case bench_newClient C L E b (bi_new io) m of
        None \<Rightarrow> Inl Stop_error
      | Some c \<Rightarrow>
          fst (bench_then (bench_warmup C L E imp b io) (\<lambda>_.
               bench_then (bench_tokens C L E imp b io m) (\<lambda>(rows1, tok1).
               bench_then (bench_rotations C L E imp dur b io m tok1) (\<lambda>(rows2, tok).
               bench_then (bench_sizes E b io m tok) (\<lambda>rows3.
               bench_then (bench_mode C L E imp b io m ModeLocal) (\<lambda>rows4.
               bench_then (bench_mode C L E imp b io m ModeIntrospection) (\<lambda>rows5 y.
                 (Inr (rows1 @ rows2 @ rows3 @ rows4 @ rows5), y))))))) c))"

text \<open>The methods in turn; the table is written when all have been measured.\<close>

fun bench_methods ::
  "('s, 'd) crypto \<Rightarrow> 's pem_lib \<Rightarrow> 'k ext \<Rightarrow> ('s \<Rightarrow> 'k option) \<Rightarrow> (duration \<Rightarrow> string) \<Rightarrow> 's bench \<Rightarrow> (nat \<Rightarrow> ('s, 'k) bench_io) \<Rightarrow> nat
     \<Rightarrow> string list \<Rightarrow> bench_stop + row list" where
  "bench_methods C L E imp dur b io i [] = Inr []"
| "bench_methods C L E imp dur b io i (m # ms) =
     (case bench_run C L E imp dur b (io i) m of
        Inl e \<Rightarrow> Inl e
      | Inr rows \<Rightarrow>
          (case bench_methods C L E imp dur b io (i + 1) ms of Inl e \<Rightarrow> Inl e | Inr rest \<Rightarrow> Inr (rows @ rest)))"

text \<open>The description of the run; what is read of the machine is an input.\<close>

record bench_machine =
  bm_started :: time
  bm_finished :: time
  bm_host :: string
  bm_go_version :: string
  bm_cpus :: int

fun unwords :: "string list \<Rightarrow> string" where
  "unwords [] = []"
| "unwords [w] = w"
| "unwords (w # ws) = w @ '' '' @ unwords ws"

definition bench_env :: "'k ext \<Rightarrow> (duration \<Rightarrow> string) \<Rightarrow> 's bench \<Rightarrow> bench_machine \<Rightarrow> string list list" where
  "bench_env E dur b k =
     (let p = bn_params b
      in [[''started_utc'', rfc3339 E (bm_started k)], [''finished_utc'', rfc3339 E (bm_finished k)], [''host'', bm_host k],
          [''go_version'', bm_go_version k], [''cpus'', show_int (bm_cpus k)], [''methods'', unwords (bp_methods p)],
          [''token_samples'', show_int (bp_tokens p)], [''resource_samples'', show_int (bp_resources p)],
          [''rotation_samples'', show_int (bp_rotations p)], [''warmup'', show_int (bp_warmup p)],
          [''throughput_concurrency'', show_int (bp_concurrency p)], [''throughput_duration'', dur (bp_rps_duration p)],
          [''rotation_lifetimes'', unwords (map dur (bp_lifetimes p))],
          [''renewal_policy'', ''renew with 20% of certificate lifetime remaining''], [''token_url'', cc_token_url (bn_cfg b)],
          [''resource_url'', bn_resource b], [''dpop_alg'', cc_dpop_alg (bn_cfg b)], [''identity_key_alg'', cc_key_alg (bn_cfg b)]])"

definition bench_writeEnv :: "'k ext \<Rightarrow> (duration \<Rightarrow> string) \<Rightarrow> 's bench \<Rightarrow> bench_machine \<Rightarrow> files \<Rightarrow> file_outcome \<Rightarrow> string \<Rightarrow> bool \<times> files" where
  "bench_writeEnv E dur b k fs out path = WriteFile fs out path (bytes_of (concat (map csv_record (bench_env E dur b k))))"

text \<open>The exit status, a panic's being 2, and the files.\<close>

definition bench_main ::
  "('s, 'd) crypto \<Rightarrow> 's pem_lib \<Rightarrow> 'k ext \<Rightarrow> (string \<Rightarrow> string option) \<Rightarrow> files \<Rightarrow> ('s \<Rightarrow> 'k option) \<Rightarrow> (duration \<Rightarrow> string)
     \<Rightarrow> (nat \<Rightarrow> ('s, 'k) bench_io) \<Rightarrow> bench_machine \<Rightarrow> file_outcome \<times> file_outcome \<Rightarrow> string \<Rightarrow> string \<Rightarrow> nat \<times> files" where
  "bench_main C L E g fs imp dur io k writes out env_out =
     (case bench_setup L E g fs of
        None \<Rightarrow> (2, fs)
      | Some b \<Rightarrow>
          (case bench_methods C L E imp dur b io 0 (bp_methods (bn_params b)) of
             Inl Stop_error \<Rightarrow> (1, fs)
           | Inl Stop_panic \<Rightarrow> (2, fs)
           | Inr rows \<Rightarrow>
               (case bench_writeCSV fs (fst writes) out rows of
                  (False, fs1) \<Rightarrow> (1, fs1)
                | (True, fs1) \<Rightarrow> (0, snd (bench_writeEnv E dur b k fs1 (snd writes) env_out)))))"

end
