(* ===== verification/Bench_Props.thy ===== *)
theory Bench_Props
  imports Bench Client_Props
begin

text \<open>
  The table of the benchmark: its rows are fixed by the configuration, and its percentiles are nearest ranks.
\<close>

section \<open>Percentiles\<close>

text \<open>The nearest-rank percentile: the least sample that at least \<open>p\<close> of a hundred samples do not exceed.\<close>

definition nearest_rank :: "nat \<Rightarrow> 'a::linorder list \<Rightarrow> 'a \<Rightarrow> bool" where
  "nearest_rank p s v \<longleftrightarrow> v \<in> set s \<and> p * length s \<le> 100 * length (filter (\<lambda>w. w \<le> v) s)
     \<and> (\<forall>w\<in>set s. w < v \<longrightarrow> 100 * length (filter (\<lambda>u. u \<le> w) s) < p * length s)"

lemma sorted_counts:
  assumes "sorted s" "j < length s"
  shows "j < length (filter (\<lambda>w. w \<le> s ! j) s)" and "w < s ! j \<Longrightarrow> length (filter (\<lambda>u. u \<le> w) s) \<le> j"
proof -
  have "{..j} \<subseteq> {i. i < length s \<and> s ! i \<le> s ! j}" using assms by (auto intro: sorted_nth_mono)
  then have "card {..j} \<le> card {i. i < length s \<and> s ! i \<le> s ! j}" by (intro card_mono) auto
  then show "j < length (filter (\<lambda>w. w \<le> s ! j) s)" by (simp add: length_filter_conv_card)
  assume w: "w < s ! j"
  have "{i. i < length s \<and> s ! i \<le> w} \<subseteq> {..<j}"
    using w sorted_nth_mono [OF assms(1)] by (auto simp: not_le [symmetric]) (meson le_less_trans not_less)
  then have "card {i. i < length s \<and> s ! i \<le> w} \<le> card {..<j}" by (intro card_mono) auto
  then show "length (filter (\<lambda>u. u \<le> w) s) \<le> j" by (simp add: length_filter_conv_card)
qed

lemma nearest_rank_sort: "nearest_rank p (sort s) v \<longleftrightarrow> nearest_rank p s v"
  by (simp add: nearest_rank_def filter_sort)

lemma nearest_rank_nth:
  assumes "sorted s" "s \<noteq> []" "0 < p" "p \<le> 100" "k = \<lceil>rat_of_nat (p * length s) / 100\<rceil>"
  shows "nearest_rank p s (s ! nat (max 0 (min (k - 1) (int (length s) - 1))))" and "1 \<le> k" "k \<le> int (length s)"
proof -
  let ?n = "length s"
  have n: "1 \<le> ?n" using assms(2) by (cases s) auto
  have "p * ?n \<le> 100 * ?n" using assms(4) by (rule mult_le_mono1)
  then have "rat_of_nat (p * ?n) \<le> of_nat (100 * ?n)" by (simp only: of_nat_le_iff)
  then have "rat_of_nat (p * ?n) / 100 \<le> of_int (int ?n)" by simp
  then show k2: "k \<le> int ?n" unfolding assms(5) by (simp only: ceiling_le_iff)
  have "0 < p * ?n" using assms(2,3) by simp
  then have "0 < rat_of_nat (p * ?n)" by (simp only: of_nat_0_less_iff)
  then have "0 < rat_of_nat (p * ?n) / 100" by (rule divide_pos_pos) simp
  then show k1: "1 \<le> k" unfolding assms(5) by simp
  have i: "nat (max 0 (min (k - 1) (int ?n - 1))) = nat (k - 1)" using k1 k2 by simp
  have j: "nat (k - 1) < ?n" using k1 k2 by linarith
  note c = sorted_counts [OF assms(1) j]
  have "rat_of_nat (p * ?n) / 100 \<le> of_int k" "of_int k - 1 < rat_of_nat (p * ?n) / 100" unfolding assms(5) by linarith+
  then have "rat_of_int (int (p * ?n)) \<le> of_int (100 * k)" "rat_of_int (100 * (k - 1)) < of_int (int (p * ?n))" by simp_all
  then have r: "int (p * ?n) \<le> 100 * k" "100 * (k - 1) < int (p * ?n)" by (simp_all only: of_int_le_iff of_int_less_iff)
  have "p * ?n \<le> 100 * length (filter (\<lambda>w. w \<le> s ! nat (k - 1)) s)"
  proof -
    have "100 * k \<le> int (100 * length (filter (\<lambda>w. w \<le> s ! nat (k - 1)) s))" using c(1) k1 by simp
    then show ?thesis using r(1) by (metis of_nat_le_iff order_trans)
  qed
  moreover have "100 * length (filter (\<lambda>u. u \<le> w) s) < p * ?n" if "w < s ! nat (k - 1)" for w
  proof -
    have "int (100 * length (filter (\<lambda>u. u \<le> w) s)) \<le> 100 * (k - 1)" using c(2) [OF that] k1 by simp
    then show ?thesis using r(2) by (metis of_nat_less_iff order_le_less_trans)
  qed
  ultimately show "nearest_rank p s (s ! nat (max 0 (min (k - 1) (int ?n - 1))))"
    unfolding i nearest_rank_def using j by simp
qed

lemma pct_nearest:
  assumes "samples \<noteq> []" "length samples \<le> 2 ^ 40" "p \<in> {50, 95, 99}"
  shows "\<exists>v. pct (sort samples) (d_of_int (int p)) = Some v \<and> nearest_rank p samples v"
proof -
  let ?n = "length samples"
  obtain c where c: "d_div (d_of_int (int p)) (d_of_int 100) = Finite c" "1 / 100 \<le> c" "c \<le> of_nat p / 100" "of_nat p / 100 - c \<le> 1 / 2 ^ 53"
    using percent_rounded [OF assms(3)] by blast
  have n: "1 \<le> ?n" using assms(1) by (cases samples) auto
  have p: "0 < p" "p \<le> 100" using assms(3) by auto
  have "int ?n \<le> 2 ^ 40" using assms(2) by (metis of_nat_le_iff of_nat_numeral of_nat_power)
  then have d: "d_of_int (int ?n) = Finite (of_nat ?n)" using d_of_int_exact [of "int ?n"] by simp
  note r = rank_exact [OF _ c(3,4) p n assms(2) c(2)]
  have rank: "percentile_rank ?n (d_of_int (int p)) = \<lceil>rat_of_nat (p * ?n) / 100\<rceil>"
    using r c(1,2) d to_double_finite by (simp add: percentile_rank_def)
  have ne: "sort samples \<noteq> []" using assms(1) by (metis length_0_conv length_sort)
  show ?thesis
    using nearest_rank_nth(1) [of "sort samples" p, OF _ ne p refl] ne rank
    by (simp add: pct_def nearest_rank_sort del: of_nat_mult)
qed


lemma row_record_length: "length (row_record r) = length bench_header"
  by (simp add: row_record_def bench_header_def Let_def split: option.split)

text \<open>The record of a series: its percentiles, mean, least and greatest sample.\<close>

definition summarised :: "row \<Rightarrow> bool" where
  "summarised r \<longleftrightarrow>
     (\<exists>a b c. row_record r = [rw_method r, rw_metric r, rw_variant r, rw_unit r, show_nat (length (rw_samples r)),
          format_f3 a, format_f3 b, format_f3 c, format_f3 (meanOf (sort (rw_samples r))),
          format_f3 (Min (set (rw_samples r))), format_f3 (Max (set (rw_samples r))), []]
        \<and> nearest_rank 50 (rw_samples r) a \<and> nearest_rank 95 (rw_samples r) b \<and> nearest_rank 99 (rw_samples r) c)"

lemma sort_ends:
  assumes "s \<noteq> []"
  shows "hd (sort s) = Min (set s)" "last (sort s) = Max (set s)"
proof -
  have ne: "sort s \<noteq> []" using assms by (metis length_0_conv length_sort)
  have "hd (sort s) \<le> v \<and> v \<le> last (sort s)" if "v \<in> set s" for v
  proof -
    from that obtain i where i: "i < length (sort s)" "v = sort s ! i" by (metis in_set_conv_nth set_sort)
    then show ?thesis
      using ne sorted_nth_mono [OF sorted_sort, of 0 i s] sorted_nth_mono [OF sorted_sort, of i "length (sort s) - 1" s]
      by (simp add: hd_conv_nth last_conv_nth)
  qed
  moreover have "hd (sort s) \<in> set s" "last (sort s) \<in> set s"
    using ne hd_in_set [of "sort s"] last_in_set [of "sort s"] by simp_all
  ultimately show "hd (sort s) = Min (set s)" "last (sort s) = Max (set s)"
    by (auto intro!: Min_eqI [symmetric] Max_eqI [symmetric])
qed

lemma series_summarised:
  assumes "rw_value r = None" "rw_samples r \<noteq> []" "length (rw_samples r) \<le> 2 ^ 40"
  shows "summarised r"
proof -
  obtain a b c where "pct (sort (rw_samples r)) (d_of_int 50) = Some a" "pct (sort (rw_samples r)) (d_of_int 95) = Some b"
    "pct (sort (rw_samples r)) (d_of_int 99) = Some c"
    "nearest_rank 50 (rw_samples r) a" "nearest_rank 95 (rw_samples r) b" "nearest_rank 99 (rw_samples r) c"
    using pct_nearest [OF assms(2,3), of 50] pct_nearest [OF assms(2,3), of 95] pct_nearest [OF assms(2,3), of 99] by auto
  moreover have "sort (rw_samples r) \<noteq> []" using assms(2) by (metis length_0_conv length_sort)
  ultimately show ?thesis
    using assms(1) sort_ends [OF assms(2)] unfolding summarised_def
    by (intro exI [of _ a] exI [of _ b] exI [of _ c]) (simp add: row_record_def meanOf_def Let_def)
qed


section \<open>What a measurement keeps\<close>

text \<open>The steps of a measurement keep a property of the client and give results with another.\<close>

definition measures :: "('x \<Rightarrow> bool) \<Rightarrow> ('x, 'a) measured \<Rightarrow> ('a \<Rightarrow> bool) \<Rightarrow> bool" where
  "measures Q f R \<longleftrightarrow> (\<forall>x r y. Q x \<and> f x = (r, y) \<longrightarrow> Q y \<and> (\<forall>a. r = Inr a \<longrightarrow> R a))"

lemma measures_then:
  assumes "measures Q f R" "\<And>a. R a \<Longrightarrow> measures Q (k a) S"
  shows "measures Q (bench_then f k) S"
  unfolding measures_def
proof (intro allI impI)
  fix x r y
  assume a: "Q x \<and> bench_then f k x = (r, y)"
  obtain r1 x1 where f: "f x = (r1, x1)" by fastforce
  with a assms(1) have q: "Q x1" "\<forall>b. r1 = Inr b \<longrightarrow> R b" by (auto simp: measures_def)
  show "Q y \<and> (\<forall>a. r = Inr a \<longrightarrow> S a)"
  proof (cases r1)
    case (Inl e)
    then show ?thesis using a f q by (auto simp: bench_then_def)
  next
    case (Inr b)
    then have "measures Q (k b) S" using q(2) assms(2) by blast
    then show ?thesis using a f q(1) Inr by (auto simp: bench_then_def measures_def)
  qed
qed

lemma measures_loop:
  assumes "\<And>i. measures Q (f i) R"
  shows "measures Q (bench_loop f i n) (\<lambda>as. length as = n \<and> (\<forall>a\<in>set as. R a))"
proof (induction n arbitrary: i)
  case (Suc n)
  have e: "bench_loop f i (Suc n) = bench_then (f i) (\<lambda>a. bench_then (bench_loop f (i + 1) n) (\<lambda>as y. (Inr (a # as), y)))"
    by (rule ext) simp
  show ?case
    unfolding e by (intro measures_then [OF assms] measures_then [OF Suc.IH]) (auto simp: measures_def)
qed (simp add: measures_def)

lemma measures_return: "R a \<Longrightarrow> measures Q (\<lambda>x. (Inr a, x)) R"
  by (simp add: measures_def)

lemma measures_shown: "measures Q (shown_percentile s) (\<lambda>_. s \<noteq> [])"
  by (simp add: measures_def shown_percentile_def)

lemma measures_weaken: "\<lbrakk>measures Q f R; \<And>a. R a \<Longrightarrow> S a\<rbrakk> \<Longrightarrow> measures Q f S"
  by (auto simp: measures_def)



section \<open>The client during a measurement\<close>

definition bench_client :: "'k ext \<Rightarrow> ('s, 'k) xclient \<Rightarrow> ('s, 'k) xclient \<Rightarrow> bool" where
  "bench_client E x0 x \<longleftrightarrow> client_ok E x \<and> same_client x0 x"

definition binding_name :: "'k client_kind \<Rightarrow> string" where
  "binding_name k = (case k of Cert_bound \<Rightarrow> ''x5t#S256'' | Dpop_bound _ _ _ \<Rightarrow> ''jkt'')"

lemma bound_binding: "bound_token E x t \<Longrightarrow> same_client x0 x \<Longrightarrow> tk_binding t = binding_name (xc_kind x0)"
  by (auto simp: bound_token_def held_credential_def same_client_def binding_name_def split: client_kind.splits option.splits)

lemma dpop_do_same: "same_client x (snd (snd (dpop_do E io t r x)))"
  by (auto simp: dpop_do_def Let_def split: option.splits)

lemma client_Do_same:
  assumes "client_ok E x" "client_Do C L E imp io rio r x = (res, y)"
  shows "same_client x y"
proof (cases "Token C L E imp io x")
  case (Pair rt x1)
  note a = Token_ok [OF assms(1) Pair]
  then show ?thesis
    using assms(2) Pair same_client_trans [OF _ dpop_do_same [of x1 E rio _ r]]
    by (auto simp: client_Do_def split: sum.splits prod.splits) (metis snd_conv)
qed

lemma measures_bound:
  assumes "\<And>x res z. \<lbrakk>client_ok E x; f x = (res, z)\<rbrakk> \<Longrightarrow>
    client_ok E z \<and> same_client x z \<and> (\<forall>t. res = Inr t \<longrightarrow> bound_token E z t \<and> xc_cached z = Some t)"
  shows "measures (bench_client E x0) (\<lambda>x. or_error (f x)) (\<lambda>t. tk_binding t = binding_name (xc_kind x0))"
  unfolding measures_def
proof (intro allI impI)
  fix x r y
  assume a: "bench_client E x0 x \<and> or_error (f x) = (r, y)"
  obtain res z where i: "f x = (res, z)" by fastforce
  note f = assms [OF _ i]
  have "bench_client E x0 z" using a f same_client_trans by (auto simp: bench_client_def)
  moreover have "tk_binding t = binding_name (xc_kind x0)" if "res = Inr t" for t
    using that calculation f a by (intro bound_binding [of E z]) (auto simp: bench_client_def)
  ultimately show "bench_client E x0 y \<and> (\<forall>t. r = Inr t \<longrightarrow> tk_binding t = binding_name (xc_kind x0))"
    using a i by (auto simp: or_error_def split: sum.splits)
qed

lemma measures_token:
  "measures (bench_client E x0) (\<lambda>x. or_error (Token C L E imp io x)) (\<lambda>t. tk_binding t = binding_name (xc_kind x0))"
  by (rule measures_bound) (rule Token_ok)

lemma measures_issue: "measures (bench_client E x0) (bench_issue C L E imp io) (\<lambda>t. tk_binding t = binding_name (xc_kind x0))"
proof -
  have "bench_issue C L E imp io = (\<lambda>x. or_error (IssueToken C L E imp io x))" by (rule ext) (simp add: bench_issue_def)
  then show ?thesis by (simp only:) (rule measures_bound, rule IssueToken_ok)
qed

lemma measures_rotate: "measures (bench_client E x0) (\<lambda>x. or_error (rotateLocked C L E io x)) (\<lambda>_. True)"
  unfolding measures_def
proof (intro allI impI)
  fix x r y
  assume a: "bench_client E x0 x \<and> or_error (rotateLocked C L E io x) = (r, y)"
  obtain res z where i: "rotateLocked C L E io x = (res, z)" by fastforce
  then have "y = z" using a by (auto simp: or_error_def split: sum.splits)
  then show "bench_client E x0 y \<and> (\<forall>t. r = Inr t \<longrightarrow> True)"
    using a rotateLocked_ok [OF _ i] rotateLocked_cases [OF i] same_client_trans by (auto simp: bench_client_def)
qed

lemma measures_call: "measures (bench_client E x0) (bench_call C L E imp io url) (\<lambda>_. True)"
  unfolding measures_def
proof (intro allI impI)
  fix x r y
  assume a: "bench_client E x0 x \<and> bench_call C L E imp io url x = (r, y)"
  obtain res z where i: "client_Do C L E imp (fst io) (snd io) \<lparr>oq_method = ''GET'', oq_url = url, oq_headers = []\<rparr> x = (res, z)" by fastforce
  then have "y = x \<or> y = z"
    using a by (auto simp: bench_call_def walk_call_def split: option.splits sum.splits prod.splits if_splits)
  then show "bench_client E x0 y \<and> (\<forall>t. r = Inr t \<longrightarrow> True)"
    using a client_Do_ok [OF _ i] client_Do_same [OF _ i] same_client_trans by (auto simp: bench_client_def)
qed

lemma throughput_keeps:
  "bench_client E x0 x \<Longrightarrow> bench_client E x0 (snd (bench_throughput C L E imp url ios counts x))"
proof (induction ios arbitrary: counts x)
  case (Cons io ios)
  obtain r y where c: "bench_call C L E imp io url x = (r, y)" by fastforce
  then have "bench_client E x0 y" using Cons.prems measures_call by (fastforce simp: measures_def)
  then show ?case using Cons.IH c by (cases counts; cases r) auto
qed (cases counts, simp)



section \<open>The rows of a method\<close>

definition row_keys :: "row list \<Rightarrow> (string \<times> string \<times> string \<times> string) list" where
  "row_keys rows = map (\<lambda>r. (rw_method r, rw_metric r, rw_variant r, rw_unit r)) rows"

text \<open>A row of samples has at least one, and at most \<open>n\<close>.\<close>

definition filled :: "nat \<Rightarrow> row \<Rightarrow> bool" where
  "filled n r \<longleftrightarrow> (rw_value r = None \<longrightarrow> rw_samples r \<noteq> [] \<and> length (rw_samples r) \<le> n)"

text \<open>What the configuration fixes of a method's rows.\<close>

definition rotation_keys :: "(duration \<Rightarrow> string) \<Rightarrow> duration list \<Rightarrow> string \<Rightarrow> (string \<times> string \<times> string \<times> string) list" where
  "rotation_keys dur lifetimes m =
     (if m \<noteq> MethodEphemeral then []
      else [(m, ''token_request_latency'', ''rotate_then_issue'', ''ms''), (m, ''rotation_keygen_latency'', ''EC-P256'', ''ms''),
            (m, ''rotation_ca_roundtrip_latency'', ''csr_to_certificate'', ''ms''), (m, ''rotation_total_latency'', ''keygen_plus_ca'', ''ms'')]
           @ concat (map (\<lambda>l. [(m, ''rotations_per_hour'', ''cert_lifetime='' @ dur l, ''count''),
                               (m, ''rotation_ca_cost_per_hour'', ''cert_lifetime='' @ dur l, ''ms'')]) lifetimes))"

definition size_keys :: "string \<Rightarrow> (string \<times> string \<times> string \<times> string) list" where
  "size_keys m =
     (if m = MethodDPoP
      then [(m, ''access_token_size'', ''jkt'', ''bytes''), (m, ''dpop_proof_size'', ''token_request'', ''bytes''),
            (m, ''dpop_proof_size'', ''resource_request_with_ath'', ''bytes'')]
      else [(m, ''access_token_size'', ''x5t#S256'', ''bytes'')])"

definition mode_keys :: "string \<Rightarrow> string \<Rightarrow> (string \<times> string \<times> string \<times> string) list" where
  "mode_keys m mode =
     [(m, ''resource_request_latency'', mode, ''ms''), (m, ''resource_throughput'', mode, ''req/s''),
      (m, ''resource_errors_during_throughput'', mode, ''count'')]"

definition method_keys :: "(duration \<Rightarrow> string) \<Rightarrow> duration list \<Rightarrow> string \<Rightarrow> (string \<times> string \<times> string \<times> string) list" where
  "method_keys dur lifetimes m =
     (m, ''token_request_latency'', ''issue_only'', ''ms'') # rotation_keys dur lifetimes m @ size_keys m
       @ mode_keys m ''local'' @ mode_keys m ''introspection''"

lemma row_keys_append [simp]: "row_keys (a @ b) = row_keys a @ row_keys b" "row_keys [] = []"
  by (simp_all add: row_keys_def)

lemma filled_series: "\<lbrakk>ns \<noteq> []; length ns \<le> n\<rbrakk> \<Longrightarrow> filled n (series m metric variant ns)"
  by (simp add: filled_def series_def)

lemma filled_scalar [simp]: "filled n (scalar m metric variant unit v)"
  by (simp add: filled_def scalar_def)

lemma row_keys_rows [simp]:
  "row_keys (series m metric variant ns # rows) = (m, metric, variant, ''ms'') # row_keys rows"
  "row_keys (scalar m metric variant unit v # rows) = (m, metric, variant, unit) # row_keys rows"
  by (simp_all add: row_keys_def series_def scalar_def)

definition counts_within :: "'s bench \<Rightarrow> nat \<Rightarrow> bool" where
  "counts_within b n \<longleftrightarrow> bp_tokens (bn_params b) \<le> int n \<and> bp_resources (bn_params b) \<le> int n \<and> bp_rotations (bn_params b) \<le> int n"

lemma measures_tokens:
  assumes "counts_within b n"
  shows "measures (bench_client E x0) (bench_tokens C L E imp b io m)
    (\<lambda>(rows, t). row_keys rows = [(m, ''token_request_latency'', ''issue_only'', ''ms'')] \<and> (\<forall>r\<in>set rows. filled n r)
       \<and> tk_binding t = binding_name (xc_kind x0))"
proof -
  have n: "nat (bp_tokens (bn_params b)) \<le> n" using assms by (simp add: counts_within_def nat_le_iff)
  have step: "measures (bench_client E x0)
      (bench_then (bench_issue C L E imp (fst (bi_token io i))) (\<lambda>t y. (Inr (t, snd (bi_token io i)), y)))
      (\<lambda>p. tk_binding (fst p) = binding_name (xc_kind x0))" for i
    by (rule measures_then [OF measures_issue]) (simp add: measures_return)
  show ?thesis
    unfolding bench_tokens_def
  proof (rule measures_then [OF measures_loop [OF step]])
    fix measured :: "(token \<times> duration) list"
    assume l: "length measured = nat (bp_tokens (bn_params b)) \<and> (\<forall>p\<in>set measured. tk_binding (fst p) = binding_name (xc_kind x0))"
    show "measures (bench_client E x0)
       (bench_then (shown_percentile measured)
         (\<lambda>_ y. (Inr ([series m ''token_request_latency'' ''issue_only'' (map snd measured)], fst (last measured)), y)))
       (\<lambda>(rows, t). row_keys rows = [(m, ''token_request_latency'', ''issue_only'', ''ms'')] \<and> (\<forall>r\<in>set rows. filled n r)
          \<and> tk_binding t = binding_name (xc_kind x0))"
      by (rule measures_then [OF measures_shown], rule measures_return) (use l n in \<open>auto intro!: filled_series\<close>)
  qed
qed

lemma rotation_rows_keys:
  "row_keys (concat (map (rotation_rows dur m mean) ls)) =
     concat (map (\<lambda>l. [(m, ''rotations_per_hour'', ''cert_lifetime='' @ dur l, ''count''),
                       (m, ''rotation_ca_cost_per_hour'', ''cert_lifetime='' @ dur l, ''ms'')]) ls)"
  "\<forall>r\<in>set (concat (map (rotation_rows dur m mean) ls)). filled n r"
  by (induction ls) (auto simp: rotation_rows_def Let_def)

lemma measures_rotations:
  assumes "counts_within b n" "tk_binding tok = binding_name (xc_kind x0)"
  shows "measures (bench_client E x0) (bench_rotations C L E imp dur b io m tok)
    (\<lambda>(rows, t). row_keys rows = rotation_keys dur (bp_lifetimes (bn_params b)) m \<and> (\<forall>r\<in>set rows. filled n r)
       \<and> tk_binding t = binding_name (xc_kind x0))"
proof (cases "m = MethodEphemeral")
  case False
  then show ?thesis
    unfolding bench_rotations_def by (simp add: rotation_keys_def) (rule measures_return, simp add: assms(2))
next
  case True
  have n: "nat (bp_rotations (bn_params b)) \<le> n" using assms by (simp add: counts_within_def nat_le_iff)
  have step: "measures (bench_client E x0)
      (bench_then (\<lambda>x. or_error (rotateLocked C L E (fst (bi_rotate io i)) x))
         (\<lambda>_. bench_then (bench_issue C L E imp (fst (snd (bi_rotate io i))))
            (\<lambda>_ y. (Inr (snd (snd (bi_rotate io i)), bi_stats io i), y)))) (\<lambda>_. True)" for i
    by (intro measures_then [OF measures_rotate] measures_then [OF measures_issue] measures_return) simp
  have fin: "measures (bench_client E x0)
      (bench_then (shown_percentile rot)
         (\<lambda>_. bench_then (\<lambda>x. or_error (Token C L E imp (bi_token_again io) x)) (\<lambda>t y. (Inr (rows, t), y))))
      (\<lambda>(rows, t). row_keys rows = rotation_keys dur (bp_lifetimes (bn_params b)) m \<and> (\<forall>r\<in>set rows. filled n r)
         \<and> tk_binding t = binding_name (xc_kind x0))"
    if "row_keys rows = rotation_keys dur (bp_lifetimes (bn_params b)) m" "rot \<noteq> [] \<Longrightarrow> \<forall>r\<in>set rows. filled n r"
    for rot :: "(duration \<times> duration \<times> duration \<times> duration) list" and rows
    by (rule measures_then [OF measures_shown], rule measures_then [OF measures_token], rule measures_return) (use that in simp)
  show ?thesis
    unfolding bench_rotations_def Let_def
    by (subst if_not_P, use True in simp, rule measures_then [OF measures_loop [OF step]], rule fin)
      (use n True in \<open>auto simp: rotation_keys_def rotation_rows_keys intro!: filled_series\<close>)
qed


lemma measures_sizes:
  assumes "tk_binding tok = binding_name (xc_kind x0)" "xc_kind x0 = Cert_bound \<longleftrightarrow> m \<noteq> MethodDPoP"
  shows "measures (bench_client E x0) (bench_sizes E b io m tok)
    (\<lambda>rows. row_keys rows = size_keys m \<and> (\<forall>r\<in>set rows. filled n r))"
  using assms
  by (auto simp: measures_def bench_sizes_def Let_def bench_client_def same_client_def size_keys_def binding_name_def
      split: client_kind.splits option.splits)

lemma measures_mode:
  assumes "counts_within b n"
  shows "measures (bench_client E x0) (bench_mode C L E imp b io m mode)
    (\<lambda>rows. row_keys rows = mode_keys m (mode_text mode) \<and> (\<forall>r\<in>set rows. filled n r))"
proof -
  have n: "nat (bp_resources (bn_params b)) \<le> n" using assms by (simp add: counts_within_def nat_le_iff)
  have step: "measures (bench_client E x0)
      (bench_then (bench_call C L E imp (fst (bi_call io mode i)) (bench_path b mode)) (\<lambda>_ y. (Inr (snd (bi_call io mode i)), y)))
      (\<lambda>_. True)" for i
    by (intro measures_then [OF measures_call] measures_return) simp
  let ?rows = "\<lambda>ns succeeded failed. [series m ''resource_request_latency'' (mode_text mode) ns,
      scalar m ''resource_throughput'' (mode_text mode) ''req/s'' (d_div (d_of_int (int succeeded)) (seconds (snd (bi_load io mode)))),
      scalar m ''resource_errors_during_throughput'' (mode_text mode) ''count'' (d_of_int (int failed))]"
  have fin: "measures (bench_client E x0) (bench_then (shown_percentile ns) (\<lambda>_ z. (Inr (?rows ns succeeded failed), z)))
      (\<lambda>rows. row_keys rows = mode_keys m (mode_text mode) \<and> (\<forall>r\<in>set rows. filled n r))"
    if "length ns = nat (bp_resources (bn_params b))" for ns succeeded failed
    by (rule measures_then [OF measures_shown], rule measures_return)
      (use that n in \<open>auto simp: mode_keys_def intro!: filled_series\<close>)
  show ?thesis
    unfolding bench_mode_def
  proof (rule measures_then [OF measures_loop [OF step]])
    fix ns :: "duration list"
    assume l: "length ns = nat (bp_resources (bn_params b)) \<and> (\<forall>a\<in>set ns. True)"
    show "measures (bench_client E x0)
       (\<lambda>y. case bench_throughput C L E imp (bench_path b mode) (fst (bi_load io mode)) (0, 0) y of
              ((succeeded, failed), y1) \<Rightarrow> bench_then (shown_percentile ns) (\<lambda>_ z. (Inr (?rows ns succeeded failed), z)) y1)
       (\<lambda>rows. row_keys rows = mode_keys m (mode_text mode) \<and> (\<forall>r\<in>set rows. filled n r))"
      unfolding measures_def
    proof (intro allI impI)
      fix x r y
      assume a: "bench_client E x0 x \<and> (case bench_throughput C L E imp (bench_path b mode) (fst (bi_load io mode)) (0, 0) x of
              ((succeeded, failed), y1) \<Rightarrow> bench_then (shown_percentile ns) (\<lambda>_ z. (Inr (?rows ns succeeded failed), z)) y1) = (r, y)"
      obtain succeeded failed y1 where t:
        "bench_throughput C L E imp (bench_path b mode) (fst (bi_load io mode)) (0, 0) x = ((succeeded, failed), y1)"
        by (metis prod.collapse)
      then have q: "bench_client E x0 y1" using a throughput_keeps by (metis snd_conv)
      have e: "bench_then (shown_percentile ns) (\<lambda>_ z. (Inr (?rows ns succeeded failed), z)) y1 = (r, y)" using a t by simp
      show "bench_client E x0 y \<and> (\<forall>rows. r = Inr rows \<longrightarrow> row_keys rows = mode_keys m (mode_text mode) \<and> (\<forall>r\<in>set rows. filled n r))"
        using fin [OF conjunct1 [OF l], of succeeded failed] q e unfolding measures_def by blast
    qed
  qed
qed

lemma New_method:
  assumes "New L E gen fs cfg = Inr x"
  shows "client_ok E x" "xc_kind x = Cert_bound \<longleftrightarrow> cc_method cfg \<noteq> MethodDPoP"
proof -
  show "client_ok E x" using New_ok [OF assms] by blast
  have "MethodLongTerm \<noteq> MethodDPoP" "MethodEphemeral \<noteq> MethodDPoP"
    by (simp_all add: MethodLongTerm_def MethodEphemeral_def MethodDPoP_def)
  then show "xc_kind x = Cert_bound \<longleftrightarrow> cc_method cfg \<noteq> MethodDPoP"
    using assms by (auto simp: New_def newBase_def Let_def Validate_def split: if_splits option.splits prod.splits)
qed

lemma bench_run_rows:
  assumes "bench_run C L E imp dur b io m = Inr rows" "counts_within b n"
  shows "row_keys rows = method_keys dur (bp_lifetimes (bn_params b)) m \<and> (\<forall>r\<in>set rows. filled n r)"
proof -
  from assms(1) obtain c where c: "bench_newClient C L E b (bi_new io) m = Some c" by (auto simp: bench_run_def split: option.splits)
  then obtain boot c0 where c0: "New L E (ni_gen (bi_new io)) (ni_files (bi_new io))
      ((bn_cfg b)\<lparr>cc_method := m, cc_client_id := bn_client_id b m, cc_cert_lifetime := bn_lifetime b m, cc_bootstrap := Some boot\<rparr>) = Inr c0"
    and st: "Start C L E (ni_start (bi_new io)) c0 = (Inr (), c)"
    by (auto simp: bench_newClient_def Let_def split: option.splits sum.splits prod.splits)
  note k = New_method [OF c0]
  note s = Start_ok [OF k(1) st]
  have kind: "xc_kind c = Cert_bound \<longleftrightarrow> m \<noteq> MethodDPoP" using s k(2) by (simp add: same_client_def)
  have q: "bench_client E c c" using s by (simp add: bench_client_def)
  have w: "measures (bench_client E c) (bench_warmup C L E imp b io) (\<lambda>_. True)"
    unfolding bench_warmup_def
    by (rule measures_weaken, rule measures_loop, rule measures_then [OF measures_issue], rule measures_call) simp
  have "measures (bench_client E c)
     (bench_then (bench_warmup C L E imp b io) (\<lambda>_.
      bench_then (bench_tokens C L E imp b io m) (\<lambda>(rows1, tok1).
      bench_then (bench_rotations C L E imp dur b io m tok1) (\<lambda>(rows2, tok).
      bench_then (bench_sizes E b io m tok) (\<lambda>rows3.
      bench_then (bench_mode C L E imp b io m ModeLocal) (\<lambda>rows4.
      bench_then (bench_mode C L E imp b io m ModeIntrospection) (\<lambda>rows5 y.
        (Inr (rows1 @ rows2 @ rows3 @ rows4 @ rows5), y))))))))
     (\<lambda>rows. row_keys rows = method_keys dur (bp_lifetimes (bn_params b)) m \<and> (\<forall>r\<in>set rows. filled n r))"
  proof (rule measures_then [OF w], rule measures_then [OF measures_tokens [OF assms(2)]], clarify)
    fix rows1 :: "row list" and tok1 :: token
    assume 1: "row_keys rows1 = [(m, ''token_request_latency'', ''issue_only'', ''ms'')]" "\<forall>r\<in>set rows1. filled n r"
      "tk_binding tok1 = binding_name (xc_kind c)"
    show "measures (bench_client E c)
       (bench_then (bench_rotations C L E imp dur b io m tok1) (\<lambda>(rows2, tok).
        bench_then (bench_sizes E b io m tok) (\<lambda>rows3.
        bench_then (bench_mode C L E imp b io m ModeLocal) (\<lambda>rows4.
        bench_then (bench_mode C L E imp b io m ModeIntrospection) (\<lambda>rows5 y.
          (Inr (rows1 @ rows2 @ rows3 @ rows4 @ rows5), y))))))
       (\<lambda>rows. row_keys rows = method_keys dur (bp_lifetimes (bn_params b)) m \<and> (\<forall>r\<in>set rows. filled n r))"
    proof (rule measures_then [OF measures_rotations [OF assms(2) 1(3)]], clarify)
      fix rows2 :: "row list" and tok :: token
      assume 2: "row_keys rows2 = rotation_keys dur (bp_lifetimes (bn_params b)) m" "\<forall>r\<in>set rows2. filled n r"
        "tk_binding tok = binding_name (xc_kind c)"
      show "measures (bench_client E c)
         (bench_then (bench_sizes E b io m tok) (\<lambda>rows3.
          bench_then (bench_mode C L E imp b io m ModeLocal) (\<lambda>rows4.
          bench_then (bench_mode C L E imp b io m ModeIntrospection) (\<lambda>rows5 y.
            (Inr (rows1 @ rows2 @ rows3 @ rows4 @ rows5), y)))))
         (\<lambda>rows. row_keys rows = method_keys dur (bp_lifetimes (bn_params b)) m \<and> (\<forall>r\<in>set rows. filled n r))"
        by (rule measures_then [OF measures_sizes [OF 2(3) kind, of E b io n]], rule measures_then [OF measures_mode [OF assms(2)]],
            rule measures_then [OF measures_mode [OF assms(2)]], rule measures_return)
          (use 1 2 in \<open>auto simp: method_keys_def mode_text_def\<close>)
    qed
  qed
  then show ?thesis
    using assms(1) q c by (auto simp: bench_run_def measures_def) (metis prod.collapse)+
qed

end
