(* ===== verification/Bench_Table.thy ===== *)
theory Bench_Table
  imports Bench_Props Walkthrough_Props
begin

text \<open>
  What a whole run of the benchmark leaves behind: its table, and a concrete run of one method to the end.
\<close>

section \<open>The table\<close>

lemma bench_methods_rows:
  assumes "bench_methods C L E imp dur b io i ms = Inr rows" "counts_within b n"
  shows "row_keys rows = concat (map (method_keys dur (bp_lifetimes (bn_params b))) ms) \<and> (\<forall>r\<in>set rows. filled n r)"
  using assms(1)
proof (induction ms arbitrary: i rows)
  case (Cons m ms)
  from Cons.prems obtain rows1 rows2 where r: "bench_run C L E imp dur b (io i) m = Inr rows1"
    "bench_methods C L E imp dur b io (i + 1) ms = Inr rows2" "rows = rows1 @ rows2"
    by (auto split: sum.splits)
  then show ?case using bench_run_rows [OF r(1) assms(2)] Cons.IH [OF r(2)] by auto
qed simp

text \<open>C40: A run of the benchmark that exits with 0 has written its table, in the order and with the rows the
  configuration fixes -- method, metric, variant and unit of every row, each record with the fields of the header --
  and the percentiles of every series are exactly the nearest ranks of its samples: no rounding of the floating-point
  rank moves one.\<close>
theorem bench_table:
  assumes "bench_main C L E g fs imp dur io k (w, wenv) out env_out = (0, fs')" "out \<noteq> env_out"
    and "bench_setup L E g fs = Some b" "counts_within b (2 ^ 40)"
  shows "\<exists>rows. fs' out = Some (bytes_of (concat (map csv_record (bench_header # map row_record rows))))
    \<and> row_keys rows = concat (map (method_keys dur (bp_lifetimes (bn_params b))) (bp_methods (bn_params b)))
    \<and> (\<forall>r\<in>set rows. length (row_record r) = length bench_header \<and> (rw_value r = None \<longrightarrow> summarised r))"
proof -
  from assms(1,3) obtain rows fs1 where r: "bench_methods C L E imp dur b io 0 (bp_methods (bn_params b)) = Inr rows"
    and f: "bench_writeCSV fs w out rows = (True, fs1)" and e: "fs' = snd (bench_writeEnv E dur b k fs1 wenv env_out)"
    by (auto simp: bench_main_def split: sum.splits bench_stop.splits prod.splits bool.splits)
  have "fs1 out = Some (bytes_of (concat (map csv_record (bench_header # map row_record rows))))"
    using f by (auto simp: bench_writeCSV_def WriteFile_def split: file_outcome.splits)
  then have "fs' out = Some (bytes_of (concat (map csv_record (bench_header # map row_record rows))))"
    using assms(2) by (auto simp: e bench_writeEnv_def WriteFile_def split: file_outcome.splits)
  then show ?thesis
    using bench_methods_rows [OF r assms(4)] row_record_length series_summarised unfolding filled_def by metis
qed

text \<open>The counts are not checked: without samples the first percentile that is shown panics.\<close>

lemma tokens_panic: "bp_tokens (bn_params b) \<le> 0 \<Longrightarrow> bench_tokens C L E imp b io m x = (Inl Stop_panic, x)"
  by (simp add: bench_tokens_def bench_then_def shown_percentile_def)

lemma rotations_panic: "bp_rotations (bn_params b) \<le> 0 \<Longrightarrow> bench_rotations C L E imp dur b io MethodEphemeral tok x = (Inl Stop_panic, x)"
  by (simp add: bench_rotations_def bench_then_def shown_percentile_def Let_def)

lemma mode_panic: "bp_resources (bn_params b) \<le> 0 \<Longrightarrow> fst (bench_mode C L E imp b io m mode x) = Inl Stop_panic"
  by (simp add: bench_mode_def bench_then_def shown_percentile_def split: prod.splits)

lemma then_result: "fst (bench_then f k x) = Inr a \<longleftrightarrow> (\<exists>v y. f x = (Inr v, y) \<and> fst (k v y) = Inr a)"
  by (auto simp: bench_then_def split: sum.splits prod.splits)

lemma bench_without_samples:
  assumes "bp_tokens (bn_params b) \<le> 0 \<or> bp_resources (bn_params b) \<le> 0 \<or> m = MethodEphemeral \<and> bp_rotations (bn_params b) \<le> 0"
  shows "bench_run C L E imp dur b io m \<noteq> Inr rows"
proof
  assume "bench_run C L E imp dur b io m = Inr rows"
  then obtain c x1 x2 x3 x4 w t r s q where
    "bench_tokens C L E imp b io m x1 = (Inr t, x2)" "bench_rotations C L E imp dur b io m (snd t) x2 = (Inr r, x3)"
    "bench_mode C L E imp b io m ModeLocal x4 = (Inr q, w)"
    by (auto simp: bench_run_def then_result split: option.splits prod.splits)
  with assms show False
    using tokens_panic [of b C L E imp io m x1] rotations_panic [of b C L E imp dur io "snd t" x2]
      mode_panic [of b C L E imp io m ModeLocal x4] by auto
qed


section \<open>A run\<close>

definition timing_ext :: "nat ext" where
  "timing_ext = sample_ext\<lparr>x509_parse := (\<lambda>_. Some sample_leaf), url_parse := (\<lambda>_. Some walk_url)\<rparr>"

definition bench_vars :: "string \<Rightarrow> string option" where
  "bench_vars k =
     (if k = ''BENCH_TOKEN_N'' \<or> k = ''BENCH_RESOURCE_N'' then Some ''1''
      else if k = ''BENCH_WARMUP'' then Some ''0''
      else if k = ''BENCH_METHODS'' then Some ''A''
      else if k = ''BENCH_ROTATION_LIFETIMES'' then Some '',''
      else if k = ''LONGTERM_CERT_LIFETIME'' then Some ''15m''
      else if k = ''SMO_ONBOARDING_KEY'' then Some ''k''
      else if k \<in> {''RESOURCE_URL'', ''LONGTERM_CLIENT_ID'', ''EPHEMERAL_CLIENT_ID'', ''DPOP_CLIENT_ID'', ''KEYCLOAK_TOKEN_URL'',
        ''RIC_CA_URL'', ''SMO_ONBOARDING_CERT'', ''ORG''} then Some ''x''
      else None)"

lemma bench_texts:
  "trim_space ''1'' = ''1''" "trim_space ''0'' = ''0''" "trim_space ''A'' = ''A''" "trim_space '','' = '',''" "trim_space ''x'' = ''x''" "trim_space ''15m'' = ''15m''"
  "trim_space ''k'' = ''k''"
  "parse_int64 ''1'' = Some 1" "parse_int64 ''0'' = Some 0" "list_items ''A'' = [''A'']" "list_items '','' = []"
  "ParseDialOverrides [] = Some []" "trim_right CHR ''/'' ''x'' = ''x''"
  by code_simp+

definition sample_bench :: "bytes bench" where
  "sample_bench =
     \<lparr>bn_cfg = \<lparr>cc_method = [], cc_client_id = [], cc_token_url = ''x'', cc_scope = [], cc_trust_bundle = [], cc_ca_url = ''x'',
         cc_bootstrap_cert = [], cc_bootstrap_key = [], cc_bootstrap = None, cc_identity_dir = [],
         cc_key_alg = ''EC-P256'', cc_cert_lifetime = 0, cc_renew_before = 0, cc_rotation = RotateOnCertExpiry,
         cc_dns_names = [], cc_dpop_alg = ''ES256'', cc_pq_enabled = False, cc_pq_issuer = [], cc_pq_shim_url = [],
         cc_pq_key_alg = [], cc_pq_dpop_alg = [], cc_pq_cert_lifetime = 0, cc_pq_bootstrap_cert = [],
         cc_pq_bootstrap_key = [], cc_pq_bootstrap = None, cc_pq_identity_dir = [], cc_pq_kex_only = False,
         cc_pq_proof_validity = 0, cc_pq_upgrade_timeout = 0, cc_dial_overrides = [], cc_http_timeout = 30 * second\<rparr>,
      bn_onboarding = \<lparr>ob_cert = sample_leaf, ob_key = [1], ob_org = ''x'', ob_key_alg = ''EC-P256''\<rparr>,
      bn_resource = ''x'', bn_client_id = by_method ''x'' ''x'' ''x'' [],
      bn_lifetime = by_method (900 * second) (15 * 60 * second) (900 * second) 0,
      bn_params = \<lparr>bp_tokens = 1, bp_resources = 1, bp_rotations = 30, bp_warmup = 0, bp_concurrency = 4,
         bp_rps_duration = 10 * second, bp_lifetimes = [], bp_methods = [''A'']\<rparr>\<rparr>"

lemma bench_parse: "parse_duration timing_ext ''15m'' = Some (900 * second)"
  by (simp add: timing_ext_def sample_ext_def)

lemma sample_bench_env:
  "bench_ConfigFromEnv timing_ext bench_vars =
     Inr (bn_cfg sample_bench, ''x'', by_method ''x'' ''x'' ''x'' [],
       by_method (900 * second) (15 * 60 * second) (900 * second) 0, bn_params sample_bench, ''x'', ''k'', ''x'')"
  by (simp add: bench_parse bench_ConfigFromEnv_def env_result_def env_req_def env_str_def env_int_def env_dur_def env_list_def env_parsed_def
      env_fail_if_def env_lookup_def bench_vars_def bench_texts sample_bench_def State_Monad.bind_def State_Monad.return_def Let_def)


definition bench_files :: files where
  "bench_files p = (if p = ''x'' then Some (pem_encode disk_pem ''CERTIFICATE'' [200])
     else if p = ''k'' then Some (pem_encode disk_pem ''PRIVATE KEY'' [1]) else None)"

lemma bench_x509 [simp]: "x509_parse timing_ext d = Some sample_leaf"
  by (simp add: timing_ext_def)

lemma bench_leaf_pem: "ParseCertsPEM disk_pem timing_ext (pem_encode disk_pem ''CERTIFICATE'' [200]) = Some [sample_leaf]"
  using cert_ders_encoded [OF disk_pem_correct, of "[[200]]"] by (simp add: ParseCertsPEM_def)

lemma sample_bench_setup: "bench_setup disk_pem timing_ext bench_vars bench_files = Some sample_bench"
proof -
  have "pem_next disk_pem (pem_encode disk_pem ''PRIVATE KEY'' [1] @ []) = Some ((''PRIVATE KEY'', [1]), [])"
    using disk_pem_correct unfolding pem_correct_def by blast
  moreover have "parse_pkcs8 disk_pem [1] = Some [1]" by (simp add: disk_pem_def xapp_pem_def)
  ultimately have "LoadOnboarding disk_pem timing_ext bench_files ''x'' ''k'' ''x'' = Some (bn_onboarding sample_bench)"
    by (simp add: LoadOnboarding_def LoadCertsFile_def LoadPrivateKeyFile_def ParsePrivateKeyPEM_def bench_files_def bench_leaf_pem)
      (simp add: sample_bench_def)
  then show ?thesis by (simp add: bench_setup_def sample_bench_env) (simp add: sample_bench_def)
qed

definition bench_new :: "(bytes, nat) new_io" where
  "bench_new = walk_new_io\<lparr>ni_start := (let p = xapp_plane_io\<lparr>pi_ca := disk_ca\<rparr> in (p, p))\<rparr>"

definition bench_token :: token where
  "bench_token = xapp_token\<lparr>tk_value := ''AQ.Ag.AA'', tk_claims := sample_claims (sample_cnf ''x5t#S256'' ''yA''), tk_binding := ''x5t#S256'',
     tk_thumbprint := ''yA'', tk_cert_not_after := t0 + 900 * second\<rparr>"

definition bench_call_io :: "bytes call_io" where
  "bench_call_io = xapp_call_io\<lparr>cl_issue := xapp_issue_io\<lparr>ii_issue := (\<lambda>_ _. Inr \<lparr>tr_access_token = ''AQ.Ag.AA'', tr_token_type = ''DPoP'',
     tr_expires_in = 300, tr_scope = [], tr_received_at = t0\<rparr>)\<rparr>\<rparr>"

definition bench_resource_io :: resource_io where
  "bench_resource_io = xapp_resource_io\<lparr>ro_send := (\<lambda>_ _. Some \<lparr>ra_status = 200, ra_nonce = [], ra_challenge = []\<rparr>)\<rparr>"

definition sample_bench_io :: "(bytes, nat) bench_io" where
  "sample_bench_io = \<lparr>bi_new = bench_new, bi_warm_token = (\<lambda>_. bench_call_io), bi_warm_call = (\<lambda>_. (bench_call_io, bench_resource_io)),
     bi_token = (\<lambda>_. (bench_call_io, 5000000)), bi_rotate = (\<lambda>_. ((walk_ca, walk_ca), bench_call_io, 0)), bi_stats = (\<lambda>_. (0, 0, 0)),
     bi_token_again = bench_call_io, bi_proof = (\<lambda>_. (t0, None)), bi_call = (\<lambda>_ _. ((bench_call_io, bench_resource_io), 7000000)),
     bi_load = (\<lambda>_. ([], second))\<rparr>"

lemma bench_client_started:
  "\<exists>c. bench_newClient xapp_crypto disk_pem timing_ext sample_bench bench_new ''A'' = Some c \<and> xc_id c = Some xapp_id \<and> xc_kind c = Cert_bound
     \<and> cc_pq_enabled (xc_cfg c) = False \<and> cc_cert_lifetime (xc_cfg c) = 900 * second \<and> cc_renew_before (xc_cfg c) = 0"
proof -
  have g: "GenerateKey ''EC-P256'' = Some (Gen_EC ''P-256'')" by code_simp
  let ?boot = "\<lparr>cred_chain = [[201], [200]], cred_key = Some [2], cred_leaf = sample_leaf\<rparr> :: bytes identity"
  let ?cfg = "(bn_cfg sample_bench)\<lparr>cc_method := ''A'', cc_client_id := ''x'', cc_cert_lifetime := 900 * second, cc_bootstrap := Some ?boot\<rparr>"
  have b: "IssueBootstrap xapp_crypto timing_ext (bn_onboarding sample_bench) (ni_boot bench_new) ''x'' [] (600 * second) = Some ?boot"
    by (simp add: IssueBootstrap_def sample_bench_def bench_new_def walk_new_io_def walk_boot_io_def g) (simp add: sample_leaf_def)
  have f: "cc_bootstrap ?cfg = Some ?boot" "cc_identity_dir ?cfg = []" "cc_key_alg ?cfg = ''EC-P256''" "cc_cert_lifetime ?cfg = 900 * second"
    "cc_trust_bundle ?cfg = []" "cc_pq_enabled ?cfg = False" "cc_method ?cfg = ''A''" "cc_renew_before ?cfg = 0" "cc_dns_names ?cfg = []"
    by (simp_all add: sample_bench_def)
  let ?x = "\<lparr>xc_cfg = ?cfg, xc_roots = [], xc_rotate_keys = False, xc_kind = Cert_bound, xc_id = None,
     xc_pq_id = None, xc_cached = None, xc_tokens_on_cert = 0, xc_nonces = [], xc_files = (\<lambda>_. None)\<rparr> :: (bytes, nat) xclient"
  have v: "Validate ?cfg = None" by code_simp
  have n: "New disk_pem timing_ext (\<lambda>_. None) (\<lambda>_. None) ?cfg = Inr ?x"
    using v f by (simp add: New_def newBase_def MethodLongTerm_def)
  have "limit_read 1048576 (pem_encode disk_pem ''CERTIFICATE'' [200]) = pem_encode disk_pem ''CERTIFICATE'' [200]"
    by (simp add: limit_read_def disk_pem_def unary_def bytes_of_def)
  then have "Enroll xapp_crypto disk_pem timing_ext ?cfg disk_ca ?boot [2] (900 * second) False = Inr xapp_id"
    using f by (simp add: Enroll_def disk_ca_def bench_leaf_pem) (simp add: xapp_id_def sample_leaf_def xapp_crypto_def)
  then have "\<exists>y. startIdentity xapp_crypto disk_pem timing_ext (xapp_plane_io\<lparr>pi_ca := disk_ca\<rparr>) ?x ClassicalPlane = (Inr (), y)
      \<and> pc_id (planeConfig y ClassicalPlane) = Some xapp_id"
    using f by (intro startIdentity_bootstrap) (simp_all add: planeConfig_def g disk_ca_def)
  then obtain y where y: "startIdentity xapp_crypto disk_pem timing_ext (xapp_plane_io\<lparr>pi_ca := disk_ca\<rparr>) ?x ClassicalPlane = (Inr (), y)"
    "xc_id y = Some xapp_id" by (auto simp: planeConfig_def Let_def)
  note s = startIdentity_ok [OF _ y(1)]
  have "client_ok timing_ext ?x" by (simp add: client_ok_def kind_ok_def)
  then have same: "same_client ?x y" using s by blast
  have ids: "bn_client_id sample_bench ''A'' = ''x''" "bn_lifetime sample_bench ''A'' = 900 * second"
    by (simp_all add: sample_bench_def by_method_def MethodLongTerm_def)
  have io: "ni_gen bench_new = (\<lambda>_. None)" "ni_files bench_new = (\<lambda>_. None)"
    "ni_start bench_new = (xapp_plane_io\<lparr>pi_ca := disk_ca\<rparr>, xapp_plane_io\<lparr>pi_ca := disk_ca\<rparr>)"
    by (simp_all add: bench_new_def walk_new_io_def Let_def)
  have "cc_pq_enabled (xc_cfg y) = False" using same f(6) by (simp add: same_client_def)
  then have st: "Start xapp_crypto disk_pem timing_ext (ni_start bench_new) ?x = (Inr (), y)"
    using y(1) f(6) by (simp add: Start_def io)
  have "bench_newClient xapp_crypto disk_pem timing_ext sample_bench bench_new ''A'' = Some y"
    using b n st by (simp add: bench_newClient_def ids io(1,2) Let_def)
  then show ?thesis using y(2) same f by (auto simp: same_client_def)
qed


lemma timing_ext_sel [simp]:
  "ParseCompact timing_ext = ParseCompact sample_ext" "jws_claims timing_ext = jws_claims sample_ext"
  "ThumbprintS256 timing_ext = ThumbprintS256 sample_ext"
proof -
  have e: "json_decode timing_ext = json_decode sample_ext" "sha256 timing_ext = sha256 sample_ext" by (simp_all add: timing_ext_def)
  have d: "decodeObject timing_ext = decodeObject sample_ext" unfolding decodeObject_def e ..
  show "ThumbprintS256 timing_ext = ThumbprintS256 sample_ext" by (rule ext) (simp add: ThumbprintS256_def e)
  show "ParseCompact timing_ext = ParseCompact sample_ext" "jws_claims timing_ext = jws_claims sample_ext"
    unfolding ParseCompact_def jws_claims_def d by (rule refl)+
qed

definition bench_ready :: "(bytes, nat) xclient \<Rightarrow> bool" where
  "bench_ready c \<longleftrightarrow> xc_id c = Some xapp_id \<and> xc_kind c = Cert_bound
     \<and> cc_pq_enabled (xc_cfg c) = False \<and> cc_cert_lifetime (xc_cfg c) = 900 * second \<and> cc_renew_before (xc_cfg c) = 0"

lemma bench_no_renewal: "bench_ready c \<Longrightarrow> needsRenewal c t0 t0 = False"
  by (simp add: bench_ready_def needsRenewal_def needsRenewalPlane_def planeConfig_def renewBeforeFor_def Let_def)
    (simp add: sample_leaf_def time_sub_def t0_def unix_offset_def)

lemma bench_issued:
  assumes "bench_ready c"
  shows "IssueToken xapp_crypto disk_pem timing_ext (\<lambda>_. None) bench_call_io c =
    (Inr bench_token, c\<lparr>xc_cached := Some bench_token, xc_tokens_on_cert := xc_tokens_on_cert c + 1\<rparr>)"
proof -
  have n: "newToken timing_ext \<lparr>tr_access_token = ''AQ.Ag.AA'', tr_token_type = ''DPoP'', tr_expires_in = 300, tr_scope = [], tr_received_at = t0\<rparr>
      = Inr (bench_token\<lparr>tk_binding := [], tk_thumbprint := [], tk_cert_not_after := 0\<rparr>)"
    by (simp add: newToken_def jws_claims_def decodeObject_def bench_token_def xapp_token_def jws_alg_def get_str_def Let_def)
  have x: "check_x5t timing_ext sample_leaf (bench_token\<lparr>tk_binding := [], tk_thumbprint := [], tk_cert_not_after := 0\<rparr>) = Inr bench_token"
    by (simp add: check_x5t_def cnfMember_def bench_token_def sample_thumb) (simp add: sample_leaf_def)
  show ?thesis
    using assms bench_no_renewal [OF assms] n x
    by (simp add: IssueToken_def renew_if_due_def issueLocked_def cert_issue_def bench_call_io_def bench_ready_def asIdentity_def pqDirect_def)
qed

lemma bench_called:
  assumes "bench_ready c" "xc_cached c = Some bench_token"
  shows "bench_call xapp_crypto disk_pem timing_ext (\<lambda>_. None) (bench_call_io, bench_resource_io) url c = (Inr (), c)"
proof -
  have u: "usable bench_token t0"
    by (simp add: usable_def bench_token_def xapp_token_def expirySkew_def time_add_sane is_duration_def)
  have t: "Token xapp_crypto disk_pem timing_ext (\<lambda>_. None) bench_call_io c = (Inr bench_token, c)"
    using assms bench_no_renewal [OF assms(1)] u
    by (simp add: Token_def renew_if_due_def bench_call_io_def)
  show ?thesis
    using assms(1) t
    by (simp add: bench_call_def walk_call_def client_Do_def dpop_do_def client_Authorize_def bench_ready_def bench_resource_io_def)
      (simp add: timing_ext_def)
qed

lemma sample_bench_run:
  "\<exists>rows. bench_run xapp_crypto disk_pem timing_ext (\<lambda>_. None) (\<lambda>_. []) sample_bench sample_bench_io ''A'' = Inr rows"
proof -
  obtain c where c: "bench_newClient xapp_crypto disk_pem timing_ext sample_bench bench_new ''A'' = Some c" "bench_ready c"
    using bench_client_started by (auto simp: bench_ready_def)
  let ?c = "c\<lparr>xc_cached := Some bench_token, xc_tokens_on_cert := xc_tokens_on_cert c + 1\<rparr>"
  have r: "bench_ready ?c" "xc_cached ?c = Some bench_token" "xc_kind ?c = Cert_bound" using c(2) by (simp_all add: bench_ready_def)
  have io: "bi_new sample_bench_io = bench_new" "fst (bi_token sample_bench_io i) = bench_call_io" "bi_call sample_bench_io mode i = ((bench_call_io, bench_resource_io), 7000000)"
    "bi_load sample_bench_io mode = ([], second)" for i mode by (simp_all add: sample_bench_io_def)
  have p: "bp_warmup (bn_params sample_bench) = 0" "bp_tokens (bn_params sample_bench) = 1" "bp_resources (bn_params sample_bench) = 1"
    by (simp_all add: sample_bench_def)
  have w: "bench_warmup xapp_crypto disk_pem timing_ext (\<lambda>_. None) sample_bench sample_bench_io c = (Inr [], c)"
    by (simp add: bench_warmup_def p)
  have t: "\<exists>rows. bench_tokens xapp_crypto disk_pem timing_ext (\<lambda>_. None) sample_bench sample_bench_io ''A'' c = (Inr (rows, bench_token), ?c)"
    using bench_issued [OF c(2)] io by (simp add: bench_tokens_def p bench_then_def bench_issue_def or_error_def shown_percentile_def)
  have m: "\<exists>rows. bench_mode xapp_crypto disk_pem timing_ext (\<lambda>_. None) sample_bench sample_bench_io ''A'' mode ?c = (Inr rows, ?c)" for mode
    using bench_called [OF r(1,2)] io by (simp add: bench_mode_def p bench_then_def shown_percentile_def)
  have rot: "bench_rotations xapp_crypto disk_pem timing_ext (\<lambda>_. None) (\<lambda>_. []) sample_bench sample_bench_io ''A'' bench_token ?c = (Inr ([], bench_token), ?c)"
    by (simp add: bench_rotations_def MethodEphemeral_def)
  have s: "\<exists>rows. bench_sizes timing_ext sample_bench sample_bench_io ''A'' bench_token ?c = (Inr rows, ?c)"
    using r(3) by (simp add: bench_sizes_def Let_def)
  obtain rows1 rows3 rows4 rows5 where
    "bench_tokens xapp_crypto disk_pem timing_ext (\<lambda>_. None) sample_bench sample_bench_io ''A'' c = (Inr (rows1, bench_token), ?c)"
    "bench_sizes timing_ext sample_bench sample_bench_io ''A'' bench_token ?c = (Inr rows3, ?c)"
    "bench_mode xapp_crypto disk_pem timing_ext (\<lambda>_. None) sample_bench sample_bench_io ''A'' ModeLocal ?c = (Inr rows4, ?c)"
    "bench_mode xapp_crypto disk_pem timing_ext (\<lambda>_. None) sample_bench sample_bench_io ''A'' ModeIntrospection ?c = (Inr rows5, ?c)"
    using t s m [of ModeLocal] m [of ModeIntrospection] by blast
  then have "bench_run xapp_crypto disk_pem timing_ext (\<lambda>_. None) (\<lambda>_. []) sample_bench sample_bench_io ''A'' = Inr (rows1 @ [] @ rows3 @ rows4 @ rows5)"
    using c(1) w rot by (simp add: bench_run_def io(1) bench_then_def)
  then show ?thesis by blast
qed

theorem bench_table_witness:
  "\<exists>fs' rows. bench_main xapp_crypto disk_pem timing_ext bench_vars bench_files (\<lambda>_. None) (\<lambda>_. []) (\<lambda>_. sample_bench_io)
       \<lparr>bm_started = t0, bm_finished = t0, bm_host = ''h'', bm_go_version = ''go'', bm_cpus = 4\<rparr> (File_whole, File_whole) ''bench.csv'' ''env.csv'' = (0, fs')
     \<and> row_keys rows = method_keys (\<lambda>_. []) [] ''A'' \<and> (\<forall>r\<in>set rows. rw_value r = None \<longrightarrow> summarised r)"
proof -
  let ?k = "\<lparr>bm_started = t0, bm_finished = t0, bm_host = ''h'', bm_go_version = ''go'', bm_cpus = 4\<rparr>"
  have b: "bp_methods (bn_params sample_bench) = [''A'']" "bp_lifetimes (bn_params sample_bench) = []"
    by (simp_all add: sample_bench_def)
  obtain rows0 where "bench_run xapp_crypto disk_pem timing_ext (\<lambda>_. None) (\<lambda>_. []) sample_bench sample_bench_io ''A'' = Inr rows0"
    using sample_bench_run by blast
  then obtain fs' where m: "bench_main xapp_crypto disk_pem timing_ext bench_vars bench_files (\<lambda>_. None) (\<lambda>_. []) (\<lambda>_. sample_bench_io) ?k
      (File_whole, File_whole) ''bench.csv'' ''env.csv'' = (0, fs')"
    by (simp add: bench_main_def sample_bench_setup b bench_writeCSV_def WriteFile_def)
  have n: "counts_within sample_bench (2 ^ 40)" by (simp add: counts_within_def sample_bench_def)
  have "''bench.csv'' \<noteq> ''env.csv''" by simp
  from bench_table [OF m this sample_bench_setup n] m b show ?thesis by auto
qed

end
