(* ===== verification/Xapp_Props.thy ===== *)
theory Xapp_Props
  imports Processes Client_Bound
begin

text \<open>
  The demo xApp as a process: what it serves with, and what its peer loop does to the client.
\<close>

lemma xapp_attempts_run:
  assumes "xapp_attempts C L E io x = Some (n, Some True, y)" "client_ok E x"
  shows "client_run C L E imp x y \<and> xc_cfg y = xc_cfg x \<and> xc_id y \<noteq> None \<and> (cc_pq_enabled (xc_cfg y) \<longrightarrow> xc_pq_id y \<noteq> None)"
proof -
  let ?P = "\<lambda>st. client_run C L E imp x (snd (snd st)) \<and> same_client x (snd (snd st)) \<and> client_ok E (snd (snd st))
    \<and> (fst (snd st) = Some True \<longrightarrow> xc_id (snd (snd st)) \<noteq> None \<and> (cc_pq_enabled (xc_cfg (snd (snd st))) \<longrightarrow> xc_pq_id (snd (snd st)) \<noteq> None))"
  have "?P (xapp_attempt C L E io st)" if p: "?P st" for st
  proof (cases st)
    case (fields k ended z)
    obtain r z1 where s: "Start C L E (so_start (io k)) z = (r, z1)" by fastforce
    have z: "client_ok E z" "same_client x z" "client_run C L E imp x z" using p fields by simp_all
    have "client_run C L E imp x z1" using run_Start [OF z(3), of "so_start (io k)"] s by simp
    then show ?thesis
      using Start_ok [OF z(1) s] same_client_trans [OF z(2)] Start_holds [OF z(1), of C L "so_start (io k)" _ z1] s
      by (auto simp: xapp_attempt_def fields split: sum.splits)
  qed
  moreover have "?P (1, None, x)" using assms(2) by (simp add: run_start same_client_def)
  ultimately have "?P (n, Some True, y)"
    using while_option_rule [OF _ assms(1) [unfolded xapp_attempts_def], of ?P] by blast
  then show ?thesis by (simp add: same_client_def)
qed

text \<open>
  The xApp that serves holds an identity of each plane, in a state that a run of the client from \<open>New\<close> can reach, and
  checks requests with an empty replay cache against the anchors of its configuration.
\<close>

lemma xapp_ready_client:
  assumes "xapp_ready C L E g gen fs io = Some (Inr (cfg, y, v))"
  shows "\<exists>ccfg x. client_ConfigFromEnv E g = Inr ccfg \<and> ConfigFromEnv E g = Inr (v_cfg v) \<and> New L E gen fs ccfg = Inr x
    \<and> client_run C L E imp x y \<and> xc_cfg y = ccfg \<and> xc_id y \<noteq> None \<and> (cc_pq_enabled ccfg \<longrightarrow> xc_pq_id y \<noteq> None)
    \<and> v_replay v = NewReplayCache (vc_replay_size (v_cfg v))
    \<and> LoadCertPool L E (xc_files y) (vc_trust_bundle (v_cfg v)) = Some (v_roots v)"
proof -
  obtain rcfg x n where s: "xapp_setup L E g gen fs = Inr (cfg, rcfg, x)" "xapp_attempts C L E io x = Some (n, Some True, y)"
    "NewValidator rcfg (LoadCertPool L E (xc_files y) (vc_trust_bundle rcfg)) = Some v"
    using assms by (auto simp: xapp_ready_def split: sum.splits option.splits prod.splits if_splits)
  then obtain ccfg where c: "client_ConfigFromEnv E g = Inr ccfg" "ConfigFromEnv E g = Inr rcfg" "New L E gen fs ccfg = Inr x"
    by (auto simp: xapp_setup_def and_then_def config_or_exit_def split: sum.splits)
  note k = New_ok [OF c(3)]
  have "v_cfg v = rcfg" "v_replay v = NewReplayCache (vc_replay_size rcfg)" "LoadCertPool L E (xc_files y) (vc_trust_bundle rcfg) = Some (v_roots v)"
    using s(3) by (auto simp: NewValidator_def split: option.splits)
  then show ?thesis using xapp_attempts_run [OF s(2) conjunct1 [OF k]] c k by auto
qed

lemma xapp_attempts_stopped:
  assumes "xapp_attempts C L E io x = Some (n, ended, y)" "ended \<noteq> Some True"
  shows "ended = Some False \<and> so_done_in_pause (io n)"
proof -
  let ?P = "\<lambda>st. fst (snd st) = Some False \<longrightarrow> so_done_in_pause (io (fst st))"
  have "?P (xapp_attempt C L E io st)" for st
    by (auto simp: xapp_attempt_def split: prod.splits sum.splits)
  then have "?P (n, ended, y)"
    using while_option_rule [OF _ assms(1) [unfolded xapp_attempts_def], of ?P] by simp
  moreover have "ended \<noteq> None"
    using while_option_stop [OF assms(1) [unfolded xapp_attempts_def]] by simp
  ultimately show ?thesis using assms(2) by (cases ended) auto
qed

text \<open>The statuses: 2 for a bad configuration, 0 only when it was told to stop or its server was closed.\<close>

lemma xapp_main_status:
  fixes L :: "'s pem_lib"
  assumes "xapp_main C L E g gen fs io serve = Some status"
  shows "status = 2 \<and> (\<exists>errs. xapp_ConfigFromEnv E g = Inl errs \<or> (client_ConfigFromEnv E g :: env_error list + 's client_config) = Inl errs \<or> ConfigFromEnv E g = Inl errs)
    \<or> status = 1
    \<or> status = 0 \<and> (\<exists>cfg rcfg x. xapp_setup L E g gen fs = Inr (cfg, rcfg, x)
        \<and> ((\<exists>n y. xapp_attempts C L E io x = Some (n, Some False, y) \<and> so_done_in_pause (io n))
           \<or> (\<exists>y v. xapp_ready C L E g gen fs io = Some (Inr (cfg, y, v)) \<and> serve cfg (ServerTLSConfig y) v = Server_closed)))"
proof (cases "xapp_setup L E g gen fs")
  case (Inl st)
  then show ?thesis
    using assms by (auto simp: xapp_main_def xapp_ready_def xapp_setup_def and_then_def config_or_exit_def ex_disj_distrib split: sum.splits)
next
  case (Inr c)
  obtain cfg rcfg x where c: "c = (cfg, rcfg, x)" by (cases c)
  from Inr c assms obtain n started y where a: "xapp_attempts C L E io x = Some (n, started, y)"
    by (auto simp: xapp_main_def xapp_ready_def split: option.splits)
  show ?thesis
  proof (cases "started = Some True")
    case True
    then show ?thesis
      using Inr c assms a by (auto simp: xapp_main_def xapp_ready_def serve_exit_def split: option.splits serve_end.splits)
  next
    case False
    have stop: "started = Some False \<and> so_done_in_pause (io n)" using xapp_attempts_stopped [OF a False] .
    then have "status = 0" using Inr c assms a by (simp add: xapp_main_def xapp_ready_def)
    then show ?thesis using Inr c a stop by blast
  qed
qed

lemma peerLoop_run:
  assumes "client_run C L E imp x y"
  shows "client_run C L E imp x (peerLoop C L E imp cfg rounds y)"
  using assms
proof (induction rounds arbitrary: y)
  case (Cons rd rounds)
  obtain ok io rio where r: "rd = (ok, io, rio)" by (cases rd)
  have "client_run C L E imp x (peer_call C L E imp cfg ok io rio y)"
    using Cons.prems run_Do [OF Cons.prems] by (simp add: peer_call_def)
  from Cons.IH [OF this] show ?case by (simp add: peerLoop_def r)
qed (simp add: peerLoop_def)

end
