(* ===== verification/Spec2Isabelle.thy ===== *)
theory Spec2Isabelle
  imports Resource_Props Shim_Props Enroll_Props Tunnel_Props Client_Props Sidecar_Props Relay_Props Supervise
    Onboard_Props Pki_Gen_Props Walkthrough_Props Lineage
    Upgrade_Props Bench_Table Xapp_Props
begin

text \<open>
  Sender-constrained access tokens for xApps of an O-RAN near-real-time RIC, with post-quantum
  credentials: a model of the Go packages under \<open>src/\<close> and the theorems that make them correct.

  \<^bold>\<open>The program.\<close>  An xApp enrolls at the RIC certificate authority with a one-time bootstrap certificate
  (\<open>ca/enroll\<close>), and the client library (\<open>xapp-client\<close>) keeps that identity renewed, obtains tokens
  from Keycloak that are bound to it -- by the certificate (\<open>cnf.x5t#S256\<close>, methods A and B) or by a
  DPoP key (\<open>cnf.jkt\<close>, method C) -- and, in post-quantum mode, exchanges them at the shim (\<open>pqshim\<close>) for
  tokens signed with ML-DSA and bound to an ML-DSA credential.  A service checks a request with the
  resource library (\<open>xapp-resource\<close>): signature, claims, confirmation, replay.  Two sidecars (\<open>sidecar\<close>)
  carry any TCP protocol between applications over a tunnel with an ML-KEM and ML-DSA handshake
  (\<open>sidecar/pqtunnel\<close>), on which the token is presented once, at the start.

  \<^bold>\<open>How it is modelled.\<close>  Go's strings are byte strings, its \<open>int64\<close> times and durations integers that
  are wrapped where Go wraps, counters of the tunnel \<open>64 word\<close>.  A function with an error result is a
  function into a sum, \<open>Inl\<close> its error; a method is a function of the record of its receiver that
  returns it updated.  What a mutex covers is one step.  Everything the code asks the outside -- a
  clock reading, random bytes, an HTTP exchange, a file operation, a goroutine schedule -- is an
  argument, usually a field of a record named \<open>..._io\<close>; theorems hold for every value.  Code that is
  not in the repository is the parameter \<open>E :: 'k ext\<close> (hashes, JSON, URL, X.509, JOSE), \<open>C :: ('s, 'd)
  crypto\<close> (ML-DSA, ML-KEM, HKDF, AES-GCM) or \<open>L :: 's pem_lib\<close>; what a theorem needs of it is one of the
  named hypotheses \<open>json_inverse\<close>, \<open>crypto_correct\<close>, \<open>gcm_correct\<close>, \<open>pem_correct\<close>, \<open>x509_keeps_raw\<close>,
  \<open>keys_pair\<close>, \<open>signer_sound\<close> and the like, each met by the concrete instance of the witness.
\<close>

text \<open>
  \<^bold>\<open>Theories and sources.\<close>

  Ground.  \<open>Prelude\<close> has the collections, results and association lists; \<open>Go_Strings\<close>, \<open>Go_Base64\<close>, \<open>Go_Float\<close> and
  \<open>Go_Time\<close> the standard library the code uses; \<open>Ext\<close> the exchanged data and \<open>ext\<close>; \<open>Env\<close> is
  \<open>internal/config/env.go\<close>, \<open>Jose\<close> and \<open>Jwks\<close> are \<open>internal/jose\<close>, \<open>Pki\<close> and the first part of
  \<open>Credentials\<close> are \<open>internal/pki/pki.go\<close>, \<open>Netx\<close> is \<open>internal/netx/netx.go\<close>.

  Interfaces.  \<open>Single_Use\<close> states once what a store of one-time credentials promises and what its
  clients get; \<open>Replay\<close> (\<open>xapp-resource/replay.go\<close>) and \<open>Ledger\<close> (\<open>ca/enroll/ledger.go\<close>) implement it,
  \<open>Replay_Client\<close> refines it for endpoints with a DPoP check, which the validator (\<open>Channel\<close>) and the
  shim (\<open>Shim\<close>) are.  \<open>Codec\<close> is the contract of a length-prefixed encoding, met by frames, fields and
  hello messages (\<open>Frame\<close>, \<open>Handshake\<close>).  \<open>Relay\<close> has the contract of a connection, met by the tunnel
  and the local connection (\<open>Relay_Props\<close>).

  Resource library.  \<open>Reasons\<close>, \<open>Validator\<close> and \<open>Authorize\<close> (\<open>reasons.go\<close>, \<open>config.go\<close>, \<open>introspect.go\<close>,
  \<open>validator.go\<close>) and \<open>Channel\<close> (\<open>channel.go\<close>): the state is \<open>validator\<close>, with the key cache and the replay
  cache; the operations are \<open>Authorize\<close>, \<open>Middleware\<close>, \<open>AuthorizeChannel\<close>.  Properties C1 to C5, C8, C9, C11, C14 and
  C15 in \<open>Resource_Props\<close>; the concrete instances of all witnesses start in \<open>Samples\<close>.

  Shim.  \<open>Shim\<close> is \<open>pqshim/shim.go\<close>: \<open>shim\<close>, \<open>handleUpgrade\<close>, \<open>handleJWKS\<close>, \<open>handleIntrospect\<close>.  C17 to C20.

  Enrollment.  \<open>Ledger\<close> and \<open>Enroll\<close> are \<open>ca/enroll\<close>: \<open>OpenUsedCredentials\<close> and \<open>Consume\<close> over the bytes of the
  ledger file with every failure of an append, \<open>enroll_issue\<close> for both endpoints.  C22 to C24.  \<open>Lineage\<close>
  follows the certificates of a run back to their bootstrap credentials, C26.  \<open>Onboarding\<close> is
  \<open>internal/smo/bootstrap.go\<close> and \<open>ca/cmd/smo-sim\<close>, which issue the bootstrap credential, with the routes of the CA
  and the client's request at them (\<open>enroll_handler\<close>, \<open>ca_serves\<close>); \<open>Lockout\<close> what a used credential still
  gets.  The three programs together: C10 and C13 in \<open>Onboard_Props\<close>.  \<open>Pki_Gen\<close> is \<open>ca/cmd/pki-gen\<close> over a map of
  files, C16 in \<open>Pki_Gen_Props\<close>.

  Tunnel.  \<open>Frame\<close>, \<open>Handshake\<close>, \<open>Tunnel_Conn\<close> are \<open>frame.go\<close>, \<open>identity.go\<close> with \<open>handshake.go\<close>, and
  \<open>conn.go\<close> of \<open>sidecar/pqtunnel\<close>: \<open>Client\<close>, \<open>Server\<close>, \<open>Write\<close>, \<open>CloseWrite\<close>, \<open>Read\<close>, \<open>WriteMessage\<close>,
  \<open>ReadMessage\<close> over \<open>conn\<close>; a network is the bytes to come and the fate of the writes.  C27 to C35.

  Client library.  \<open>Credentials\<close>, \<open>Client_Config\<close>, \<open>Client_Base\<close>, \<open>Client_Token\<close> and \<open>Client_Methods\<close> are
  \<open>xapp-client\<close>: the state \<open>xclient\<close> with both planes, the cached token, the nonces and the files;
  \<open>startIdentity\<close>, \<open>rotateLocked\<close>, \<open>Token\<close>, \<open>client_Authorize\<close>, \<open>client_Do\<close>.  \<open>Client_Bound\<close> has its invariant,
  \<open>Client_Proof\<close> the agreement with the resource library, \<open>Client_Restart\<close> the credential files.  C36 to
  C38 in \<open>Client_Props\<close>.  \<open>Upgrade\<close> composes the client with the shim: what is sent passes the checks of the other
  side, in both directions; C6 in \<open>Upgrade_Props\<close>.

  Sidecar.  \<open>Sidecar\<close> is \<open>config.go\<close>, \<open>auth.go\<close>, \<open>ingress.go\<close>, \<open>egress.go\<close> and the counters, the handshake
  configuration and the retried start of \<open>sidecar.go\<close>; \<open>Relay\<close> is its \<open>relay\<close>, a step relation in which
  the two copies interleave, and \<open>Supervise\<close> its \<open>Run\<close>, one in which the listeners' goroutines and the main
  one do.  \<open>Session\<close> composes the two ends of a connection.  C21 and C39 in \<open>Sidecar_Props\<close>, C25 in
  \<open>Relay_Props\<close>, C7 in \<open>Supervise\<close>.

  Servers and commands.  \<open>Mux\<close> is what the program uses of \<open>http.ServeMux\<close>; \<open>Servers\<close> has the TLS settings of every
  client and server, the client's description, and the routes of the shim and of the sidecar's health server;
  \<open>Processes\<close> the commands \<open>ric-ca\<close>, \<open>pq-shim\<close>, \<open>xapp-sidecar\<close> and the demo xApp up to their exit
  statuses; \<open>Xapp_Props\<close> says what the demo xApp serves with.
  \<open>Walkthrough\<close> is \<open>cmd/methodrun\<close>, a run of client, CA and resource server with its checks; C12 in
  \<open>Walkthrough_Props\<close> plays its attacks against the model of the demo xApp.  \<open>Bench\<close> is \<open>bench/cmd/bench\<close>, the
  measurements of the three methods and their table, over IEEE doubles; \<open>Bench_Props\<close> has what each
  measurement leaves and the nearest ranks, C40 in \<open>Bench_Table\<close> a whole run.
\<close>

text \<open>
  \<^bold>\<open>What is shown.\<close>  Binding: no token is accepted, upgraded or admitted to an application without a
  proof of possession of the credential its \<open>cnf\<close> names (C1, C2, C14, C17, C39), the client only
  hands out tokens bound to what it holds (C36), and the two libraries agree on a proof (C37);
  a client with a post-quantum credential gets its token upgraded (C6).
  The attacks of the walkthrough are refused for the reasons it expects (C12).  Single
  use: proofs (C3, C20) and bootstrap certificates (C23) count once, over any interleaving of calls
  and, for the ledger, restarts (C24); every certificate of the CA goes back to one such credential (C26).  An onboarded xApp starts at a willing CA (C10), and never again with the same credential, whether or
  not the answer reached it (C13); \<open>pki-gen\<close> leaves a PKI its users load (C16).  Mutual authentication of the tunnel and its completeness
  (C27 to C31, C21), integrity, order and delivery of its data (C32 to C34), and of the relay with
  its termination (C25); the supervision of the sidecar's listeners and its return (C7).  The resource
  library's caches and arithmetic (C4, C5, C8, C9), its answers
  (C11), the separation of tunnel and HTTP proofs (C15), what the shim issues (C18, C19), and the credential files (C38).  The benchmark's table and its percentiles (C40).  Some theorems state what the code
  does where a reader may expect otherwise: a non-integer \<open>exp\<close> outlives its token (lemma \<open>fractional_exp_outlived\<close>), a partial
  ledger line forgets a credential (lemma \<open>partial_append_forgets\<close>), a failed record write repeats a nonce (C35), and a
  connection cut between records reads as a clean end (lemma \<open>truncation_reads_as_end\<close>).

  \<^bold>\<open>Bounds and termination.\<close>  No definition uses fuel.  Loops that are not structural carry a measure from
  the code: a DPoP issuance is tried twice (\<open>dpop_attempts\<close>), the client is started 30 times
  (\<open>start_attempts\<close>), by the demo xApp without limit (\<open>xapp_attempts\<close>, a \<open>while_option\<close> that is \<open>None\<close> when it goes on
  for ever), \<open>write_loop\<close> and \<open>conn_read_full\<close> shorten their buffer, \<open>tunnel_input\<close> consumes the
  connection; a run of the relay is bounded by the bytes to be read (C25), one of \<open>Run\<close> by the listeners
  and the connections served (C7).  C34 holds up to \<open>2 ^ 64\<close>
  records, where the counter wraps.  C9 states the range in which 64-bit time arithmetic does not wrap, C40
  is for up to \<open>2 ^ 40\<close> samples, where the floating-point rank of a percentile is exact.

  \<^bold>\<open>Not modelled.\<close>  Log lines, error texts and durations of statistics, which nothing depends on.  The
  connections of the servers -- \<open>http.Server\<close> with its timeouts, signals and shutdown -- and TLS below the settings: a
  request arrives with the peer chain.  The security-test driver (\<open>test/cmd/sectest\<close>), flag parsing and what the commands print.  Deployment files
  and the Keycloak realm.
\<close>

end
